(* ===== verification/FiscalPrelude.thy ===== *)
theory FiscalPrelude
  imports Main "HOL-Library.Sublist"
begin

text \<open>
  Shared vocabulary of the development: Go strings as byte lists, the functions of the
  packages \<^verbatim>\<open>strings\<close> and \<^verbatim>\<open>strconv\<close> that the
  source uses, the width of a Go \<^verbatim>\<open>int64\<close>, results that carry an error, rows of
  SQL tables kept as lists, and the locale for an invariant of a transition system that the
  stateful components instantiate.
\<close>

section \<open>Collections of facts\<close>

named_theorems op_defs \<open>unfolding rules of the operations of the component in hand\<close>
named_theorems inv_defs \<open>unfolding rules of invariants\<close>

section \<open>Bytes, strings and decimal numbers\<close>

text \<open>A Go string is a sequence of bytes; \<open>len(s)\<close> is \<open>length s\<close>.\<close>

definition is_digit :: "char \<Rightarrow> bool" where
  "is_digit c \<longleftrightarrow> 48 \<le> (of_char c :: nat) \<and> (of_char c :: nat) \<le> 57"

definition digit_val :: "char \<Rightarrow> nat" where
  "digit_val c = of_char c - 48"

definition digit_char :: "nat \<Rightarrow> char" where
  "digit_char d = char_of (48 + d)"

text \<open>Decimal digits without sign or leading zeros: \<^verbatim>\<open>strconv.Itoa\<close> of a natural number.\<close>

fun nat_digits :: "nat \<Rightarrow> string" where
  "nat_digits n = (if n < 10 then [digit_char n] else nat_digits (n div 10) @ [digit_char (n mod 10)])"

declare nat_digits.simps [simp del]

definition strconv_Itoa :: "int \<Rightarrow> string" where
  "strconv_Itoa i = (if i < 0 then CHR ''-'' # nat_digits (nat (- i)) else nat_digits (nat i))"

text \<open>The value of a string of digits (what \<^verbatim>\<open>strconv.ParseInt\<close> computes before its range check).\<close>

definition digits_val :: "string \<Rightarrow> nat" where
  "digits_val s = foldl (\<lambda>a c. 10 * a + digit_val c) 0 s"

lemma digit_char_0 [simp]: "digit_char 0 = CHR ''0''"
  by code_simp

lemma of_char_digit_char [simp]: "d < 10 \<Longrightarrow> (of_char (digit_char d) :: nat) = 48 + d"
  by (simp add: digit_char_def)

lemma digit_val_char [simp]: "d < 10 \<Longrightarrow> digit_val (digit_char d) = d"
  by (simp add: digit_val_def)

lemma is_digit_char [simp]: "d < 10 \<Longrightarrow> is_digit (digit_char d)"
  by (simp add: is_digit_def)

lemma digit_val_less: "is_digit c \<Longrightarrow> digit_val c < 10"
  unfolding is_digit_def digit_val_def by linarith

lemma digit_char_val: "is_digit c \<Longrightarrow> digit_char (digit_val c) = c"
  by (simp add: is_digit_def digit_val_def digit_char_def)

lemma digits_val_Nil [simp]: "digits_val [] = 0"
  by (simp add: digits_val_def)

lemma digits_val_snoc [simp]: "digits_val (s @ [c]) = 10 * digits_val s + digit_val c"
  by (simp add: digits_val_def)

lemma nat_digits_small: "n < 10 \<Longrightarrow> nat_digits n = [digit_char n]"
  by (subst nat_digits.simps) simp

lemma nat_digits_big: "10 \<le> n \<Longrightarrow> nat_digits n = nat_digits (n div 10) @ [digit_char (n mod 10)]"
  by (subst nat_digits.simps) simp

lemma nat_digits_nonempty [simp]: "nat_digits n \<noteq> []"
  by (cases "n < 10") (simp_all add: nat_digits_small nat_digits_big)

lemma nat_digits_are_digits: "c \<in> set (nat_digits n) \<Longrightarrow> is_digit c"
proof (induction n rule: nat_digits.induct)
  case (1 n)
  then show ?case
    by (cases "n < 10") (auto simp: nat_digits_small nat_digits_big)
qed

lemma digits_val_nat_digits [simp]: "digits_val (nat_digits n) = n"
proof (induction n rule: nat_digits.induct)
  case (1 n)
  show ?case
  proof (cases "n < 10")
    case True
    then show ?thesis by (simp add: nat_digits_small digits_val_def)
  next
    case False
    with 1 show ?thesis by (simp add: nat_digits_big)
  qed
qed

lemma nat_digits_inject [simp]: "nat_digits m = nat_digits n \<longleftrightarrow> m = n"
  by (metis digits_val_nat_digits)

lemma nat_digits_head: "0 < n \<Longrightarrow> hd (nat_digits n) \<noteq> CHR ''0''"
proof (induction n rule: nat_digits.induct)
  case (1 n)
  show ?case
  proof (cases "n < 10")
    case True
    have "of_char (digit_char n) = (48 + n :: nat)" using True by simp
    with 1(2) True show ?thesis
      by (auto simp: nat_digits_small dest: arg_cong [where f = "of_char :: char \<Rightarrow> nat"])
  next
    case False
    with 1 show ?thesis by (simp add: nat_digits_big hd_append)
  qed
qed

text \<open>A digit string without a leading zero is the decimal form of its value.\<close>

lemma nat_digits_digits_val:
  assumes "s \<noteq> []" "\<And>c. c \<in> set s \<Longrightarrow> is_digit c" "length s = 1 \<or> hd s \<noteq> CHR ''0''"
  shows "nat_digits (digits_val s) = s"
  using assms
proof (induction s rule: rev_induct)
  case Nil
  then show ?case by simp
next
  case (snoc c s)
  have c: "is_digit c" using snoc.prems(2) by simp
  show ?case
  proof (cases "s = []")
    case True
    with c show ?thesis
      by (simp add: digits_val_def nat_digits_small digit_val_less digit_char_val)
  next
    case False
    have hd: "hd s \<noteq> CHR ''0''" using snoc.prems(3) False by simp
    have IH: "nat_digits (digits_val s) = s"
      using snoc.IH [OF False] snoc.prems(2) hd by simp
    have "digits_val s \<noteq> 0"
    proof
      assume "digits_val s = 0"
      with IH have "s = [digit_char 0]" by (simp add: nat_digits_small)
      with hd show False by simp
    qed
    with c IH show ?thesis
      by (simp add: nat_digits_big digit_val_less digit_char_val)
  qed
qed

lemma digits_val_bound:
  "(\<And>c. c \<in> set s \<Longrightarrow> is_digit c) \<Longrightarrow> digits_val s < 10 ^ length s"
proof (induction s rule: rev_induct)
  case Nil
  then show ?case by simp
next
  case (snoc c s)
  have "digit_val c < 10" "digits_val s < 10 ^ length s"
    using snoc by (auto simp: digit_val_less)
  then show ?case by simp
qed

text \<open>Zero-padded decimal field of width \<open>w\<close>: \<^verbatim>\<open>fmt.Sprintf("%0wd", n)\<close> for a number that fits.\<close>

fun pad_digits :: "nat \<Rightarrow> nat \<Rightarrow> string" where
  "pad_digits 0 n = []"
| "pad_digits (Suc w) n = pad_digits w (n div 10) @ [digit_char (n mod 10)]"

lemma length_pad_digits [simp]: "length (pad_digits w n) = w"
  by (induction w arbitrary: n) auto

lemma pad_digits_are_digits: "c \<in> set (pad_digits w n) \<Longrightarrow> is_digit c"
  by (induction w arbitrary: n) auto

lemma digits_val_pad_digits [simp]: "n < 10 ^ w \<Longrightarrow> digits_val (pad_digits w n) = n"
  by (induction w arbitrary: n) (auto simp: less_mult_imp_div_less mult.commute)

lemma pad_digits_digits_val:
  "(\<And>c. c \<in> set s \<Longrightarrow> is_digit c) \<Longrightarrow> pad_digits (length s) (digits_val s) = s"
proof (induction s rule: rev_induct)
  case Nil
  then show ?case by simp
next
  case (snoc c s)
  then show ?case by (simp add: digit_val_less digit_char_val)
qed

section \<open>Go integers\<close>

text \<open>\<^verbatim>\<open>int64\<close> arithmetic wraps around; \<^verbatim>\<open>math.MaxInt64\<close> is \<open>max_int64\<close>.\<close>

definition max_int64 :: int where
  "max_int64 = 9223372036854775807"

definition wrap64 :: "int \<Rightarrow> int" where
  "wrap64 i = (i + 9223372036854775808) mod 18446744073709551616 - 9223372036854775808"

lemma wrap64_id: "- 9223372036854775808 \<le> i \<Longrightarrow> i \<le> max_int64 \<Longrightarrow> wrap64 i = i"
  by (simp add: wrap64_def max_int64_def)

lemma wrap64_over:
  assumes "max_int64 < i" "i \<le> max_int64 + max_int64"
  shows "wrap64 i < 0"
proof -
  let ?j = "i + 9223372036854775808 - 18446744073709551616"
  have "(i + 9223372036854775808) mod 18446744073709551616 = ?j mod 18446744073709551616"
    using mod_add_self2 [of ?j 18446744073709551616] by (simp add: add.commute)
  also have "\<dots> = ?j"
    using assms by (intro mod_pos_pos_trivial) (simp_all add: max_int64_def)
  finally show ?thesis using assms by (simp add: wrap64_def max_int64_def)
qed

text \<open>Integer division and remainder of Go truncate towards zero.\<close>

definition go_quot :: "int \<Rightarrow> int \<Rightarrow> int" where
  "go_quot a b = sgn a * sgn b * (\<bar>a\<bar> div \<bar>b\<bar>)"

definition go_rem :: "int \<Rightarrow> int \<Rightarrow> int" where
  "go_rem a b = sgn a * (\<bar>a\<bar> mod \<bar>b\<bar>)"

lemma go_quot_nonneg [simp]: "0 \<le> a \<Longrightarrow> 0 < b \<Longrightarrow> go_quot a b = a div b"
  by (cases "a = 0") (simp_all add: go_quot_def)

lemma go_rem_nonneg [simp]: "0 \<le> a \<Longrightarrow> 0 < b \<Longrightarrow> go_rem a b = a mod b"
  by (cases "a = 0") (simp_all add: go_rem_def)

text \<open>\<^verbatim>\<open>strconv.ParseInt(s, 10, 64)\<close>: \<open>None\<close> for a syntax or a range error.\<close>

definition strconv_ParseInt :: "string \<Rightarrow> int option" where
  "strconv_ParseInt s =
     (let (neg, d) = (case s of
            c # r \<Rightarrow> if c = CHR ''-'' then (True, r) else if c = CHR ''+'' then (False, r) else (False, s)
          | [] \<Rightarrow> (False, s));
          v = int (digits_val d)
      in if d = [] \<or> \<not> list_all is_digit d then None
         else if neg then (if v \<le> max_int64 + 1 then Some (- v) else None)
         else (if v \<le> max_int64 then Some v else None))"

lemma ParseInt_digits:
  assumes "s \<noteq> []" "list_all is_digit s" "int (digits_val s) \<le> max_int64"
  shows "strconv_ParseInt s = Some (int (digits_val s))"
proof -
  have "hd s \<noteq> CHR ''-''" "hd s \<noteq> CHR ''+''"
    using assms(1,2) by (cases s, auto simp: is_digit_def)+
  with assms show ?thesis
    by (cases s) (auto simp: strconv_ParseInt_def Let_def)
qed

text \<open>\<^verbatim>\<open>strings.Split\<close> and \<^verbatim>\<open>strings.Cut\<close> at a one-byte separator.\<close>

fun split_on :: "char \<Rightarrow> string \<Rightarrow> string list" where
  "split_on c [] = [[]]"
| "split_on c (x # xs) =
     (if x = c then [] # split_on c xs
      else case split_on c xs of [] \<Rightarrow> [[x]] | p # ps \<Rightarrow> (x # p) # ps)"

fun cut_at :: "char \<Rightarrow> string \<Rightarrow> string \<times> string option" where
  "cut_at c [] = ([], None)"
| "cut_at c (x # xs) =
     (if x = c then ([], Some xs) else case cut_at c xs of (a, r) \<Rightarrow> (x # a, r))"

lemma split_on_fresh: "c \<notin> set a \<Longrightarrow> split_on c a = [a]"
  by (induction a) auto

lemma split_on_append: "c \<notin> set a \<Longrightarrow> split_on c (a @ c # b) = a # split_on c b"
  by (induction a) auto

lemma cut_at_fresh: "c \<notin> set a \<Longrightarrow> cut_at c a = (a, None)"
  by (induction a) auto

lemma cut_at_append: "c \<notin> set a \<Longrightarrow> cut_at c (a @ c # b) = (a, Some b)"
  by (induction a) auto

lemma cut_at_Some: "cut_at c s = (a, Some b) \<longleftrightarrow> s = a @ c # b \<and> c \<notin> set a"
proof
  show "cut_at c s = (a, Some b) \<Longrightarrow> s = a @ c # b \<and> c \<notin> set a"
    by (induction s arbitrary: a) (auto split: if_splits prod.splits)
qed (auto simp: cut_at_append)

lemma cut_at_None: "cut_at c s = (a, None) \<longleftrightarrow> s = a \<and> c \<notin> set a"
proof
  show "cut_at c s = (a, None) \<Longrightarrow> s = a \<and> c \<notin> set a"
    by (induction s arbitrary: a) (auto split: if_splits prod.splits)
qed (auto simp: cut_at_fresh)

section \<open>strings.TrimSpace and friends\<close>

text \<open>
  The UTF-8 encodings of the runes for which \<^verbatim>\<open>unicode.IsSpace\<close> holds: the
  ASCII blanks, U+0085, U+00A0, U+1680, U+2000..U+200A, U+2028, U+2029, U+202F, U+205F, U+3000.
\<close>

definition go_spaces :: "string list" where
  "go_spaces =
     [[CHR 0x20], [CHR 0x09], [CHR 0x0A], [CHR 0x0B], [CHR 0x0C], [CHR 0x0D],
      [CHR 0xC2, CHR 0x85], [CHR 0xC2, CHR 0xA0], [CHR 0xE1, CHR 0x9A, CHR 0x80],
      [CHR 0xE2, CHR 0x80, CHR 0x80], [CHR 0xE2, CHR 0x80, CHR 0x81], [CHR 0xE2, CHR 0x80, CHR 0x82],
      [CHR 0xE2, CHR 0x80, CHR 0x83], [CHR 0xE2, CHR 0x80, CHR 0x84], [CHR 0xE2, CHR 0x80, CHR 0x85],
      [CHR 0xE2, CHR 0x80, CHR 0x86], [CHR 0xE2, CHR 0x80, CHR 0x87], [CHR 0xE2, CHR 0x80, CHR 0x88],
      [CHR 0xE2, CHR 0x80, CHR 0x89], [CHR 0xE2, CHR 0x80, CHR 0x8A], [CHR 0xE2, CHR 0x80, CHR 0xA8],
      [CHR 0xE2, CHR 0x80, CHR 0xA9], [CHR 0xE2, CHR 0x80, CHR 0xAF], [CHR 0xE2, CHR 0x81, CHR 0x9F],
      [CHR 0xE3, CHR 0x80, CHR 0x80]]"

text \<open>Drop pieces of the given (non-empty) kinds from the front for as long as one matches.\<close>

function trim_with :: "string list \<Rightarrow> string \<Rightarrow> string" where
  "trim_with ps s =
     (case find (\<lambda>p. p \<noteq> [] \<and> prefix p s) ps of
        None \<Rightarrow> s
      | Some p \<Rightarrow> trim_with ps (drop (length p) s))"
  by pat_completeness auto
termination
proof (relation "measure (\<lambda>(ps, s). length s)")
  show "wf (measure (\<lambda>(ps :: string list, s :: string). length s))" by simp
next
  fix ps :: "string list" and s p :: string
  assume "find (\<lambda>p. p \<noteq> [] \<and> prefix p s) ps = Some p"
  then have "p \<noteq> []" "prefix p s" by (auto simp: find_Some_iff)
  then show "((ps, drop (length p) s), ps, s) \<in> measure (\<lambda>(ps, s). length s)"
    by (auto simp: prefix_def)
qed

declare trim_with.simps [simp del]

definition strings_TrimSpace :: "string \<Rightarrow> string" where
  "strings_TrimSpace s = rev (trim_with (map rev go_spaces) (rev (trim_with go_spaces s)))"

lemma trim_with_suffix: "suffix (trim_with ps s) s"
proof (induction ps s rule: trim_with.induct)
  case (1 ps s)
  show ?case
  proof (cases "find (\<lambda>p. p \<noteq> [] \<and> prefix p s) ps")
    case None
    then show ?thesis by (simp add: trim_with.simps [of ps s])
  next
    case (Some p)
    with 1 show ?thesis
      by (simp add: trim_with.simps [of ps s]) (metis suffix_drop suffix_order.trans)
  qed
qed

lemma trim_with_clean: "p \<in> set ps \<Longrightarrow> p \<noteq> [] \<Longrightarrow> \<not> prefix p (trim_with ps s)"
proof (induction ps s rule: trim_with.induct)
  case (1 ps s)
  show ?case
  proof (cases "find (\<lambda>p. p \<noteq> [] \<and> prefix p s) ps")
    case None
    then have "trim_with ps s = s" by (simp add: trim_with.simps [of ps s])
    with None 1 show ?thesis by (auto simp: find_None_iff)
  next
    case (Some p)
    with 1 show ?thesis by (simp add: trim_with.simps [of ps s])
  qed
qed

lemma trim_with_fixed:
  assumes "\<And>p. p \<in> set ps \<Longrightarrow> p \<noteq> [] \<Longrightarrow> \<not> prefix p s"
  shows "trim_with ps s = s"
proof -
  have "find (\<lambda>p. p \<noteq> [] \<and> prefix p s) ps = None"
    using assms by (auto simp: find_None_iff)
  then show ?thesis by (simp add: trim_with.simps [of ps s])
qed

lemma trim_with_Nil [simp]: "trim_with ps [] = []"
  using trim_with_suffix [of ps "[]"] by simp

lemma TrimSpace_Nil [simp]: "strings_TrimSpace [] = []"
  by (simp add: strings_TrimSpace_def)

text \<open>Trimming twice is trimming once.\<close>

lemma TrimSpace_idem [simp]: "strings_TrimSpace (strings_TrimSpace s) = strings_TrimSpace s"
proof -
  let ?l = "trim_with go_spaces s"
  let ?r = "trim_with (map rev go_spaces) (rev ?l)"
  have "prefix (rev ?r) ?l"
    using trim_with_suffix [of "map rev go_spaces" "rev ?l"] by (simp add: suffix_to_prefix)
  then have "\<not> prefix p (rev ?r)" if "p \<in> set go_spaces" "p \<noteq> []" for p
    using trim_with_clean [OF that, of s] prefix_order.trans by blast
  then have left: "trim_with go_spaces (rev ?r) = rev ?r"
    by (rule trim_with_fixed)
  have right: "trim_with (map rev go_spaces) ?r = ?r"
    by (rule trim_with_fixed) (rule trim_with_clean)
  show ?thesis by (simp add: strings_TrimSpace_def left right)
qed

text \<open>Printable bytes from 48 on: no space starts or ends with one, so a string between two of them is trimmed.\<close>

definition plain_byte :: "char \<Rightarrow> bool" where
  "plain_byte c \<longleftrightarrow> \<not> digit7 c \<and> (digit6 c \<or> digit5 c \<and> digit4 c)"

lemma spaces_not_plain: "p \<in> set go_spaces \<Longrightarrow> p \<noteq> [] \<and> \<not> plain_byte (hd p) \<and> \<not> plain_byte (last p)"
  by (auto simp: go_spaces_def plain_byte_def)

lemma TrimSpace_plain:
  assumes "s \<noteq> []" "plain_byte (hd s)" "plain_byte (last s)"
  shows "strings_TrimSpace s = s"
proof -
  have left: "trim_with go_spaces s = s"
    by (rule trim_with_fixed) (use assms spaces_not_plain in \<open>auto simp: prefix_def\<close>)
  have right: "trim_with (map rev go_spaces) (rev s) = rev s"
  proof (rule trim_with_fixed)
    fix p assume "p \<in> set (map rev go_spaces)" "p \<noteq> []"
    then have "\<not> plain_byte (hd p)" using spaces_not_plain by (auto simp: hd_rev)
    moreover have "plain_byte (hd (rev s))" using assms(1,3) by (simp add: hd_rev)
    ultimately show "\<not> prefix p (rev s)" using \<open>p \<noteq> []\<close> by (auto simp: prefix_def)
  qed
  show ?thesis by (simp add: strings_TrimSpace_def left right)
qed

lemma TrimSpace_code [code]:
  "strings_TrimSpace s =
     (case s of [] \<Rightarrow> []
      | c # r \<Rightarrow> if plain_byte c \<and> plain_byte (last s) then s
                else rev (trim_with (map rev go_spaces) (rev (trim_with go_spaces s))))"
  using TrimSpace_plain [of s] by (auto simp: strings_TrimSpace_def split: list.splits)

definition ascii_lower :: "char \<Rightarrow> char" where
  "ascii_lower c = (if 65 \<le> (of_char c :: nat) \<and> (of_char c :: nat) \<le> 90 then char_of (of_char c + 32 :: nat) else c)"

text \<open>\<^verbatim>\<open>strings.Contains\<close> on bytes.\<close>

definition strings_Contains :: "string \<Rightarrow> string \<Rightarrow> bool" where
  "strings_Contains s sub \<longleftrightarrow> sublist sub s"

section \<open>Results that may be errors\<close>

text \<open>A Go pair of a value and an error is \<open>Inl e\<close> or \<open>Inr v\<close>; a step that returns early on an error is a bind.\<close>

definition bind_result :: "'e + 'a \<Rightarrow> ('a \<Rightarrow> 'e + 'b) \<Rightarrow> 'e + 'b" where
  "bind_result r f = (case r of Inl e \<Rightarrow> Inl e | Inr v \<Rightarrow> f v)"

lemma bind_result_simps [simp]:
  "bind_result (Inl e) f = Inl e"
  "bind_result (Inr v) f = f v"
  by (simp_all add: bind_result_def)

lemma bind_result_Inr: "bind_result r f = Inr b \<longleftrightarrow> (\<exists>a. r = Inr a \<and> f a = Inr b)"
  by (cases r) simp_all

text \<open>A loop that converts every element and stops at the first failure.\<close>

fun map_result :: "('a \<Rightarrow> 'e + 'b) \<Rightarrow> 'a list \<Rightarrow> 'e + 'b list" where
  "map_result f [] = Inr []"
| "map_result f (x # xs) = bind_result (f x) (\<lambda>y. bind_result (map_result f xs) (\<lambda>ys. Inr (y # ys)))"

lemma map_result_Inr: "map_result f xs = Inr ys \<longleftrightarrow> list_all2 (\<lambda>x y. f x = Inr y) xs ys"
  by (induction xs arbitrary: ys) (auto simp: bind_result_Inr list_all2_Cons1)

lemma map_result_total: "(\<And>x. x \<in> set xs \<Longrightarrow> f x = Inr (g x)) \<Longrightarrow> map_result f xs = Inr (map g xs)"
  by (induction xs) auto

definition ensure :: "bool \<Rightarrow> 'e \<Rightarrow> 'e + unit" where
  "ensure b e = (if b then Inr () else Inl e)"

lemma ensure_simps [simp]:
  "ensure True e = Inr ()"
  "ensure False e = Inl e"
  "ensure b e = Inr u \<longleftrightarrow> b"
  "ensure b e = Inl e' \<longleftrightarrow> \<not> b \<and> e' = e"
  by (auto simp: ensure_def)

section \<open>Rows of a table\<close>

text \<open>
  A table is the list of its rows in insertion order. \<open>update_where\<close> is SQL's
  \<^verbatim>\<open>UPDATE ... WHERE\<close>; \<open>first_min k P\<close> is
  \<^verbatim>\<open>SELECT ... WHERE P ORDER BY k ASC LIMIT 1\<close>, where rows of equal key come
  in insertion order.
\<close>

definition update_where :: "('r \<Rightarrow> bool) \<Rightarrow> ('r \<Rightarrow> 'r) \<Rightarrow> 'r list \<Rightarrow> 'r list" where
  "update_where P f rows = map (\<lambda>r. if P r then f r else r) rows"

fun min_row :: "('r \<Rightarrow> 'k::linorder) \<Rightarrow> 'r list \<Rightarrow> 'r option" where
  "min_row k [] = None"
| "min_row k (r # rs) =
     (case min_row k rs of None \<Rightarrow> Some r | Some r' \<Rightarrow> if k r \<le> k r' then Some r else Some r')"

definition first_min :: "('r \<Rightarrow> 'k::linorder) \<Rightarrow> ('r \<Rightarrow> bool) \<Rightarrow> 'r list \<Rightarrow> 'r option" where
  "first_min k P rows = min_row k (filter P rows)"

lemma min_row_Some: "min_row k rs = Some r \<Longrightarrow> r \<in> set rs \<and> (\<forall>r' \<in> set rs. k r \<le> k r')"
proof (induction rs arbitrary: r)
  case Nil
  then show ?case by simp
next
  case (Cons x xs)
  show ?case
  proof (cases "min_row k xs")
    case None
    with Cons.prems show ?thesis by (cases xs) (auto split: option.splits if_splits)
  next
    case (Some r')
    with Cons show ?thesis by (force split: if_splits)
  qed
qed

lemma min_row_None [simp]: "min_row k rs = None \<longleftrightarrow> rs = []"
  by (cases rs) (auto split: option.splits if_splits)

lemma first_min_Some:
  "first_min k P rows = Some r \<Longrightarrow> r \<in> set rows \<and> P r \<and> (\<forall>r' \<in> set rows. P r' \<longrightarrow> k r \<le> k r')"
  unfolding first_min_def by (auto dest!: min_row_Some)

lemma first_min_None: "first_min k P rows = None \<longleftrightarrow> (\<forall>r \<in> set rows. \<not> P r)"
  by (simp add: first_min_def filter_empty_conv)

lemma length_update_where [simp]: "length (update_where P f rows) = length rows"
  by (simp add: update_where_def)

lemma update_where_Nil [simp]: "update_where P f [] = []"
  by (simp add: update_where_def)

lemma update_where_Cons [simp]:
  "update_where P f (r # rows) = (if P r then f r else r) # update_where P f rows"
  by (simp add: update_where_def)

lemma set_update_where: "set (update_where P f rows) = (\<lambda>r. if P r then f r else r) ` set rows"
  by (simp add: update_where_def)

text \<open>A column the update does not write keeps its values, in the same order.\<close>

lemma map_update_where [simp]:
  "(\<And>r. c (f r) = c r) \<Longrightarrow> map c (update_where P f rows) = map c rows"
  by (simp add: update_where_def)

lemma update_where_id: "(\<And>r. r \<in> set rows \<Longrightarrow> \<not> P r) \<Longrightarrow> update_where P f rows = rows"
  by (simp add: update_where_def map_idI)

text \<open>A key occurs in a table: \<^verbatim>\<open>UNIQUE\<close> constraints over one, two or three columns.\<close>

lemma list_ex_key: "list_ex (\<lambda>r. k r = c) rows \<longleftrightarrow> c \<in> k ` set rows"
  by (auto simp: list_ex_iff image_iff)

lemma list_ex_key2:
  "list_ex (\<lambda>r. k r = c \<and> k' r = c') rows \<longleftrightarrow> (c, c') \<in> (\<lambda>r. (k r, k' r)) ` set rows"
  by (force simp: list_ex_iff image_iff)

lemma list_ex_key3:
  "list_ex (\<lambda>r. k r = c \<and> k' r = c' \<and> k'' r = c'') rows \<longleftrightarrow>
   (c, c', c'') \<in> (\<lambda>r. (k r, k' r, k'' r)) ` set rows"
  by (force simp: list_ex_iff image_iff)

lemma if_Inl_Inr: "(if b then Inl e else r) = Inr v \<longleftrightarrow> \<not> b \<and> r = Inr v"
  by simp

lemma find_distinct_key:
  assumes "distinct (map k rows)" "r \<in> set rows"
  shows "find (\<lambda>r'. k r' = k r) rows = Some r"
  using assms
proof (induction rows)
  case (Cons x xs)
  then show ?case by (auto simp: image_iff)
qed simp

text \<open>\<^verbatim>\<open>ORDER BY k DESC\<close>, rows of equal key in insertion order.\<close>

definition newest_first :: "('r \<Rightarrow> 'k::linorder) \<Rightarrow> 'r list \<Rightarrow> 'r list" where
  "newest_first k rows = rev (sort_key k (rev rows))"

lemma set_newest_first [simp]: "set (newest_first k rows) = set rows"
  by (simp add: newest_first_def)

lemma length_newest_first [simp]: "length (newest_first k rows) = length rows"
  by (simp add: newest_first_def)

lemma sorted_newest_first: "sorted_wrt (\<lambda>a b. k b \<le> k a) (newest_first k rows)"
proof -
  have "sorted (map k (sort_key k (rev rows)))" by simp
  then show ?thesis by (simp add: newest_first_def sorted_wrt_rev sorted_wrt_map)
qed

text \<open>\<^verbatim>\<open>INSERT ... ON CONFLICT (key) DO UPDATE\<close> of every other column.\<close>

definition upsert_row :: "('r \<Rightarrow> 'k) \<Rightarrow> 'r \<Rightarrow> 'r list \<Rightarrow> 'r list" where
  "upsert_row k row rows =
     (if list_ex (\<lambda>r. k r = k row) rows then update_where (\<lambda>r. k r = k row) (\<lambda>_. row) rows else rows @ [row])"

lemma set_upsert_row: "set (upsert_row k row rows) = insert row {r \<in> set rows. k r \<noteq> k row}"
  by (auto simp: upsert_row_def set_update_where list_ex_iff image_iff)

lemma keys_upsert_row: "map k (upsert_row k row rows) = (if k row \<in> k ` set rows then map k rows else map k rows @ [k row])"
proof -
  have "(\<exists>r \<in> set rows. k r = k row) \<longleftrightarrow> k row \<in> k ` set rows" by (metis image_iff)
  then show ?thesis by (simp add: upsert_row_def update_where_def list_ex_iff)
qed

lemma distinct_upsert_row [simp]: "distinct (map k rows) \<Longrightarrow> distinct (map k (upsert_row k row rows))"
  by (simp add: keys_upsert_row)

text \<open>Tables that only grow, with every row related to what it was.\<close>

definition rows_le :: "('r \<Rightarrow> 'r \<Rightarrow> bool) \<Rightarrow> 'r list \<Rightarrow> 'r list \<Rightarrow> bool" where
  "rows_le le rows rows' \<longleftrightarrow>
     length rows \<le> length rows' \<and> (\<forall>i < length rows. le (rows ! i) (rows' ! i))"

lemma rows_le_refl: "(\<And>r. le r r) \<Longrightarrow> rows_le le rows rows"
  by (simp add: rows_le_def)

lemma rows_le_trans:
  assumes "\<And>r s t. le r s \<Longrightarrow> le s t \<Longrightarrow> le r t" "rows_le le xs ys" "rows_le le ys zs"
  shows "rows_le le xs zs"
  using assms unfolding rows_le_def by (meson dual_order.trans le_less_trans less_le_trans)

lemma rows_le_append: "(\<And>r. le r r) \<Longrightarrow> rows_le le rows (rows @ new)"
  by (simp add: rows_le_def nth_append)

lemma rows_le_update:
  "(\<And>r. r \<in> set rows \<Longrightarrow> le r (if P r then f r else r)) \<Longrightarrow> rows_le le rows (update_where P f rows)"
  by (simp add: rows_le_def update_where_def)

lemma rows_le_member: "rows_le le rows rows' \<Longrightarrow> r \<in> set rows \<Longrightarrow> \<exists>r' \<in> set rows'. le r r'"
  unfolding rows_le_def by (metis in_set_conv_nth less_le_trans nth_mem)

section \<open>Invariants of transition systems\<close>

text \<open>
  The shape shared by every stateful component: initial states, a transition function over
  events (the event carries what the environment chooses: arguments, clock readings, random
  identifiers), and an invariant. Client lemmas lift the invariant to runs.
\<close>

locale invariant_machine =
  fixes start :: "'s \<Rightarrow> bool"
    and step :: "'e \<Rightarrow> 's \<Rightarrow> 's"
    and inv :: "'s \<Rightarrow> bool"
  assumes start_inv: "start s \<Longrightarrow> inv s"
    and step_inv: "inv s \<Longrightarrow> inv (step e s)"
begin

lemma run_inv: "inv s \<Longrightarrow> inv (fold step es s)"
  by (induction es arbitrary: s) (auto intro: step_inv)

lemma reach_inv: "start s \<Longrightarrow> inv (fold step es s)"
  by (intro run_inv start_inv)

lemma run_split: "start s \<Longrightarrow> inv (fold step (es @ es') s) \<and> inv (fold step es s)"
  by (simp add: reach_inv run_inv)

end

text \<open>A machine whose steps also respect a preorder on states (progress that is never undone).\<close>

locale monotone_machine = invariant_machine start step inv
  for start :: "'s \<Rightarrow> bool" and step :: "'e \<Rightarrow> 's \<Rightarrow> 's" and inv :: "'s \<Rightarrow> bool" +
  fixes le :: "'s \<Rightarrow> 's \<Rightarrow> bool"
  assumes le_refl: "le s s"
    and le_trans: "le s t \<Longrightarrow> le t u \<Longrightarrow> le s u"
    and step_le: "inv s \<Longrightarrow> le s (step e s)"
begin

lemma run_le: "inv s \<Longrightarrow> le s (fold step es s)"
proof (induction es arbitrary: s)
  case Nil
  then show ?case by (simp add: le_refl)
next
  case (Cons e es)
  from Cons.prems have "le s (step e s)" by (rule step_le)
  moreover from Cons.prems have "le (step e s) (fold step es (step e s))"
    by (intro Cons.IH step_inv)
  ultimately show ?case by (simp add: le_trans)
qed

end

end
