(* ===== verification/FixedPoint.thy ===== *)
theory FixedPoint
  imports FiscalPrelude
begin

text \<open>
  The packages \<^verbatim>\<open>internal/money\<close> and \<^verbatim>\<open>internal/quantity\<close>: fixed-point values in an
  \<^verbatim>\<open>int64\<close> and their canonical decimal strings. Both are instances of one
  contract, the locale \<open>decimal_codec\<close>: parsing accepts exactly the printed forms of the
  values in range.
\<close>

section \<open>The contract of a canonical decimal codec\<close>

locale number_format =
  fixes fmt :: "'a \<Rightarrow> string" and dom :: "'a \<Rightarrow> bool"
  assumes fmt_inj: "dom a \<Longrightarrow> dom b \<Longrightarrow> fmt a = fmt b \<Longrightarrow> a = b"
begin

lemma fmt_eq_iff: "dom a \<Longrightarrow> dom b \<Longrightarrow> fmt a = fmt b \<longleftrightarrow> a = b"
  by (auto dest: fmt_inj)

end

locale decimal_codec = number_format fmt dom
  for fmt :: "'a \<Rightarrow> string" and dom :: "'a \<Rightarrow> bool" +
  fixes parse :: "string \<Rightarrow> 'e + 'a" and ok :: "'a \<Rightarrow> bool"
  assumes ok_dom: "ok a \<Longrightarrow> dom a"
    and parse_iff: "parse s = Inr a \<longleftrightarrow> s = fmt a \<and> ok a"
begin

lemma parse_fmt: "ok a \<Longrightarrow> parse (fmt a) = Inr a"
  by (simp add: parse_iff)

lemma fmt_parse: "parse s = Inr a \<Longrightarrow> fmt a = s"
  by (simp add: parse_iff)

lemma parse_unique: "parse s = Inr a \<Longrightarrow> parse t = Inr a \<Longrightarrow> s = t"
  by (simp add: parse_iff)

lemma parse_fmt_fails: "dom a \<Longrightarrow> \<not> ok a \<Longrightarrow> \<exists>e. parse (fmt a) = Inl e"
  by (cases "parse (fmt a)") (auto simp: parse_iff dest: fmt_inj ok_dom)

end

section \<open>Money: centavos\<close>

datatype money_error = MoneyInvalid | MoneyOverflow | MoneyIndexPanic

record amount =
  cents :: int

definition money_Factor :: int where
  "money_Factor = 100"

definition money_FromCents :: "int \<Rightarrow> money_error + amount" where
  "money_FromCents c = (if c < 0 then Inl MoneyInvalid else Inr \<lparr>cents = c\<rparr>)"

text \<open>A major part without leading zeros: \<^verbatim>\<open>0\<close> or at most \<open>n\<close> digits from a non-zero one.\<close>

definition canonical_major :: "nat \<Rightarrow> string \<Rightarrow> bool" where
  "canonical_major n s \<longleftrightarrow>
     s = ''0'' \<or> (s \<noteq> [] \<and> hd s \<noteq> CHR ''0'' \<and> list_all is_digit s \<and> length s \<le> n)"

text \<open>\<^verbatim>\<open>^(0|[1-9][0-9]{0,15})\.[0-9]{2}$\<close>\<close>

definition money_canonicalPattern :: "string \<Rightarrow> bool" where
  "money_canonicalPattern s =
     (case cut_at CHR ''.'' s of
        (a, None) \<Rightarrow> False
      | (a, Some f) \<Rightarrow> canonical_major 16 a \<and> length f = 2 \<and> list_all is_digit f)"

definition money_ParseCanonical :: "string \<Rightarrow> money_error + amount" where
  "money_ParseCanonical s =
     (if \<not> money_canonicalPattern s then Inl MoneyInvalid
      else case split_on CHR ''.'' s of
        p0 # p1 # _ \<Rightarrow>
          (case strconv_ParseInt p0 of
             None \<Rightarrow> Inl MoneyInvalid
           | Some major \<Rightarrow>
               (case strconv_ParseInt p1 of
                  None \<Rightarrow> Inl MoneyInvalid
                | Some frac \<Rightarrow>
                    if major > go_quot max_int64 money_Factor then Inl MoneyOverflow
                    else let c = wrap64 (wrap64 (major * money_Factor) + frac)
                         in if c < 0 then Inl MoneyOverflow else Inr \<lparr>cents = c\<rparr>))
      | _ \<Rightarrow> Inl MoneyIndexPanic)"

definition money_FormatCanonical :: "amount \<Rightarrow> string" where
  "money_FormatCanonical a =
     (let major = go_quot (cents a) money_Factor;
          frac0 = go_rem (cents a) money_Factor;
          frac = (if frac0 < 0 then - frac0 else frac0)
      in strconv_Itoa major @ ''.'' @ pad_digits 2 (nat frac))"

lemma Itoa_nat: "0 \<le> i \<Longrightarrow> strconv_Itoa i = nat_digits (nat i)"
  by (simp add: strconv_Itoa_def)

lemma dot_not_digit: "is_digit c \<Longrightarrow> c \<noteq> CHR ''.''"
  by (auto simp: is_digit_def)

lemma dot_fresh_digits: "list_all is_digit s \<Longrightarrow> CHR ''.'' \<notin> set s"
  by (auto simp: list_all_iff dest: dot_not_digit)

lemma dot_fresh_nat_digits [simp]: "CHR ''.'' \<notin> set (nat_digits n)"
  using nat_digits_are_digits dot_not_digit by blast

lemma nat_digits_all: "list_all is_digit (nat_digits n)"
  by (auto simp: list_all_iff nat_digits_are_digits)

lemma pad_digits_all [simp]: "list_all is_digit (pad_digits w n)"
  by (auto simp: list_all_iff pad_digits_are_digits)

lemma length_nat_digits_le: "0 < w \<Longrightarrow> n < 10 ^ w \<Longrightarrow> length (nat_digits n) \<le> w"
proof (induction w arbitrary: n)
  case 0
  then show ?case by simp
next
  case (Suc w)
  show ?case
  proof (cases "n < 10")
    case True
    then show ?thesis by (simp add: nat_digits_small)
  next
    case False
    with Suc.prems have "n div 10 < 10 ^ w" "0 < w"
      by (cases w; simp add: less_mult_imp_div_less mult.commute)+
    with Suc.IH [of "n div 10"] False show ?thesis by (simp add: nat_digits_big)
  qed
qed

lemma canonical_major_digits:
  assumes "canonical_major n s"
  shows "s \<noteq> []" "list_all is_digit s" "nat_digits (digits_val s) = s"
    "0 < n \<Longrightarrow> digits_val s < 10 ^ n"
proof -
  show ne: "s \<noteq> []" and all: "list_all is_digit s"
    using assms by (auto simp: canonical_major_def is_digit_def)
  show "nat_digits (digits_val s) = s"
    using assms ne all
    by (intro nat_digits_digits_val) (auto simp: canonical_major_def list_all_iff)
  assume "0 < n"
  then have "length s \<le> n" using assms by (auto simp: canonical_major_def)
  then have "(10::nat) ^ length s \<le> 10 ^ n" by (simp add: power_increasing)
  moreover have "digits_val s < 10 ^ length s"
    using all by (intro digits_val_bound) (auto simp: list_all_iff)
  ultimately show "digits_val s < 10 ^ n" by (rule less_le_trans [rotated])
qed

lemma canonical_major_nat_digits:
  assumes "0 < w" "n < 10 ^ w"
  shows "canonical_major w (nat_digits n)"
proof (cases "n = 0")
  case True
  then show ?thesis by (simp add: canonical_major_def nat_digits_small)
next
  case False
  with assms show ?thesis
    by (simp add: canonical_major_def nat_digits_all nat_digits_head length_nat_digits_le)
qed

lemma money_FormatCanonical_nonneg:
  "0 \<le> cents a \<Longrightarrow>
   money_FormatCanonical a = nat_digits (nat (cents a div 100)) @ CHR ''.'' # pad_digits 2 (nat (cents a mod 100))"
  by (simp add: money_FormatCanonical_def money_Factor_def Itoa_nat Let_def)

text \<open>What the parser computes on a string of the pattern's shape.\<close>

lemma money_parse_shape:
  assumes "canonical_major 16 a" "length f = 2" "list_all is_digit f"
  shows "money_ParseCanonical (a @ CHR ''.'' # f) =
    Inr \<lparr>cents = int (digits_val a) * 100 + int (digits_val f)\<rparr>"
proof -
  note a = canonical_major_digits [OF assms(1)]
  have av: "digits_val a < 10 ^ 16" using a(4) by simp
  have fv: "digits_val f < 100"
    using digits_val_bound [of f] assms(2,3) by (simp add: list_all_iff)
  have dots: "CHR ''.'' \<notin> set a" "CHR ''.'' \<notin> set f"
    using a(2) assms(3) by (simp_all add: dot_fresh_digits)
  have pat: "money_canonicalPattern (a @ CHR ''.'' # f)"
    using assms dots by (simp add: money_canonicalPattern_def cut_at_append)
  have "int (digits_val a) \<le> max_int64" "int (digits_val f) \<le> max_int64"
    using av fv by (simp_all add: max_int64_def)
  then have parts: "strconv_ParseInt a = Some (int (digits_val a))"
      "strconv_ParseInt f = Some (int (digits_val f))"
    using a(1,2) assms(2,3) by (auto intro!: ParseInt_digits)
  have w: "wrap64 (int (digits_val a) * 100) = int (digits_val a) * 100"
      "wrap64 (int (digits_val a) * 100 + int (digits_val f)) =
        int (digits_val a) * 100 + int (digits_val f)"
    using av fv by (auto intro!: wrap64_id simp: max_int64_def)
  have "\<not> int (digits_val a) > go_quot max_int64 money_Factor"
    using av by (simp add: max_int64_def money_Factor_def)
  with pat parts w dots show ?thesis
    by (simp add: money_ParseCanonical_def split_on_append split_on_fresh money_Factor_def Let_def)
qed

lemma money_pattern_shape:
  "money_canonicalPattern s \<Longrightarrow>
   \<exists>a f. s = a @ CHR ''.'' # f \<and> canonical_major 16 a \<and> length f = 2 \<and> list_all is_digit f"
  by (auto simp: money_canonicalPattern_def cut_at_Some split: prod.splits option.splits)

lemma money_parse_iff:
  "money_ParseCanonical s = Inr a \<longleftrightarrow>
   s = money_FormatCanonical a \<and> 0 \<le> cents a \<and> cents a < 10 ^ 18"
proof
  assume *: "money_ParseCanonical s = Inr a"
  then have "money_canonicalPattern s"
    by (auto simp: money_ParseCanonical_def split: if_splits)
  then obtain m f where s: "s = m @ CHR ''.'' # f"
      and m: "canonical_major 16 m" and f: "length f = 2" "list_all is_digit f"
    using money_pattern_shape by blast
  note md = canonical_major_digits [OF m]
  have fv: "digits_val f < 100"
    using digits_val_bound [of f] f by (simp add: list_all_iff)
  have mv: "digits_val m < 10 ^ 16" using md(4) by simp
  have a: "a = \<lparr>cents = int (digits_val m) * 100 + int (digits_val f)\<rparr>"
    using * money_parse_shape [OF m f] s by simp
  have "pad_digits 2 (digits_val f) = f"
    using pad_digits_digits_val [of f] f by (simp add: list_all_iff)
  moreover have "cents a div 100 = int (digits_val m)" "cents a mod 100 = int (digits_val f)"
    using a fv by simp_all
  ultimately have "s = money_FormatCanonical a"
    using a s md(3) by (simp add: money_FormatCanonical_nonneg)
  moreover have "cents a < 10 ^ 18" using a mv fv by simp
  ultimately show "s = money_FormatCanonical a \<and> 0 \<le> cents a \<and> cents a < 10 ^ 18"
    using a by simp
next
  assume *: "s = money_FormatCanonical a \<and> 0 \<le> cents a \<and> cents a < 10 ^ 18"
  let ?m = "nat (cents a div 100)" and ?f = "nat (cents a mod 100)"
  have "cents a div 100 < 10 ^ 16" using * by (simp; linarith)
  then have m: "canonical_major 16 (nat_digits ?m)"
    by (intro canonical_major_nat_digits) (auto simp: nat_less_iff)
  have fb: "?f < 10 ^ 2" by (simp add: nat_less_iff)
  have "money_ParseCanonical s = Inr \<lparr>cents = int ?m * 100 + int ?f\<rparr>"
    using * money_parse_shape [OF m, of "pad_digits 2 ?f"] fb
    by (simp add: money_FormatCanonical_nonneg)
  also have "int ?m * 100 + int ?f = cents a" using * by simp
  finally show "money_ParseCanonical s = Inr a" by simp
qed

lemma append_sep_inject:
  fixes c :: char
  assumes "c \<notin> set a" "c \<notin> set b"
  shows "a @ c # x = b @ c # y \<longleftrightarrow> a = b \<and> x = y"
proof
  assume "a @ c # x = b @ c # y"
  then have "cut_at c (a @ c # x) = cut_at c (b @ c # y)" by simp
  with assms show "a = b \<and> x = y" by (simp add: cut_at_append)
qed simp

lemma money_format_inj:
  assumes "0 \<le> cents a" "0 \<le> cents b" "money_FormatCanonical a = money_FormatCanonical b"
  shows "a = b"
proof -
  have "nat (cents a div 100) = nat (cents b div 100)"
    and p: "pad_digits 2 (nat (cents a mod 100)) = pad_digits 2 (nat (cents b mod 100))"
    using assms by (simp_all add: money_FormatCanonical_nonneg append_sep_inject)
  moreover have "nat (cents x mod 100) < 10 ^ 2" for x :: amount
    by (simp add: nat_less_iff)
  with p have "nat (cents a mod 100) = nat (cents b mod 100)"
    by (metis digits_val_pad_digits)
  ultimately have "cents a div 100 = cents b div 100" "cents a mod 100 = cents b mod 100"
    using assms(1,2) by (simp_all add: eq_nat_nat_iff pos_imp_zdiv_nonneg_iff)
  then have "cents a = cents b" by (metis div_mult_mod_eq)
  then show ?thesis by simp
qed

interpretation money: decimal_codec money_FormatCanonical "\<lambda>a. 0 \<le> cents a"
    money_ParseCanonical "\<lambda>a. 0 \<le> cents a \<and> cents a < 10 ^ 18"
  by unfold_locales (auto simp: money_parse_iff intro: money_format_inj)

section \<open>Quantity: units of 1/10000\<close>

datatype quantity_error = QuantityInvalid | QuantityOverflow

record qty =
  scaled :: int

definition quantity_Scale :: nat where
  "quantity_Scale = 4"

definition quantity_Factor :: int where
  "quantity_Factor = 10000"

definition quantity_FromScaled :: "int \<Rightarrow> quantity_error + qty" where
  "quantity_FromScaled n = (if n \<le> 0 then Inl QuantityInvalid else Inr \<lparr>scaled = n\<rparr>)"

text \<open>\<^verbatim>\<open>^(?:0\.[0-9]{0,3}[1-9]|[1-9][0-9]{0,11}(?:\.[0-9]{0,3}[1-9])?)$\<close>\<close>

definition frac_ok :: "string \<Rightarrow> bool" where
  "frac_ok f \<longleftrightarrow> f \<noteq> [] \<and> length f \<le> 4 \<and> list_all is_digit f \<and> last f \<noteq> CHR ''0''"

definition quantity_canonicalPattern :: "string \<Rightarrow> bool" where
  "quantity_canonicalPattern s =
     (case cut_at CHR ''.'' s of
        (a, None) \<Rightarrow> canonical_major 12 a \<and> a \<noteq> ''0''
      | (a, Some f) \<Rightarrow> canonical_major 12 a \<and> frac_ok f)"

definition quantity_ParseCanonical :: "string \<Rightarrow> quantity_error + qty" where
  "quantity_ParseCanonical s =
     (if \<not> quantity_canonicalPattern s then Inl QuantityInvalid
      else let (p0, rest) = cut_at CHR ''.'' s;
               fd = (case rest of None \<Rightarrow> [] | Some f \<Rightarrow> f)
           in case strconv_ParseInt p0 of
                None \<Rightarrow> Inl QuantityInvalid
              | Some major \<Rightarrow>
                  if length fd > quantity_Scale then Inl QuantityInvalid
                  else case strconv_ParseInt (fd @ replicate (quantity_Scale - length fd) CHR ''0'') of
                         None \<Rightarrow> Inl QuantityInvalid
                       | Some frac \<Rightarrow>
                           if major > go_quot max_int64 quantity_Factor then Inl QuantityOverflow
                           else let v = wrap64 (wrap64 (major * quantity_Factor) + frac)
                                in if v \<le> 0 then Inl QuantityInvalid else Inr \<lparr>scaled = v\<rparr>)"

text \<open>\<^verbatim>\<open>strings.TrimRight\<close> with a one-character cutset.\<close>

definition trim_right_char :: "char \<Rightarrow> string \<Rightarrow> string" where
  "trim_right_char c s = rev (dropWhile (\<lambda>x. x = c) (rev s))"

definition quantity_FormatCanonical :: "qty \<Rightarrow> string" where
  "quantity_FormatCanonical q =
     (let major = go_quot (scaled q) quantity_Factor;
          frac = go_rem (scaled q) quantity_Factor
      in if frac = 0 then strconv_Itoa major
         else trim_right_char CHR ''.''
                (trim_right_char CHR ''0'' (strconv_Itoa major @ ''.'' @ pad_digits 4 (nat frac))))"

lemma trim_right_append:
  "trim_right_char c f \<noteq> [] \<Longrightarrow> trim_right_char c (x @ f) = x @ trim_right_char c f"
  by (auto simp: trim_right_char_def dropWhile_append)

lemma trim_right_last: "trim_right_char c s = [] \<or> last (trim_right_char c s) \<noteq> c"
  using hd_dropWhile [of "\<lambda>x. x = c" "rev s"] by (auto simp: trim_right_char_def last_rev)

lemma trim_right_fixed: "s = [] \<or> last s \<noteq> c \<Longrightarrow> trim_right_char c s = s"
  by (cases s rule: rev_cases) (auto simp: trim_right_char_def)

lemma trim_right_replicate [simp]: "trim_right_char c (s @ replicate n c) = trim_right_char c s"
  by (simp add: trim_right_char_def dropWhile_append)

lemma trim_right_restore:
  "trim_right_char c s @ replicate (length s - length (trim_right_char c s)) c = s"
proof -
  let ?r = "rev s"
  have "takeWhile (\<lambda>x. x = c) ?r = replicate (length (takeWhile (\<lambda>x. x = c) ?r)) c"
    by (induction ?r) (auto, metis (mono_tags, lifting) replicate_eqI set_takeWhileD)
  then have "rev (takeWhile (\<lambda>x. x = c) ?r) = replicate (length (takeWhile (\<lambda>x. x = c) ?r)) c"
    by (metis rev_replicate)
  moreover have "s = trim_right_char c s @ rev (takeWhile (\<lambda>x. x = c) ?r)"
    unfolding trim_right_char_def by (metis rev_append rev_rev_ident takeWhile_dropWhile_id)
  ultimately show ?thesis by (metis add_diff_cancel_left' length_append length_rev)
qed

lemma trim_right_subset: "set (trim_right_char c s) \<subseteq> set s"
  by (auto simp: trim_right_char_def dest: set_dropWhileD)

lemma length_trim_right: "length (trim_right_char c s) \<le> length s"
  unfolding trim_right_char_def by (metis length_dropWhile_le length_rev)

lemma digits_val_zeros: "digits_val (replicate n CHR ''0'') = 0"
  by (induction n) (auto simp: replicate_append_same [symmetric] digit_val_def)

lemma digits_val_append: "digits_val (a @ b) = digits_val a * 10 ^ length b + digits_val b"
  by (induction b rule: rev_induct) (simp_all add: append_assoc [symmetric] algebra_simps del: append_assoc)

lemma quantity_FormatCanonical_whole:
  "0 \<le> scaled q \<Longrightarrow> scaled q mod 10000 = 0 \<Longrightarrow>
   quantity_FormatCanonical q = nat_digits (nat (scaled q div 10000))"
  by (simp add: quantity_FormatCanonical_def quantity_Factor_def Itoa_nat Let_def)

lemma trim_pad4_nonempty: "n \<noteq> 0 \<Longrightarrow> n < 10000 \<Longrightarrow> trim_right_char CHR ''0'' (pad_digits 4 n) \<noteq> []"
proof
  assume n: "n \<noteq> 0" "n < 10000" and e: "trim_right_char CHR ''0'' (pad_digits 4 n) = []"
  have "pad_digits 4 n = replicate 4 CHR ''0''"
    using trim_right_restore [of "CHR ''0''" "pad_digits 4 n"] e by simp
  then have "digits_val (pad_digits 4 n) = 0" by (simp add: digits_val_zeros)
  with n show False by simp
qed

lemma quantity_FormatCanonical_frac:
  assumes "0 \<le> scaled q" "scaled q mod 10000 \<noteq> 0"
  shows "quantity_FormatCanonical q =
    nat_digits (nat (scaled q div 10000)) @ CHR ''.'' #
      trim_right_char CHR ''0'' (pad_digits 4 (nat (scaled q mod 10000)))"
proof -
  let ?f = "trim_right_char CHR ''0'' (pad_digits 4 (nat (scaled q mod 10000)))"
  let ?m = "nat_digits (nat (scaled q div 10000))"
  have ne: "?f \<noteq> []"
    using assms by (intro trim_pad4_nonempty) (auto simp: nat_less_iff)
  then have "last ?f \<in> set (pad_digits 4 (nat (scaled q mod 10000)))"
    using trim_right_subset last_in_set by blast
  then have "last ?f \<noteq> CHR ''.''"
    using pad_digits_are_digits dot_not_digit by blast
  then have "trim_right_char CHR ''.'' ((?m @ ''.'') @ ?f) = (?m @ ''.'') @ ?f"
    using ne by (intro trim_right_fixed) simp
  moreover have "trim_right_char CHR ''0'' ((?m @ ''.'') @ pad_digits 4 (nat (scaled q mod 10000))) =
      (?m @ ''.'') @ ?f"
    using ne by (rule trim_right_append)
  ultimately show ?thesis
    using assms by (simp add: quantity_FormatCanonical_def quantity_Factor_def Itoa_nat Let_def)
qed

text \<open>What the parser computes on the two shapes of the pattern.\<close>

lemma quantity_parse_core:
  assumes "canonical_major 12 a" "list_all is_digit f" "length f \<le> 4"
    "rest = (if f = [] then None else Some f)"
    "cut_at CHR ''.'' s = (a, rest)" "quantity_canonicalPattern s"
    "v = int (digits_val a) * 10000 + int (digits_val (f @ replicate (4 - length f) CHR ''0''))"
    "0 < v"
  shows "quantity_ParseCanonical s = Inr \<lparr>scaled = v\<rparr>"
proof -
  let ?f = "f @ replicate (4 - length f) CHR ''0''"
  note a = canonical_major_digits [OF assms(1)]
  have av: "digits_val a < 10 ^ 12" using a(4) by simp
  have fd: "list_all is_digit ?f" "length ?f = 4"
    using assms(2,3) by (auto simp: list_all_iff is_digit_def)
  then have fv: "digits_val ?f < 10000"
    using digits_val_bound [of ?f] by (simp add: list_all_iff)
  have parts: "strconv_ParseInt a = Some (int (digits_val a))"
      "strconv_ParseInt ?f = Some (int (digits_val ?f))"
    using a fd av fv by (auto intro!: ParseInt_digits simp: max_int64_def)
  have w: "wrap64 (int (digits_val a) * 10000) = int (digits_val a) * 10000" "wrap64 v = v"
    using av fv assms(7) by (auto intro!: wrap64_id simp: max_int64_def)
  have "\<not> int (digits_val a) > go_quot max_int64 quantity_Factor"
    using av by (simp add: max_int64_def quantity_Factor_def)
  moreover have "(case rest of None \<Rightarrow> [] | Some f \<Rightarrow> f) = f"
    using assms(4) by simp
  ultimately show ?thesis
    using assms(3,5,6,8) parts w
    by (simp add: quantity_ParseCanonical_def quantity_Factor_def quantity_Scale_def Let_def assms(7))
qed

lemma quantity_parse_whole:
  assumes "canonical_major 12 a" "a \<noteq> ''0''"
  shows "quantity_ParseCanonical a = Inr \<lparr>scaled = int (digits_val a) * 10000\<rparr>"
proof (rule quantity_parse_core [where f = "[]"])
  note d = canonical_major_digits [OF assms(1)]
  have cut: "cut_at CHR ''.'' a = (a, None)"
    using d(2) by (intro cut_at_fresh dot_fresh_digits)
  then show "cut_at CHR ''.'' a = (a, None)" .
  show "quantity_canonicalPattern a"
    using assms cut by (simp add: quantity_canonicalPattern_def)
  have "digits_val a \<noteq> 0"
  proof
    assume "digits_val a = 0"
    with d(3) have "a = ''0''" by (metis digit_char_0 nat_digits_small zero_less_numeral)
    with assms(2) show False by simp
  qed
  then show "0 < int (digits_val a) * 10000" by simp
  have z: "digits_val (replicate 4 CHR ''0'') = 0" by (rule digits_val_zeros)
  show "int (digits_val a) * 10000 =
      int (digits_val a) * 10000 + int (digits_val ([] @ replicate (4 - length []) CHR ''0''))"
    by (simp only: append_Nil list.size diff_zero z)
qed (use assms in simp_all)

lemma quantity_parse_frac:
  assumes "canonical_major 12 a" "frac_ok f"
  shows "quantity_ParseCanonical (a @ CHR ''.'' # f) =
    Inr \<lparr>scaled = int (digits_val a) * 10000 +
      int (digits_val (f @ replicate (4 - length f) CHR ''0''))\<rparr>"
proof (rule quantity_parse_core [where f = f])
  note d = canonical_major_digits [OF assms(1)]
  have f: "f \<noteq> []" "length f \<le> 4" "list_all is_digit f" "last f \<noteq> CHR ''0''"
    using assms(2) by (simp_all add: frac_ok_def)
  have cut: "cut_at CHR ''.'' (a @ CHR ''.'' # f) = (a, Some f)"
    using d(2) by (intro cut_at_append dot_fresh_digits)
  then show "cut_at CHR ''.'' (a @ CHR ''.'' # f) = (a, Some f)" .
  show "quantity_canonicalPattern (a @ CHR ''.'' # f)"
    using assms cut by (simp add: quantity_canonicalPattern_def)
  show "list_all is_digit f" "length f \<le> 4" using f by simp_all
  have "digits_val f \<noteq> 0"
  proof
    assume z: "digits_val f = 0"
    have "f = pad_digits (length f) 0"
      using pad_digits_digits_val [of f] f(3) z by (simp add: list_all_iff)
    moreover have "last (pad_digits n 0) = CHR ''0''" if "0 < n" for n
      using that by (cases n) simp_all
    ultimately show False using f(1,4) by (metis length_greater_0_conv)
  qed
  then have "0 < digits_val (f @ replicate (4 - length f) CHR ''0'')"
    by (simp add: digits_val_append)
  then show "0 < int (digits_val a) * 10000 + int (digits_val (f @ replicate (4 - length f) CHR ''0''))"
    by linarith
qed (use assms in \<open>simp_all add: frac_ok_def\<close>)

lemma restore_frac:
  assumes "frac_ok f"
  shows "trim_right_char CHR ''0'' (f @ replicate (4 - length f) CHR ''0'') = f"
  using assms by (simp add: frac_ok_def trim_right_fixed)

lemma div_mod_split:
  "(n::nat) < 10000 \<Longrightarrow> (int m * 10000 + int n) div 10000 = int m"
  "(n::nat) < 10000 \<Longrightarrow> (int m * 10000 + int n) mod 10000 = int n"
  by simp_all

lemma pad_digits_0: "pad_digits w 0 = replicate w CHR ''0''"
  by (induction w) (simp_all add: replicate_append_same)

lemma trim_right_zeros: "trim_right_char c (replicate n c) = []"
  by (induction n) (simp_all add: trim_right_char_def)

lemma quantity_parse_sound:
  assumes "quantity_ParseCanonical s = Inr q"
  shows "s = quantity_FormatCanonical q \<and> 0 < scaled q \<and> scaled q < 10 ^ 16"
proof -
  have pat: "quantity_canonicalPattern s"
    using assms by (auto simp: quantity_ParseCanonical_def split: if_splits)
  consider (whole) "canonical_major 12 s" "s \<noteq> ''0''"
    | (frac) a f where "s = a @ CHR ''.'' # f" "canonical_major 12 a" "frac_ok f"
    using pat by (auto simp: quantity_canonicalPattern_def cut_at_Some cut_at_None
        split: prod.splits option.splits)
  then show ?thesis
  proof cases
    case whole
    note d = canonical_major_digits [OF whole(1)]
    have q: "q = \<lparr>scaled = int (digits_val s) * 10000\<rparr>"
      using assms quantity_parse_whole [OF whole] by simp
    have "quantity_FormatCanonical q = s"
      using q d(3) by (simp add: quantity_FormatCanonical_whole)
    moreover have "0 < scaled q"
      using q d(3) whole(2) by (cases "digits_val s = 0") (auto simp: nat_digits_small)
    moreover have "scaled q < 10 ^ 16" using q d(4) by simp
    ultimately show ?thesis by simp
  next
    case frac
    let ?f = "f @ replicate (4 - length f) CHR ''0''"
    note d = canonical_major_digits [OF frac(2)]
    have fd: "list_all is_digit ?f" "length ?f = 4"
      using frac(3) by (auto simp: frac_ok_def list_all_iff is_digit_def)
    have fv: "digits_val ?f < 10000"
      using digits_val_bound [of ?f] fd by (simp add: list_all_iff)
    have pad: "pad_digits 4 (digits_val ?f) = ?f"
      using pad_digits_digits_val [of ?f] fd by (simp add: list_all_iff)
    have nz: "digits_val ?f \<noteq> 0"
    proof
      assume "digits_val ?f = 0"
      then have "?f = replicate 4 CHR ''0''" by (metis pad pad_digits_0)
      then have "trim_right_char CHR ''0'' ?f = []" by (simp only: trim_right_zeros)
      with restore_frac [OF frac(3)] frac(3) show False by (simp add: frac_ok_def)
    qed
    have q: "scaled q = int (digits_val a) * 10000 + int (digits_val ?f)"
      using assms quantity_parse_frac [OF frac(2,3)] frac(1) by auto
    have dm: "scaled q div 10000 = int (digits_val a)" "scaled q mod 10000 = int (digits_val ?f)"
      unfolding q by (rule div_mod_split [OF fv])+
    have "0 \<le> scaled q" "scaled q mod 10000 \<noteq> 0" using q dm nz by linarith+
    have "quantity_FormatCanonical q =
        nat_digits (digits_val a) @ CHR ''.'' # trim_right_char CHR ''0'' (pad_digits 4 (digits_val ?f))"
      unfolding quantity_FormatCanonical_frac [OF \<open>0 \<le> scaled q\<close> \<open>scaled q mod 10000 \<noteq> 0\<close>] dm nat_int ..
    then have "quantity_FormatCanonical q = a @ CHR ''.'' # f"
      unfolding d(3) pad restore_frac [OF frac(3)] .
    moreover have "scaled q < 10 ^ 16" using q d(4) fv by simp
    moreover have "0 < scaled q" using q nz by linarith
    ultimately show ?thesis using frac(1) by simp
  qed
qed

lemma quantity_parse_complete:
  assumes "0 < scaled q" "scaled q < 10 ^ 16"
  shows "quantity_ParseCanonical (quantity_FormatCanonical q) = Inr q"
proof -
  let ?m = "nat (scaled q div 10000)" and ?r = "nat (scaled q mod 10000)"
  have "scaled q div 10000 < 10 ^ 12" using assms(2) by (simp; linarith)
  then have m: "canonical_major 12 (nat_digits ?m)"
    by (intro canonical_major_nat_digits) (auto simp: nat_less_iff)
  have rb: "?r < 10000" by (simp add: nat_less_iff)
  show ?thesis
  proof (cases "scaled q mod 10000 = 0")
    case True
    have "?m \<noteq> 0" using True assms(1) by auto
    then have "nat_digits ?m \<noteq> ''0''"
      by (metis digit_char_0 nat_digits_inject nat_digits_small zero_less_numeral)
    moreover have "int ?m * 10000 = scaled q"
      using True assms(1) div_mult_mod_eq [of "scaled q" 10000] by simp
    ultimately show ?thesis
      using quantity_parse_whole [OF m] True assms(1)
      by (simp add: quantity_FormatCanonical_whole del: of_nat_nat)
  next
    case False
    let ?f = "trim_right_char CHR ''0'' (pad_digits 4 ?r)"
    have ne: "?f \<noteq> []" using False rb by (intro trim_pad4_nonempty) simp_all
    moreover have "list_all is_digit ?f"
      using trim_right_subset pad_digits_are_digits by (fastforce simp: list_all_iff)
    ultimately have f: "frac_ok ?f"
      using length_trim_right [of "CHR ''0''" "pad_digits 4 ?r"]
        trim_right_last [of "CHR ''0''" "pad_digits 4 ?r"]
      by (simp add: frac_ok_def)
    have "digits_val (?f @ replicate (4 - length ?f) CHR ''0'') = ?r"
      using trim_right_restore [of "CHR ''0''" "pad_digits 4 ?r"] rb by simp
    with quantity_parse_frac [OF m f] False assms show ?thesis
      by (simp add: quantity_FormatCanonical_frac)
  qed
qed

lemma quantity_parse_iff:
  "quantity_ParseCanonical s = Inr q \<longleftrightarrow>
   s = quantity_FormatCanonical q \<and> 0 < scaled q \<and> scaled q < 10 ^ 16"
  using quantity_parse_sound quantity_parse_complete by auto

lemma quantity_format_inj:
  assumes "0 \<le> scaled a" "0 \<le> scaled b" "quantity_FormatCanonical a = quantity_FormatCanonical b"
  shows "a = b"
proof -
  have dots: "CHR ''.'' \<notin> set (quantity_FormatCanonical q) \<longleftrightarrow> scaled q mod 10000 = 0"
    if "0 \<le> scaled q" for q
    using that by (cases "scaled q mod 10000 = 0")
      (simp_all add: quantity_FormatCanonical_whole quantity_FormatCanonical_frac)
  have rb: "nat (scaled q mod 10000) < 10 ^ 4" for q by (simp add: nat_less_iff)
  have "nat (scaled a div 10000) = nat (scaled b div 10000) \<and> scaled a mod 10000 = scaled b mod 10000"
  proof (cases "scaled a mod 10000 = 0")
    case True
    then have "scaled b mod 10000 = 0" using dots assms by metis
    with True assms show ?thesis by (simp add: quantity_FormatCanonical_whole)
  next
    case False
    then have "scaled b mod 10000 \<noteq> 0" using dots assms by metis
    with False assms have "nat (scaled a div 10000) = nat (scaled b div 10000)"
      and "trim_right_char CHR ''0'' (pad_digits 4 (nat (scaled a mod 10000))) =
        trim_right_char CHR ''0'' (pad_digits 4 (nat (scaled b mod 10000)))"
      by (simp_all add: quantity_FormatCanonical_frac append_sep_inject)
    then have "pad_digits 4 (nat (scaled a mod 10000)) = pad_digits 4 (nat (scaled b mod 10000))"
      by (metis trim_right_restore length_pad_digits)
    then have "nat (scaled a mod 10000) = nat (scaled b mod 10000)"
      using rb by (metis digits_val_pad_digits)
    with \<open>nat (scaled a div 10000) = nat (scaled b div 10000)\<close> show ?thesis
      by (simp add: eq_nat_nat_iff)
  qed
  then have "scaled a div 10000 = scaled b div 10000" "scaled a mod 10000 = scaled b mod 10000"
    using assms(1,2) by (simp_all add: eq_nat_nat_iff pos_imp_zdiv_nonneg_iff)
  then have "scaled a = scaled b" by (metis div_mult_mod_eq)
  then show ?thesis by simp
qed

interpretation quantity: decimal_codec quantity_FormatCanonical "\<lambda>q. 0 \<le> scaled q"
    quantity_ParseCanonical "\<lambda>q. 0 < scaled q \<and> scaled q < 10 ^ 16"
  by unfold_locales (auto simp: quantity_parse_iff intro: quantity_format_inj)

section \<open>Properties\<close>

text \<open>
  C13: money strings: parsing accepts exactly the canonical strings of the amounts below 10^18
  centavos and reads back the amount that was printed, so no two strings mean the same amount.
  \<^verbatim>\<open>FromCents\<close> builds larger amounts too; the string of such an amount is refused.
\<close>

theorem money_codec:
  "(money_ParseCanonical s = Inr a \<longleftrightarrow> s = money_FormatCanonical a \<and> 0 \<le> cents a \<and> cents a < 10 ^ 18)
   \<and> money_FromCents (10 ^ 18) = Inr \<lparr>cents = 10 ^ 18\<rparr>
   \<and> (\<exists>e. money_ParseCanonical (money_FormatCanonical \<lparr>cents = 10 ^ 18\<rparr>) = Inl e)"
proof -
  have "\<exists>e. money_ParseCanonical (money_FormatCanonical \<lparr>cents = 10 ^ 18\<rparr>) = Inl e"
    by (rule money.parse_fmt_fails) simp_all
  then show ?thesis by (simp add: money_parse_iff money_FromCents_def)
qed

text \<open>
  Quantity strings: parsing accepts exactly the canonical strings (no trailing zeros, no
  leading zeros) of the positive quantities below 10^16 ten-thousandths, reads back what was
  printed, and never accepts zero.
\<close>

theorem quantity_codec:
  "quantity_ParseCanonical s = Inr q \<longleftrightarrow>
   s = quantity_FormatCanonical q \<and> 0 < scaled q \<and> scaled q < 10 ^ 16"
  by (rule quantity_parse_iff)

end
