(* ===== verification/Canonical.thy ===== *)
theory Canonical
  imports FixedPoint
begin

text \<open>
  The package \<^verbatim>\<open>internal/canonical\<close>: the versioned projection of a document that
  \<^verbatim>\<open>request_hash\<close> digests. The digest itself is the argument \<open>sha256\<close>; what is proved here
  is that the material that is hashed determines the document.
\<close>

section \<open>The projection\<close>

record canonical_line =
  ln_LineID :: string
  ln_Description :: string
  ln_Quantity :: qty
  ln_UnitPrice :: amount
  ln_TaxCode :: string

record document_intent =
  di_ScopeID :: string
  di_ExternalID :: string
  di_DocumentType :: string
  di_Currency :: string
  di_IssuedAtUTC :: string
  di_IssuedTimezone :: string
  di_IssuedOffsetMinutes :: int
  di_RequestedSeries :: string
  di_SellerTaxID :: string
  di_SellerName :: string
  di_CustomerTaxID :: string
  di_CustomerName :: string
  di_Lines :: "canonical_line list"

record projection =
  pj_SeriesCode :: string
  pj_Intent :: document_intent

definition VersionV1 :: string where
  "VersionV1 = ''canonical_v1''"

definition VersionV2 :: string where
  "VersionV2 = ''canonical_v2''"

text \<open>The builder is the string written so far.\<close>

definition writeLV :: "string \<Rightarrow> string \<Rightarrow> string" where
  "writeLV b s = b @ strconv_Itoa (int (length s)) @ '':'' @ s"

definition writeField :: "string \<Rightarrow> string \<Rightarrow> string \<Rightarrow> string" where
  "writeField b key val = writeLV (writeLV b key) val"

definition write_line :: "string \<Rightarrow> canonical_line \<Rightarrow> string" where
  "write_line b0 ln =
     (let b1 = writeField b0 ''line.line_id'' (ln_LineID ln);
          b2 = writeField b1 ''line.description'' (ln_Description ln);
          b3 = writeField b2 ''line.quantity'' (quantity_FormatCanonical (ln_Quantity ln));
          b4 = writeField b3 ''line.unit_price'' (money_FormatCanonical (ln_UnitPrice ln))
      in writeField b4 ''line.tax_code'' (ln_TaxCode ln))"

definition materialize :: "string \<Rightarrow> projection \<Rightarrow> bool \<Rightarrow> string" where
  "materialize version p withTemporal =
     (let it = pj_Intent p;
          b = version @ [CHR 0x0A];
          b = writeField b ''scope_id'' (di_ScopeID it);
          b = writeField b ''external_id'' (di_ExternalID it);
          b = writeField b ''document_type'' (di_DocumentType it);
          b = writeField b ''currency'' (di_Currency it);
          b = writeField b ''issued_at'' (di_IssuedAtUTC it);
          b = (if withTemporal
               then writeField (writeField b ''issued_timezone'' (di_IssuedTimezone it))
                      ''issued_offset_minutes'' (strconv_Itoa (di_IssuedOffsetMinutes it))
               else b);
          b = writeField b ''requested_series'' (di_RequestedSeries it);
          b = writeField b ''series_code'' (pj_SeriesCode p);
          b = writeField b ''seller_tax_id'' (di_SellerTaxID it);
          b = writeField b ''seller_name'' (di_SellerName it);
          b = writeField b ''customer_tax_id'' (di_CustomerTaxID it);
          b = writeField b ''customer_name'' (di_CustomerName it);
          b = writeField b ''lines_count'' (strconv_Itoa (int (length (di_Lines it))))
      in foldl write_line b (di_Lines it))"

definition MaterializeV1 :: "projection \<Rightarrow> string" where
  "MaterializeV1 p = materialize VersionV1 p False"

definition MaterializeV2 :: "projection \<Rightarrow> string" where
  "MaterializeV2 p = materialize VersionV2 p True"

definition Materialize :: "projection \<Rightarrow> string" where
  "Materialize p = MaterializeV2 p"

definition RequestHashV1 :: "(string \<Rightarrow> string) \<Rightarrow> projection \<Rightarrow> string" where
  "RequestHashV1 sha256 p = sha256 (MaterializeV1 p)"

definition RequestHashV2 :: "(string \<Rightarrow> string) \<Rightarrow> projection \<Rightarrow> string" where
  "RequestHashV2 sha256 p = sha256 (MaterializeV2 p)"

definition RequestHash :: "(string \<Rightarrow> string) \<Rightarrow> projection \<Rightarrow> string" where
  "RequestHash sha256 p = RequestHashV2 sha256 p"

section \<open>The material is a list of length-prefixed records\<close>

definition lv :: "string \<Rightarrow> string" where
  "lv s = nat_digits (length s) @ CHR '':'' # s"

definition line_fields :: "canonical_line \<Rightarrow> string list" where
  "line_fields ln =
     [''line.line_id'', ln_LineID ln, ''line.description'', ln_Description ln,
      ''line.quantity'', quantity_FormatCanonical (ln_Quantity ln),
      ''line.unit_price'', money_FormatCanonical (ln_UnitPrice ln),
      ''line.tax_code'', ln_TaxCode ln]"

definition header_fields :: "projection \<Rightarrow> bool \<Rightarrow> string list" where
  "header_fields p withTemporal =
     (let it = pj_Intent p in
      [''scope_id'', di_ScopeID it, ''external_id'', di_ExternalID it,
       ''document_type'', di_DocumentType it, ''currency'', di_Currency it,
       ''issued_at'', di_IssuedAtUTC it] @
      (if withTemporal
       then [''issued_timezone'', di_IssuedTimezone it,
             ''issued_offset_minutes'', strconv_Itoa (di_IssuedOffsetMinutes it)]
       else []) @
      [''requested_series'', di_RequestedSeries it, ''series_code'', pj_SeriesCode p,
       ''seller_tax_id'', di_SellerTaxID it, ''seller_name'', di_SellerName it,
       ''customer_tax_id'', di_CustomerTaxID it, ''customer_name'', di_CustomerName it,
       ''lines_count'', strconv_Itoa (int (length (di_Lines it)))])"

lemma writeLV_lv: "writeLV b s = b @ lv s"
  by (simp add: writeLV_def lv_def Itoa_nat)

lemma writeField_lv: "writeField b k v = b @ lv k @ lv v"
  by (simp add: writeField_def writeLV_lv)

lemma write_line_lv: "write_line b ln = b @ concat (map lv (line_fields ln))"
  by (simp add: write_line_def line_fields_def writeField_lv Let_def)

lemma write_lines_lv:
  "foldl write_line b lns = b @ concat (map lv (concat (map line_fields lns)))"
  by (induction lns arbitrary: b) (simp_all add: write_line_lv)

lemma materialize_lv:
  "materialize version p w =
   version @ CHR 0x0A # concat (map lv (header_fields p w @ concat (map line_fields (di_Lines (pj_Intent p)))))"
  by (cases w) (simp_all add: materialize_def header_fields_def Let_def write_lines_lv writeField_lv)

section \<open>Unique decoding\<close>

lemma colon_fresh [simp]: "CHR '':'' \<notin> set (nat_digits n)"
  using nat_digits_are_digits by (fastforce simp: is_digit_def)

lemma lv_append_inject: "lv a @ r = lv b @ r' \<longleftrightarrow> a = b \<and> r = r'"
  by (auto simp: lv_def append_sep_inject)

lemma lv_not_Nil [simp]: "lv a \<noteq> []"
  by (simp add: lv_def)

lemma lv_concat_inject: "concat (map lv xs) = concat (map lv ys) \<longleftrightarrow> xs = ys"
proof (induction xs arbitrary: ys)
  case Nil
  show ?case by (cases ys) simp_all
next
  case (Cons x xs)
  then show ?case by (cases ys) (simp_all add: lv_append_inject)
qed

lemma concat_map_inject:
  assumes "\<And>x. x \<in> set xs \<union> set ys \<Longrightarrow> length (f x) = Suc n" "inj_on f (set xs \<union> set ys)"
    "concat (map f xs) = concat (map f ys)"
  shows "xs = ys"
  using assms
proof (induction xs arbitrary: ys)
  case Nil
  then show ?case by (cases ys) fastforce+
next
  case (Cons x xs)
  from Cons.prems(1,3) obtain y ys' where ys: "ys = y # ys'"
    by (cases ys) fastforce+
  have "length (f x) = length (f y)" using Cons.prems(1) ys by simp
  then have fxy: "f x = f y" and "concat (map f xs) = concat (map f ys')"
    using Cons.prems(3) ys by simp_all
  moreover have "inj_on f (set xs \<union> set ys')"
    using Cons.prems(2) ys by (auto simp: inj_on_def)
  moreover have "x = y"
    using inj_onD [OF Cons.prems(2) fxy] ys by simp
  moreover have "xs = ys'"
    by (rule Cons.IH) (use Cons.prems(1) ys calculation in auto)
  ultimately show ?case using ys by simp
qed

text \<open>Values the constructors \<^verbatim>\<open>FromCents\<close>, \<^verbatim>\<open>FromScaled\<close> and the parsers can build.\<close>

definition line_values_ok :: "canonical_line \<Rightarrow> bool" where
  "line_values_ok ln \<longleftrightarrow> 0 \<le> scaled (ln_Quantity ln) \<and> 0 \<le> cents (ln_UnitPrice ln)"

definition projection_ok :: "projection \<Rightarrow> bool" where
  "projection_ok p \<longleftrightarrow> list_all line_values_ok (di_Lines (pj_Intent p))"

lemma line_fields_inj:
  "line_values_ok a \<Longrightarrow> line_values_ok b \<Longrightarrow> line_fields a = line_fields b \<Longrightarrow> a = b"
  by (simp add: line_fields_def line_values_ok_def quantity.fmt_eq_iff money.fmt_eq_iff)

lemma lines_inject:
  assumes "list_all line_values_ok xs" "list_all line_values_ok ys"
    "concat (map line_fields xs) = concat (map line_fields ys)"
  shows "xs = ys"
proof (rule concat_map_inject [OF _ _ assms(3)])
  show "length (line_fields x) = Suc 9" for x by (simp add: line_fields_def)
  show "inj_on line_fields (set xs \<union> set ys)"
    using assms(1,2) by (auto simp: inj_on_def list_all_iff intro: line_fields_inj)
qed

lemma Itoa_inject: "strconv_Itoa i = strconv_Itoa j \<longleftrightarrow> i = j"
proof
  have minus: "hd (nat_digits n) \<noteq> CHR ''-''" "nat_digits n \<noteq> CHR ''-'' # x" for n x
    using nat_digits_are_digits [of "hd (nat_digits n)" n] hd_in_set [OF nat_digits_nonempty, of n]
    by (auto simp: is_digit_def)
  assume "strconv_Itoa i = strconv_Itoa j"
  then show "i = j"
    using minus by (auto simp: strconv_Itoa_def eq_nat_nat_iff split: if_splits)
      (metis minus(2))+
qed simp

lemma LF_fresh_versions: "CHR 0x0A \<notin> set VersionV1" "CHR 0x0A \<notin> set VersionV2"
  by (simp_all add: VersionV1_def VersionV2_def)

text \<open>Which fields of a projection the material of either version determines.\<close>

definition same_but_time :: "projection \<Rightarrow> projection \<Rightarrow> bool" where
  "same_but_time p q \<longleftrightarrow>
     q\<lparr>pj_Intent := (pj_Intent q)\<lparr>di_IssuedTimezone := di_IssuedTimezone (pj_Intent p),
        di_IssuedOffsetMinutes := di_IssuedOffsetMinutes (pj_Intent p)\<rparr>\<rparr> = p"

lemma materialize_inject:
  assumes "projection_ok p" "projection_ok q" "CHR 0x0A \<notin> set v"
    "materialize v p w = materialize v q w"
  shows "same_but_time p q" "w \<Longrightarrow> p = q"
proof -
  let ?ls = "\<lambda>p. di_Lines (pj_Intent p)"
  have "header_fields p w @ concat (map line_fields (?ls p)) =
      header_fields q w @ concat (map line_fields (?ls q))"
    using assms(3,4) by (simp only: materialize_lv append_same_eq same_append_eq list.inject
        lv_concat_inject simp_thms)
  moreover have "length (header_fields p w) = length (header_fields q w)"
    by (simp add: header_fields_def Let_def)
  ultimately have h: "header_fields p w = header_fields q w"
    and l: "concat (map line_fields (?ls p)) = concat (map line_fields (?ls q))"
    by simp_all
  have ls: "?ls p = ?ls q"
    using assms(1,2) l by (intro lines_inject) (simp_all add: projection_ok_def)
  show "same_but_time p q" using h ls
    by (cases w) (simp_all add: header_fields_def Let_def same_but_time_def)
  show "p = q" if w
    using h ls that by (simp add: header_fields_def Let_def Itoa_inject)
qed

text \<open>
  C7: the active material is injective: two documents (with amounts and quantities that the
  constructors can build) have the same \<^verbatim>\<open>canonical_v2\<close> bytes only if every field, the
  effective series and every line agree. So two requests share a \<^verbatim>\<open>request_hash\<close> only if
  they are the same document or SHA-256 collides on them.
\<close>

theorem MaterializeV2_injective:
  assumes "projection_ok p" "projection_ok q"
  shows "MaterializeV2 p = MaterializeV2 q \<longleftrightarrow> p = q"
  using materialize_inject(2) [OF assms LF_fresh_versions(2)] by (auto simp: MaterializeV2_def)

definition sample_intent :: document_intent where
  "sample_intent =
     \<lparr>di_ScopeID = ''s1'', di_ExternalID = ''e1'', di_DocumentType = ''invoice'', di_Currency = ''AOA'',
      di_IssuedAtUTC = ''2026-07-21T09:00:00.000000Z'', di_IssuedTimezone = ''Africa/Luanda'',
      di_IssuedOffsetMinutes = 60, di_RequestedSeries = '''', di_SellerTaxID = ''500'',
      di_SellerName = ''S'', di_CustomerTaxID = '''', di_CustomerName = '''',
      di_Lines = [\<lparr>ln_LineID = ''1'', ln_Description = ''d'', ln_Quantity = \<lparr>scaled = 10000\<rparr>,
        ln_UnitPrice = \<lparr>cents = 150\<rparr>, ln_TaxCode = ''NOR''\<rparr>]\<rparr>"

definition sample_projection :: projection where
  "sample_projection = \<lparr>pj_SeriesCode = ''A'', pj_Intent = sample_intent\<rparr>"

theorem MaterializeV2_injective_witness:
  "MaterializeV2 sample_projection \<noteq> MaterializeV2 (sample_projection\<lparr>pj_SeriesCode := ''B''\<rparr>)"
proof -
  have ok: "projection_ok sample_projection" "projection_ok (sample_projection\<lparr>pj_SeriesCode := ''B''\<rparr>)"
    by (simp_all add: projection_ok_def sample_projection_def sample_intent_def line_values_ok_def)
  have "sample_projection \<noteq> sample_projection\<lparr>pj_SeriesCode := ''B''\<rparr>"
    by (simp add: sample_projection_def)
  then show ?thesis using MaterializeV2_injective [OF ok] by simp
qed

text \<open>
  The frozen \<^verbatim>\<open>canonical_v1\<close> material determines everything but the fiscal time
  zone and offset, which it ignores, and no document's v1 material equals any document's v2
  material, so hashes of the two versions never meet by construction.
\<close>

theorem MaterializeV1_characterised:
  assumes "projection_ok p" "projection_ok q"
  shows "(MaterializeV1 p = MaterializeV1 q \<longleftrightarrow> same_but_time p q) \<and> MaterializeV1 p \<noteq> MaterializeV2 r"
proof
  show "MaterializeV1 p = MaterializeV1 q \<longleftrightarrow> same_but_time p q"
  proof
    assume "MaterializeV1 p = MaterializeV1 q"
    then show "same_but_time p q"
      using materialize_inject(1) [OF assms LF_fresh_versions(1)] by (simp add: MaterializeV1_def)
  next
    assume "same_but_time p q"
    then obtain tz off where
      p: "p = q\<lparr>pj_Intent := (pj_Intent q)\<lparr>di_IssuedTimezone := tz, di_IssuedOffsetMinutes := off\<rparr>\<rparr>"
      unfolding same_but_time_def by metis
    have "header_fields p False = header_fields q False" "di_Lines (pj_Intent p) = di_Lines (pj_Intent q)"
      unfolding p by (simp_all add: header_fields_def Let_def)
    then show "MaterializeV1 p = MaterializeV1 q"
      by (simp add: MaterializeV1_def materialize_lv)
  qed
  have "VersionV1 \<noteq> VersionV2" by (simp add: VersionV1_def VersionV2_def)
  then show "MaterializeV1 p \<noteq> MaterializeV2 r"
    using append_sep_inject [OF LF_fresh_versions]
    by (simp add: MaterializeV1_def MaterializeV2_def materialize_lv)
qed

theorem MaterializeV1_characterised_witness:
  "MaterializeV1 sample_projection =
     MaterializeV1 (sample_projection\<lparr>pj_Intent := sample_intent\<lparr>di_IssuedOffsetMinutes := 0\<rparr>\<rparr>)
   \<and> MaterializeV1 sample_projection \<noteq> MaterializeV2 sample_projection"
proof -
  let ?q = "sample_projection\<lparr>pj_Intent := sample_intent\<lparr>di_IssuedOffsetMinutes := 0\<rparr>\<rparr>"
  have ok: "projection_ok sample_projection" "projection_ok ?q"
    by (simp_all add: projection_ok_def sample_projection_def sample_intent_def line_values_ok_def)
  have "same_but_time sample_projection ?q"
    by (simp add: same_but_time_def sample_projection_def sample_intent_def)
  with MaterializeV1_characterised [OF ok, of sample_projection] show ?thesis by blast
qed

end
