(* ===== verification/GoTime.thy ===== *)
theory GoTime
  imports FiscalPrelude
begin

text \<open>
  What the source uses of Go's package \<^verbatim>\<open>time\<close>: an instant is the number of nanoseconds since
  1970-01-01T00:00:00Z, \<^verbatim>\<open>Truncate(time.Microsecond)\<close>, the proleptic Gregorian calendar, and
  the layouts the module formats and parses. Time zones come from the embedded IANA database,
  which is not in the repository: \<open>tzdb\<close> is a parameter of the definitions that load one.
\<close>

section \<open>Instants\<close>

type_synonym gotime = int

text \<open>\<^verbatim>\<open>time.LoadLocation\<close>: unknown names fail; a location gives the offset in seconds east of UTC at an instant.\<close>

type_synonym tzdb = "string \<Rightarrow> (gotime \<Rightarrow> int) option"

definition second :: int where
  "second = 1000000000"

definition trunc_us :: "gotime \<Rightarrow> gotime" where
  "trunc_us t = t - t mod 1000"

lemma trunc_us_le: "trunc_us t \<le> t"
  by (simp add: trunc_us_def)

lemma trunc_us_mod [simp]: "trunc_us t mod 1000 = 0"
  by (simp add: trunc_us_def mod_diff_left_eq [symmetric] mod_diff_eq)

lemma trunc_us_idem [simp]: "trunc_us (trunc_us t) = trunc_us t"
  by (simp add: trunc_us_def [of "trunc_us t"])

lemma trunc_us_second: "trunc_us t div second = t div second"
proof -
  have "trunc_us t = (t div 1000) * 1000"
    by (simp add: trunc_us_def minus_mod_eq_div_mult)
  then have "trunc_us t div (1000 * 1000000) = (t div 1000) div 1000000"
    by (simp add: zdiv_zmult2_eq)
  also have "\<dots> = t div (1000 * 1000000)" by (simp add: zdiv_zmult2_eq)
  finally show ?thesis by (simp add: second_def)
qed

section \<open>Calendar\<close>

definition is_leap :: "int \<Rightarrow> bool" where
  "is_leap y \<longleftrightarrow> y mod 4 = 0 \<and> (y mod 100 \<noteq> 0 \<or> y mod 400 = 0)"

definition days_in_month :: "int \<Rightarrow> int \<Rightarrow> int" where
  "days_in_month y m =
     (if m = 2 then (if is_leap y then 29 else 28)
      else if m = 4 \<or> m = 6 \<or> m = 9 \<or> m = 11 then 30 else 31)"

text \<open>Days of the year before the first of month \<open>m\<close>.\<close>

definition days_before_month :: "bool \<Rightarrow> int \<Rightarrow> int" where
  "days_before_month leap m =
     (if m \<le> 1 then 0 else if m = 2 then 31
      else (if leap then 1 else 0) +
        (if m = 3 then 59 else if m = 4 then 90 else if m = 5 then 120 else if m = 6 then 151
         else if m = 7 then 181 else if m = 8 then 212 else if m = 9 then 243
         else if m = 10 then 273 else if m = 11 then 304 else 334))"

text \<open>Days from 0001-01-01 to the first of January of year \<open>y\<close>, and to a date.\<close>

definition days_before_year :: "int \<Rightarrow> int" where
  "days_before_year y =
     (let r = (y - 1) mod 400
      in 146097 * ((y - 1) div 400) + 36524 * (r div 100) + 1461 * (r mod 100 div 4) + 365 * (r mod 100 mod 4))"

definition days_of_civil :: "int \<Rightarrow> int \<Rightarrow> int \<Rightarrow> int" where
  "days_of_civil y m d = days_before_year y + days_before_month (is_leap y) m + (d - 1)"

definition valid_date :: "int \<Rightarrow> int \<Rightarrow> int \<Rightarrow> bool" where
  "valid_date y m d \<longleftrightarrow> 1 \<le> m \<and> m \<le> 12 \<and> 1 \<le> d \<and> d \<le> days_in_month y m"

text \<open>The 400, 100, 4 and 1 year cycles cut off in turn; the last day of a long cycle stays in it.\<close>

definition year_of_days :: "int \<Rightarrow> int \<times> int" where
  "year_of_days n =
     (let q400 = n div 146097; d = n mod 146097;
          q100 = (let q = d div 36524 in q - q div 4); d = d - 36524 * q100;
          q4 = d div 1461; d = d - 1461 * q4;
          q1 = (let q = d div 365 in q - q div 4); d = d - 365 * q1
      in (400 * q400 + 100 * q100 + 4 * q4 + q1 + 1, d))"

definition month_of_yday :: "bool \<Rightarrow> int \<Rightarrow> int" where
  "month_of_yday leap yd =
     (case find (\<lambda>m. days_before_month leap m \<le> yd) [12, 11, 10, 9, 8, 7, 6, 5, 4, 3, 2] of
        Some m \<Rightarrow> m | None \<Rightarrow> 1)"

definition civil_of_days :: "int \<Rightarrow> int \<times> int \<times> int" where
  "civil_of_days n =
     (let (y, yd) = year_of_days n; m = month_of_yday (is_leap y) yd
      in (y, m, yd - days_before_month (is_leap y) m + 1))"

definition year_length :: "int \<Rightarrow> int" where
  "year_length y = (if is_leap y then 366 else 365)"

lemma year_of_days_cycles:
  fixes a b c e :: int
  assumes "0 \<le> a" "a \<le> 3" "0 \<le> b" "b \<le> 24" "0 \<le> c" "c \<le> 3" "0 \<le> e"
    "e \<le> (if c = 3 \<and> (b \<noteq> 24 \<or> a = 3) then 365 else 364)"
  shows "year_of_days (146097 * q + 36524 * a + 1461 * b + 365 * c + e) =
    (400 * q + 100 * a + 4 * b + c + 1, e)"
proof -
  let ?d = "36524 * a + 1461 * b + 365 * c + e"
  have e365: "e \<le> 365" using assms(8) by (simp split: if_splits)
  have "0 \<le> ?d" "?d < 146097" using assms e365 by (auto split: if_splits)
  then have h: "(146097 * q + 36524 * a + 1461 * b + 365 * c + e) div 146097 = q"
    "(146097 * q + 36524 * a + 1461 * b + 365 * c + e) mod 146097 = ?d"
    using div_mult_self4 [of "146097::int" "?d" q] mod_mult_self4 [of "146097::int" q "?d"]
    by (simp_all add: algebra_simps)
  have c4: "365 * c + e < 1461" "0 \<le> 365 * c + e" using assms e365 by (auto split: if_splits)
  have "?d div 36524 - ?d div 36524 div 4 = a"
  proof (cases "a = 3 \<and> b = 24 \<and> c = 3 \<and> e = 365")
    case True
    then show ?thesis by simp
  next
    case False
    have "1461 * b + 365 * c + e < 36524"
      using assms c4 False by (cases "b = 24"; cases "c = 3"; auto split: if_splits)
    then have "?d div 36524 = a"
      using assms c4 by (intro int_div_pos_eq [where r = "1461 * b + 365 * c + e"]) auto
    moreover have "a div 4 = 0" using assms by simp
    ultimately show ?thesis by simp
  qed
  note d100 = this
  have d4: "(1461 * b + 365 * c + e) div 1461 = b"
    using c4 by (intro int_div_pos_eq [where r = "365 * c + e"]) auto
  have d1: "(365 * c + e) div 365 - (365 * c + e) div 365 div 4 = c"
  proof (cases "c = 3 \<and> e = 365")
    case True
    then show ?thesis by simp
  next
    case False
    then have "e < 365" using assms by (auto split: if_splits)
    then have "(365 * c + e) div 365 = c"
      using assms by (intro int_div_pos_eq [where r = e]) auto
    moreover have "c div 4 = 0" using assms by simp
    ultimately show ?thesis by simp
  qed
  have s: "?d - 36524 * a = 1461 * b + 365 * c + e" "1461 * b + 365 * c + e - 1461 * b = 365 * c + e"
    "365 * c + e - 365 * c = e"
    by simp_all
  show ?thesis
    unfolding year_of_days_def Let_def h d100 s d4 d1 by simp
qed

lemma leap_cycles:
  fixes a b c :: int
  assumes "0 \<le> a" "a \<le> 3" "0 \<le> b" "b \<le> 24" "0 \<le> c" "c \<le> 3"
  shows "is_leap (400 * q + 100 * a + 4 * b + c + 1) \<longleftrightarrow> c = 3 \<and> (b \<noteq> 24 \<or> a = 3)"
proof -
  let ?y = "400 * q + 100 * a + 4 * b + c + 1"
  have m4: "?y mod 4 = (c + 1) mod 4"
    using mod_mult_self4 [of "4::int" "100 * q + 25 * a + b" "c + 1"] by (simp add: algebra_simps)
  have m100: "?y mod 100 = (4 * b + c + 1) mod 100"
    using mod_mult_self4 [of "100::int" "4 * q + a" "4 * b + c + 1"] by (simp add: algebra_simps)
  have m400: "?y mod 400 = (100 * a + 4 * b + c + 1) mod 400"
    using mod_mult_self4 [of "400::int" q "100 * a + 4 * b + c + 1"] by (simp add: algebra_simps)
  have small: "(k * x + k) mod (k * n) = 0 \<longleftrightarrow> x = n - 1" if "0 \<le> x" "x \<le> n - 1" "0 < k" for k x n :: int
  proof (cases "x = n - 1")
    case True
    then have "k * x + k = k * n" by (simp only: right_diff_distrib mult_1_right diff_add_cancel)
    then show ?thesis using True by simp
  next
    case False
    then have "k * (x + 1) < k * n" "0 < k * (x + 1)" using that by simp_all
    then show ?thesis using False by (simp add: algebra_simps)
  qed
  have c4: "(c + 1) mod 4 = 0 \<longleftrightarrow> c = 3" using small [of c 4 1] assms by simp
  have b100: "(4 + 4 * b) mod 100 = 0 \<longleftrightarrow> b = 24" using small [of b 25 4] assms by (simp add: add.commute)
  have a400: "(100 + 100 * a) mod 400 = 0 \<longleftrightarrow> a = 3" using small [of a 4 100] assms by (simp add: add.commute)
  show ?thesis
    unfolding is_leap_def m4 m100 m400 c4
    using b100 a400 by (cases "c = 3"; cases "b = 24"; simp)
qed

lemma below_year: "(e::int) < (if P then 366 else 365) \<Longrightarrow> e \<le> (if P then 365 else 364)"
  by (simp split: if_splits)

text \<open>The position of a year in the 400, 100, 4 and 1 year cycles.\<close>

lemma year_cycles:
  obtains q a b c where "0 \<le> a" "a \<le> 3" "0 \<le> b" "b \<le> 24" "0 \<le> c" "c \<le> 3"
    "400 * q + 100 * a + 4 * b + c + 1 = y"
    "days_before_year y = 146097 * q + 36524 * a + 1461 * b + 365 * c"
proof -
  define q r where "q = (y - 1) div 400" and "r = (y - 1) mod 400"
  define a s where "a = r div 100" and "s = r mod 100"
  define b c where "b = s div 4" and "c = s mod 4"
  have r: "0 \<le> r" "r < 400" "400 * q + r = y - 1"
    using mult_div_mod_eq [of 400 "y - 1"] by (simp_all add: q_def r_def)
  have s: "0 \<le> s" "s < 100" "100 * a + s = r"
    using mult_div_mod_eq [of 100 r] by (simp_all add: a_def s_def)
  have c: "0 \<le> c" "c < 4" "4 * b + c = s"
    using mult_div_mod_eq [of 4 s] by (simp_all add: b_def c_def)
  have d: "days_before_year y = 146097 * q + 36524 * a + 1461 * b + 365 * c"
    unfolding days_before_year_def Let_def q_def r_def a_def s_def b_def c_def ..
  show ?thesis
    by (rule that [of a b c q]) (use r s c d in linarith)+
qed

lemma year_of_days_before_year:
  assumes "0 \<le> e" "e < year_length y"
  shows "year_of_days (days_before_year y + e) = (y, e)"
proof -
  obtain q a b c where a: "0 \<le> a" "a \<le> 3" and b: "0 \<le> b" "b \<le> 24" and c: "0 \<le> c" "c \<le> 3"
    and y: "400 * q + 100 * a + 4 * b + c + 1 = y"
    and d: "days_before_year y = 146097 * q + 36524 * a + 1461 * b + 365 * c"
    by (rule year_cycles)
  have leap: "is_leap y \<longleftrightarrow> c = 3 \<and> (b \<noteq> 24 \<or> a = 3)"
    using leap_cycles [OF a b c, of q] unfolding y .
  have "e < (if c = 3 \<and> (b \<noteq> 24 \<or> a = 3) then 366 else 365)"
    using assms(2) unfolding year_length_def leap .
  then have "e \<le> (if c = 3 \<and> (b \<noteq> 24 \<or> a = 3) then 365 else 364)"
    by (rule below_year)
  from year_of_days_cycles [OF a b c assms(1) this, of q]
  show ?thesis unfolding d y .
qed

lemma months: "1 \<le> m \<Longrightarrow> m \<le> 12 \<Longrightarrow> m \<in> {1, 2, 3, 4, 5, 6, 7, 8, 9, 10, 11, 12 :: int}"
  unfolding insert_iff empty_iff by presburger

lemma month_of_yday_before:
  assumes "valid_date y m d"
  shows "month_of_yday (is_leap y) (days_before_month (is_leap y) m + (d - 1)) = m"
    "0 \<le> days_before_month (is_leap y) m + (d - 1)"
    "days_before_month (is_leap y) m + (d - 1) < year_length y"
proof -
  have m: "m \<in> {1, 2, 3, 4, 5, 6, 7, 8, 9, 10, 11, 12}" and d: "1 \<le> d" "d \<le> days_in_month y m"
    using assms months [of m] by (simp_all add: valid_date_def)
  show "month_of_yday (is_leap y) (days_before_month (is_leap y) m + (d - 1)) = m"
    using m d unfolding month_of_yday_def days_before_month_def days_in_month_def
    by (cases "is_leap y"; elim insertE emptyE; simp)
  show "0 \<le> days_before_month (is_leap y) m + (d - 1)"
    using d by (simp add: days_before_month_def)
  show "days_before_month (is_leap y) m + (d - 1) < year_length y"
    using m d unfolding year_length_def days_before_month_def days_in_month_def
    by (cases "is_leap y"; elim insertE emptyE; simp)
qed

lemma civil_of_days_of_civil:
  assumes "valid_date y m d"
  shows "civil_of_days (days_of_civil y m d) = (y, m, d)"
proof -
  let ?e = "days_before_month (is_leap y) m + (d - 1)"
  have "year_of_days (days_before_year y + ?e) = (y, ?e)"
    using month_of_yday_before(2,3) [OF assms] by (rule year_of_days_before_year)
  moreover have "days_of_civil y m d = days_before_year y + ?e" by (simp add: days_of_civil_def)
  ultimately show ?thesis
    using month_of_yday_before(1) [OF assms] by (simp add: civil_of_days_def)
qed

text \<open>The other direction: every day number is the day of a valid date.\<close>

lemma days_before_year_cycles:
  fixes a b c :: int
  assumes "0 \<le> a" "a \<le> 3" "0 \<le> b" "b \<le> 24" "0 \<le> c" "c \<le> 3"
  shows "days_before_year (400 * q + 100 * a + 4 * b + c + 1) = 146097 * q + 36524 * a + 1461 * b + 365 * c"
proof -
  let ?s = "4 * b + c"
  have s: "0 \<le> ?s" "?s < 100" using assms by linarith+
  have r: "0 \<le> 100 * a + ?s" "100 * a + ?s < 400" using assms s by linarith+
  have y: "400 * q + 100 * a + 4 * b + c + 1 - 1 = 400 * q + (100 * a + ?s)" by simp
  have q: "(400 * q + (100 * a + ?s)) div 400 = q" "(400 * q + (100 * a + ?s)) mod 400 = 100 * a + ?s"
    using r by (intro int_div_pos_eq [where r = "100 * a + ?s"] int_mod_pos_eq [where q = q]; simp)+
  have a: "(100 * a + ?s) div 100 = a" "(100 * a + ?s) mod 100 = ?s"
    using s by (intro int_div_pos_eq [where r = ?s] int_mod_pos_eq [where q = a]; simp)+
  have b: "?s div 4 = b" "?s mod 4 = c"
    using assms by (intro int_div_pos_eq [where r = c] int_mod_pos_eq [where q = b]; simp)+
  show ?thesis unfolding days_before_year_def Let_def y q a b ..
qed

lemma capped_quotient:
  fixes n k m :: int
  assumes "0 < k" "0 \<le> n" "n \<le> k * (m + 1)" "0 \<le> m"
  obtains c e where "0 \<le> c" "c \<le> m" "n = k * c + e" "0 \<le> e" "e < k \<or> c = m \<and> e = k"
proof (cases "n = k * (m + 1)")
  case True
  then show ?thesis by (intro that [of m k]) (use assms in \<open>simp_all add: algebra_simps\<close>)
next
  case False
  then have "n < k * (m + 1)" using assms(3) by simp
  then have "k * (n div k) < k * (m + 1)"
    using mult_div_mod_eq [of k n] pos_mod_sign [OF assms(1), of n] by linarith
  then have "n div k < m + 1" using assms(1) by (simp only: mult_less_cancel_left_pos)
  then show ?thesis
    by (intro that [of "n div k" "n mod k"]) (use assms in \<open>simp_all add: pos_imp_zdiv_nonneg_iff\<close>)
qed

lemma year_exists:
  obtains y e where "n = days_before_year y + e" "0 \<le> e" "e < year_length y"
proof -
  define q r where "q = n div 146097" and "r = n mod 146097"
  have n: "n = 146097 * q + r" and r: "0 \<le> r" "r \<le> 36524 * (3 + 1)"
    using mult_div_mod_eq [of 146097 n] pos_mod_bound [of 146097 n] by (simp_all add: q_def r_def)
  obtain a d where a: "0 \<le> a" "a \<le> 3" and rd: "r = 36524 * a + d" "0 \<le> d"
    and da: "d < 36524 \<or> a = 3 \<and> d = 36524"
    by (rule capped_quotient [of 36524 r 3]) (use r in simp_all)
  have "d \<le> 1461 * (24 + 1)" using da by auto
  then obtain b f where b: "0 \<le> b" "b \<le> 24" and df: "d = 1461 * b + f" "0 \<le> f"
    and fb: "f < 1461 \<or> b = 24 \<and> f = 1461"
    by (rule capped_quotient [of 1461 d 24, rotated 2]) (use rd in simp_all)
  have "f < 1461" using fb df da by auto
  then have "f \<le> 365 * (3 + 1)" by presburger
  then obtain c e where c: "0 \<le> c" "c \<le> 3" and fe: "f = 365 * c + e" "0 \<le> e"
    and ec: "e < 365 \<or> c = 3 \<and> e = 365"
    by (rule capped_quotient [of 365 f 3, rotated 2]) (use df in simp_all)
  let ?y = "400 * q + 100 * a + 4 * b + c + 1"
  have "c = 3 \<and> e = 365 \<and> b = 24 \<longrightarrow> a = 3" using da df fe by linarith
  then have "e < year_length ?y"
    using ec by (simp only: year_length_def leap_cycles [OF a b c]) (auto split: if_splits)
  moreover have "n = days_before_year ?y + e"
    unfolding days_before_year_cycles [OF a b c] using n rd df fe by linarith
  ultimately show ?thesis using fe by (intro that)
qed

lemma month_exists:
  assumes "0 \<le> e" "e < year_length y"
  obtains m d where "valid_date y m d" "e = days_before_month (is_leap y) m + (d - 1)"
proof -
  let ?ms = "[12, 11, 10, 9, 8, 7, 6, 5, 4, 3, 2]"
  let ?m = "month_of_yday (is_leap y) e"
  have "valid_date y ?m (e - days_before_month (is_leap y) ?m + 1)"
    using assms by (cases "is_leap y")
      (auto simp: valid_date_def month_of_yday_def days_before_month_def days_in_month_def year_length_def)
  then show ?thesis by (rule that) simp
qed

lemma days_of_civil_of_days:
  assumes "civil_of_days n = (y, m, d)"
  shows "valid_date y m d" "days_of_civil y m d = n"
proof -
  obtain y' e where n: "n = days_before_year y' + e" "0 \<le> e" "e < year_length y'" by (rule year_exists)
  obtain m' d' where v: "valid_date y' m' d'" "e = days_before_month (is_leap y') m' + (d' - 1)"
    by (rule month_exists [OF n(2,3)])
  then have "n = days_of_civil y' m' d'" using n by (simp add: days_of_civil_def)
  with civil_of_days_of_civil [OF v(1)] assms v(1)
  show "valid_date y m d" "days_of_civil y m d = n" by simp_all
qed

end
