(* ===== verification/TimeLayout.thy ===== *)
theory TimeLayout
  imports GoTime FixedPoint
begin

text \<open>
  The layouts of package \<^verbatim>\<open>time\<close> that the module formats and parses:
  \<^verbatim>\<open>2006-01-02T15:04:05.000000Z\<close> (six fixed digits, UTC) and
  \<^verbatim>\<open>time.RFC3339Nano\<close>. Parsing keeps the leniency of \<^verbatim>\<open>time.Parse\<close>:
  a one-digit hour, a comma for the fraction's point, a sign inside a fixed-width fraction,
  offsets up to 24:60.
\<close>

section \<open>Civil time of an instant\<close>

record civil =
  cv_year :: int
  cv_month :: int
  cv_day :: int
  cv_hour :: int
  cv_min :: int
  cv_sec :: int
  cv_nano :: int

definition epoch_days :: int where
  "epoch_days = 719162"

definition civil_of_time :: "gotime \<Rightarrow> civil" where
  "civil_of_time t =
     (let s = t div second; sod = s mod 86400; (y, m, d) = civil_of_days (s div 86400 + epoch_days)
      in \<lparr>cv_year = y, cv_month = m, cv_day = d, cv_hour = sod div 3600, cv_min = sod mod 3600 div 60,
          cv_sec = sod mod 60, cv_nano = t mod second\<rparr>)"

text \<open>\<^verbatim>\<open>time.Date(...)\<close> in UTC, for fields in range.\<close>

definition time_of_civil :: "civil \<Rightarrow> gotime" where
  "time_of_civil c =
     ((days_of_civil (cv_year c) (cv_month c) (cv_day c) - epoch_days) * 86400
       + cv_hour c * 3600 + cv_min c * 60 + cv_sec c) * second + cv_nano c"

definition civil_ok :: "civil \<Rightarrow> bool" where
  "civil_ok c \<longleftrightarrow> valid_date (cv_year c) (cv_month c) (cv_day c)
     \<and> 0 \<le> cv_hour c \<and> cv_hour c < 24 \<and> 0 \<le> cv_min c \<and> cv_min c < 60
     \<and> 0 \<le> cv_sec c \<and> cv_sec c < 60 \<and> 0 \<le> cv_nano c \<and> cv_nano c < second"

lemma second_pos [simp]: "0 < second" "second \<noteq> 0"
  by (simp_all add: second_def)

lemma civil_of_time_ok: "civil_ok (civil_of_time t)"
proof -
  obtain y m d where c: "civil_of_days (t div second div 86400 + epoch_days) = (y, m, d)"
    by (metis prod_cases3)
  have b: "0 \<le> t div second mod 86400" "t div second mod 86400 < 86400" by simp_all
  have h: "0 \<le> s div 3600 \<and> s div 3600 < 24 \<and> 0 \<le> s mod 3600 div 60 \<and> s mod 3600 div 60 < 60"
    if "0 \<le> s" "s < 86400" for s :: int
    using that pos_mod_bound [of 3600 s] by (simp add: pos_imp_zdiv_nonneg_iff; linarith)
  show ?thesis
    using days_of_civil_of_days(1) [OF c] c h [OF b]
    by (simp add: civil_of_time_def civil_ok_def Let_def)
qed

lemma hms: "(s::int) div 3600 * 3600 + s mod 3600 div 60 * 60 + s mod 60 = s"
proof -
  have "s mod 60 = s mod 3600 mod 60" by (rule mod_mod_cancel [symmetric]) simp
  then have "s div 3600 * 3600 + (s mod 3600 div 60 * 60 + s mod 60) = s"
    by (simp only: div_mult_mod_eq)
  then show ?thesis by (simp only: add.assoc)
qed

lemma seconds_of_day:
  fixes s d :: int
  assumes "d = s div 86400" "r = s mod 86400"
  shows "d * 86400 + r div 3600 * 3600 + r mod 3600 div 60 * 60 + r mod 60 = s"
proof -
  have "d * 86400 + (r div 3600 * 3600 + r mod 3600 div 60 * 60 + r mod 60) = s"
    unfolding hms assms by (rule div_mult_mod_eq)
  then show ?thesis by (simp only: add.assoc)
qed

lemma time_of_civil_of_time [simp]: "time_of_civil (civil_of_time t) = t"
proof -
  let ?s = "t div second"
  obtain y m d where c: "civil_of_days (?s div 86400 + epoch_days) = (y, m, d)"
    by (metis prod_cases3)
  have d: "days_of_civil y m d - epoch_days = ?s div 86400"
    using days_of_civil_of_days(2) [OF c] by simp
  show ?thesis
    unfolding time_of_civil_def civil_of_time_def Let_def c prod.case civil.simps
      seconds_of_day [OF d refl] by (rule div_mult_mod_eq)
qed

section \<open>Formatting\<close>

text \<open>\<^verbatim>\<open>appendInt(b, i, width)\<close> of package \<^verbatim>\<open>time\<close>.\<close>

definition append_int :: "int \<Rightarrow> nat \<Rightarrow> string" where
  "append_int i w =
     (let ds = nat_digits (nat \<bar>i\<bar>); ds = replicate (w - length ds) CHR ''0'' @ ds
      in if i < 0 then CHR ''-'' # ds else ds)"

definition format_seconds :: "civil \<Rightarrow> string" where
  "format_seconds c =
     append_int (cv_year c) 4 @ ''-'' @ append_int (cv_month c) 2 @ ''-'' @ append_int (cv_day c) 2 @ ''T''
     @ append_int (cv_hour c) 2 @ '':'' @ append_int (cv_min c) 2 @ '':'' @ append_int (cv_sec c) 2"

text \<open>\<^verbatim>\<open>t.UTC().Format("2006-01-02T15:04:05.000000Z")\<close>\<close>

definition format_utc_micro :: "gotime \<Rightarrow> string" where
  "format_utc_micro t =
     (let c = civil_of_time t
      in format_seconds c @ ''.'' @ pad_digits 6 (nat (cv_nano c div 1000)) @ ''Z'')"

text \<open>\<^verbatim>\<open>t.Format(time.RFC3339Nano)\<close> in a zone \<open>off\<close> seconds east of UTC; trailing zeros of the fraction are dropped.\<close>

definition format_rfc3339nano :: "gotime \<Rightarrow> int \<Rightarrow> string" where
  "format_rfc3339nano t off =
     (let c = civil_of_time (t + off * second);
          frac = trim_right_char CHR ''0'' (pad_digits 9 (nat (cv_nano c)));
          zone = go_quot off 60; z = \<bar>zone\<bar>
      in format_seconds c @ (if frac = [] then [] else CHR ''.'' # frac)
         @ (if off = 0 then ''Z''
            else (if zone < 0 then ''-'' else ''+'') @ append_int (z div 60) 2 @ '':'' @ append_int (z mod 60) 2))"

section \<open>Parsing\<close>

text \<open>\<^verbatim>\<open>getnum(s, fixed)\<close>: two digits, or one when not fixed.\<close>

fun getnum :: "bool \<Rightarrow> string \<Rightarrow> (int \<times> string) option" where
  "getnum fixed (a # b # r) =
     (if \<not> is_digit a then None
      else if is_digit b then Some (int (10 * digit_val a + digit_val b), r)
      else if fixed then None else Some (int (digit_val a), b # r))"
| "getnum fixed [a] = (if is_digit a \<and> \<not> fixed then Some (int (digit_val a), []) else None)"
| "getnum fixed [] = None"

fun skip_char :: "char \<Rightarrow> string \<Rightarrow> string option" where
  "skip_char c (x # r) = (if x = c then Some r else None)"
| "skip_char c [] = None"

text \<open>A field with a range check: an out-of-range value is an error as well.\<close>

definition num_field :: "bool \<Rightarrow> int \<Rightarrow> int \<Rightarrow> string \<Rightarrow> (int \<times> string) option" where
  "num_field fixed lo hi s =
     Option.bind (getnum fixed s) (\<lambda>(n, r). if lo \<le> n \<and> n \<le> hi then Some (n, r) else None)"

text \<open>\<^verbatim>\<open>2006-01-02T15:04:05\<close>\<close>

definition parse_year :: "string \<Rightarrow> (int \<times> string) option" where
  "parse_year s = (if length s < 4 \<or> \<not> list_all is_digit (take 4 s) then None
                   else Some (int (digits_val (take 4 s)), drop 4 s))"

definition parse_seconds :: "string \<Rightarrow> (civil \<times> string) option" where
  "parse_seconds s =
     Option.bind (parse_year s) (\<lambda>(y, s).
     Option.bind (skip_char CHR ''-'' s) (\<lambda>s.
     Option.bind (num_field True 1 12 s) (\<lambda>(mo, s).
     Option.bind (skip_char CHR ''-'' s) (\<lambda>s.
     Option.bind (getnum True s) (\<lambda>(d, s).
     Option.bind (skip_char CHR ''T'' s) (\<lambda>s.
     Option.bind (num_field False 0 23 s) (\<lambda>(h, s).
     Option.bind (skip_char CHR '':'' s) (\<lambda>s.
     Option.bind (num_field True 0 59 s) (\<lambda>(mi, s).
     Option.bind (skip_char CHR '':'' s) (\<lambda>s.
     Option.bind (num_field True 0 59 s) (\<lambda>(sec, s).
       Some (\<lparr>cv_year = y, cv_month = mo, cv_day = d, cv_hour = h, cv_min = mi, cv_sec = sec, cv_nano = 0\<rparr>, s))))))))))))"

text \<open>\<^verbatim>\<open>commaOrPeriod\<close>, then \<open>n\<close> characters read by \<^verbatim>\<open>atoi\<close>: a sign is accepted, a negative value is not.\<close>

definition time_atoi :: "string \<Rightarrow> int option" where
  "time_atoi s =
     (let (neg, d) = (case s of
            c # r \<Rightarrow> if c = CHR ''-'' then (True, r) else if c = CHR ''+'' then (False, r) else (False, s)
          | [] \<Rightarrow> (False, s))
      in if list_all is_digit d then Some (if neg then - int (digits_val d) else int (digits_val d)) else None)"

definition parse_frac6 :: "string \<Rightarrow> (int \<times> string) option" where
  "parse_frac6 s =
     (if length s < 7 \<or> hd s \<notin> {CHR ''.'', CHR '',''} then None
      else Option.bind (time_atoi (take 6 (tl s))) (\<lambda>n. if n < 0 then None else Some (n * 1000, drop 7 s)))"

text \<open>Any number of digits after a point or comma, digits past the ninth dropped; no fraction at all is zero.\<close>

definition parse_frac9 :: "string \<Rightarrow> int \<times> string" where
  "parse_frac9 s =
     (let ds = takeWhile is_digit (tl s); d9 = take 9 ds
      in if s = [] \<or> hd s \<notin> {CHR ''.'', CHR '',''} \<or> ds = [] then (0, s)
         else (int (digits_val d9) * 10 ^ (9 - length d9), drop (Suc (length ds)) s))"

definition parse_zone :: "string \<Rightarrow> (int \<times> string) option" where
  "parse_zone s =
     (case s of
        [] \<Rightarrow> None
      | c # r \<Rightarrow>
          if c = CHR ''Z'' then Some (0, r)
          else Option.bind (num_field True 0 24 r) (\<lambda>(h, r).
               Option.bind (skip_char CHR '':'' r) (\<lambda>r.
               Option.bind (num_field True 0 60 r) (\<lambda>(m, r).
                 if c = CHR ''+'' then Some ((h * 60 + m) * 60, r)
                 else if c = CHR ''-'' then Some (- ((h * 60 + m) * 60), r) else None))))"

definition day_ok :: "civil \<Rightarrow> bool" where
  "day_ok c \<longleftrightarrow> 1 \<le> cv_day c \<and> cv_day c \<le> days_in_month (cv_year c) (cv_month c)"

text \<open>\<^verbatim>\<open>time.Parse\<close> with the micro layout: the instant; with RFC3339Nano: instant and offset in seconds.\<close>

definition parse_utc_micro :: "string \<Rightarrow> gotime option" where
  "parse_utc_micro s =
     Option.bind (parse_seconds s) (\<lambda>(c, s).
     Option.bind (parse_frac6 s) (\<lambda>(ns, s).
     Option.bind (skip_char CHR ''Z'' s) (\<lambda>s.
       if s = [] \<and> day_ok c then Some (time_of_civil (c\<lparr>cv_nano := ns\<rparr>)) else None)))"

definition parse_rfc3339 :: "string \<Rightarrow> (gotime \<times> int) option" where
  "parse_rfc3339 s =
     Option.bind (parse_seconds s) (\<lambda>(c, s).
     case parse_frac9 s of (ns, s) \<Rightarrow>
     Option.bind (parse_zone s) (\<lambda>(off, s).
       if s = [] \<and> day_ok c then Some (time_of_civil (c\<lparr>cv_nano := ns\<rparr>) - off * second, off) else None))"

section \<open>Printed times parse back\<close>

lemma append_int_pad:
  assumes "0 < w" "0 \<le> i" "i < 10 ^ w"
  shows "append_int i w = pad_digits w (nat i)"
proof -
  let ?ds = "nat_digits (nat i)"
  let ?s = "replicate (w - length ?ds) CHR ''0'' @ ?ds"
  have "nat i < 10 ^ w" using assms by (simp add: nat_less_iff)
  then have "length ?ds \<le> w" using assms(1) by (intro length_nat_digits_le)
  then have "length ?s = w" by simp
  moreover have "is_digit c" if "c \<in> set ?s" for c
    using that by (auto simp: is_digit_def nat_digits_are_digits [unfolded is_digit_def])
  moreover have "digits_val ?s = nat i" by (simp add: digits_val_append digits_val_zeros)
  ultimately have "?s = pad_digits w (nat i)" using pad_digits_digits_val [of ?s] by simp
  then show ?thesis using assms(2) by (simp add: append_int_def Let_def)
qed

lemma getnum_pad:
  assumes "n < 100"
  shows "getnum fixed (pad_digits 2 n @ r) = Some (int n, r)"
proof -
  have "n div 10 < 10" using assms by linarith
  then have "pad_digits 2 n = [digit_char (n div 10), digit_char (n mod 10)]"
    by (simp add: numeral_2_eq_2)
  then show ?thesis using \<open>n div 10 < 10\<close> by simp
qed

lemma num_field_pad:
  assumes "0 \<le> i" "i < 100" "lo \<le> i" "i \<le> hi"
  shows "num_field fixed lo hi (append_int i 2 @ r) = Some (i, r)"
  using assms getnum_pad [of "nat i"] by (simp add: append_int_pad num_field_def nat_less_iff)

lemma getnum_append_int:
  assumes "0 \<le> i" "i < 100"
  shows "getnum fixed (append_int i 2 @ r) = Some (i, r)"
  using assms getnum_pad [of "nat i"] by (simp add: append_int_pad nat_less_iff)

lemma parse_year_pad:
  assumes "0 \<le> y" "y \<le> 9999"
  shows "parse_year (append_int y 4 @ r) = Some (y, r)"
  using assms by (simp add: append_int_pad parse_year_def nat_less_iff)

lemma valid_date_bounds:
  assumes "valid_date y m d"
  shows "1 \<le> m" "m \<le> 12" "1 \<le> d" "d < 100"
  using assms by (auto simp: valid_date_def days_in_month_def split: if_splits)

lemma parse_format_seconds:
  assumes "civil_ok c" "0 \<le> cv_year c" "cv_year c \<le> 9999"
  shows "parse_seconds (format_seconds c @ r) = Some (c\<lparr>cv_nano := 0\<rparr>, r)"
proof -
  have v: "valid_date (cv_year c) (cv_month c) (cv_day c)" using assms(1) by (simp add: civil_ok_def)
  note b = valid_date_bounds [OF v]
  have h: "0 \<le> cv_hour c" "cv_hour c < 24" "0 \<le> cv_min c" "cv_min c < 60" "0 \<le> cv_sec c" "cv_sec c < 60"
    using assms(1) by (simp_all add: civil_ok_def)
  show ?thesis
    using assms(2,3) b h
    by (simp add: parse_seconds_def format_seconds_def parse_year_pad num_field_pad getnum_append_int
        append_assoc)
qed

lemma pad_not_sign:
  assumes "0 < w"
  shows "hd (pad_digits w n) \<noteq> CHR ''-''" "hd (pad_digits w n) \<noteq> CHR ''+''"
  using assms pad_digits_are_digits [of "hd (pad_digits w n)" w n]
  by (cases w; auto simp: is_digit_def hd_append split: if_splits dest: hd_in_set)+

lemma parse_frac6_pad:
  assumes "n < 1000000"
  shows "parse_frac6 (CHR ''.'' # pad_digits 6 n @ r) = Some (int n * 1000, r)"
proof -
  obtain a as where p: "pad_digits 6 n = a # as" by (metis Zero_not_Suc length_Suc_conv length_pad_digits numeral_nat(7) numeral_eq_Suc)
  have "a \<noteq> CHR ''-''" "a \<noteq> CHR ''+''" using pad_not_sign [of 6 n] p by simp_all
  then have "time_atoi (pad_digits 6 n) = Some (int n)"
    using assms digits_val_pad_digits [of n 6] pad_digits_all [of 6 n]
    by (simp add: time_atoi_def p del: pad_digits_all digits_val_pad_digits)
  then show ?thesis by (simp add: parse_frac6_def)
qed

lemma parse_utc_micro_format:
  assumes "0 \<le> cv_year (civil_of_time t)" "cv_year (civil_of_time t) \<le> 9999"
  shows "parse_utc_micro (format_utc_micro t) = Some (trunc_us t)"
proof -
  let ?c = "civil_of_time t"
  have ok: "civil_ok ?c" by (rule civil_of_time_ok)
  then have n: "0 \<le> cv_nano ?c" "cv_nano ?c < 1000000000" by (simp_all add: civil_ok_def second_def)
  have "0 \<le> m div 1000 \<and> m div 1000 < 1000000" if "0 \<le> m" "m < 1000000000" for m :: int
    using that by (simp add: pos_imp_zdiv_nonneg_iff; linarith)
  from this [OF n]
  have q: "nat (cv_nano ?c div 1000) < 1000000" "int (nat (cv_nano ?c div 1000)) = cv_nano ?c div 1000"
    by (simp_all add: nat_less_iff)
  have day: "day_ok (?c\<lparr>cv_nano := 0\<rparr>)" using ok by (simp add: day_ok_def civil_ok_def valid_date_def)
  have "time_of_civil (?c\<lparr>cv_nano := m\<rparr>) = time_of_civil ?c - cv_nano ?c + m" for m
    by (simp add: time_of_civil_def)
  then have "time_of_civil (?c\<lparr>cv_nano := cv_nano ?c div 1000 * 1000\<rparr>) = t - cv_nano ?c mod 1000"
    by (simp add: minus_mod_eq_div_mult [symmetric])
  moreover have "cv_nano ?c mod 1000 = t mod 1000"
    unfolding civil_of_time_def Let_def by (simp split: prod.split add: second_def mod_mod_cancel)
  ultimately show ?thesis
    using parse_format_seconds [OF ok assms] parse_frac6_pad [OF q(1)] day q(2)
    by (simp add: parse_utc_micro_def format_utc_micro_def Let_def trunc_us_def)
qed

lemma civil_trunc_us:
  "civil_of_time (trunc_us t) = (civil_of_time t)\<lparr>cv_nano := cv_nano (civil_of_time t) div 1000 * 1000\<rparr>"
proof -
  have "trunc_us t mod second = trunc_us t - t div second * second"
    by (simp only: minus_div_mult_eq_mod [symmetric] trunc_us_second)
  also have "\<dots> = t mod second - t mod 1000"
    by (simp only: minus_div_mult_eq_mod [symmetric, of t second]) (simp add: trunc_us_def)
  also have "\<dots> = t mod second - t mod second mod 1000" by (simp add: second_def mod_mod_cancel)
  also have "\<dots> = t mod second div 1000 * 1000" by (rule minus_mod_eq_div_mult)
  finally have n: "trunc_us t mod second = t mod second div 1000 * 1000" .
  obtain y m d where c: "civil_of_days (t div second div 86400 + epoch_days) = (y, m, d)"
    by (metis prod_cases3)
  show ?thesis
    unfolding civil_of_time_def Let_def trunc_us_second n c prod.case civil.simps ..
qed

lemma format_trunc_us [simp]: "format_utc_micro (trunc_us t) = format_utc_micro t"
  by (simp add: format_utc_micro_def Let_def civil_trunc_us format_seconds_def)

end
