(* ===== verification/FiscalTime.thy ===== *)
theory FiscalTime
  imports TimeLayout
begin

text \<open>
  The packages \<^verbatim>\<open>internal/fiscaltime\<close>, \<^verbatim>\<open>internal/fiscaltz\<close> and
  \<^verbatim>\<open>internal/series\<close>: the fiscal temporal context of a document and the resolvers
  that tie a scope to its time zone and to its effective series.
\<close>

section \<open>fiscaltime\<close>

text \<open>Every failure wraps \<^verbatim>\<open>ErrInvalidIssuedAt\<close>; the constructor is the message.\<close>

datatype issued_error =
  EmptyIssuedAt | EmptyTimezone | LoadTimezone string | ParseIssuedAt | NotMicroCanonical
  | OffsetIncompatible int int | OffsetOutOfRange

record normalized_issued =
  ni_InstantUTC :: gotime
  ni_UTCString :: string
  ni_Timezone :: string
  ni_OffsetMinutes :: int
  ni_LocalCivilRFC3339 :: string

definition minOffsetMinutes :: int where
  "minOffsetMinutes = -840"

definition maxOffsetMinutes :: int where
  "maxOffsetMinutes = 840"

text \<open>
  The second \<^verbatim>\<open>time.Parse(time.RFC3339, raw)\<close> accepts the same strings as the first with
  \<^verbatim>\<open>RFC3339Nano\<close> (a fraction is optional in both), so one call stands for the two.
\<close>

definition NormalizeIssued :: "tzdb \<Rightarrow> string \<Rightarrow> string \<Rightarrow> issued_error + normalized_issued" where
  "NormalizeIssued LoadLocation raw0 iana0 =
     (let raw = strings_TrimSpace raw0; ianaTZ = strings_TrimSpace iana0
      in if raw = [] then Inl EmptyIssuedAt
         else if ianaTZ = [] then Inl EmptyTimezone
         else case LoadLocation ianaTZ of
           None \<Rightarrow> Inl (LoadTimezone ianaTZ)
         | Some loc \<Rightarrow>
             (case parse_rfc3339 raw of
                None \<Rightarrow> Inl ParseIssuedAt
              | Some (t, inputOffSec) \<Rightarrow>
                  let inputOffMin = go_quot inputOffSec 60;
                      fiscalOffMin = go_quot (loc t) 60
                  in if inputOffMin \<noteq> fiscalOffMin then Inl (OffsetIncompatible inputOffMin fiscalOffMin)
                     else if fiscalOffMin < minOffsetMinutes \<or> fiscalOffMin > maxOffsetMinutes
                     then Inl OffsetOutOfRange
                     else let utc = trunc_us t
                          in Inr \<lparr>ni_InstantUTC = utc, ni_UTCString = format_utc_micro utc,
                                  ni_Timezone = ianaTZ, ni_OffsetMinutes = fiscalOffMin,
                                  ni_LocalCivilRFC3339 = format_rfc3339nano utc (loc utc)\<rparr>))"

text \<open>The civil local time: the truncated instant and its offset in the zone.\<close>

definition RebuildLocal :: "tzdb \<Rightarrow> gotime \<Rightarrow> string \<Rightarrow> issued_error + gotime \<times> int" where
  "RebuildLocal LoadLocation utc ianaTZ =
     (case LoadLocation ianaTZ of
        None \<Rightarrow> Inl (LoadTimezone ianaTZ)
      | Some loc \<Rightarrow> Inr (trunc_us utc, loc (trunc_us utc)))"

definition ValidateNormalizedContext :: "tzdb \<Rightarrow> string \<Rightarrow> string \<Rightarrow> int \<Rightarrow> issued_error + unit" where
  "ValidateNormalizedContext LoadLocation utc0 iana0 offsetMinutes =
     (let utcMicro = strings_TrimSpace utc0; ianaTZ = strings_TrimSpace iana0
      in if utcMicro = [] then Inl EmptyIssuedAt
         else if ianaTZ = [] then Inl EmptyTimezone
         else if offsetMinutes < minOffsetMinutes \<or> offsetMinutes > maxOffsetMinutes then Inl OffsetOutOfRange
         else case parse_utc_micro utcMicro of
           None \<Rightarrow> Inl NotMicroCanonical
         | Some parsed \<Rightarrow>
             let utc = trunc_us parsed
             in if format_utc_micro utc \<noteq> utcMicro then Inl NotMicroCanonical
                else case LoadLocation ianaTZ of
                  None \<Rightarrow> Inl (LoadTimezone ianaTZ)
                | Some loc \<Rightarrow>
                    let fiscalOffMin = go_quot (loc utc) 60
                    in if fiscalOffMin \<noteq> offsetMinutes then Inl (OffsetIncompatible offsetMinutes fiscalOffMin)
                       else Inr ())"

section \<open>fiscaltz and series\<close>

datatype resolve_error = ScopeRequired | TimezoneRequired | InvalidTimezone | SeriesCodeRequired | Unresolved

record tz_static =
  tz_scopeID :: string
  tz_timezone :: string

definition NewStatic_tz :: "tzdb \<Rightarrow> string \<Rightarrow> string \<Rightarrow> resolve_error + tz_static" where
  "NewStatic_tz LoadLocation cfgScope cfgTimezone =
     (let scope = strings_TrimSpace cfgScope; tz = strings_TrimSpace cfgTimezone
      in if scope = [] then Inl ScopeRequired
         else if tz = [] then Inl TimezoneRequired
         else case LoadLocation tz of
           None \<Rightarrow> Inl InvalidTimezone
         | Some _ \<Rightarrow> Inr \<lparr>tz_scopeID = scope, tz_timezone = tz\<rparr>)"

definition AfricaLuanda :: string where
  "AfricaLuanda = ''Africa/Luanda''"

definition NewStaticAfricaLuanda :: "tzdb \<Rightarrow> string \<Rightarrow> resolve_error + tz_static" where
  "NewStaticAfricaLuanda LoadLocation scopeID = NewStatic_tz LoadLocation scopeID AfricaLuanda"

definition Resolve_tz :: "tz_static \<Rightarrow> string \<Rightarrow> resolve_error + string" where
  "Resolve_tz s scopeID =
     (if strings_TrimSpace scopeID \<noteq> tz_scopeID s then Inl Unresolved else Inr (tz_timezone s))"

record series_static =
  sr_effective :: string

definition NewStatic_series :: "string \<Rightarrow> resolve_error + series_static" where
  "NewStatic_series cfgEffectiveCode =
     (let code = strings_TrimSpace cfgEffectiveCode
      in if code = [] then Inl SeriesCodeRequired else Inr \<lparr>sr_effective = code\<rparr>)"

definition Resolve_series :: "series_static \<Rightarrow> string \<Rightarrow> string \<Rightarrow> resolve_error + string" where
  "Resolve_series s scopeID requestedSeries =
     (if strings_TrimSpace scopeID = [] then Inl Unresolved else Inr (sr_effective s))"

section \<open>The validator accepts exactly the canonical contexts\<close>

definition year_in_range :: "gotime \<Rightarrow> bool" where
  "year_in_range t \<longleftrightarrow> 0 \<le> cv_year (civil_of_time t) \<and> cv_year (civil_of_time t) \<le> 9999"

lemma civil_trunc_year [simp]: "year_in_range (trunc_us t) = year_in_range t"
  by (simp add: year_in_range_def civil_trunc_us)

lemma parse_utc_micro_shape:
  assumes "parse_utc_micro s = Some p"
  shows "\<exists>ds r. s = ds @ CHR ''-'' # r \<and> length ds = 4 \<and> list_all is_digit ds"
proof -
  obtain x where "parse_seconds s = Some x"
    using assms by (auto simp: parse_utc_micro_def split: Option.bind_splits)
  then obtain y r r' where y: "parse_year s = Some (y, r)" and r: "skip_char CHR ''-'' r = Some r'"
    by (auto simp: parse_seconds_def split: Option.bind_splits)
  from r have "r = CHR ''-'' # r'" by (cases r) (auto split: if_splits)
  then have *: "drop 4 s = CHR ''-'' # r'" "list_all is_digit (take 4 s)" "length (take 4 s) = 4"
    using y by (auto simp: parse_year_def split: if_splits)
  have "s = take 4 s @ CHR ''-'' # r'" unfolding *(1) [symmetric] append_take_drop_id ..
  with * show ?thesis by blast
qed

lemma nat_digits_long:
  assumes "10 ^ w \<le> n"
  shows "w < length (nat_digits n)"
proof (rule ccontr)
  assume "\<not> w < length (nat_digits n)"
  then have "(10::nat) ^ length (nat_digits n) \<le> 10 ^ w" by (intro power_increasing) simp_all
  moreover have "n < 10 ^ length (nat_digits n)"
    using digits_val_bound [of "nat_digits n"] by (simp add: nat_digits_are_digits)
  ultimately show False using assms by linarith
qed

text \<open>Only years of four digits print in the shape that is parsed.\<close>

lemma format_shape_year:
  assumes "format_utc_micro t = ds @ CHR ''-'' # r" "length ds = 4" "list_all is_digit ds"
  shows "year_in_range t"
proof -
  let ?y = "cv_year (civil_of_time t)"
  obtain r' where f: "format_utc_micro t = append_int ?y 4 @ CHR ''-'' # r'"
    by (simp add: format_utc_micro_def format_seconds_def Let_def)
  have minus: "CHR ''-'' \<notin> set ds" using assms(3) by (auto simp: list_all_iff is_digit_def)
  have "0 \<le> ?y"
  proof (rule ccontr)
    assume "\<not> 0 \<le> ?y"
    then have "hd (format_utc_micro t) = CHR ''-''" by (simp add: f append_int_def Let_def)
    then have "hd ds = CHR ''-''" using assms(1,2) by (cases ds) simp_all
    then show False using minus assms(2) by (cases ds) auto
  qed
  moreover have "\<not> 9999 < ?y"
  proof
    assume "9999 < ?y"
    let ?d = "nat_digits (nat ?y)"
    have l: "4 < length ?d" using \<open>9999 < ?y\<close> by (intro nat_digits_long) (simp add: le_nat_iff)
    then have "format_utc_micro t = ?d @ CHR ''-'' # r'"
      using \<open>9999 < ?y\<close> by (simp add: f append_int_def Let_def)
    then have "?d ! 4 = CHR ''-''"
      using l assms(1,2) by (metis nth_append nth_append_length)
    moreover have "is_digit (?d ! 4)" using l by (intro nat_digits_are_digits [of _ "nat ?y"] nth_mem)
    ultimately show False by (simp add: is_digit_def)
  qed
  ultimately show ?thesis by (simp add: year_in_range_def)
qed

lemma canonical_instant:
  "(\<exists>p. parse_utc_micro s = Some p \<and> format_utc_micro (trunc_us p) = s \<and> trunc_us p = t) \<longleftrightarrow>
   s = format_utc_micro t \<and> trunc_us t = t \<and> year_in_range t"
proof
  assume "\<exists>p. parse_utc_micro s = Some p \<and> format_utc_micro (trunc_us p) = s \<and> trunc_us p = t"
  then obtain p where p: "parse_utc_micro s = Some p" "format_utc_micro t = s" "trunc_us p = t" by blast
  then show "s = format_utc_micro t \<and> trunc_us t = t \<and> year_in_range t"
    using parse_utc_micro_shape [OF p(1)] format_shape_year by auto
next
  assume "s = format_utc_micro t \<and> trunc_us t = t \<and> year_in_range t"
  then show "\<exists>p. parse_utc_micro s = Some p \<and> format_utc_micro (trunc_us p) = s \<and> trunc_us p = t"
    using parse_utc_micro_format [of t] by (simp add: year_in_range_def)
qed

lemma format_not_Nil [simp]: "format_utc_micro t \<noteq> []"
  by (simp add: format_utc_micro_def Let_def)

lemma ValidateNormalizedContext_iff:
  "ValidateNormalizedContext tzs s iana off = Inr () \<longleftrightarrow>
   (\<exists>t loc. strings_TrimSpace s = format_utc_micro t \<and> trunc_us t = t \<and> year_in_range t
      \<and> strings_TrimSpace iana \<noteq> [] \<and> tzs (strings_TrimSpace iana) = Some loc
      \<and> off = go_quot (loc t) 60 \<and> minOffsetMinutes \<le> off \<and> off \<le> maxOffsetMinutes)"
  (is "?L \<longleftrightarrow> ?R")
proof
  let ?s = "strings_TrimSpace s"
  assume ?L
  then obtain p loc where *: "parse_utc_micro ?s = Some p" "format_utc_micro (trunc_us p) = ?s"
    "strings_TrimSpace iana \<noteq> []" "tzs (strings_TrimSpace iana) = Some loc"
    "off = go_quot (loc (trunc_us p)) 60" "minOffsetMinutes \<le> off" "off \<le> maxOffsetMinutes"
    by (auto simp: ValidateNormalizedContext_def Let_def split: if_splits option.splits)
  then have "?s = format_utc_micro (trunc_us p) \<and> year_in_range (trunc_us p)"
    using canonical_instant [of ?s "trunc_us p"] by blast
  with * show ?R by (intro exI [of _ "trunc_us p"] exI [of _ loc]) simp
next
  let ?s = "strings_TrimSpace s"
  assume ?R
  then obtain t loc where *: "?s = format_utc_micro t" "trunc_us t = t" "year_in_range t"
    "strings_TrimSpace iana \<noteq> []" "tzs (strings_TrimSpace iana) = Some loc"
    "off = go_quot (loc t) 60" "minOffsetMinutes \<le> off" "off \<le> maxOffsetMinutes" by blast
  then obtain p where "parse_utc_micro ?s = Some p" "format_utc_micro (trunc_us p) = ?s" "trunc_us p = t"
    using canonical_instant [of ?s t] by blast
  with * show ?L by (simp add: ValidateNormalizedContext_def Let_def)
qed

text \<open>
  C12: the check made before a document is hashed and sealed accepts a triple exactly when the
  string is the six-digit UTC form of a microsecond instant of a year 0 to 9999, the zone loads,
  and the stored offset is the zone's offset (in whole minutes) at that instant, within 14 hours.
\<close>

theorem ValidateNormalizedContext_accepts:
  "ValidateNormalizedContext tzs s iana off = Inr () \<longleftrightarrow>
   (\<exists>t loc. strings_TrimSpace s = format_utc_micro t \<and> trunc_us t = t \<and> year_in_range t
      \<and> strings_TrimSpace iana \<noteq> [] \<and> tzs (strings_TrimSpace iana) = Some loc
      \<and> off = go_quot (loc t) 60 \<and> minOffsetMinutes \<le> off \<and> off \<le> maxOffsetMinutes)"
  by (rule ValidateNormalizedContext_iff)

section \<open>What the normaliser returns is accepted\<close>

text \<open>IANA transitions fall on whole seconds: documented behaviour of the zone database.\<close>

definition whole_second_zones :: "tzdb \<Rightarrow> bool" where
  "whole_second_zones tzs \<longleftrightarrow>
     (\<forall>name loc t u. tzs name = Some loc \<longrightarrow> t div second = u div second \<longrightarrow> loc t = loc u)"

lemma whole_second_trunc:
  "whole_second_zones tzs \<Longrightarrow> tzs name = Some loc \<Longrightarrow> loc (trunc_us t) = loc t"
  unfolding whole_second_zones_def by (metis trunc_us_second)


lemma TrimSpace_fixed:
  assumes "s \<noteq> []" "hd s \<notin> hd ` set go_spaces" "last s \<notin> last ` set go_spaces"
  shows "strings_TrimSpace s = s"
proof -
  have ne: "p \<noteq> []" if "p \<in> set go_spaces" for p using that by (auto simp: go_spaces_def)
  have "\<not> prefix p s" if "p \<in> set go_spaces" for p
    using assms(2) that ne [OF that] by (cases p; cases s; force)
  then have 1: "trim_with go_spaces s = s" by (intro trim_with_fixed)
  have "\<not> prefix p (rev s)" if mem: "p \<in> set (map rev go_spaces)" for p
  proof
    assume "prefix p (rev s)"
    moreover obtain p' where p': "p = rev p'" "p' \<in> set go_spaces"
      using mem by auto
    ultimately have "suffix p' s" by (simp add: suffix_to_prefix)
    then have "last s = last p'" using ne [OF p'(2)] by (auto simp: suffix_def)
    with assms(3) p'(2) show False by auto
  qed
  then have "trim_with (map rev go_spaces) (rev s) = rev s" by (intro trim_with_fixed)
  with 1 show ?thesis by (simp add: strings_TrimSpace_def)
qed

lemma append_int_head: "hd (append_int i w @ r) = CHR ''-'' \<or> is_digit (hd (append_int i w @ r))"
proof (cases "i < 0")
  case False
  let ?ds = "replicate (w - length (nat_digits (nat i))) CHR ''0'' @ nat_digits (nat i)"
  have "hd ?ds \<in> set ?ds" by (intro hd_in_set) simp
  then have "is_digit (hd ?ds)"
    unfolding set_append Un_iff by (elim disjE) (auto simp: is_digit_def nat_digits_are_digits [unfolded is_digit_def])
  moreover have "hd (?ds @ r) = hd ?ds" by (intro hd_append2) simp
  ultimately have "is_digit (hd (?ds @ r))" by (simp only:)
  with False show ?thesis by (simp add: append_int_def Let_def)
qed (simp add: append_int_def Let_def)

lemma TrimSpace_format [simp]: "strings_TrimSpace (format_utc_micro t) = format_utc_micro t"
proof (rule TrimSpace_fixed)
  have "hd (format_utc_micro t) = CHR ''-'' \<or> is_digit (hd (format_utc_micro t))"
    unfolding format_utc_micro_def format_seconds_def Let_def append_assoc by (rule append_int_head)
  then show "hd (format_utc_micro t) \<notin> hd ` set go_spaces"
    by (auto simp: go_spaces_def is_digit_def)
  show "last (format_utc_micro t) \<notin> last ` set go_spaces"
    by (auto simp: go_spaces_def format_utc_micro_def Let_def)
qed simp

lemma NormalizeIssued_result:
  assumes "NormalizeIssued tzs raw iana = Inr n"
  obtains t off loc where
    "parse_rfc3339 (strings_TrimSpace raw) = Some (t, off)"
    "strings_TrimSpace iana \<noteq> []" "tzs (strings_TrimSpace iana) = Some loc"
    "go_quot off 60 = go_quot (loc t) 60"
    "minOffsetMinutes \<le> go_quot (loc t) 60" "go_quot (loc t) 60 \<le> maxOffsetMinutes"
    "n = \<lparr>ni_InstantUTC = trunc_us t, ni_UTCString = format_utc_micro t,
      ni_Timezone = strings_TrimSpace iana, ni_OffsetMinutes = go_quot (loc t) 60,
      ni_LocalCivilRFC3339 = format_rfc3339nano (trunc_us t) (loc (trunc_us t))\<rparr>"
  using assms
  by (auto simp: NormalizeIssued_def Let_def not_less split: if_splits option.splits)

text \<open>
  What the normaliser returns for an \<^verbatim>\<open>issued_at\<close> is the instant that was written,
  cut to microseconds, with the offset that was written equal (in minutes) to the zone's offset,
  which \<^verbatim>\<open>RebuildLocal\<close> finds again; and the seal's own check accepts the triple exactly
  when the UTC year has four digits (an offset can carry year 0 or 9999 out of that range).
\<close>

theorem NormalizeIssued_validates:
  assumes "whole_second_zones tzs" "NormalizeIssued tzs raw iana = Inr n"
  shows "(\<exists>t off. parse_rfc3339 (strings_TrimSpace raw) = Some (t, off)
      \<and> ni_InstantUTC n = trunc_us t \<and> go_quot off 60 = ni_OffsetMinutes n)
    \<and> (\<exists>loc_off. RebuildLocal tzs (ni_InstantUTC n) (ni_Timezone n) = Inr (ni_InstantUTC n, loc_off)
      \<and> go_quot loc_off 60 = ni_OffsetMinutes n
      \<and> ni_LocalCivilRFC3339 n = format_rfc3339nano (ni_InstantUTC n) loc_off)
    \<and> (ValidateNormalizedContext tzs (ni_UTCString n) (ni_Timezone n) (ni_OffsetMinutes n) = Inr ()
       \<longleftrightarrow> year_in_range (ni_InstantUTC n))"
proof -
  obtain t off loc where *: "parse_rfc3339 (strings_TrimSpace raw) = Some (t, off)"
    "strings_TrimSpace iana \<noteq> []" and loc: "tzs (strings_TrimSpace iana) = Some loc"
    and off: "go_quot off 60 = go_quot (loc t) 60"
    "minOffsetMinutes \<le> go_quot (loc t) 60" "go_quot (loc t) 60 \<le> maxOffsetMinutes"
    and n: "n = \<lparr>ni_InstantUTC = trunc_us t, ni_UTCString = format_utc_micro t,
      ni_Timezone = strings_TrimSpace iana, ni_OffsetMinutes = go_quot (loc t) 60,
      ni_LocalCivilRFC3339 = format_rfc3339nano (trunc_us t) (loc (trunc_us t))\<rparr>"
    using assms(2) by (rule NormalizeIssued_result)
  have same: "loc (trunc_us t) = loc t" using assms(1) loc by (rule whole_second_trunc)
  have v: "ValidateNormalizedContext tzs (format_utc_micro t) (strings_TrimSpace iana) (go_quot (loc t) 60)
      = Inr () \<longleftrightarrow> year_in_range t"
  proof
    assume "year_in_range t"
    then show "ValidateNormalizedContext tzs (format_utc_micro t) (strings_TrimSpace iana) (go_quot (loc t) 60)
        = Inr ()"
      unfolding ValidateNormalizedContext_iff
      using * loc off same by (intro exI [of _ "trunc_us t"] exI [of _ loc]) simp
  next
    assume "ValidateNormalizedContext tzs (format_utc_micro t) (strings_TrimSpace iana) (go_quot (loc t) 60)
        = Inr ()"
    then obtain p where p: "parse_utc_micro (strings_TrimSpace (format_utc_micro t)) = Some p"
      by (auto simp: ValidateNormalizedContext_def Let_def split: if_splits option.splits)
    obtain ds r where "strings_TrimSpace (format_utc_micro t) = ds @ CHR ''-'' # r"
      "length ds = 4" "list_all is_digit ds"
      using parse_utc_micro_shape [OF p] by blast
    then show "year_in_range t" using format_shape_year unfolding TrimSpace_format by blast
  qed
  show ?thesis using * loc off same v by (simp add: n RebuildLocal_def)
qed

definition luanda_only :: tzdb where
  "luanda_only name = (if name = AfricaLuanda then Some (\<lambda>_. 3600) else None)"

definition sample_issued :: normalized_issued where
  "sample_issued =
     \<lparr>ni_InstantUTC = 1784624400000000000, ni_UTCString = ''2026-07-21T09:00:00.000000Z'',
      ni_Timezone = AfricaLuanda, ni_OffsetMinutes = 60,
      ni_LocalCivilRFC3339 = ''2026-07-21T10:00:00+01:00''\<rparr>"

theorem NormalizeIssued_validates_witness:
  "ValidateNormalizedContext luanda_only ''2026-07-21T09:00:00.000000Z'' AfricaLuanda 60 = Inr ()"
proof -
  have z: "whole_second_zones luanda_only"
    by (simp add: whole_second_zones_def luanda_only_def)
  have "NormalizeIssued luanda_only ''2026-07-21T10:00:00+01:00'' AfricaLuanda = Inr sample_issued"
    by code_simp
  from NormalizeIssued_validates [OF z this]
  have "ValidateNormalizedContext luanda_only ''2026-07-21T09:00:00.000000Z'' AfricaLuanda 60 = Inr ()
      \<longleftrightarrow> year_in_range 1784624400000000000"
    by (simp only: sample_issued_def normalized_issued.simps)
  moreover have "year_in_range 1784624400000000000" by code_simp
  ultimately show ?thesis by blast
qed

end
