(* ===== verification/SqlTime.thy ===== *)
theory SqlTime
  imports TimeLayout "HOL-Library.List_Lexorder" "HOL-Library.Char_ord" "HOL-Library.Product_Lexorder"
begin

text \<open>
  Timestamps as the databases hold and compare them: SQLite stores text and compares bytes,
  Postgres stores instants. The order is an instance of \<open>linorder\<close>, so that the library's
  \<open>min_row\<close> orders rows as \<^verbatim>\<open>ORDER BY\<close> does.
\<close>

datatype sql_time = TextTime string | StampTime gotime

instantiation sql_time :: linorder
begin

fun less_eq_sql_time :: "sql_time \<Rightarrow> sql_time \<Rightarrow> bool" where
  "TextTime a \<le> TextTime b \<longleftrightarrow> a \<le> b"
| "StampTime a \<le> StampTime b \<longleftrightarrow> a \<le> b"
| "TextTime a \<le> StampTime b \<longleftrightarrow> True"
| "StampTime a \<le> TextTime b \<longleftrightarrow> False"

definition less_sql_time :: "sql_time \<Rightarrow> sql_time \<Rightarrow> bool" where
  "a < b \<longleftrightarrow> a \<le> b \<and> \<not> b \<le> (a :: sql_time)"

instance
proof
  fix x y z :: sql_time
  show "x < y \<longleftrightarrow> x \<le> y \<and> \<not> y \<le> x" by (rule less_sql_time_def)
  show "x \<le> x" by (cases x) simp_all
  show "x \<le> y \<Longrightarrow> y \<le> z \<Longrightarrow> x \<le> z" by (cases x; cases y; cases z) auto
  show "x \<le> y \<Longrightarrow> y \<le> x \<Longrightarrow> x = y" by (cases x; cases y) auto
  show "x \<le> y \<or> y \<le> x" by (cases x; cases y) auto
qed

end

lemma less_sql_time_simps [simp]:
  "TextTime a < TextTime b \<longleftrightarrow> a < b"
  "StampTime s < StampTime t \<longleftrightarrow> s < t"
  by (simp_all add: less_sql_time_def less_le_not_le)

end
