(* ===== verification/FiscalDb.thy ===== *)
theory FiscalDb
  imports Canonical FiscalTime SqlTime
begin

text \<open>
  The fiscal tables (\<^verbatim>\<open>migrations/\<close> 0001, 0002 and 0004) as the package
  \<^verbatim>\<open>internal/persistence\<close> uses them: a record of tables, and for every
  \<^verbatim>\<open>INSERT\<close> of the code a function that fails when a constraint of the table fails. A
  transaction is a function from a database to an error (rolled back) or a result with the new
  database (committed). SQLite runs them one at a time (\<^verbatim>\<open>BEGIN IMMEDIATE\<close>); on Postgres
  row locks and unique indexes make the outcomes those of some serial order.
  Timestamps written by the module itself are instants: their text form in SQLite has a fixed
  width, so comparing texts compares instants.
\<close>

section \<open>Enumerations\<close>

datatype dialect = DialectPostgres | DialectSQLite | OtherDialect string

datatype idem_state = IdemInProgress | IdemCompleted

datatype ledger_status =
  Received | Validated | SealedLocally | QueuedForAuthority | AuthorityProcessing | AuthorityAccepted
  | AuthorityRejected | AuthorityOutcomeUnknown | StatusRejected | ContingencyPending

datatype outbox_state = OutboxPending | OutboxInFlight | OutboxSucceeded | OutboxDead

section \<open>Rows\<close>

record idem_row =
  im_request_hash :: string
  im_document_id :: "string option"
  im_state :: idem_state
  im_created_at :: gotime
  im_updated_at :: gotime

record document =
  dc_id :: string
  dc_scope_id :: string
  dc_external_id :: string
  dc_document_type :: string
  dc_currency :: string
  dc_issued_at :: sql_time
  dc_issued_timezone :: string
  dc_issued_offset_minutes :: int
  dc_requested_series :: "string option"
  dc_series_code :: string
  dc_fiscal_seq :: int
  dc_seller_tax_id :: string
  dc_seller_name :: string
  dc_customer_tax_id :: "string option"
  dc_customer_name :: "string option"
  dc_created_at :: gotime
  dc_sealed_at :: gotime

record document_line =
  dl_document_id :: string
  dl_line_no :: int
  dl_line_id :: string
  dl_description :: string
  dl_quantity_scaled :: int
  dl_unit_price_cents :: int
  dl_tax_code :: string

record ledger_event =
  le_id :: string
  le_document_id :: string
  le_seq :: int
  le_event_type :: string
  le_from_status :: "ledger_status option"
  le_to_status :: ledger_status
  le_created_at :: gotime

record outbox_message =
  ob_id :: string
  ob_document_id :: string
  ob_message_type :: string
  ob_submission_id :: string
  ob_state :: outbox_state
  ob_available_at :: gotime
  ob_created_at :: gotime
  ob_updated_at :: gotime

record authority_attempt =
  at_id :: string
  at_document_id :: string
  at_submission_id :: string
  at_attempt_no :: int
  at_sent_at :: gotime

record authority_response =
  rp_id :: string
  rp_attempt_id :: string
  rp_authority_request_id :: "string option"
  rp_outcome :: ledger_status
  rp_received_at :: gotime

record fiscal_db =
  idempotency_records :: "string \<times> string \<Rightarrow> idem_row option"
  documents :: "document list"
  document_lines :: "document_line list"
  series_counters :: "string \<times> string \<Rightarrow> int option"
  ledger_events :: "ledger_event list"
  outbox_messages :: "outbox_message list"
  authority_attempts :: "authority_attempt list"
  authority_responses :: "authority_response list"

definition empty_db :: fiscal_db where
  "empty_db =
     \<lparr>idempotency_records = (\<lambda>_. None), documents = [], document_lines = [], series_counters = (\<lambda>_. None),
      ledger_events = [], outbox_messages = [], authority_attempts = [], authority_responses = []\<rparr>"

section \<open>Errors\<close>

text \<open>A validation error carries the field and the code; the Portuguese message is left out.\<close>

datatype store_error =
  ValidationError string string
  | ErrIdempotencyConflict
  | ErrExternalIDConflict
  | ErrOutboxEmpty
  | ErrOutboxAlreadyDone
  | NoRows
  | ConstraintError string
  | CompletedWithoutDocument
  | UnknownDialect string
  | IssuedAtUnparsable
  | UnexpectedLedger ledger_status
  | OutboxRows nat
  | InvalidOutcome string
  | ClientError string
  | SignError
  | NilClient

section \<open>Inserts and their constraints\<close>

text \<open>\<^verbatim>\<open>CHECK (length(trim(c)) > 0)\<close>: SQL's trim removes blanks only.\<close>

definition sql_nonempty :: "string \<Rightarrow> bool" where
  "sql_nonempty s \<longleftrightarrow> list_ex (\<lambda>c. c \<noteq> CHR '' '') s"

definition has_document :: "fiscal_db \<Rightarrow> string \<Rightarrow> bool" where
  "has_document db i \<longleftrightarrow> list_ex (\<lambda>d. dc_id d = i) (documents db)"

definition document_check :: "document \<Rightarrow> bool" where
  "document_check d \<longleftrightarrow>
     sql_nonempty (dc_scope_id d) \<and> sql_nonempty (dc_external_id d)
     \<and> dc_document_type d \<in> {''invoice'', ''credit_note''} \<and> dc_currency d = ''AOA''
     \<and> sql_nonempty (dc_series_code d) \<and> sql_nonempty (dc_seller_tax_id d) \<and> sql_nonempty (dc_seller_name d)
     \<and> sql_nonempty (dc_issued_timezone d)
     \<and> -840 \<le> dc_issued_offset_minutes d \<and> dc_issued_offset_minutes d \<le> 840"

text \<open>A violated \<^verbatim>\<open>documents_scope_external_unique\<close> is mapped by \<^verbatim>\<open>mapExternalIDConflict\<close>.\<close>

definition insert_document :: "document \<Rightarrow> fiscal_db \<Rightarrow> store_error + fiscal_db" where
  "insert_document d db =
     (if \<not> document_check d then Inl (ConstraintError ''documents_check'')
      else if has_document db (dc_id d) then Inl (ConstraintError ''documents_pkey'')
      else if list_ex (\<lambda>e. dc_scope_id e = dc_scope_id d \<and> dc_external_id e = dc_external_id d) (documents db)
      then Inl ErrExternalIDConflict
      else if list_ex (\<lambda>e. dc_scope_id e = dc_scope_id d \<and> dc_series_code e = dc_series_code d
                          \<and> dc_fiscal_seq e = dc_fiscal_seq d) (documents db)
      then Inl (ConstraintError ''documents_scope_series_seq_unique'')
      else Inr (db\<lparr>documents := documents db @ [d]\<rparr>))"

definition insert_document_line :: "document_line \<Rightarrow> fiscal_db \<Rightarrow> store_error + fiscal_db" where
  "insert_document_line l db =
     (if \<not> (sql_nonempty (dl_line_id l) \<and> sql_nonempty (dl_description l) \<and> dl_quantity_scaled l > 0
            \<and> dl_unit_price_cents l \<ge> 0 \<and> sql_nonempty (dl_tax_code l))
      then Inl (ConstraintError ''document_lines_check'')
      else if \<not> has_document db (dl_document_id l) then Inl (ConstraintError ''document_lines_fkey'')
      else if list_ex (\<lambda>m. dl_document_id m = dl_document_id l \<and> dl_line_no m = dl_line_no l) (document_lines db)
      then Inl (ConstraintError ''document_lines_pkey'')
      else Inr (db\<lparr>document_lines := document_lines db @ [l]\<rparr>))"

definition insert_ledger_event :: "ledger_event \<Rightarrow> fiscal_db \<Rightarrow> store_error + fiscal_db" where
  "insert_ledger_event e db =
     (if \<not> (le_seq e > 0 \<and> sql_nonempty (le_event_type e)) then Inl (ConstraintError ''ledger_events_check'')
      else if \<not> has_document db (le_document_id e) then Inl (ConstraintError ''ledger_events_fkey'')
      else if list_ex (\<lambda>f. le_id f = le_id e) (ledger_events db) then Inl (ConstraintError ''ledger_events_pkey'')
      else if list_ex (\<lambda>f. le_document_id f = le_document_id e \<and> le_seq f = le_seq e) (ledger_events db)
      then Inl (ConstraintError ''ledger_events_document_seq_unique'')
      else Inr (db\<lparr>ledger_events := ledger_events db @ [e]\<rparr>))"

definition insert_outbox_message :: "outbox_message \<Rightarrow> fiscal_db \<Rightarrow> store_error + fiscal_db" where
  "insert_outbox_message m db =
     (if \<not> (sql_nonempty (ob_submission_id m) \<and> ob_message_type m = ''authority_submission'')
      then Inl (ConstraintError ''outbox_messages_check'')
      else if \<not> has_document db (ob_document_id m) then Inl (ConstraintError ''outbox_messages_fkey'')
      else if list_ex (\<lambda>n. ob_id n = ob_id m) (outbox_messages db) then Inl (ConstraintError ''outbox_messages_pkey'')
      else if list_ex (\<lambda>n. ob_submission_id n = ob_submission_id m) (outbox_messages db)
      then Inl (ConstraintError ''outbox_messages_submission_id_unique'')
      else Inr (db\<lparr>outbox_messages := outbox_messages db @ [m]\<rparr>))"

definition insert_attempt :: "authority_attempt \<Rightarrow> fiscal_db \<Rightarrow> store_error + fiscal_db" where
  "insert_attempt a db =
     (if \<not> (at_attempt_no a > 0 \<and> sql_nonempty (at_submission_id a))
      then Inl (ConstraintError ''authority_attempts_check'')
      else if \<not> has_document db (at_document_id a) then Inl (ConstraintError ''authority_attempts_fkey'')
      else if list_ex (\<lambda>b. at_id b = at_id a) (authority_attempts db)
      then Inl (ConstraintError ''authority_attempts_pkey'')
      else if list_ex (\<lambda>b. at_submission_id b = at_submission_id a \<and> at_attempt_no b = at_attempt_no a)
             (authority_attempts db)
      then Inl (ConstraintError ''authority_attempts_submission_attempt_unique'')
      else Inr (db\<lparr>authority_attempts := authority_attempts db @ [a]\<rparr>))"

definition insert_response :: "authority_response \<Rightarrow> fiscal_db \<Rightarrow> store_error + fiscal_db" where
  "insert_response r db =
     (if rp_outcome r \<notin> {AuthorityAccepted, AuthorityRejected, AuthorityOutcomeUnknown}
      then Inl (ConstraintError ''authority_responses_outcome_check'')
      else if \<not> list_ex (\<lambda>a. at_id a = rp_attempt_id r) (authority_attempts db)
      then Inl (ConstraintError ''authority_responses_fkey'')
      else if list_ex (\<lambda>q. rp_id q = rp_id r) (authority_responses db)
      then Inl (ConstraintError ''authority_responses_pkey'')
      else if list_ex (\<lambda>q. rp_attempt_id q = rp_attempt_id r) (authority_responses db)
      then Inl (ConstraintError ''authority_responses_attempt_unique'')
      else Inr (db\<lparr>authority_responses := authority_responses db @ [r]\<rparr>))"

text \<open>A transaction that failed leaves the database as it was.\<close>

definition atomically :: "(fiscal_db \<Rightarrow> store_error + 'a \<times> fiscal_db) \<Rightarrow> fiscal_db \<Rightarrow> (store_error + 'a) \<times> fiscal_db" where
  "atomically tx db = (case tx db of Inl e \<Rightarrow> (Inl e, db) | Inr (v, db') \<Rightarrow> (Inr v, db'))"

lemma atomically_simps [simp]:
  "tx db = Inl e \<Longrightarrow> atomically tx db = (Inl e, db)"
  "tx db = Inr (v, db') \<Longrightarrow> atomically tx db = (Inr v, db')"
  by (simp_all add: atomically_def)

lemma atomically_cases:
  obtains (rolled_back) e where "tx db = Inl e" "atomically tx db = (Inl e, db)"
  | (committed) v db' where "tx db = Inr (v, db')" "atomically tx db = (Inr v, db')"
proof (cases "tx db")
  case (Inl e)
  then show ?thesis by (intro rolled_back) simp_all
next
  case (Inr p)
  then show ?thesis by (cases p) (intro committed, simp_all)
qed

text \<open>What each insert does when it succeeds.\<close>

lemma insert_document_Inr:
  "insert_document d db = Inr db' \<longleftrightarrow>
   document_check d \<and> dc_id d \<notin> dc_id ` set (documents db)
   \<and> (dc_scope_id d, dc_external_id d) \<notin> (\<lambda>e. (dc_scope_id e, dc_external_id e)) ` set (documents db)
   \<and> (dc_scope_id d, dc_series_code d, dc_fiscal_seq d)
       \<notin> (\<lambda>e. (dc_scope_id e, dc_series_code e, dc_fiscal_seq e)) ` set (documents db)
   \<and> db' = db\<lparr>documents := documents db @ [d]\<rparr>"
  unfolding insert_document_def has_document_def list_ex_key3 list_ex_key2 list_ex_key if_Inl_Inr by auto

lemma insert_document_line_Inr:
  "insert_document_line l db = Inr db' \<longleftrightarrow>
   sql_nonempty (dl_line_id l) \<and> sql_nonempty (dl_description l) \<and> dl_quantity_scaled l > 0
   \<and> dl_unit_price_cents l \<ge> 0 \<and> sql_nonempty (dl_tax_code l) \<and> has_document db (dl_document_id l)
   \<and> (dl_document_id l, dl_line_no l) \<notin> (\<lambda>m. (dl_document_id m, dl_line_no m)) ` set (document_lines db)
   \<and> db' = db\<lparr>document_lines := document_lines db @ [l]\<rparr>"
  unfolding insert_document_line_def list_ex_key2 list_ex_key if_Inl_Inr by auto

lemma insert_ledger_event_Inr:
  "insert_ledger_event e db = Inr db' \<longleftrightarrow>
   le_seq e > 0 \<and> sql_nonempty (le_event_type e) \<and> has_document db (le_document_id e)
   \<and> le_id e \<notin> le_id ` set (ledger_events db)
   \<and> (le_document_id e, le_seq e) \<notin> (\<lambda>f. (le_document_id f, le_seq f)) ` set (ledger_events db)
   \<and> db' = db\<lparr>ledger_events := ledger_events db @ [e]\<rparr>"
  unfolding insert_ledger_event_def list_ex_key2 list_ex_key if_Inl_Inr by auto

lemma insert_outbox_message_Inr:
  "insert_outbox_message m db = Inr db' \<longleftrightarrow>
   sql_nonempty (ob_submission_id m) \<and> ob_message_type m = ''authority_submission''
   \<and> has_document db (ob_document_id m) \<and> ob_id m \<notin> ob_id ` set (outbox_messages db)
   \<and> ob_submission_id m \<notin> ob_submission_id ` set (outbox_messages db)
   \<and> db' = db\<lparr>outbox_messages := outbox_messages db @ [m]\<rparr>"
  unfolding insert_outbox_message_def list_ex_key2 list_ex_key if_Inl_Inr by auto

lemma insert_attempt_Inr:
  "insert_attempt a db = Inr db' \<longleftrightarrow>
   at_attempt_no a > 0 \<and> sql_nonempty (at_submission_id a) \<and> has_document db (at_document_id a)
   \<and> at_id a \<notin> at_id ` set (authority_attempts db)
   \<and> (at_submission_id a, at_attempt_no a)
       \<notin> (\<lambda>b. (at_submission_id b, at_attempt_no b)) ` set (authority_attempts db)
   \<and> db' = db\<lparr>authority_attempts := authority_attempts db @ [a]\<rparr>"
  unfolding insert_attempt_def list_ex_key2 list_ex_key if_Inl_Inr by auto

lemma insert_response_Inr:
  "insert_response r db = Inr db' \<longleftrightarrow>
   rp_outcome r \<in> {AuthorityAccepted, AuthorityRejected, AuthorityOutcomeUnknown}
   \<and> rp_attempt_id r \<in> at_id ` set (authority_attempts db)
   \<and> rp_id r \<notin> rp_id ` set (authority_responses db)
   \<and> rp_attempt_id r \<notin> rp_attempt_id ` set (authority_responses db)
   \<and> db' = db\<lparr>authority_responses := authority_responses db @ [r]\<rparr>"
  unfolding insert_response_def list_ex_key2 list_ex_key if_Inl_Inr by auto

lemmas insert_Inr = insert_document_Inr insert_document_line_Inr insert_ledger_event_Inr
  insert_outbox_message_Inr insert_attempt_Inr insert_response_Inr

end
