(* ===== verification/SealStore.thy ===== *)
theory SealStore
  imports FiscalDb
begin

text \<open>
  \<^verbatim>\<open>SealInTx\<close> (\<^verbatim>\<open>internal/persistence/seal.go\<close>, \<^verbatim>\<open>seal_tx.go\<close>): one transaction that
  resolves idempotency, takes the next fiscal number of the series, and inserts the document,
  its lines, the first ledger event and the outbox message. The clock reading and the four
  random identifiers are arguments; nothing is assumed of them.
\<close>

section \<open>Requests and results\<close>

record seal_request =
  sq_IdempotencyKey :: string
  sq_SeriesCode :: string
  sq_Intent :: document_intent

record seal_result =
  rs_DocumentID :: string
  rs_FiscalSeq :: int
  rs_SeriesCode :: string
  rs_ScopeID :: string
  rs_ExternalID :: string
  rs_SubmissionID :: string
  rs_CreatedAt :: gotime
  rs_IdempotentHit :: bool

text \<open>The four calls of \<^verbatim>\<open>newID\<close>, in order.\<close>

record seal_ids =
  id_doc :: string
  id_ledger :: string
  id_outbox :: string
  id_submission :: string

section \<open>Validation\<close>

definition hasNonWhitespace :: "string \<Rightarrow> bool" where
  "hasNonWhitespace s \<longleftrightarrow> strings_TrimSpace s \<noteq> []"

fun validate_lines :: "nat \<Rightarrow> canonical_line list \<Rightarrow> store_error + unit" where
  "validate_lines i [] = Inr ()"
| "validate_lines i (ln # lns) =
     (let p = ''lines['' @ strconv_Itoa (int i) @ '']''
      in if \<not> hasNonWhitespace (ln_LineID ln) then Inl (ValidationError (p @ ''.line_id'') ''REQUIRED'')
         else if \<not> hasNonWhitespace (ln_Description ln) then Inl (ValidationError (p @ ''.description'') ''REQUIRED'')
         else if \<not> hasNonWhitespace (ln_TaxCode ln) then Inl (ValidationError (p @ ''.tax_code'') ''REQUIRED'')
         else validate_lines (Suc i) lns)"

definition prepareSealRequest :: "tzdb \<Rightarrow> seal_request \<Rightarrow> store_error + seal_request" where
  "prepareSealRequest tzs req =
     (let it = sq_Intent req
      in if strings_TrimSpace (sq_IdempotencyKey req) = [] then Inl (ValidationError ''idempotency_key'' ''REQUIRED'')
         else if strings_TrimSpace (sq_SeriesCode req) = [] then Inl (ValidationError ''series_code'' ''REQUIRED'')
         else if strings_TrimSpace (di_ScopeID it) = [] then Inl (ValidationError ''scope_id'' ''REQUIRED'')
         else if \<not> hasNonWhitespace (di_ExternalID it) then Inl (ValidationError ''external_id'' ''REQUIRED'')
         else if di_Currency it \<noteq> ''AOA'' then Inl (ValidationError ''currency'' ''INVALID_ENUM'')
         else if di_DocumentType it \<noteq> ''invoice'' \<and> di_DocumentType it \<noteq> ''credit_note''
         then Inl (ValidationError ''document_type'' ''INVALID_ENUM'')
         else if length (di_Lines it) = 0 then Inl (ValidationError ''lines'' ''REQUIRED'')
         else if \<not> hasNonWhitespace (di_SellerTaxID it) then Inl (ValidationError ''seller.tax_id'' ''REQUIRED'')
         else if \<not> hasNonWhitespace (di_SellerName it) then Inl (ValidationError ''seller.name'' ''REQUIRED'')
         else if \<not> hasNonWhitespace (di_IssuedTimezone it) then Inl (ValidationError ''issued_timezone'' ''REQUIRED'')
         else if di_IssuedOffsetMinutes it < -840 \<or> di_IssuedOffsetMinutes it > 840
         then Inl (ValidationError ''issued_offset_minutes'' ''OUT_OF_RANGE'')
         else if \<not> hasNonWhitespace (di_IssuedAtUTC it) then Inl (ValidationError ''issued_at'' ''REQUIRED'')
         else case ValidateNormalizedContext tzs (di_IssuedAtUTC it) (di_IssuedTimezone it) (di_IssuedOffsetMinutes it) of
           Inl _ \<Rightarrow> Inl (ValidationError ''issued_at'' ''INVALID_ISSUED_AT'')
         | Inr _ \<Rightarrow>
             bind_result (validate_lines 0 (di_Lines it))
               (\<lambda>_. Inr (req\<lparr>sq_SeriesCode := strings_TrimSpace (sq_SeriesCode req)\<rparr>)))"

section \<open>The steps of the transaction\<close>

definition nullIfEmpty :: "string \<Rightarrow> string option" where
  "nullIfEmpty s = (if s = [] then None else Some s)"

text \<open>The document joined with its outbox message.\<close>

definition loadCompletedResult :: "string \<Rightarrow> fiscal_db \<Rightarrow> store_error + seal_result" where
  "loadCompletedResult docID db =
     (case find (\<lambda>d. dc_id d = docID) (documents db) of
        None \<Rightarrow> Inl NoRows
      | Some d \<Rightarrow>
          (case find (\<lambda>o'. ob_document_id o' = docID) (outbox_messages db) of
             None \<Rightarrow> Inl NoRows
           | Some ob \<Rightarrow>
               Inr \<lparr>rs_DocumentID = docID, rs_FiscalSeq = dc_fiscal_seq d, rs_SeriesCode = dc_series_code d,
                    rs_ScopeID = dc_scope_id d, rs_ExternalID = dc_external_id d,
                    rs_SubmissionID = ob_submission_id ob, rs_CreatedAt = trunc_us (dc_created_at d),
                    rs_IdempotentHit = True\<rparr>))"

text \<open>\<^verbatim>\<open>INSERT ... ON CONFLICT DO NOTHING\<close>, then the row is read under the lock.\<close>

definition resolveIdempotency ::
  "seal_request \<Rightarrow> string \<Rightarrow> gotime \<Rightarrow> fiscal_db \<Rightarrow> store_error + seal_result option \<times> fiscal_db" where
  "resolveIdempotency req hash now db =
     (let k = (di_ScopeID (sq_Intent req), sq_IdempotencyKey req)
      in if \<not> (sql_nonempty (fst k) \<and> sql_nonempty (snd k) \<and> length hash = 32)
         then Inl (ConstraintError ''idempotency_records_check'')
         else
           let row = (case idempotency_records db k of
                        Some r \<Rightarrow> r
                      | None \<Rightarrow> \<lparr>im_request_hash = hash, im_document_id = None, im_state = IdemInProgress,
                                 im_created_at = now, im_updated_at = now\<rparr>);
               db = db\<lparr>idempotency_records := (idempotency_records db)(k := Some row)\<rparr>
           in case im_state row of
                IdemCompleted \<Rightarrow>
                  if im_request_hash row \<noteq> hash then Inl ErrIdempotencyConflict
                  else (case im_document_id row of
                          None \<Rightarrow> Inl CompletedWithoutDocument
                        | Some docID \<Rightarrow> bind_result (loadCompletedResult docID db) (\<lambda>r. Inr (Some r, db)))
              | IdemInProgress \<Rightarrow>
                  if im_request_hash row \<noteq> hash then Inl ErrIdempotencyConflict else Inr (None, db))"

text \<open>The counter of the series: \<^verbatim>\<open>int64\<close> addition, \<^verbatim>\<open>CHECK (last_seq >= 0)\<close>.\<close>

definition nextFiscalSeq :: "string \<Rightarrow> string \<Rightarrow> fiscal_db \<Rightarrow> store_error + int \<times> fiscal_db" where
  "nextFiscalSeq scopeID seriesCode db =
     (if \<not> (sql_nonempty scopeID \<and> sql_nonempty seriesCode) then Inl (ConstraintError ''series_counters_check'')
      else
        let last = (case series_counters db (scopeID, seriesCode) of Some n \<Rightarrow> n | None \<Rightarrow> 0);
            next = wrap64 (last + 1)
        in if next < 0 then Inl (ConstraintError ''series_counters_last_seq_nonneg'')
           else Inr (next, db\<lparr>series_counters := (series_counters db)((scopeID, seriesCode) := Some next)\<rparr>))"

definition issuedAtArg :: "dialect \<Rightarrow> string \<Rightarrow> store_error + sql_time" where
  "issuedAtArg dia issuedAt =
     (if dia = DialectPostgres then
        (case parse_utc_micro issuedAt of
           Some t \<Rightarrow> Inr (StampTime (trunc_us t))
         | None \<Rightarrow> (case parse_rfc3339 issuedAt of
                      Some (t, _) \<Rightarrow> Inr (StampTime (trunc_us t))
                    | None \<Rightarrow> Inl IssuedAtUnparsable))
      else Inr (TextTime issuedAt))"

definition document_row :: "string \<Rightarrow> seal_request \<Rightarrow> sql_time \<Rightarrow> int \<Rightarrow> gotime \<Rightarrow> document" where
  "document_row docID req issued fiscalSeq now =
     (let it = sq_Intent req
      in \<lparr>dc_id = docID, dc_scope_id = di_ScopeID it, dc_external_id = di_ExternalID it,
          dc_document_type = di_DocumentType it, dc_currency = di_Currency it, dc_issued_at = issued,
          dc_issued_timezone = di_IssuedTimezone it, dc_issued_offset_minutes = di_IssuedOffsetMinutes it,
          dc_requested_series = nullIfEmpty (di_RequestedSeries it), dc_series_code = sq_SeriesCode req,
          dc_fiscal_seq = fiscalSeq, dc_seller_tax_id = di_SellerTaxID it, dc_seller_name = di_SellerName it,
          dc_customer_tax_id = nullIfEmpty (di_CustomerTaxID it),
          dc_customer_name = nullIfEmpty (di_CustomerName it), dc_created_at = now, dc_sealed_at = now\<rparr>)"

definition line_row :: "string \<Rightarrow> nat \<Rightarrow> canonical_line \<Rightarrow> document_line" where
  "line_row docID i ln =
     \<lparr>dl_document_id = docID, dl_line_no = int i + 1, dl_line_id = ln_LineID ln,
      dl_description = ln_Description ln, dl_quantity_scaled = scaled (ln_Quantity ln),
      dl_unit_price_cents = cents (ln_UnitPrice ln), dl_tax_code = ln_TaxCode ln\<rparr>"

fun insert_lines :: "string \<Rightarrow> nat \<Rightarrow> canonical_line list \<Rightarrow> fiscal_db \<Rightarrow> store_error + fiscal_db" where
  "insert_lines docID i [] db = Inr db"
| "insert_lines docID i (ln # lns) db =
     bind_result (insert_document_line (line_row docID i ln) db) (insert_lines docID (Suc i) lns)"

definition complete_idempotency :: "seal_request \<Rightarrow> string \<Rightarrow> gotime \<Rightarrow> fiscal_db \<Rightarrow> fiscal_db" where
  "complete_idempotency req docID now db =
     (let k = (di_ScopeID (sq_Intent req), sq_IdempotencyKey req)
      in db\<lparr>idempotency_records := (idempotency_records db)
             (k := map_option (\<lambda>r. r\<lparr>im_document_id := Some docID, im_state := IdemCompleted, im_updated_at := now\<rparr>)
                     (idempotency_records db k))\<rparr>)"

definition seal_ledger_event :: "seal_ids \<Rightarrow> gotime \<Rightarrow> ledger_event" where
  "seal_ledger_event ids now =
     \<lparr>le_id = id_ledger ids, le_document_id = id_doc ids, le_seq = 1, le_event_type = ''status_transition'',
      le_from_status = None, le_to_status = SealedLocally, le_created_at = now\<rparr>"

definition seal_outbox_message :: "seal_ids \<Rightarrow> gotime \<Rightarrow> outbox_message" where
  "seal_outbox_message ids now =
     \<lparr>ob_id = id_outbox ids, ob_document_id = id_doc ids, ob_message_type = ''authority_submission'',
      ob_submission_id = id_submission ids, ob_state = OutboxPending, ob_available_at = now,
      ob_created_at = now, ob_updated_at = now\<rparr>"

definition sealInQuerier ::
  "dialect \<Rightarrow> gotime \<Rightarrow> seal_ids \<Rightarrow> seal_request \<Rightarrow> string \<Rightarrow> fiscal_db \<Rightarrow> store_error + seal_result \<times> fiscal_db" where
  "sealInQuerier dia clock ids req hash db0 =
     (let now = trunc_us clock; it = sq_Intent req
      in bind_result (resolveIdempotency req hash now db0) (\<lambda>(hit, db).
         case hit of
           Some r \<Rightarrow> Inr (r, db)
         | None \<Rightarrow>
             if list_ex (\<lambda>d. dc_scope_id d = di_ScopeID it \<and> dc_external_id d = di_ExternalID it) (documents db)
             then Inl ErrExternalIDConflict
             else
               bind_result (nextFiscalSeq (di_ScopeID it) (sq_SeriesCode req) db) (\<lambda>(fiscalSeq, db).
               bind_result (issuedAtArg dia (di_IssuedAtUTC it)) (\<lambda>issued.
               bind_result (insert_document (document_row (id_doc ids) req issued fiscalSeq now) db) (\<lambda>db.
               bind_result (insert_lines (id_doc ids) 0 (di_Lines it) db) (\<lambda>db.
               bind_result (insert_ledger_event (seal_ledger_event ids now) db) (\<lambda>db.
               bind_result (insert_outbox_message (seal_outbox_message ids now) db) (\<lambda>db.
                 Inr (\<lparr>rs_DocumentID = id_doc ids, rs_FiscalSeq = fiscalSeq, rs_SeriesCode = sq_SeriesCode req,
                       rs_ScopeID = di_ScopeID it, rs_ExternalID = di_ExternalID it,
                       rs_SubmissionID = id_submission ids, rs_CreatedAt = now, rs_IdempotentHit = False\<rparr>,
                      complete_idempotency req (id_doc ids) now db)))))))))"

definition SealInTx ::
  "tzdb \<Rightarrow> (string \<Rightarrow> string) \<Rightarrow> dialect \<Rightarrow> gotime \<Rightarrow> seal_ids \<Rightarrow> seal_request \<Rightarrow> fiscal_db
     \<Rightarrow> (store_error + seal_result) \<times> fiscal_db" where
  "SealInTx tzs sha256 dia clock ids req db =
     (case prepareSealRequest tzs req of
        Inl e \<Rightarrow> (Inl e, db)
      | Inr normalized \<Rightarrow>
          let hash = RequestHash sha256 \<lparr>pj_SeriesCode = sq_SeriesCode normalized, pj_Intent = sq_Intent normalized\<rparr>
          in case dia of
               OtherDialect d \<Rightarrow> (Inl (UnknownDialect d), db)
             | _ \<Rightarrow> atomically (sealInQuerier dia clock ids normalized hash) db)"

section \<open>What each step does\<close>

lemma insert_lines_Inr:
  "insert_lines docID i lns db = Inr db' \<Longrightarrow>
   db' = db\<lparr>document_lines := document_lines db @ map (\<lambda>(j, ln). line_row docID j ln) (enumerate i lns)\<rparr>
   \<and> list_all (\<lambda>ln. 0 < scaled (ln_Quantity ln) \<and> 0 \<le> cents (ln_UnitPrice ln)) lns"
proof (induction lns arbitrary: i db)
  case Nil
  then show ?case by simp
next
  case (Cons ln lns)
  from Cons.prems obtain db1 where 1: "insert_document_line (line_row docID i ln) db = Inr db1"
    and 2: "insert_lines docID (Suc i) lns db1 = Inr db'"
    by (auto simp: bind_result_Inr)
  from 1 have d: "db1 = db\<lparr>document_lines := document_lines db @ [line_row docID i ln]\<rparr>"
    "0 < scaled (ln_Quantity ln)" "0 \<le> cents (ln_UnitPrice ln)"
    by (simp_all add: insert_document_line_Inr line_row_def)
  from Cons.IH [OF 2] d show ?case by simp
qed

text \<open>A transaction that seals a new document, written out.\<close>

definition sealed_db ::
  "dialect \<Rightarrow> gotime \<Rightarrow> seal_ids \<Rightarrow> seal_request \<Rightarrow> string \<Rightarrow> sql_time \<Rightarrow> int \<Rightarrow> fiscal_db \<Rightarrow> fiscal_db" where
  "sealed_db dia now ids req hash issued n db =
     db\<lparr>idempotency_records := (idempotency_records db)((di_ScopeID (sq_Intent req), sq_IdempotencyKey req) :=
          Some \<lparr>im_request_hash = hash, im_document_id = Some (id_doc ids), im_state = IdemCompleted,
                im_created_at = (case idempotency_records db (di_ScopeID (sq_Intent req), sq_IdempotencyKey req) of
                                   Some r \<Rightarrow> im_created_at r | None \<Rightarrow> now),
                im_updated_at = now\<rparr>),
        series_counters := (series_counters db)((di_ScopeID (sq_Intent req), sq_SeriesCode req) := Some n),
        documents := documents db @ [document_row (id_doc ids) req issued n now],
        document_lines := document_lines db @
          map (\<lambda>(j, ln). line_row (id_doc ids) j ln) (enumerate 0 (di_Lines (sq_Intent req))),
        ledger_events := ledger_events db @ [seal_ledger_event ids now],
        outbox_messages := outbox_messages db @ [seal_outbox_message ids now]\<rparr>"

lemma resolveIdempotency_miss:
  assumes "resolveIdempotency req hash now db = Inr (None, db')"
  shows "sql_nonempty (di_ScopeID (sq_Intent req))"
    and "case idempotency_records db (di_ScopeID (sq_Intent req), sq_IdempotencyKey req) of
           None \<Rightarrow> True | Some r \<Rightarrow> im_state r = IdemInProgress \<and> im_request_hash r = hash"
    and "db' = db\<lparr>idempotency_records := (idempotency_records db)
           ((di_ScopeID (sq_Intent req), sq_IdempotencyKey req) :=
             Some (case idempotency_records db (di_ScopeID (sq_Intent req), sq_IdempotencyKey req) of
                     Some r \<Rightarrow> r
                   | None \<Rightarrow> \<lparr>im_request_hash = hash, im_document_id = None, im_state = IdemInProgress,
                              im_created_at = now, im_updated_at = now\<rparr>))\<rparr>"
  using assms
  by (auto simp: resolveIdempotency_def Let_def bind_result_Inr
      split: if_splits option.splits idem_state.splits)

lemma fun_upd_same: "f k = v \<Longrightarrow> f(k := v) = f"
  by auto

lemma resolveIdempotency_hit:
  assumes "resolveIdempotency req hash now db = Inr (Some r, db')"
  obtains row docID where
    "idempotency_records db (di_ScopeID (sq_Intent req), sq_IdempotencyKey req) = Some row"
    "im_state row = IdemCompleted" "im_request_hash row = hash" "im_document_id row = Some docID"
    "loadCompletedResult docID db = Inr r" "db' = db"
proof -
  let ?k = "(di_ScopeID (sq_Intent req), sq_IdempotencyKey req)"
  let ?none = "\<lparr>im_request_hash = hash, im_document_id = None, im_state = IdemInProgress,
    im_created_at = now, im_updated_at = now\<rparr>"
  define row where "row = (case idempotency_records db ?k of Some r \<Rightarrow> r | None \<Rightarrow> ?none)"
  define db1 where "db1 = db\<lparr>idempotency_records := (idempotency_records db)(?k := Some row)\<rparr>"
  have res: "(case im_state row of
      IdemCompleted \<Rightarrow>
        if im_request_hash row \<noteq> hash then Inl ErrIdempotencyConflict
        else (case im_document_id row of
                None \<Rightarrow> Inl CompletedWithoutDocument
              | Some docID \<Rightarrow> bind_result (loadCompletedResult docID db1) (\<lambda>r. Inr (Some r, db1)))
    | IdemInProgress \<Rightarrow>
        if im_request_hash row \<noteq> hash then Inl ErrIdempotencyConflict else Inr (None, db1)) = Inr (Some r, db')"
    using assms unfolding resolveIdempotency_def Let_def if_Inl_Inr row_def db1_def by (elim conjE)
  have st: "im_state row = IdemCompleted"
    using res by (cases "im_state row") (auto split: if_splits)
  then have hash: "im_request_hash row = hash" using res by (auto split: if_splits)
  with st res obtain docID where d: "im_document_id row = Some docID"
    "bind_result (loadCompletedResult docID db1) (\<lambda>r. Inr (Some r, db1)) = Inr (Some r, db')"
    by (cases "im_document_id row") auto
  have some: "idempotency_records db ?k = Some row"
    using st by (cases "idempotency_records db ?k") (simp_all add: row_def)
  then have "db1 = db" by (simp add: db1_def fun_upd_same)
  with d(2) have "loadCompletedResult docID db = Inr r" "db' = db" by (auto simp: bind_result_Inr)
  with some st hash d(1) show ?thesis by (rule that)
qed

definition last_number :: "fiscal_db \<Rightarrow> string \<times> string \<Rightarrow> int" where
  "last_number db k = (case series_counters db k of Some n \<Rightarrow> n | None \<Rightarrow> 0)"

text \<open>The two ways in which the transaction commits.\<close>

lemma sealInQuerier_cases:
  assumes "sealInQuerier dia clock ids req hash db = Inr (r, db')"
  obtains
    (replay) row docID where
      "idempotency_records db (di_ScopeID (sq_Intent req), sq_IdempotencyKey req) = Some row"
      "im_state row = IdemCompleted" "im_request_hash row = hash" "im_document_id row = Some docID"
      "loadCompletedResult docID db = Inr r" "db' = db"
  | (fresh) issued n where
      "case idempotency_records db (di_ScopeID (sq_Intent req), sq_IdempotencyKey req) of
         None \<Rightarrow> True | Some row \<Rightarrow> im_state row = IdemInProgress \<and> im_request_hash row = hash"
      "n = wrap64 (last_number db (di_ScopeID (sq_Intent req), sq_SeriesCode req) + 1)" "0 \<le> n"
      "issuedAtArg dia (di_IssuedAtUTC (sq_Intent req)) = Inr issued"
      "id_doc ids \<notin> dc_id ` set (documents db)"
      "(di_ScopeID (sq_Intent req), di_ExternalID (sq_Intent req))
         \<notin> (\<lambda>e. (dc_scope_id e, dc_external_id e)) ` set (documents db)"
      "list_all (\<lambda>ln. 0 < scaled (ln_Quantity ln) \<and> 0 \<le> cents (ln_UnitPrice ln)) (di_Lines (sq_Intent req))"
      "id_ledger ids \<notin> le_id ` set (ledger_events db)"
      "id_outbox ids \<notin> ob_id ` set (outbox_messages db)"
      "id_submission ids \<notin> ob_submission_id ` set (outbox_messages db)"
      "db' = sealed_db dia (trunc_us clock) ids req hash issued n db"
      "r = \<lparr>rs_DocumentID = id_doc ids, rs_FiscalSeq = n, rs_SeriesCode = sq_SeriesCode req,
            rs_ScopeID = di_ScopeID (sq_Intent req), rs_ExternalID = di_ExternalID (sq_Intent req),
            rs_SubmissionID = id_submission ids, rs_CreatedAt = trunc_us clock, rs_IdempotentHit = False\<rparr>"
      "sql_nonempty (id_submission ids)"
proof -
  let ?it = "sq_Intent req" and ?now = "trunc_us clock"
  let ?k = "(di_ScopeID ?it, sq_IdempotencyKey req)"
  from assms obtain hit db1 where res: "resolveIdempotency req hash ?now db = Inr (hit, db1)"
    and rest: "(case hit of Some r' \<Rightarrow> Inr (r', db1) | None \<Rightarrow>
      if list_ex (\<lambda>d. dc_scope_id d = di_ScopeID ?it \<and> dc_external_id d = di_ExternalID ?it) (documents db1)
      then Inl ErrExternalIDConflict
      else bind_result (nextFiscalSeq (di_ScopeID ?it) (sq_SeriesCode req) db1) (\<lambda>(fiscalSeq, db).
               bind_result (issuedAtArg dia (di_IssuedAtUTC ?it)) (\<lambda>issued.
               bind_result (insert_document (document_row (id_doc ids) req issued fiscalSeq ?now) db) (\<lambda>db.
               bind_result (insert_lines (id_doc ids) 0 (di_Lines ?it) db) (\<lambda>db.
               bind_result (insert_ledger_event (seal_ledger_event ids ?now) db) (\<lambda>db.
               bind_result (insert_outbox_message (seal_outbox_message ids ?now) db) (\<lambda>db.
                 Inr (\<lparr>rs_DocumentID = id_doc ids, rs_FiscalSeq = fiscalSeq, rs_SeriesCode = sq_SeriesCode req,
                       rs_ScopeID = di_ScopeID ?it, rs_ExternalID = di_ExternalID ?it,
                       rs_SubmissionID = id_submission ids, rs_CreatedAt = ?now, rs_IdempotentHit = False\<rparr>,
                      complete_idempotency req (id_doc ids) ?now db)))))))) = Inr (r, db')"
    by (auto simp: sealInQuerier_def Let_def bind_result_Inr)
  show ?thesis
  proof (cases hit)
    case (Some r')
    with rest have "r' = r" "db1 = db'" by simp_all
    with Some res have "resolveIdempotency req hash ?now db = Inr (Some r, db')" by simp
    then show ?thesis by (elim resolveIdempotency_hit) (rule replay)
  next
    case None
    note miss = resolveIdempotency_miss [OF res [unfolded None]]
    have cols: "documents db1 = documents db" "series_counters db1 = series_counters db"
      "document_lines db1 = document_lines db" "ledger_events db1 = ledger_events db"
      "outbox_messages db1 = outbox_messages db"
      using miss(3) by simp_all
    from rest [unfolded None option.case if_Inl_Inr] obtain n db2 issued db3 db4 db5 db6 where
      steps: "nextFiscalSeq (di_ScopeID ?it) (sq_SeriesCode req) db1 = Inr (n, db2)"
      "issuedAtArg dia (di_IssuedAtUTC ?it) = Inr issued"
      "insert_document (document_row (id_doc ids) req issued n ?now) db2 = Inr db3"
      "insert_lines (id_doc ids) 0 (di_Lines ?it) db3 = Inr db4"
      "insert_ledger_event (seal_ledger_event ids ?now) db4 = Inr db5"
      "insert_outbox_message (seal_outbox_message ids ?now) db5 = Inr db6"
      and out: "r = \<lparr>rs_DocumentID = id_doc ids, rs_FiscalSeq = n, rs_SeriesCode = sq_SeriesCode req,
            rs_ScopeID = di_ScopeID ?it, rs_ExternalID = di_ExternalID ?it,
            rs_SubmissionID = id_submission ids, rs_CreatedAt = ?now, rs_IdempotentHit = False\<rparr>"
        "db' = complete_idempotency req (id_doc ids) ?now db6"
      by (clarsimp simp: bind_result_Inr)
    have n: "n = wrap64 (last_number db (di_ScopeID ?it, sq_SeriesCode req) + 1)" "0 \<le> n"
      and d2: "db2 = db1\<lparr>series_counters := (series_counters db1)((di_ScopeID ?it, sq_SeriesCode req) := Some n)\<rparr>"
      using steps(1) by (auto simp: nextFiscalSeq_def Let_def last_number_def cols split: if_splits)
    note s = steps(3,5,6) [unfolded insert_Inr] insert_lines_Inr [OF steps(4)]
    have fin: "db' = sealed_db dia ?now ids req hash issued n db"
      using s miss(2,3) d2 out(2)
      by (auto simp: complete_idempotency_def sealed_db_def Let_def fun_eq_iff split: option.splits)
    show ?thesis
      by (rule fresh [OF miss(2) n steps(2) _ _ _ _ _ _ fin out(1) _])
        (use s d2 cols in \<open>simp_all add: document_row_def seal_ledger_event_def seal_outbox_message_def Let_def\<close>)
  qed
qed

end
