(* ===== verification/SealInvariants.thy ===== *)
theory SealInvariants
  imports SealStore
begin

text \<open>
  What holds of the fiscal tables whatever sequence of transactions built them: numbering
  without gaps, unique keys, lines that belong to a document, and idempotency records that are
  complete and point to a document which is the one that was hashed.
\<close>

section \<open>Invariants\<close>

definition series_documents :: "fiscal_db \<Rightarrow> string \<times> string \<Rightarrow> document list" where
  "series_documents db k = filter (\<lambda>d. (dc_scope_id d, dc_series_code d) = k) (documents db)"

definition numbers_gapless :: "fiscal_db \<Rightarrow> bool" where
  "numbers_gapless db \<longleftrightarrow>
     (\<forall>k. map dc_fiscal_seq (series_documents db k) = [1..last_number db k]
        \<and> 0 \<le> last_number db k \<and> last_number db k \<le> max_int64)"

definition keys_unique :: "fiscal_db \<Rightarrow> bool" where
  "keys_unique db \<longleftrightarrow>
     distinct (map dc_id (documents db))
     \<and> distinct (map (\<lambda>d. (dc_scope_id d, dc_external_id d)) (documents db))
     \<and> distinct (map ob_id (outbox_messages db))
     \<and> distinct (map ob_submission_id (outbox_messages db))
     \<and> map ob_document_id (outbox_messages db) = map dc_id (documents db)
     \<and> list_all sql_nonempty (map ob_submission_id (outbox_messages db))"

definition lines_owned :: "fiscal_db \<Rightarrow> bool" where
  "lines_owned db \<longleftrightarrow> dl_document_id ` set (document_lines db) \<subseteq> dc_id ` set (documents db)"

text \<open>
  The stored document and its lines, in order, are those of a projection: the columns are read
  back through \<open>document_row\<close> and \<open>line_row\<close>; \<^verbatim>\<open>issued_at\<close> is the text itself in
  SQLite and its instant in Postgres.
\<close>

definition represents :: "fiscal_db \<Rightarrow> document \<Rightarrow> projection \<Rightarrow> bool" where
  "represents db d p \<longleftrightarrow>
     (\<exists>dia. issuedAtArg dia (di_IssuedAtUTC (pj_Intent p)) = Inr (dc_issued_at d))
     \<and> d = document_row (dc_id d) \<lparr>sq_IdempotencyKey = [], sq_SeriesCode = pj_SeriesCode p, sq_Intent = pj_Intent p\<rparr>
             (dc_issued_at d) (dc_fiscal_seq d) (dc_created_at d)
     \<and> filter (\<lambda>l. dl_document_id l = dc_id d) (document_lines db) =
         map (\<lambda>(j, ln). line_row (dc_id d) j ln) (enumerate 0 (di_Lines (pj_Intent p)))
     \<and> projection_ok p"

definition idem_sound :: "(string \<Rightarrow> string) \<Rightarrow> fiscal_db \<Rightarrow> bool" where
  "idem_sound sha256 db \<longleftrightarrow>
     (\<forall>k row. idempotency_records db k = Some row \<longrightarrow>
        im_state row = IdemCompleted
        \<and> (\<exists>d \<in> set (documents db). im_document_id row = Some (dc_id d) \<and> dc_scope_id d = fst k
             \<and> trunc_us (dc_created_at d) = dc_created_at d
             \<and> (\<exists>p. represents db d p \<and> im_request_hash row = RequestHash sha256 p)))"

definition seal_inv :: "(string \<Rightarrow> string) \<Rightarrow> fiscal_db \<Rightarrow> bool" where
  "seal_inv sha256 db \<longleftrightarrow>
     numbers_gapless db \<and> keys_unique db \<and> lines_owned db \<and> idem_sound sha256 db"

lemma seal_inv_empty: "seal_inv sha256 empty_db"
  by (simp add: seal_inv_def numbers_gapless_def keys_unique_def lines_owned_def idem_sound_def
      empty_db_def series_documents_def last_number_def max_int64_def)

section \<open>Changes that sealing does not see\<close>

definition same_seal_view :: "fiscal_db \<Rightarrow> fiscal_db \<Rightarrow> bool" where
  "same_seal_view db db' \<longleftrightarrow>
     idempotency_records db' = idempotency_records db \<and> documents db' = documents db
     \<and> document_lines db' = document_lines db \<and> series_counters db' = series_counters db
     \<and> map ob_id (outbox_messages db') = map ob_id (outbox_messages db)
     \<and> map ob_document_id (outbox_messages db') = map ob_document_id (outbox_messages db)
     \<and> map ob_submission_id (outbox_messages db') = map ob_submission_id (outbox_messages db)"

lemma same_seal_view_refl [simp]: "same_seal_view db db"
  by (simp add: same_seal_view_def)

lemma same_seal_view_trans: "same_seal_view a b \<Longrightarrow> same_seal_view b c \<Longrightarrow> same_seal_view a c"
  by (simp add: same_seal_view_def)

lemma seal_inv_view: "same_seal_view db db' \<Longrightarrow> seal_inv sha256 db \<Longrightarrow> seal_inv sha256 db'"
  by (simp add: same_seal_view_def seal_inv_def numbers_gapless_def keys_unique_def lines_owned_def
      idem_sound_def represents_def series_documents_def last_number_def)

section \<open>Sealing keeps the invariants\<close>

lemma next_number:
  assumes "0 \<le> m" "m \<le> max_int64" "0 \<le> wrap64 (m + 1)"
  shows "wrap64 (m + 1) = m + 1" "m + 1 \<le> max_int64"
proof -
  have "\<not> max_int64 < m + 1"
    using wrap64_over [of "m + 1"] assms by (auto simp: max_int64_def)
  then show "m + 1 \<le> max_int64" by simp
  with assms show "wrap64 (m + 1) = m + 1" by (intro wrap64_id) simp_all
qed

lemma sealed_db_simps [simp]:
  "documents (sealed_db dia now ids req hash issued n db) =
     documents db @ [document_row (id_doc ids) req issued n now]"
  "ledger_events (sealed_db dia now ids req hash issued n db) = ledger_events db @ [seal_ledger_event ids now]"
  "outbox_messages (sealed_db dia now ids req hash issued n db) =
     outbox_messages db @ [seal_outbox_message ids now]"
  "authority_attempts (sealed_db dia now ids req hash issued n db) = authority_attempts db"
  "authority_responses (sealed_db dia now ids req hash issued n db) = authority_responses db"
  by (simp_all add: sealed_db_def)

lemma row_simps [simp]:
  "dc_id (document_row i req issued n now) = i"
  "dc_scope_id (document_row i req issued n now) = di_ScopeID (sq_Intent req)"
  "dc_external_id (document_row i req issued n now) = di_ExternalID (sq_Intent req)"
  "dc_series_code (document_row i req issued n now) = sq_SeriesCode req"
  "dc_fiscal_seq (document_row i req issued n now) = n"
  "dc_created_at (document_row i req issued n now) = now"
  "dc_issued_at (document_row i req issued n now) = issued"
  "ob_id (seal_outbox_message ids now) = id_outbox ids"
  "ob_document_id (seal_outbox_message ids now) = id_doc ids"
  "ob_submission_id (seal_outbox_message ids now) = id_submission ids"
  "ob_state (seal_outbox_message ids now) = OutboxPending"
  "dl_document_id (line_row i j ln) = i"
  by (simp_all add: document_row_def seal_outbox_message_def line_row_def Let_def)

lemma sealed_numbers:
  assumes "numbers_gapless db" "n = wrap64 (last_number db (di_ScopeID (sq_Intent req), sq_SeriesCode req) + 1)" "0 \<le> n"
  shows "numbers_gapless (sealed_db dia now ids req hash issued n db)"
  unfolding numbers_gapless_def
proof (intro allI)
  fix k
  let ?k = "(di_ScopeID (sq_Intent req), sq_SeriesCode req)"
  let ?db = "sealed_db dia now ids req hash issued n db"
  have old: "map dc_fiscal_seq (series_documents db j) = [1..last_number db j]"
    "0 \<le> last_number db j" "last_number db j \<le> max_int64" for j
    using assms(1) unfolding numbers_gapless_def by blast+
  have n: "n = last_number db ?k + 1" "n \<le> max_int64"
    using next_number [OF old(2,3) [of ?k]] assms(2,3) by simp_all
  have last: "last_number ?db k = (if k = ?k then n else last_number db k)"
    by (simp add: last_number_def sealed_db_def)
  show "map dc_fiscal_seq (series_documents ?db k) = [1..last_number ?db k]
      \<and> 0 \<le> last_number ?db k \<and> last_number ?db k \<le> max_int64"
  proof (cases "k = ?k")
    case True
    have "[1..n] = [1..last_number db ?k] @ [n]"
      using upto_rec2 [of 1 n] n(1) old(2) [of ?k] by simp
    moreover have "series_documents ?db k = series_documents db ?k @ [document_row (id_doc ids) req issued n now]"
      using True by (simp add: series_documents_def)
    ultimately have "map dc_fiscal_seq (series_documents ?db k) = [1..n]" using old(1) [of ?k] by simp
    moreover have "last_number ?db k = n" using last True by simp
    ultimately show ?thesis using assms(3) n(2) by simp
  next
    case False
    then have "series_documents ?db k = series_documents db k"
      by (auto simp: series_documents_def)
    with False old [of k] show ?thesis by (simp add: last)
  qed
qed

lemma represents_new:
  assumes "issuedAtArg dia (di_IssuedAtUTC (sq_Intent req)) = Inr issued"
    "id_doc ids \<notin> dl_document_id ` set (document_lines db)"
    "list_all (\<lambda>ln. 0 < scaled (ln_Quantity ln) \<and> 0 \<le> cents (ln_UnitPrice ln)) (di_Lines (sq_Intent req))"
  shows "represents (sealed_db dia now ids req hash issued n db) (document_row (id_doc ids) req issued n now)
    \<lparr>pj_SeriesCode = sq_SeriesCode req, pj_Intent = sq_Intent req\<rparr>"
proof -
  have "filter (\<lambda>l. dl_document_id l = id_doc ids) (document_lines db) = []"
    using assms(2) unfolding filter_empty_conv image_iff by metis
  moreover have "filter (\<lambda>l. dl_document_id l = i) (map (\<lambda>(j, ln). line_row i j ln) xs) =
      map (\<lambda>(j, ln). line_row i j ln) xs" for i xs
    by (simp add: filter_map comp_def case_prod_unfold)
  ultimately show ?thesis
    using assms(1,3)
    by (auto simp: represents_def sealed_db_def projection_ok_def line_values_ok_def list_all_iff
        document_row_def Let_def less_imp_le)
qed

lemma represents_old:
  assumes "represents db d p" "dc_id d \<noteq> id_doc ids"
  shows "represents (sealed_db dia now ids req hash issued n db) d p"
proof -
  have "filter (\<lambda>l. dl_document_id l = dc_id d) (map (\<lambda>(j, ln). line_row (id_doc ids) j ln) xs) = []" for xs
    using assms(2) by (auto simp: filter_empty_conv)
  with assms(1) show ?thesis by (simp add: represents_def sealed_db_def)
qed

lemma sealed_idem:
  assumes "idem_sound sha256 db" "lines_owned db" "id_doc ids \<notin> dc_id ` set (documents db)"
    "issuedAtArg dia (di_IssuedAtUTC (sq_Intent req)) = Inr issued"
    "list_all (\<lambda>ln. 0 < scaled (ln_Quantity ln) \<and> 0 \<le> cents (ln_UnitPrice ln)) (di_Lines (sq_Intent req))"
    "hash = RequestHash sha256 \<lparr>pj_SeriesCode = sq_SeriesCode req, pj_Intent = sq_Intent req\<rparr>"
    "trunc_us now = now"
  shows "idem_sound sha256 (sealed_db dia now ids req hash issued n db)"
  unfolding idem_sound_def
proof (intro allI impI)
  let ?db = "sealed_db dia now ids req hash issued n db"
  let ?k = "(di_ScopeID (sq_Intent req), sq_IdempotencyKey req)"
  fix k row
  assume row: "idempotency_records ?db k = Some row"
  show "im_state row = IdemCompleted \<and> (\<exists>d \<in> set (documents ?db).
      im_document_id row = Some (dc_id d) \<and> dc_scope_id d = fst k \<and> trunc_us (dc_created_at d) = dc_created_at d
      \<and> (\<exists>p. represents ?db d p \<and> im_request_hash row = RequestHash sha256 p))"
  proof (cases "k = ?k")
    case True
    have "id_doc ids \<notin> dl_document_id ` set (document_lines db)"
      using assms(2,3) by (auto simp: lines_owned_def)
    from represents_new [OF assms(4) this assms(5)]
    have "\<exists>p. represents ?db (document_row (id_doc ids) req issued n now) p \<and> hash = RequestHash sha256 p"
      using assms(6) by blast
    moreover have "im_state row = IdemCompleted" "im_document_id row = Some (id_doc ids)" "im_request_hash row = hash"
      using row True by (auto simp: sealed_db_def)
    ultimately show ?thesis using True assms(7) by simp
  next
    case False
    then have "idempotency_records db k = Some row" using row by (simp add: sealed_db_def)
    with assms(1) obtain d p where d: "im_state row = IdemCompleted" "d \<in> set (documents db)"
      "im_document_id row = Some (dc_id d)" "dc_scope_id d = fst k" "trunc_us (dc_created_at d) = dc_created_at d"
      "represents db d p" "im_request_hash row = RequestHash sha256 p"
      unfolding idem_sound_def by blast
    have "dc_id d \<noteq> id_doc ids" using d(2) assms(3) unfolding image_iff by metis
    with d(6) have "represents ?db d p" by (rule represents_old)
    with d show ?thesis by auto
  qed
qed

lemma sealed_inv:
  assumes inv: "seal_inv sha256 db"
    and tx: "sealInQuerier dia clock ids req
      (RequestHash sha256 \<lparr>pj_SeriesCode = sq_SeriesCode req, pj_Intent = sq_Intent req\<rparr>) db = Inr (r, db')"
  shows "seal_inv sha256 db'"
  using tx
proof (cases rule: sealInQuerier_cases)
  case (replay row docID)
  with inv show ?thesis by simp
next
  case (fresh issued n)
  have "lines_owned db'"
    using inv unfolding fresh(11) seal_inv_def lines_owned_def
    by (auto simp: sealed_db_def)
  moreover have "keys_unique db'"
    using inv fresh(5,6,9,10,13) unfolding fresh(11) seal_inv_def keys_unique_def
    by (simp add: image_iff)
  moreover have "idem_sound sha256 db'"
    using inv unfolding fresh(11) seal_inv_def by (intro sealed_idem fresh(4,5,7)) simp_all
  ultimately show ?thesis
    using inv sealed_numbers fresh(2,3,11) by (simp add: seal_inv_def)
qed

lemma prepare_series:
  "prepareSealRequest tzs req = Inr nreq \<Longrightarrow> nreq = req\<lparr>sq_SeriesCode := strings_TrimSpace (sq_SeriesCode req)\<rparr>"
  by (auto simp: prepareSealRequest_def Let_def bind_result_Inr split: if_splits sum.splits)

text \<open>Sealing either leaves the database alone or is a committed transaction of the normalised request.\<close>

lemma SealInTx_cases:
  obtains (unchanged) "snd (SealInTx tzs sha256 dia clock ids req db) = db"
  | (sealed) nreq r db' where
      "prepareSealRequest tzs req = Inr nreq" "SealInTx tzs sha256 dia clock ids req db = (Inr r, db')"
      "sealInQuerier dia clock ids nreq
        (RequestHash sha256 \<lparr>pj_SeriesCode = sq_SeriesCode nreq, pj_Intent = sq_Intent nreq\<rparr>) db = Inr (r, db')"
proof (cases "prepareSealRequest tzs req")
  case (Inl e)
  then have "snd (SealInTx tzs sha256 dia clock ids req db) = db" by (simp add: SealInTx_def)
  then show ?thesis by (rule unchanged)
next
  case (Inr nreq)
  let ?h = "RequestHash sha256 \<lparr>pj_SeriesCode = sq_SeriesCode nreq, pj_Intent = sq_Intent nreq\<rparr>"
  have run: "SealInTx tzs sha256 dia clock ids req db =
      (case dia of OtherDialect d \<Rightarrow> (Inl (UnknownDialect d), db)
       | _ \<Rightarrow> atomically (sealInQuerier dia clock ids nreq ?h) db)"
    unfolding SealInTx_def Inr Let_def by simp
  show ?thesis
  proof (cases "sealInQuerier dia clock ids nreq ?h db")
    case (Inl e)
    then have "snd (SealInTx tzs sha256 dia clock ids req db) = db"
      unfolding run atomically_def by (cases dia) simp_all
    then show ?thesis by (rule unchanged)
  next
    case com: (Inr p)
    obtain r db' where p: "p = (r, db')" by (cases p)
    show ?thesis
    proof (cases dia)
      case (OtherDialect d)
      then have "snd (SealInTx tzs sha256 dia clock ids req db) = db" unfolding run by simp
      then show ?thesis by (rule unchanged)
    next
      case DialectPostgres
      then have "SealInTx tzs sha256 dia clock ids req db = (Inr r, db')"
        unfolding run atomically_def using com p by simp
      then show ?thesis using com p by (intro sealed [OF Inr]) simp_all
    next
      case DialectSQLite
      then have "SealInTx tzs sha256 dia clock ids req db = (Inr r, db')"
        unfolding run atomically_def using com p by simp
      then show ?thesis using com p by (intro sealed [OF Inr]) simp_all
    qed
  qed
qed

lemma SealInTx_inv: "seal_inv sha256 db \<Longrightarrow> seal_inv sha256 (snd (SealInTx tzs sha256 dia clock ids req db))"
  by (rule SealInTx_cases [of tzs sha256 dia clock ids req db]) (simp_all, blast intro: sealed_inv)

end
