(* ===== verification/Simulator.thy ===== *)
theory Simulator
  imports FiscalPrelude
begin

text \<open>
  The package \<^verbatim>\<open>internal/authority/simulator\<close>: the scripted authority behind the
  interface \<^verbatim>\<open>AuthorityClient\<close> of the outbox worker. Verification of a JWS envelope
  (RSA, JSON) is not modelled: \<open>sm_VerifyPublic\<close> is the parsing function of a key, which
  returns the submission and document identifiers of a valid envelope.
\<close>

datatype outcome = OutcomeAccept | OutcomeReject | OutcomeUnavailable | OutcomeUnknown | OtherOutcome string

datatype submit_error = ErrUnavailable | ErrBadJWS | EmptySubmissionID | InvalidScript outcome | ContextError string

record sim_request =
  sr_SubmissionID :: string
  sr_DocumentID :: string
  sr_JWS :: string

record sim_result =
  sm_AuthorityRequestID :: string
  sm_Outcome :: outcome
  sm_JWSVerified :: bool

record sim_client =
  sm_Default :: outcome
  sm_BySubmission :: "string \<Rightarrow> outcome option"
  sm_calls :: "string \<Rightarrow> nat"
  sm_VerifyPublic :: "(string \<Rightarrow> (string \<times> string) option) option"

definition sim_New :: "outcome \<Rightarrow> sim_client" where
  "sim_New defaultOutcome =
     \<lparr>sm_Default = (if defaultOutcome = OtherOutcome [] then OutcomeAccept else defaultOutcome),
      sm_BySubmission = (\<lambda>_. None), sm_calls = (\<lambda>_. 0), sm_VerifyPublic = None\<rparr>"

definition sim_Script :: "string \<Rightarrow> outcome \<Rightarrow> sim_client \<Rightarrow> sim_client" where
  "sim_Script submissionID out c = c\<lparr>sm_BySubmission := (sm_BySubmission c)(submissionID := Some out)\<rparr>"

definition sim_check_jws :: "sim_client \<Rightarrow> sim_request \<Rightarrow> submit_error + bool" where
  "sim_check_jws c req =
     (case sm_VerifyPublic c of
        None \<Rightarrow> Inr False
      | Some parse \<Rightarrow>
          if sr_JWS req = [] then Inl ErrBadJWS
          else (case parse (sr_JWS req) of
                  None \<Rightarrow> Inl ErrBadJWS
                | Some (sub, doc) \<Rightarrow>
                    if sub \<noteq> sr_SubmissionID req \<or> doc \<noteq> sr_DocumentID req then Inl ErrBadJWS else Inr True))"

definition sim_Submit :: "string option \<Rightarrow> sim_client \<Rightarrow> sim_request \<Rightarrow> (submit_error + sim_result) \<times> sim_client" where
  "sim_Submit ctxErr c req =
     (case ctxErr of
        Some e \<Rightarrow> (Inl (ContextError e), c)
      | None \<Rightarrow>
          if sr_SubmissionID req = [] then (Inl EmptySubmissionID, c)
          else case sim_check_jws c req of
            Inl e \<Rightarrow> (Inl e, c)
          | Inr jwsOK \<Rightarrow>
              let c = c\<lparr>sm_calls := (sm_calls c)(sr_SubmissionID req := sm_calls c (sr_SubmissionID req) + 1)\<rparr>;
                  out = (case sm_BySubmission c (sr_SubmissionID req) of Some v \<Rightarrow> v | None \<Rightarrow> sm_Default c)
              in if out = OutcomeUnavailable then (Inl ErrUnavailable, c)
                 else if out = OutcomeAccept \<or> out = OutcomeReject \<or> out = OutcomeUnknown
                 then (Inr \<lparr>sm_AuthorityRequestID = ''sim-'' @ sr_SubmissionID req, sm_Outcome = out,
                            sm_JWSVerified = jwsOK\<rparr>, c)
                 else (Inl (InvalidScript out), c))"

definition sim_CallCount :: "string \<Rightarrow> sim_client \<Rightarrow> nat" where
  "sim_CallCount submissionID c = sm_calls c submissionID"

section \<open>The contract of an authority client\<close>

text \<open>
  What the outbox worker relies on: a call that returns a result has one of the three outcomes a
  ledger can record. A client keeps a state of its own.
\<close>

locale authority_client =
  fixes submit :: "'c \<Rightarrow> sim_request \<Rightarrow> (submit_error + sim_result) \<times> 'c"
  assumes definite: "submit c req = (Inr res, c') \<Longrightarrow> sm_Outcome res \<in> {OutcomeAccept, OutcomeReject, OutcomeUnknown}"
begin

lemma definite_cases:
  assumes "submit c req = (Inr res, c')"
  obtains "sm_Outcome res = OutcomeAccept" | "sm_Outcome res = OutcomeReject" | "sm_Outcome res = OutcomeUnknown"
  using definite [OF assms] by auto

end

interpretation simulator: authority_client "sim_Submit ctxErr"
  by unfold_locales (auto simp: sim_Submit_def Let_def split: option.splits sum.splits if_splits)

text \<open>A verifying simulator answers only requests whose envelope names the request, and counts only answered calls.\<close>

lemma sim_Submit_verified:
  assumes "sim_Submit ctxErr c req = (Inr res, c')" "sm_VerifyPublic c = Some parse"
  shows "parse (sr_JWS req) = Some (sr_SubmissionID req, sr_DocumentID req) \<and> sm_JWSVerified res
    \<and> sim_CallCount (sr_SubmissionID req) c' = sim_CallCount (sr_SubmissionID req) c + 1"
  using assms
  by (auto simp: sim_Submit_def sim_check_jws_def sim_CallCount_def Let_def split: option.splits sum.splits if_splits)

end
