(* ===== verification/Outbox.thy ===== *)
theory Outbox
  imports SealInvariants Simulator
begin

text \<open>
  The outbox worker (\<^verbatim>\<open>internal/persistence/outbox.go\<close>): a claim, the mark in the ledger,
  the call to the authority and the record of its answer, each in a transaction of its own, so
  that several workers, crashes between transactions and repeated calls interleave freely.
  Clock readings and identifiers are arguments of every transaction.
\<close>

section \<open>The transactions\<close>

definition defaultUnavailableBackoff :: int where
  "defaultUnavailableBackoff = 5 * second"

definition defaultInFlightReclaimAfter :: int where
  "defaultInFlightReclaimAfter = 30 * second"

record outbox_claim =
  cl_ID :: string
  cl_DocumentID :: string
  cl_SubmissionID :: string

record outbox_process_result =
  or_SubmissionID :: string
  or_DocumentID :: string
  or_AttemptNo :: int
  or_Outcome :: "ledger_status option"  \<comment> \<open>None is the text retried_unavailable\<close>
  or_OutboxState :: outbox_state
  or_JWSAttached :: bool

definition claim_of :: "outbox_message \<Rightarrow> outbox_claim" where
  "claim_of m = \<lparr>cl_ID = ob_id m, cl_DocumentID = ob_document_id m, cl_SubmissionID = ob_submission_id m\<rparr>"

text \<open>
  Stale in-flight rows go back to pending; then the pending row that has been available longest
  is taken. \<open>locked\<close> lists the rows other transactions hold (\<^verbatim>\<open>SKIP LOCKED\<close>; none in SQLite).
\<close>

definition reclaim_stale :: "gotime \<Rightarrow> outbox_message list \<Rightarrow> outbox_message list" where
  "reclaim_stale now ms =
     update_where (\<lambda>m. ob_state m = OutboxInFlight \<and> ob_updated_at m \<le> now - defaultInFlightReclaimAfter)
       (\<lambda>m. m\<lparr>ob_state := OutboxPending, ob_available_at := now, ob_updated_at := now\<rparr>) ms"

definition claimOutbox :: "string list \<Rightarrow> gotime \<Rightarrow> fiscal_db \<Rightarrow> store_error + outbox_claim \<times> fiscal_db" where
  "claimOutbox locked clock db =
     (let now = trunc_us clock; ms = reclaim_stale now (outbox_messages db)
      in case first_min ob_available_at
               (\<lambda>m. ob_state m = OutboxPending \<and> ob_available_at m \<le> now \<and> ob_id m \<notin> set locked) ms of
           None \<Rightarrow> Inl ErrOutboxEmpty
         | Some m \<Rightarrow>
             let hit = (\<lambda>x. ob_id x = ob_id m \<and> ob_state x = OutboxPending)
             in if length (filter hit ms) \<noteq> 1 then Inl ErrOutboxEmpty
                else Inr (claim_of m,
                  db\<lparr>outbox_messages :=
                       update_where hit (\<lambda>x. x\<lparr>ob_state := OutboxInFlight, ob_updated_at := now\<rparr>) ms\<rparr>))"

definition doc_ledger :: "fiscal_db \<Rightarrow> string \<Rightarrow> ledger_event list" where
  "doc_ledger db docID = filter (\<lambda>e. le_document_id e = docID) (ledger_events db)"

text \<open>\<^verbatim>\<open>ORDER BY seq DESC LIMIT 1\<close> and \<^verbatim>\<open>COALESCE(MAX(seq), 0) + 1\<close>.\<close>

definition latest_status :: "string \<Rightarrow> fiscal_db \<Rightarrow> ledger_status option" where
  "latest_status docID db = map_option le_to_status (min_row (\<lambda>e. - le_seq e) (doc_ledger db docID))"

definition next_ledger_seq :: "string \<Rightarrow> fiscal_db \<Rightarrow> int" where
  "next_ledger_seq docID db = fold (\<lambda>e n. max (le_seq e) n) (doc_ledger db docID) 0 + 1"

definition transition_event ::
  "string \<Rightarrow> string \<Rightarrow> int \<Rightarrow> ledger_status \<Rightarrow> ledger_status \<Rightarrow> gotime \<Rightarrow> ledger_event" where
  "transition_event i docID n from_s to_s now =
     \<lparr>le_id = i, le_document_id = docID, le_seq = n, le_event_type = ''status_transition'',
      le_from_status = Some from_s, le_to_status = to_s, le_created_at = now\<rparr>"

definition markAuthorityProcessing ::
  "outbox_claim \<Rightarrow> gotime \<Rightarrow> string \<Rightarrow> fiscal_db \<Rightarrow> store_error + unit \<times> fiscal_db" where
  "markAuthorityProcessing cl clock newID db =
     (case latest_status (cl_DocumentID cl) db of
        None \<Rightarrow> Inl NoRows
      | Some latest \<Rightarrow>
          if latest = AuthorityProcessing then Inr ((), db)
          else if latest = SealedLocally then
            bind_result (insert_ledger_event
                (transition_event newID (cl_DocumentID cl) (next_ledger_seq (cl_DocumentID cl) db)
                   SealedLocally AuthorityProcessing (trunc_us clock)) db)
              (\<lambda>db. Inr ((), db))
          else if latest = AuthorityAccepted \<or> latest = AuthorityRejected \<or> latest = AuthorityOutcomeUnknown
          then Inr ((), db)
          else Inl (UnexpectedLedger latest))"

definition releaseOutboxUnavailable ::
  "outbox_claim \<Rightarrow> gotime \<Rightarrow> string \<Rightarrow> fiscal_db \<Rightarrow> store_error + unit \<times> fiscal_db" where
  "releaseOutboxUnavailable cl clock newID db =
     (let now = trunc_us clock; avail = now + defaultUnavailableBackoff;
          db = db\<lparr>outbox_messages :=
            update_where (\<lambda>m. ob_id m = cl_ID cl \<and> ob_state m = OutboxInFlight)
              (\<lambda>m. m\<lparr>ob_state := OutboxPending, ob_available_at := avail, ob_updated_at := now\<rparr>)
              (outbox_messages db)\<rparr>
      in case latest_status (cl_DocumentID cl) db of
           None \<Rightarrow> Inl NoRows
         | Some latest \<Rightarrow>
             if latest \<noteq> AuthorityProcessing then Inr ((), db)
             else bind_result (insert_ledger_event
                    (transition_event newID (cl_DocumentID cl) (next_ledger_seq (cl_DocumentID cl) db)
                       AuthorityProcessing SealedLocally now) db)
                  (\<lambda>db. Inr ((), db)))"

definition mapSimulatorOutcome :: "outcome \<Rightarrow> store_error + ledger_status" where
  "mapSimulatorOutcome out =
     (case out of
        OutcomeAccept \<Rightarrow> Inr AuthorityAccepted
      | OutcomeReject \<Rightarrow> Inr AuthorityRejected
      | OutcomeUnknown \<Rightarrow> Inr AuthorityOutcomeUnknown
      | OutcomeUnavailable \<Rightarrow> Inl (InvalidOutcome ''unavailable'')
      | OtherOutcome s \<Rightarrow> Inl (InvalidOutcome s))"

record persist_ids =
  pi_attempt :: string
  pi_response :: string
  pi_processing :: string
  pi_outcome :: string

definition max_attempt :: "string \<Rightarrow> fiscal_db \<Rightarrow> int option" where
  "max_attempt sub db =
     (case map at_attempt_no (filter (\<lambda>a. at_submission_id a = sub) (authority_attempts db)) of
        [] \<Rightarrow> None
      | n # ns \<Rightarrow> Some (fold max ns n))"

definition finished :: "outbox_claim \<Rightarrow> int \<Rightarrow> ledger_status \<Rightarrow> outbox_process_result" where
  "finished cl attemptNo out =
     \<lparr>or_SubmissionID = cl_SubmissionID cl, or_DocumentID = cl_DocumentID cl, or_AttemptNo = attemptNo,
      or_Outcome = Some out, or_OutboxState = OutboxSucceeded, or_JWSAttached = False\<rparr>"

text \<open>The processing event that is missing when another worker released the document meanwhile, then the outcome.\<close>

definition record_outcome ::
  "outbox_claim \<Rightarrow> gotime \<Rightarrow> persist_ids \<Rightarrow> ledger_status \<Rightarrow> ledger_status \<Rightarrow> fiscal_db \<Rightarrow> store_error + fiscal_db" where
  "record_outcome cl now ids latest ledgerTo db =
     (let doc = cl_DocumentID cl; nextSeq = next_ledger_seq doc db
      in bind_result
           (if latest = SealedLocally
            then bind_result (insert_ledger_event
                   (transition_event (pi_processing ids) doc nextSeq SealedLocally AuthorityProcessing now) db)
                 (\<lambda>db. Inr (nextSeq + 1, AuthorityProcessing, db))
            else Inr (nextSeq, latest, db))
           (\<lambda>(n, fromStatus, db).
              insert_ledger_event (transition_event (pi_outcome ids) doc n fromStatus ledgerTo now) db))"

definition persistAuthoritySuccess ::
  "outbox_claim \<Rightarrow> gotime \<Rightarrow> persist_ids \<Rightarrow> sim_result \<Rightarrow> ledger_status \<Rightarrow> fiscal_db
     \<Rightarrow> store_error + outbox_process_result \<times> fiscal_db" where
  "persistAuthoritySuccess cl clock ids simRes ledgerTo db =
     (let now = trunc_us clock
      in case find (\<lambda>m. ob_id m = cl_ID cl) (outbox_messages db) of
           None \<Rightarrow> Inl NoRows
         | Some m \<Rightarrow>
             if ob_state m = OutboxSucceeded then Inr (finished cl 0 ledgerTo, db)
             else case latest_status (cl_DocumentID cl) db of
               None \<Rightarrow> Inl NoRows
             | Some latest \<Rightarrow>
                 if latest = AuthorityAccepted \<or> latest = AuthorityRejected \<or> latest = AuthorityOutcomeUnknown
                 then Inr (finished cl 0 latest,
                   db\<lparr>outbox_messages := update_where (\<lambda>m. ob_id m = cl_ID cl)
                        (\<lambda>m. m\<lparr>ob_state := OutboxSucceeded, ob_updated_at := now\<rparr>) (outbox_messages db)\<rparr>)
                 else if \<not> (latest = SealedLocally \<or> latest = AuthorityProcessing)
                 then Inl (UnexpectedLedger latest)
                 else
                   let attemptNo = (case max_attempt (cl_SubmissionID cl) db of Some n \<Rightarrow> n + 1 | None \<Rightarrow> 1)
                   in bind_result (record_outcome cl now ids latest ledgerTo db) (\<lambda>db.
                      bind_result (insert_attempt
                          \<lparr>at_id = pi_attempt ids, at_document_id = cl_DocumentID cl,
                           at_submission_id = cl_SubmissionID cl, at_attempt_no = attemptNo, at_sent_at = now\<rparr> db) (\<lambda>db.
                      bind_result (insert_response
                          \<lparr>rp_id = pi_response ids, rp_attempt_id = pi_attempt ids,
                           rp_authority_request_id = nullIfEmpty (sm_AuthorityRequestID simRes),
                           rp_outcome = ledgerTo, rp_received_at = now\<rparr> db) (\<lambda>db.
                      let hit = (\<lambda>m. ob_id m = cl_ID cl \<and> ob_state m \<in> {OutboxInFlight, OutboxPending});
                          n = length (filter hit (outbox_messages db))
                      in if n \<noteq> 1 then Inl (OutboxRows n)
                         else Inr (finished cl attemptNo ledgerTo,
                           db\<lparr>outbox_messages := update_where hit
                                (\<lambda>m. m\<lparr>ob_state := OutboxSucceeded, ob_updated_at := now\<rparr>) (outbox_messages db)\<rparr>)))))"

section \<open>One pass of a worker\<close>

text \<open>The clock readings and identifiers of a pass after its claim; \<open>fe_Signer\<close> is the optional JWS signer.\<close>

record finish_env =
  fe_mark_now :: gotime
  fe_mark_id :: string
  fe_sign_now :: gotime
  fe_end_now :: gotime
  fe_release_id :: string
  fe_persist_ids :: persist_ids
  fe_Signer :: "(string \<Rightarrow> string \<Rightarrow> gotime \<Rightarrow> string option) option"

definition release_after :: "outbox_claim \<Rightarrow> finish_env \<Rightarrow> fiscal_db \<Rightarrow> (store_error + unit) \<times> fiscal_db" where
  "release_after cl env db = atomically (releaseOutboxUnavailable cl (fe_end_now env) (fe_release_id env)) db"

definition sign_request :: "outbox_claim \<Rightarrow> finish_env \<Rightarrow> sim_request option" where
  "sign_request cl env =
     (case fe_Signer env of
        None \<Rightarrow> Some \<lparr>sr_SubmissionID = cl_SubmissionID cl, sr_DocumentID = cl_DocumentID cl, sr_JWS = []\<rparr>
      | Some sign \<Rightarrow>
          map_option (\<lambda>compact. \<lparr>sr_SubmissionID = cl_SubmissionID cl, sr_DocumentID = cl_DocumentID cl, sr_JWS = compact\<rparr>)
            (sign (cl_SubmissionID cl) (cl_DocumentID cl) (fe_sign_now env)))"

definition finishOutbox ::
  "('c \<Rightarrow> sim_request \<Rightarrow> (submit_error + sim_result) \<times> 'c) \<Rightarrow> finish_env \<Rightarrow> outbox_claim \<Rightarrow> 'c \<times> fiscal_db
     \<Rightarrow> (store_error + outbox_process_result) \<times> 'c \<times> fiscal_db" where
  "finishOutbox submit env cl s =
     (case atomically (markAuthorityProcessing cl (fe_mark_now env) (fe_mark_id env)) (snd s) of
        (Inl e, db) \<Rightarrow> (Inl e, fst s, snd (release_after cl env db))
      | (Inr _, db) \<Rightarrow>
          (case sign_request cl env of
             None \<Rightarrow> (Inl SignError, fst s, snd (release_after cl env db))
           | Some req \<Rightarrow>
               let jwsAttached = (fe_Signer env \<noteq> None)
               in case submit (fst s) req of
                    (Inl ErrUnavailable, c) \<Rightarrow>
                      (case release_after cl env db of
                         (Inl e, db) \<Rightarrow> (Inl e, c, db)
                       | (Inr _, db) \<Rightarrow>
                           (Inr \<lparr>or_SubmissionID = cl_SubmissionID cl, or_DocumentID = cl_DocumentID cl,
                                 or_AttemptNo = 0, or_Outcome = None, or_OutboxState = OutboxPending,
                                 or_JWSAttached = jwsAttached\<rparr>, c, db))
                  | (Inl e, c) \<Rightarrow> (Inl (ClientError ''submit''), c, snd (release_after cl env db))
                  | (Inr simRes, c) \<Rightarrow>
                      (case mapSimulatorOutcome (sm_Outcome simRes) of
                         Inl e \<Rightarrow> (Inl e, c, snd (release_after cl env db))
                       | Inr ledgerTo \<Rightarrow>
                           (case atomically (persistAuthoritySuccess cl (fe_end_now env) (fe_persist_ids env)
                                   simRes ledgerTo) db of
                              (Inl e, db) \<Rightarrow> (Inl e, c, db)
                            | (Inr out, db) \<Rightarrow> (Inr (out\<lparr>or_JWSAttached := jwsAttached\<rparr>), c, db)))))"

definition ProcessNextAuthoritySubmission ::
  "('c \<Rightarrow> sim_request \<Rightarrow> (submit_error + sim_result) \<times> 'c) option \<Rightarrow> string list \<Rightarrow> gotime \<Rightarrow> finish_env
     \<Rightarrow> 'c \<times> fiscal_db \<Rightarrow> (store_error + outbox_process_result) \<times> 'c \<times> fiscal_db" where
  "ProcessNextAuthoritySubmission client locked claim_now env s =
     (case client of
        None \<Rightarrow> (Inl NilClient, s)
      | Some submit \<Rightarrow>
          (case atomically (claimOutbox locked claim_now) (snd s) of
             (Inl e, db) \<Rightarrow> (Inl e, fst s, db)
           | (Inr cl, db) \<Rightarrow> finishOutbox submit env cl (fst s, db)))"

end
