(* ===== verification/OutboxInvariants.thy ===== *)
theory OutboxInvariants
  imports Outbox
begin

text \<open>
  What holds of ledger, outbox, attempts and responses under every interleaving of sealing and
  of outbox transactions: each document's ledger is a chain of allowed transitions, a message is
  succeeded exactly when the chain has ended in an outcome of the authority, and each outcome is
  backed by one attempt and one response.
\<close>

section \<open>Ledger chains\<close>

fun terminal :: "ledger_status \<Rightarrow> bool" where
  "terminal AuthorityAccepted = True"
| "terminal AuthorityRejected = True"
| "terminal AuthorityOutcomeUnknown = True"
| "terminal _ = False"

fun allowed :: "ledger_status option \<Rightarrow> ledger_status \<Rightarrow> bool" where
  "allowed None s \<longleftrightarrow> s = SealedLocally"
| "allowed (Some SealedLocally) s \<longleftrightarrow> s = AuthorityProcessing"
| "allowed (Some AuthorityProcessing) s \<longleftrightarrow> s = SealedLocally \<or> terminal s"
| "allowed (Some _) s \<longleftrightarrow> False"

fun chain_from :: "int \<Rightarrow> ledger_status option \<Rightarrow> ledger_event list \<Rightarrow> bool" where
  "chain_from n s [] = True"
| "chain_from n s (e # es) \<longleftrightarrow>
     le_seq e = n \<and> le_from_status e = s \<and> allowed s (le_to_status e)
     \<and> chain_from (n + 1) (Some (le_to_status e)) es"

lemma chain_from_snoc:
  "chain_from n s (es @ [e]) \<longleftrightarrow>
   chain_from n s es \<and> le_seq e = n + int (length es)
   \<and> le_from_status e = (if es = [] then s else Some (le_to_status (last es)))
   \<and> allowed (if es = [] then s else Some (le_to_status (last es))) (le_to_status e)"
  by (induction es arbitrary: n s) (auto simp: algebra_simps)

lemma chain_last:
  "chain_from n s es \<Longrightarrow> es \<noteq> [] \<Longrightarrow> min_row (\<lambda>e. - le_seq e) es = Some (last es) \<and> n \<le> le_seq (last es)"
proof (induction es arbitrary: n s)
  case (Cons e es)
  then show ?case by (cases es) (fastforce split: option.splits)+
qed simp

lemma chain_max:
  "chain_from n s es \<Longrightarrow> m < n \<Longrightarrow>
   fold (\<lambda>e k. max (le_seq e) k) es m = (if es = [] then m else n + int (length es) - 1)"
proof (induction es arbitrary: n s m)
  case (Cons e es)
  then have "fold (\<lambda>e k. max (le_seq e) k) es (le_seq e) = (if es = [] then n else n + 1 + int (length es) - 1)"
    by (auto simp: Cons.IH)
  with Cons.prems show ?case by (simp add: max_absorb1 split: if_splits)
qed simp

text \<open>The authority's outcome is the last link: nothing is allowed after it.\<close>

lemma terminal_last: "terminal s \<Longrightarrow> \<not> allowed (Some s) s'"
  by (cases s) simp_all

definition tip :: "fiscal_db \<Rightarrow> string \<Rightarrow> ledger_status" where
  "tip db docID = le_to_status (last (doc_ledger db docID))"

definition ledger_inv :: "fiscal_db \<Rightarrow> bool" where
  "ledger_inv db \<longleftrightarrow>
     (\<forall>d \<in> set (documents db). chain_from 1 None (doc_ledger db (dc_id d)) \<and> doc_ledger db (dc_id d) \<noteq> [])
     \<and> le_document_id ` set (ledger_events db) \<subseteq> dc_id ` set (documents db)"

lemma latest_status_tip:
  assumes "ledger_inv db" "i \<in> dc_id ` set (documents db)"
  shows "latest_status i db = Some (tip db i)"
    and "next_ledger_seq i db = 1 + int (length (doc_ledger db i))"
    and "chain_from 1 None (doc_ledger db i)" "doc_ledger db i \<noteq> []"
proof -
  show c: "chain_from 1 None (doc_ledger db i)" "doc_ledger db i \<noteq> []"
    using assms unfolding ledger_inv_def by auto
  show "latest_status i db = Some (tip db i)"
    using chain_last [OF c] by (simp add: latest_status_def tip_def)
  show "next_ledger_seq i db = 1 + int (length (doc_ledger db i))"
    using chain_max [OF c(1), of 0] c(2) by (simp add: next_ledger_seq_def)
qed

section \<open>Outbox, attempts and responses\<close>

definition outbox_inv :: "fiscal_db \<Rightarrow> bool" where
  "outbox_inv db \<longleftrightarrow>
     (\<forall>m \<in> set (outbox_messages db).
        ob_state m \<noteq> OutboxDead \<and> (ob_state m = OutboxSucceeded \<longleftrightarrow> terminal (tip db (ob_document_id m))))
     \<and> (\<forall>a \<in> set (authority_attempts db). at_attempt_no a = 1
          \<and> (\<exists>m \<in> set (outbox_messages db). ob_submission_id m = at_submission_id a
               \<and> ob_document_id m = at_document_id a \<and> ob_state m = OutboxSucceeded))
     \<and> (\<forall>m \<in> set (outbox_messages db). ob_state m = OutboxSucceeded \<longrightarrow>
          ob_submission_id m \<in> at_submission_id ` set (authority_attempts db))
     \<and> distinct (map at_submission_id (authority_attempts db))
     \<and> list_all2 (\<lambda>a r. rp_attempt_id r = at_id a \<and> rp_outcome r = tip db (at_document_id a))
          (authority_attempts db) (authority_responses db)"

definition fiscal_inv :: "(string \<Rightarrow> string) \<Rightarrow> fiscal_db \<Rightarrow> bool" where
  "fiscal_inv sha256 db \<longleftrightarrow> seal_inv sha256 db \<and> ledger_inv db \<and> outbox_inv db"

lemma fiscal_inv_empty: "fiscal_inv sha256 empty_db"
  unfolding fiscal_inv_def using seal_inv_empty
  by (simp add: ledger_inv_def outbox_inv_def) (simp add: empty_db_def)

section \<open>Keeping the invariants\<close>

text \<open>Appending an event changes the chain of its own document only.\<close>

lemma doc_ledger_append:
  "doc_ledger (db\<lparr>ledger_events := ledger_events db @ [e]\<rparr>) i =
   doc_ledger db i @ (if le_document_id e = i then [e] else [])"
  by (simp add: doc_ledger_def)

lemma tip_append:
  "tip (db\<lparr>ledger_events := ledger_events db @ [e]\<rparr>) i =
   (if le_document_id e = i then le_to_status e else tip db i)"
  by (simp add: tip_def doc_ledger_append)

lemma ledger_inv_append:
  assumes "ledger_inv db" "le_document_id e = i" "i \<in> dc_id ` set (documents db)"
    "le_seq e = next_ledger_seq i db" "le_from_status e = Some (tip db i)" "allowed (Some (tip db i)) (le_to_status e)"
  shows "ledger_inv (db\<lparr>ledger_events := ledger_events db @ [e]\<rparr>)"
proof -
  note l = latest_status_tip [OF assms(1,3)]
  have "chain_from 1 None (doc_ledger db i @ [e])"
    using l assms(4-6) by (simp add: chain_from_snoc tip_def)
  then show ?thesis
    using assms(1-3) unfolding ledger_inv_def by (auto simp: doc_ledger_append)
qed

text \<open>A change of outbox rows that keeps keys and does not cross the border of the succeeded state.\<close>

definition soft_row :: "outbox_message \<Rightarrow> outbox_message \<Rightarrow> bool" where
  "soft_row m m' \<longleftrightarrow>
     ob_id m' = ob_id m \<and> ob_document_id m' = ob_document_id m \<and> ob_submission_id m' = ob_submission_id m
     \<and> (ob_state m' = ob_state m
        \<or> ob_state m \<in> {OutboxPending, OutboxInFlight} \<and> ob_state m' \<in> {OutboxPending, OutboxInFlight})"

abbreviation soft_change :: "outbox_message list \<Rightarrow> outbox_message list \<Rightarrow> bool" where
  "soft_change \<equiv> list_all2 soft_row"

lemma soft_row_refl [simp]: "soft_row m m"
  by (simp add: soft_row_def)

lemma soft_change_refl [simp]: "soft_change ms ms"
  by (rule list_all2_refl) simp

lemma soft_change_trans: "soft_change a b \<Longrightarrow> soft_change b c \<Longrightarrow> soft_change a c"
  by (rule list_all2_trans [of soft_row soft_row soft_row]) (auto simp: soft_row_def)

lemma soft_change_update:
  assumes "\<And>m. P m \<Longrightarrow> soft_row m (f m)"
  shows "soft_change ms (update_where P f ms)"
  using assms by (induction ms) simp_all

lemma soft_change_keys:
  assumes "soft_change ms ms'"
  shows "map ob_id ms' = map ob_id ms" "map ob_document_id ms' = map ob_document_id ms"
    "map ob_submission_id ms' = map ob_submission_id ms"
  using assms by (induction rule: list_all2_induct) (simp_all add: soft_row_def)

lemma soft_change_in:
  assumes "soft_change ms ms'"
  shows "m' \<in> set ms' \<Longrightarrow> \<exists>m \<in> set ms. soft_row m m'" "m \<in> set ms \<Longrightarrow> \<exists>m' \<in> set ms'. soft_row m m'"
  using assms by (induction rule: list_all2_induct) auto

lemma same_view_soft: "soft_change (outbox_messages db) ms \<Longrightarrow> same_seal_view db (db\<lparr>outbox_messages := ms\<rparr>)"
  by (simp add: same_seal_view_def soft_change_keys)

lemma outbox_invD:
  assumes "outbox_inv db"
  shows "m \<in> set (outbox_messages db) \<Longrightarrow> ob_state m \<noteq> OutboxDead"
    "m \<in> set (outbox_messages db) \<Longrightarrow> ob_state m = OutboxSucceeded \<longleftrightarrow> terminal (tip db (ob_document_id m))"
    "a \<in> set (authority_attempts db) \<Longrightarrow> at_attempt_no a = 1"
    "a \<in> set (authority_attempts db) \<Longrightarrow> \<exists>m \<in> set (outbox_messages db). ob_submission_id m = at_submission_id a
       \<and> ob_document_id m = at_document_id a \<and> ob_state m = OutboxSucceeded"
    "m \<in> set (outbox_messages db) \<Longrightarrow> ob_state m = OutboxSucceeded \<Longrightarrow>
       ob_submission_id m \<in> at_submission_id ` set (authority_attempts db)"
    "distinct (map at_submission_id (authority_attempts db))"
    "list_all2 (\<lambda>a r. rp_attempt_id r = at_id a \<and> rp_outcome r = tip db (at_document_id a))
       (authority_attempts db) (authority_responses db)"
  using assms unfolding outbox_inv_def by blast+

lemma attempt_terminal:
  assumes "outbox_inv db" "a \<in> set (authority_attempts db)"
  shows "terminal (tip db (at_document_id a))"
  using outbox_invD(4) [OF assms] outbox_invD(2) [OF assms(1)] by auto

lemma soft_outbox_inv:
  assumes inv: "outbox_inv db" and soft: "soft_change (outbox_messages db) ms"
  shows "outbox_inv (db\<lparr>outbox_messages := ms\<rparr>)"
proof -
  have tip: "tip (db\<lparr>outbox_messages := ms\<rparr>) i = tip db i" for i
    by (simp add: tip_def doc_ledger_def)
  note D = outbox_invD [OF inv]
  note in_ms = soft_change_in(1) [OF soft] and in_old = soft_change_in(2) [OF soft]
  have row: "ob_state m' \<noteq> OutboxDead \<and> (ob_state m' = OutboxSucceeded \<longleftrightarrow> terminal (tip db (ob_document_id m')))
      \<and> (ob_state m' = OutboxSucceeded \<longrightarrow> ob_submission_id m' \<in> at_submission_id ` set (authority_attempts db))"
    if mem: "m' \<in> set ms" for m'
  proof -
    obtain m where m: "m \<in> set (outbox_messages db)" "soft_row m m'" using in_ms [OF mem] by blast
    have "ob_state m = OutboxSucceeded \<longleftrightarrow> ob_state m' = OutboxSucceeded" "ob_state m' \<noteq> OutboxDead"
      "ob_document_id m' = ob_document_id m" "ob_submission_id m' = ob_submission_id m"
      using m(2) D(1) [OF m(1)] by (auto simp: soft_row_def)
    then show ?thesis using D(2,5) [OF m(1)] by simp
  qed
  have att: "\<exists>m \<in> set ms. ob_submission_id m = at_submission_id a
       \<and> ob_document_id m = at_document_id a \<and> ob_state m = OutboxSucceeded"
    if mem: "a \<in> set (authority_attempts db)" for a
  proof -
    obtain m where m: "m \<in> set (outbox_messages db)" "ob_submission_id m = at_submission_id a"
      "ob_document_id m = at_document_id a" "ob_state m = OutboxSucceeded" using D(4) [OF mem] by blast
    then obtain m' where "m' \<in> set ms" "soft_row m m'" using in_old by blast
    with m show ?thesis by (auto simp: soft_row_def)
  qed
  show ?thesis
    unfolding outbox_inv_def using row att D(3,6,7) by (simp add: tip)
qed

lemma append_outbox_inv:
  assumes inv: "outbox_inv db" and t: "\<not> terminal (tip db (le_document_id e))" "\<not> terminal (le_to_status e)"
  shows "outbox_inv (db\<lparr>ledger_events := ledger_events db @ [e]\<rparr>)"
proof -
  let ?db = "db\<lparr>ledger_events := ledger_events db @ [e]\<rparr>"
  note D = outbox_invD [OF inv]
  have same: "terminal (tip ?db i) \<longleftrightarrow> terminal (tip db i)" for i using t by (auto simp: tip_append)
  have "tip ?db (at_document_id a) = tip db (at_document_id a)" if "a \<in> set (authority_attempts db)" for a
    using attempt_terminal [OF inv that] t by (auto simp: tip_append)
  then have "list_all2 (\<lambda>a r. rp_attempt_id r = at_id a \<and> rp_outcome r = tip ?db (at_document_id a))
       (authority_attempts db) (authority_responses db)"
    by (intro list.rel_mono_strong [OF D(7)]) auto
  then show ?thesis
    unfolding outbox_inv_def using D(1-6) by (simp add: same)
qed

section \<open>The authority's answer\<close>

lemma tip_other_tables [simp]:
  "tip (db\<lparr>outbox_messages := ms\<rparr>) i = tip db i"
  "tip (db\<lparr>authority_attempts := as\<rparr>) i = tip db i"
  "tip (db\<lparr>authority_responses := rs\<rparr>) i = tip db i"
  by (simp_all add: tip_def doc_ledger_def)

lemma doc_ledger_other_tables [simp]:
  "doc_ledger (db\<lparr>outbox_messages := ms\<rparr>) i = doc_ledger db i"
  "doc_ledger (db\<lparr>authority_attempts := as\<rparr>) i = doc_ledger db i"
  "doc_ledger (db\<lparr>authority_responses := rs\<rparr>) i = doc_ledger db i"
  by (simp_all add: doc_ledger_def)

lemma ledger_inv_other_tables [simp]:
  "ledger_inv (db\<lparr>outbox_messages := ms\<rparr>) = ledger_inv db"
  "ledger_inv (db\<lparr>authority_attempts := as\<rparr>) = ledger_inv db"
  "ledger_inv (db\<lparr>authority_responses := rs\<rparr>) = ledger_inv db"
  by (simp_all add: ledger_inv_def)

lemma transition_event_simps [simp]:
  "le_document_id (transition_event i d n a b now) = d"
  "le_seq (transition_event i d n a b now) = n"
  "le_from_status (transition_event i d n a b now) = Some a"
  "le_to_status (transition_event i d n a b now) = b"
  by (simp_all add: transition_event_def)

text \<open>One inserted transition from the tip.\<close>

lemma insert_transition:
  assumes "ledger_inv db" "d \<in> dc_id ` set (documents db)" "tip db d = a" "allowed (Some a) b"
    "insert_ledger_event (transition_event i d (next_ledger_seq d db) a b now) db = Inr db'"
  shows "db' = db\<lparr>ledger_events := ledger_events db @ [transition_event i d (next_ledger_seq d db) a b now]\<rparr>"
    "ledger_inv db'" "next_ledger_seq d db' = next_ledger_seq d db + 1"
proof -
  show e: "db' = db\<lparr>ledger_events := ledger_events db @ [transition_event i d (next_ledger_seq d db) a b now]\<rparr>"
    using assms(5) by (simp add: insert_Inr)
  show inv: "ledger_inv db'"
    unfolding e by (rule ledger_inv_append [OF assms(1) _ assms(2)]) (use assms(3,4) in simp_all)
  have "d \<in> dc_id ` set (documents db')" using assms(2) by (simp add: e)
  from latest_status_tip(2) [OF inv this] latest_status_tip(2) [OF assms(1,2)]
  show "next_ledger_seq d db' = next_ledger_seq d db + 1" by (simp add: e doc_ledger_append)
qed

definition outcome_events :: "outbox_claim \<Rightarrow> gotime \<Rightarrow> persist_ids \<Rightarrow> ledger_status \<Rightarrow> ledger_status \<Rightarrow> int \<Rightarrow> ledger_event list" where
  "outcome_events cl now ids latest ledgerTo n =
     (let doc = cl_DocumentID cl
      in if latest = SealedLocally
         then [transition_event (pi_processing ids) doc n SealedLocally AuthorityProcessing now,
               transition_event (pi_outcome ids) doc (n + 1) AuthorityProcessing ledgerTo now]
         else [transition_event (pi_outcome ids) doc n AuthorityProcessing ledgerTo now])"

lemma record_outcome_result:
  assumes inv: "ledger_inv db" "cl_DocumentID cl \<in> dc_id ` set (documents db)"
    and latest: "latest = tip db (cl_DocumentID cl)" "latest = SealedLocally \<or> latest = AuthorityProcessing"
    and t: "terminal ledgerTo"
    and rec: "record_outcome cl now ids latest ledgerTo db = Inr db'"
  shows "db' = db\<lparr>ledger_events := ledger_events db @
      outcome_events cl now ids latest ledgerTo (next_ledger_seq (cl_DocumentID cl) db)\<rparr>"
    and "ledger_inv db'"
    and "tip db' i = (if i = cl_DocumentID cl then ledgerTo else tip db i)"
proof -
  let ?d = "cl_DocumentID cl" let ?n = "next_ledger_seq ?d db"
  have "ledger_inv db' \<and> db' = db\<lparr>ledger_events := ledger_events db @ outcome_events cl now ids latest ledgerTo ?n\<rparr>"
  proof (cases "latest = SealedLocally")
    case True
    from rec True obtain db1 where
      1: "insert_ledger_event (transition_event (pi_processing ids) ?d ?n SealedLocally AuthorityProcessing now) db = Inr db1"
      and 2: "insert_ledger_event (transition_event (pi_outcome ids) ?d (?n + 1) AuthorityProcessing ledgerTo now) db1 = Inr db'"
      by (auto simp: record_outcome_def Let_def bind_result_Inr)
    note i1 = insert_transition [OF inv _ _ 1]
    have d1: "db1 = db\<lparr>ledger_events := ledger_events db @
        [transition_event (pi_processing ids) ?d ?n SealedLocally AuthorityProcessing now]\<rparr>"
      and inv1: "ledger_inv db1" and n1: "next_ledger_seq ?d db1 = ?n + 1"
      using i1 latest(1) True by simp_all
    have t1: "tip db1 ?d = AuthorityProcessing" "?d \<in> dc_id ` set (documents db1)"
      using inv(2) by (simp_all add: d1 tip_append)
    note i2 = insert_transition [OF inv1 t1(2,1) _ 2 [folded n1]]
    have "ledger_inv db'" "db' = db1\<lparr>ledger_events := ledger_events db1 @
        [transition_event (pi_outcome ids) ?d (?n + 1) AuthorityProcessing ledgerTo now]\<rparr>"
      using i2(1,2) t n1 by simp_all
    then show ?thesis using True by (simp add: d1 outcome_events_def Let_def)
  next
    case False
    then have p: "latest = AuthorityProcessing" using latest(2) by simp
    with rec have 1: "insert_ledger_event (transition_event (pi_outcome ids) ?d ?n AuthorityProcessing ledgerTo now) db = Inr db'"
      by (auto simp: record_outcome_def Let_def)
    note i1 = insert_transition [OF inv _ _ 1]
    show ?thesis using i1(1,2) latest(1) p t by (simp add: outcome_events_def Let_def)
  qed
  then show "ledger_inv db'" and d: "db' = db\<lparr>ledger_events := ledger_events db @ outcome_events cl now ids latest ledgerTo ?n\<rparr>"
    by blast+
  show "tip db' i = (if i = ?d then ledgerTo else tip db i)"
    by (simp add: d tip_def doc_ledger_def outcome_events_def Let_def)
qed

text \<open>A claimed message, with what the keys of the tables say about it.\<close>

lemma claimed_message:
  assumes "keys_unique db" "m \<in> set (outbox_messages db)"
  shows "ob_document_id m \<in> dc_id ` set (documents db)"
    "find (\<lambda>m'. ob_id m' = ob_id m) (outbox_messages db) = Some m"
    "m' \<in> set (outbox_messages db) \<Longrightarrow> ob_id m' = ob_id m \<longleftrightarrow> m' = m"
    "m' \<in> set (outbox_messages db) \<Longrightarrow> ob_document_id m' = ob_document_id m \<longleftrightarrow> m' = m"
    "m' \<in> set (outbox_messages db) \<Longrightarrow> ob_submission_id m' = ob_submission_id m \<longleftrightarrow> m' = m"
proof -
  have keys: "map ob_document_id (outbox_messages db) = map dc_id (documents db)"
    "distinct (map dc_id (documents db))" "distinct (map ob_id (outbox_messages db))"
    "distinct (map ob_submission_id (outbox_messages db))"
    using assms(1) by (simp_all add: keys_unique_def)
  then have dd: "distinct (map ob_document_id (outbox_messages db))" by simp
  have "ob_document_id m \<in> set (map ob_document_id (outbox_messages db))" using assms(2) by simp
  then show "ob_document_id m \<in> dc_id ` set (documents db)" by (simp add: keys(1))
  show "find (\<lambda>m'. ob_id m' = ob_id m) (outbox_messages db) = Some m"
    using keys(3) assms(2) by (rule find_distinct_key)
  show "ob_id m' = ob_id m \<longleftrightarrow> m' = m" "ob_document_id m' = ob_document_id m \<longleftrightarrow> m' = m"
    "ob_submission_id m' = ob_submission_id m \<longleftrightarrow> m' = m" if "m' \<in> set (outbox_messages db)"
    using keys(3,4) dd assms(2) that by (auto simp: distinct_map dest: inj_onD)
qed

lemma terminal_iff: "terminal s \<longleftrightarrow> s = AuthorityAccepted \<or> s = AuthorityRejected \<or> s = AuthorityOutcomeUnknown"
  by (cases s) simp_all

lemma mapSimulatorOutcome_terminal: "mapSimulatorOutcome out = Inr s \<Longrightarrow> terminal s"
  by (cases out) (auto simp: mapSimulatorOutcome_def)

lemma no_attempt_yet:
  assumes "keys_unique db" "outbox_inv db" "m \<in> set (outbox_messages db)" "ob_state m \<noteq> OutboxSucceeded"
  shows "max_attempt (ob_submission_id m) db = None"
    "ob_submission_id m \<notin> at_submission_id ` set (authority_attempts db)"
proof -
  have none: "at_submission_id a \<noteq> ob_submission_id m" if mem: "a \<in> set (authority_attempts db)" for a
  proof
    assume "at_submission_id a = ob_submission_id m"
    moreover obtain m' where "m' \<in> set (outbox_messages db)" "ob_submission_id m' = at_submission_id a"
      "ob_state m' = OutboxSucceeded" using outbox_invD(4) [OF assms(2) mem] by blast
    ultimately show False using claimed_message(5) [OF assms(1,3)] assms(4) by auto
  qed
  then have "filter (\<lambda>a. at_submission_id a = ob_submission_id m) (authority_attempts db) = []"
    by (simp add: filter_empty_conv)
  then show "max_attempt (ob_submission_id m) db = None" by (simp add: max_attempt_def)
  show "ob_submission_id m \<notin> at_submission_id ` set (authority_attempts db)" using none by force
qed

definition answered_db ::
  "outbox_message \<Rightarrow> gotime \<Rightarrow> persist_ids \<Rightarrow> sim_result \<Rightarrow> ledger_status \<Rightarrow> fiscal_db \<Rightarrow> fiscal_db" where
  "answered_db m now ids simRes ledgerTo db =
     db\<lparr>ledger_events := ledger_events db @
          outcome_events (claim_of m) now ids (tip db (ob_document_id m)) ledgerTo (next_ledger_seq (ob_document_id m) db),
        authority_attempts := authority_attempts db @
          [\<lparr>at_id = pi_attempt ids, at_document_id = ob_document_id m, at_submission_id = ob_submission_id m,
            at_attempt_no = 1, at_sent_at = now\<rparr>],
        authority_responses := authority_responses db @
          [\<lparr>rp_id = pi_response ids, rp_attempt_id = pi_attempt ids,
            rp_authority_request_id = nullIfEmpty (sm_AuthorityRequestID simRes),
            rp_outcome = ledgerTo, rp_received_at = now\<rparr>],
        outbox_messages := update_where (\<lambda>x. ob_id x = ob_id m)
          (\<lambda>x. x\<lparr>ob_state := OutboxSucceeded, ob_updated_at := now\<rparr>) (outbox_messages db)\<rparr>"

lemma update_where_cong:
  assumes "\<And>r. r \<in> set rows \<Longrightarrow> P r = Q r"
  shows "update_where P f rows = update_where Q f rows"
  using assms by (simp add: update_where_def)

lemma claim_of_simps [simp]:
  "cl_ID (claim_of m) = ob_id m" "cl_DocumentID (claim_of m) = ob_document_id m"
  "cl_SubmissionID (claim_of m) = ob_submission_id m"
  by (simp_all add: claim_of_def)

text \<open>Recording an answer either finds the message done, and changes nothing, or is the first answer.\<close>

lemma persist_cases:
  assumes inv: "keys_unique db" "ledger_inv db" "outbox_inv db" and m: "m \<in> set (outbox_messages db)"
    and t: "terminal ledgerTo"
    and run: "persistAuthoritySuccess (claim_of m) clock ids simRes ledgerTo db = Inr (out, db')"
  obtains
    (answered) "ob_state m = OutboxSucceeded" "db' = db" "out = finished (claim_of m) 0 ledgerTo"
  | (first) "ob_state m \<noteq> OutboxSucceeded" "\<not> terminal (tip db (ob_document_id m))"
      "db' = answered_db m (trunc_us clock) ids simRes ledgerTo db" "out = finished (claim_of m) 1 ledgerTo"
      "ledger_inv db'" "pi_attempt ids \<notin> at_id ` set (authority_attempts db)"
      "\<And>i. tip db' i = (if i = ob_document_id m then ledgerTo else tip db i)"
proof (cases "ob_state m = OutboxSucceeded")
  case True
  with run show ?thesis
    by (intro answered) (simp_all add: persistAuthoritySuccess_def claimed_message(2) [OF inv(1) m])
next
  case False
  let ?d = "ob_document_id m" and ?now = "trunc_us clock"
  note c = claimed_message [OF inv(1) m]
  note l = latest_status_tip [OF inv(2) c(1)]
  have nt: "\<not> terminal (tip db ?d)" using outbox_invD(2) [OF inv(3) m] False by simp
  then have nt': "\<not> (tip db ?d = AuthorityAccepted \<or> tip db ?d = AuthorityRejected \<or> tip db ?d = AuthorityOutcomeUnknown)"
    by (simp add: terminal_iff)
  have latest: "tip db ?d = SealedLocally \<or> tip db ?d = AuthorityProcessing"
    using run False nt' by (auto simp: persistAuthoritySuccess_def Let_def c(2) l(1) split: if_splits)
  define hit :: "outbox_message \<Rightarrow> bool" where "hit = (\<lambda>x. ob_id x = ob_id m \<and> ob_state x \<in> {OutboxInFlight, OutboxPending})"
  obtain db1 db2 db3 where
    1: "record_outcome (claim_of m) ?now ids (tip db ?d) ledgerTo db = Inr db1"
    and 2: "insert_attempt \<lparr>at_id = pi_attempt ids, at_document_id = ?d, at_submission_id = ob_submission_id m,
      at_attempt_no = 1, at_sent_at = ?now\<rparr> db1 = Inr db2"
    and 3: "insert_response \<lparr>rp_id = pi_response ids, rp_attempt_id = pi_attempt ids,
      rp_authority_request_id = nullIfEmpty (sm_AuthorityRequestID simRes), rp_outcome = ledgerTo, rp_received_at = ?now\<rparr> db2 = Inr db3"
    and o: "out = finished (claim_of m) 1 ledgerTo"
    and 4: "db' = db3\<lparr>outbox_messages := update_where hit (\<lambda>x. x\<lparr>ob_state := OutboxSucceeded, ob_updated_at := ?now\<rparr>)
      (outbox_messages db3)\<rparr>"
    using run False nt' latest no_attempt_yet [OF inv(1,3) m False]
    by (auto simp: persistAuthoritySuccess_def c(2) l(1) bind_result_Inr Let_def hit_def split: if_splits)
  note r = record_outcome_result [OF inv(2) _ _ _ t 1, simplified claim_of_simps, OF c(1) refl latest]
  have "hit x \<longleftrightarrow> ob_id x = ob_id m" if "x \<in> set (outbox_messages db)" for x
    using c(3) [OF that] False outbox_invD(1) [OF inv(3) m] by (cases "ob_state m") (auto simp: hit_def)
  then have u: "update_where hit f (outbox_messages db) = update_where (\<lambda>x. ob_id x = ob_id m) f (outbox_messages db)" for f
    by (rule update_where_cong)
  have d: "db' = answered_db m ?now ids simRes ledgerTo db"
    using 2 3 unfolding 4 insert_Inr by (simp add: r(1) u answered_db_def)
  have other: "ledger_events db' = ledger_events db1" "documents db' = documents db1"
    by (simp_all add: d answered_db_def r(1))
  then have "tip db' i = tip db1 i" for i by (simp add: tip_def doc_ledger_def)
  moreover have "ledger_inv db'"
    using r(2) other by (simp add: ledger_inv_def doc_ledger_def)
  moreover have "pi_attempt ids \<notin> at_id ` set (authority_attempts db)"
    using 2 by (simp add: insert_Inr r(1))
  ultimately show ?thesis using first [OF False nt d o] r(3) by simp
qed

end
