(* ===== verification/FiscalMachine.thy ===== *)
theory FiscalMachine
  imports OutboxInvariants
begin

text \<open>
  The fiscal store as a transition system: any sequence of sealings and of outbox transactions
  of any number of workers, with the invariants of the two components kept by every step and
  progress that no step undoes. Workers may crash between their transactions (the events that
  would follow do not happen), be slow, or repeat a transaction.
\<close>

section \<open>Every transaction keeps the invariants\<close>

lemma answered_outbox_inv:
  assumes inv: "keys_unique db" "outbox_inv db" and m: "m \<in> set (outbox_messages db)"
    and new: "ob_state m \<noteq> OutboxSucceeded" and t: "terminal ledgerTo"
    and d: "db' = answered_db m now ids simRes ledgerTo db"
    and tip: "\<And>i. tip db' i = (if i = ob_document_id m then ledgerTo else tip db i)"
  shows "outbox_inv db'"
proof -
  let ?a = "\<lparr>at_id = pi_attempt ids, at_document_id = ob_document_id m, at_submission_id = ob_submission_id m,
    at_attempt_no = 1, at_sent_at = now\<rparr>"
  let ?f = "\<lambda>x. if ob_id x = ob_id m then x\<lparr>ob_state := OutboxSucceeded, ob_updated_at := now\<rparr> else x"
  note c = claimed_message [OF inv(1) m]
  note D = outbox_invD [OF inv(2)]
  have ms: "set (outbox_messages db') = ?f ` set (outbox_messages db)"
    and as: "authority_attempts db' = authority_attempts db @ [?a]"
    and rs: "authority_responses db' = authority_responses db @ [\<lparr>rp_id = pi_response ids,
      rp_attempt_id = pi_attempt ids, rp_authority_request_id = nullIfEmpty (sm_AuthorityRequestID simRes),
      rp_outcome = ledgerTo, rp_received_at = now\<rparr>]"
    by (simp_all add: d answered_db_def set_update_where)
  have nt: "\<not> terminal (tip db (ob_document_id m))" using D(2) [OF m] new by simp
  have old: "at_document_id a \<noteq> ob_document_id m" if "a \<in> set (authority_attempts db)" for a
    using attempt_terminal [OF inv(2) that] nt by auto
  have row: "ob_state (?f x) \<noteq> OutboxDead
      \<and> (ob_state (?f x) = OutboxSucceeded \<longleftrightarrow> terminal (tip db' (ob_document_id (?f x))))
      \<and> (ob_state (?f x) = OutboxSucceeded \<longrightarrow> ob_submission_id (?f x) \<in> at_submission_id ` set (authority_attempts db'))"
    if "x \<in> set (outbox_messages db)" for x
    using D(1,2,5) [OF that] c(3,4) [OF that] t by (cases "x = m") (simp_all add: tip as)
  have att: "at_attempt_no a = 1 \<and> (\<exists>x \<in> set (outbox_messages db). ob_submission_id (?f x) = at_submission_id a
      \<and> ob_document_id (?f x) = at_document_id a \<and> ob_state (?f x) = OutboxSucceeded)"
    if mem: "a \<in> set (authority_attempts db')" for a
  proof (cases "a = ?a")
    case True
    then show ?thesis using m by auto
  next
    case False
    with mem have a: "a \<in> set (authority_attempts db)" by (simp add: as)
    obtain x where "x \<in> set (outbox_messages db)" "ob_submission_id x = at_submission_id a"
      "ob_document_id x = at_document_id a" "ob_state x = OutboxSucceeded" using D(4) [OF a] by blast
    then show ?thesis using D(3) [OF a] by auto
  qed
  have "list_all2 (\<lambda>a r. rp_attempt_id r = at_id a \<and> rp_outcome r = tip db' (at_document_id a))
      (authority_attempts db) (authority_responses db)"
    by (intro list.rel_mono_strong [OF D(7)]) (auto simp: tip old)
  then have "list_all2 (\<lambda>a r. rp_attempt_id r = at_id a \<and> rp_outcome r = tip db' (at_document_id a))
      (authority_attempts db') (authority_responses db')"
    unfolding as rs by (rule list_all2_appendI) (simp add: tip)
  moreover have "distinct (map at_submission_id (authority_attempts db'))"
    using D(6) no_attempt_yet(2) [OF inv m new] by (simp add: as)
  ultimately show ?thesis
    unfolding outbox_inv_def ms ball_simps bex_simps using row att by blast
qed


lemma seal_view_tables [simp]:
  "same_seal_view db (db\<lparr>ledger_events := es\<rparr>)"
  "same_seal_view db (db\<lparr>authority_attempts := as\<rparr>)"
  "same_seal_view db (db\<lparr>authority_responses := rs\<rparr>)"
  by (simp_all add: same_seal_view_def)

lemma fiscal_invD:
  assumes "fiscal_inv sha256 db"
  shows "seal_inv sha256 db" "keys_unique db" "ledger_inv db" "outbox_inv db"
  using assms by (simp_all add: fiscal_inv_def seal_inv_def)

lemma fiscal_inv_soft:
  assumes "fiscal_inv sha256 db" "soft_change (outbox_messages db) ms"
  shows "fiscal_inv sha256 (db\<lparr>outbox_messages := ms\<rparr>)"
  using assms seal_inv_view [OF same_view_soft [OF assms(2)]] soft_outbox_inv
  by (simp add: fiscal_inv_def)

lemma fiscal_inv_transition:
  assumes inv: "fiscal_inv sha256 db" and d: "d \<in> dc_id ` set (documents db)"
    and t: "tip db d = a" "allowed (Some a) b" "\<not> terminal b"
    and ins: "insert_ledger_event (transition_event i d (next_ledger_seq d db) a b now) db = Inr db'"
  shows "fiscal_inv sha256 db'"
proof -
  note I = fiscal_invD [OF inv]
  note it = insert_transition [OF I(3) d t(1,2) ins]
  have "\<not> terminal a" using t(2) terminal_last by blast
  then have "outbox_inv db'"
    unfolding it(1) by (intro append_outbox_inv [OF I(4)]) (simp_all add: t(1,3))
  moreover have "seal_inv sha256 db'"
    unfolding it(1) using I(1) by (rule seal_inv_view [OF seal_view_tables(1)])
  ultimately show ?thesis using it(2) by (simp add: fiscal_inv_def)
qed

text \<open>Claiming moves messages between pending and in flight only.\<close>

lemma claimOutbox_soft:
  assumes "claimOutbox locked clock db = Inr (cl, db')"
  shows "\<exists>ms. db' = db\<lparr>outbox_messages := ms\<rparr> \<and> soft_change (outbox_messages db) ms"
proof -
  let ?ms = "reclaim_stale (trunc_us clock) (outbox_messages db)"
  have 1: "soft_change (outbox_messages db) ?ms"
    unfolding reclaim_stale_def by (rule soft_change_update) (simp add: soft_row_def)
  obtain P where db': "db' = db\<lparr>outbox_messages := update_where (\<lambda>x. P x \<and> ob_state x = OutboxPending)
      (\<lambda>x. x\<lparr>ob_state := OutboxInFlight, ob_updated_at := trunc_us clock\<rparr>) ?ms\<rparr>"
    using assms by (auto simp: claimOutbox_def Let_def split: option.splits if_splits)
  have "soft_change ?ms (update_where (\<lambda>x. P x \<and> ob_state x = OutboxPending)
      (\<lambda>x. x\<lparr>ob_state := OutboxInFlight, ob_updated_at := trunc_us clock\<rparr>) ?ms)"
    by (rule soft_change_update) (simp add: soft_row_def)
  with 1 db' show ?thesis using soft_change_trans by blast
qed

text \<open>Giving a claim back, in the two shapes it can take.\<close>

definition released_rows :: "string \<Rightarrow> gotime \<Rightarrow> fiscal_db \<Rightarrow> fiscal_db" where
  "released_rows i now db =
     db\<lparr>outbox_messages := update_where (\<lambda>m. ob_id m = i \<and> ob_state m = OutboxInFlight)
          (\<lambda>m. m\<lparr>ob_state := OutboxPending, ob_available_at := now + defaultUnavailableBackoff, ob_updated_at := now\<rparr>)
          (outbox_messages db)\<rparr>"

lemma released_rows_soft:
  "\<exists>ms. released_rows i now db = db\<lparr>outbox_messages := ms\<rparr> \<and> soft_change (outbox_messages db) ms"
  unfolding released_rows_def
  by (rule exI, rule conjI, rule refl, rule soft_change_update) (simp add: soft_row_def)

lemma releaseOutbox_cases:
  assumes "ledger_inv db" "cl_DocumentID cl \<in> dc_id ` set (documents db)"
    "releaseOutboxUnavailable cl clock newID db = Inr (u, db')"
  obtains (rows) "tip db (cl_DocumentID cl) \<noteq> AuthorityProcessing" "db' = released_rows (cl_ID cl) (trunc_us clock) db"
  | (returned) "tip db (cl_DocumentID cl) = AuthorityProcessing"
      "insert_ledger_event (transition_event newID (cl_DocumentID cl) (next_ledger_seq (cl_DocumentID cl) db)
         AuthorityProcessing SealedLocally (trunc_us clock)) (released_rows (cl_ID cl) (trunc_us clock) db) = Inr db'"
proof -
  let ?db = "released_rows (cl_ID cl) (trunc_us clock) db"
  have same: "latest_status i ?db = latest_status i db" "next_ledger_seq i ?db = next_ledger_seq i db" for i
    by (simp_all add: latest_status_def next_ledger_seq_def released_rows_def)
  show ?thesis
    using assms(3) latest_status_tip(1) [OF assms(1,2)] rows returned
    unfolding releaseOutboxUnavailable_def Let_def released_rows_def [symmetric] same
    by (auto simp: bind_result_Inr split: if_splits)
qed

lemma markAuthority_cases:
  assumes "ledger_inv db" "cl_DocumentID cl \<in> dc_id ` set (documents db)"
    "markAuthorityProcessing cl clock newID db = Inr (u, db')"
  obtains (same) "tip db (cl_DocumentID cl) = AuthorityProcessing \<or> terminal (tip db (cl_DocumentID cl))" "db' = db"
  | (mark) "tip db (cl_DocumentID cl) = SealedLocally"
      "insert_ledger_event (transition_event newID (cl_DocumentID cl) (next_ledger_seq (cl_DocumentID cl) db)
         SealedLocally AuthorityProcessing (trunc_us clock)) db = Inr db'"
  using assms(3) latest_status_tip(1) [OF assms(1,2)]
  by (auto simp: markAuthorityProcessing_def bind_result_Inr terminal_iff split: if_splits)

lemma claim_inv: "fiscal_inv sha256 db \<Longrightarrow> claimOutbox locked clock db = Inr (cl, db') \<Longrightarrow> fiscal_inv sha256 db'"
  by (drule claimOutbox_soft) (auto intro: fiscal_inv_soft)

lemma mark_inv:
  assumes inv: "fiscal_inv sha256 db" and d: "cl_DocumentID cl \<in> dc_id ` set (documents db)"
    and run: "markAuthorityProcessing cl clock newID db = Inr (u, db')"
  shows "fiscal_inv sha256 db'"
  using fiscal_invD(3) [OF inv] d run
proof (cases rule: markAuthority_cases)
  case same
  with inv show ?thesis by simp
next
  case mark
  then show ?thesis by (intro fiscal_inv_transition [OF inv d mark(1) _ _ mark(2)]) simp_all
qed

lemma release_inv:
  assumes inv: "fiscal_inv sha256 db" and d: "cl_DocumentID cl \<in> dc_id ` set (documents db)"
    and run: "releaseOutboxUnavailable cl clock newID db = Inr (u, db')"
  shows "fiscal_inv sha256 db'"
proof -
  let ?db = "released_rows (cl_ID cl) (trunc_us clock) db"
  obtain ms where ms: "?db = db\<lparr>outbox_messages := ms\<rparr>" "soft_change (outbox_messages db) ms"
    using released_rows_soft by blast
  have inv': "fiscal_inv sha256 ?db" unfolding ms(1) using inv ms(2) by (rule fiscal_inv_soft)
  have same: "tip ?db i = tip db i" "next_ledger_seq i ?db = next_ledger_seq i db" "documents ?db = documents db" for i
    by (simp_all add: next_ledger_seq_def ms(1))
  show ?thesis
    using fiscal_invD(3) [OF inv] d run
  proof (cases rule: releaseOutbox_cases)
    case rows
    with inv' show ?thesis by simp
  next
    case returned
    then show ?thesis
      by (intro fiscal_inv_transition [OF inv', where a = AuthorityProcessing and b = SealedLocally])
        (use d in \<open>simp_all add: same\<close>)
  qed
qed

lemma persist_inv:
  assumes inv: "fiscal_inv sha256 db" and m: "m \<in> set (outbox_messages db)" and t: "terminal ledgerTo"
    and run: "persistAuthoritySuccess (claim_of m) clock ids simRes ledgerTo db = Inr (out, db')"
  shows "fiscal_inv sha256 db'"
  using fiscal_invD(2-4) [OF inv] m t run
proof (cases rule: persist_cases)
  case answered
  with inv show ?thesis by simp
next
  case first
  have "same_seal_view db db'"
    unfolding first(3) by (simp add: same_seal_view_def answered_db_def)
  then have "seal_inv sha256 db'" using fiscal_invD(1) [OF inv] by (rule seal_inv_view)
  moreover have "outbox_inv db'"
    using fiscal_invD(2,4) [OF inv] m first(1) t first(3,7) by (rule answered_outbox_inv)
  ultimately show ?thesis using first(5) by (simp add: fiscal_inv_def)
qed

section \<open>Sealing\<close>

lemma seal_ledger_event_simps [simp]:
  "le_document_id (seal_ledger_event ids now) = id_doc ids" "le_seq (seal_ledger_event ids now) = 1"
  "le_from_status (seal_ledger_event ids now) = None" "le_to_status (seal_ledger_event ids now) = SealedLocally"
  by (simp_all add: seal_ledger_event_def)

lemma sealed_doc_ledger:
  assumes "ledger_inv db" "id_doc ids \<notin> dc_id ` set (documents db)"
  shows "doc_ledger (sealed_db dia now ids req hash issued n db) i =
    (if i = id_doc ids then [seal_ledger_event ids now] else doc_ledger db i)"
proof -
  have "filter (\<lambda>e. le_document_id e = id_doc ids) (ledger_events db) = []"
    using assms unfolding ledger_inv_def filter_empty_conv by (metis image_eqI subsetD)
  then show ?thesis by (simp add: doc_ledger_def)
qed

lemma sealed_tip:
  assumes "ledger_inv db" "id_doc ids \<notin> dc_id ` set (documents db)"
  shows "tip (sealed_db dia now ids req hash issued n db) i = (if i = id_doc ids then SealedLocally else tip db i)"
  by (simp add: tip_def sealed_doc_ledger [OF assms])

lemma sealed_ledger_inv:
  assumes "ledger_inv db" "id_doc ids \<notin> dc_id ` set (documents db)"
  shows "ledger_inv (sealed_db dia now ids req hash issued n db)"
  using assms(1) unfolding ledger_inv_def sealed_doc_ledger [OF assms] by auto

lemma sealed_outbox_inv:
  assumes inv: "keys_unique db" "ledger_inv db" "outbox_inv db" and new: "id_doc ids \<notin> dc_id ` set (documents db)"
  shows "outbox_inv (sealed_db dia now ids req hash issued n db)"
proof -
  let ?db = "sealed_db dia now ids req hash issued n db"
  note tip = sealed_tip [OF inv(2) new]
  note D = outbox_invD [OF inv(3)]
  have doc: "ob_document_id m \<noteq> id_doc ids" if "m \<in> set (outbox_messages db)" for m
    using claimed_message(1) [OF inv(1) that] new by metis
  have "at_document_id a \<noteq> id_doc ids" if "a \<in> set (authority_attempts db)" for a
    using D(4) [OF that] doc by metis
  then have "list_all2 (\<lambda>a r. rp_attempt_id r = at_id a \<and> rp_outcome r = tip ?db (at_document_id a))
      (authority_attempts ?db) (authority_responses ?db)"
    unfolding sealed_db_simps by (intro list.rel_mono_strong [OF D(7)]) (simp add: tip)
  moreover have "ob_state m \<noteq> OutboxDead \<and> (ob_state m = OutboxSucceeded \<longleftrightarrow> terminal (tip ?db (ob_document_id m)))"
    if "m \<in> set (outbox_messages ?db)" for m
    using that D(1,2) [of m] doc [of m] by (cases "m \<in> set (outbox_messages db)") (auto simp: tip)
  moreover have "\<exists>m \<in> set (outbox_messages ?db). ob_submission_id m = at_submission_id a
      \<and> ob_document_id m = at_document_id a \<and> ob_state m = OutboxSucceeded" if "a \<in> set (authority_attempts db)" for a
    using D(4) [OF that] by auto
  moreover have "ob_submission_id m \<in> at_submission_id ` set (authority_attempts db)"
    if "m \<in> set (outbox_messages ?db)" "ob_state m = OutboxSucceeded" for m
    using that D(5) [of m] by auto
  ultimately show ?thesis
    unfolding outbox_inv_def using D(3,6) by (simp only: sealed_db_simps) blast
qed

lemma seal_fiscal_inv:
  assumes "fiscal_inv sha256 db"
  shows "fiscal_inv sha256 (snd (SealInTx tzs sha256 dia clock ids req db))"
proof (rule SealInTx_cases [of tzs sha256 dia clock ids req db])
  assume "snd (SealInTx tzs sha256 dia clock ids req db) = db"
  with assms show ?thesis by simp
next
  fix nreq r db'
  assume run: "SealInTx tzs sha256 dia clock ids req db = (Inr r, db')"
    and q: "sealInQuerier dia clock ids nreq
      (RequestHash sha256 \<lparr>pj_SeriesCode = sq_SeriesCode nreq, pj_Intent = sq_Intent nreq\<rparr>) db = Inr (r, db')"
  note I = fiscal_invD [OF assms]
  from q have "ledger_inv db' \<and> outbox_inv db'"
  proof (cases rule: sealInQuerier_cases)
    case (replay row docID)
    with I show ?thesis by simp
  next
    case (fresh issued n)
    show ?thesis unfolding fresh(11)
      using sealed_ledger_inv [OF I(3) fresh(5)] sealed_outbox_inv [OF I(2-4) fresh(5)] by (rule conjI)
  qed
  then show ?thesis using sealed_inv [OF I(1) q] run by (simp add: fiscal_inv_def)
qed

section \<open>The transition system\<close>

datatype fiscal_event =
  SealEvent dialect gotime seal_ids seal_request
| ClaimEvent "string list" gotime
| MarkEvent string gotime string
| ReleaseEvent string gotime string
| PersistEvent string gotime persist_ids sim_result

text \<open>A worker's transaction carries the claim of a message: its identifiers never change.\<close>

definition with_claim ::
  "string \<Rightarrow> (outbox_claim \<Rightarrow> fiscal_db \<Rightarrow> store_error + 'a \<times> fiscal_db) \<Rightarrow> fiscal_db \<Rightarrow> fiscal_db" where
  "with_claim i tx db =
     (case find (\<lambda>m. ob_id m = i) (outbox_messages db) of
        None \<Rightarrow> db
      | Some m \<Rightarrow> snd (atomically (tx (claim_of m)) db))"

fun fiscal_step :: "tzdb \<Rightarrow> (string \<Rightarrow> string) \<Rightarrow> fiscal_event \<Rightarrow> fiscal_db \<Rightarrow> fiscal_db" where
  "fiscal_step tzs sha256 (SealEvent dia clock ids req) db = snd (SealInTx tzs sha256 dia clock ids req db)"
| "fiscal_step tzs sha256 (ClaimEvent locked clock) db = snd (atomically (claimOutbox locked clock) db)"
| "fiscal_step tzs sha256 (MarkEvent i clock newID) db =
     with_claim i (\<lambda>cl. markAuthorityProcessing cl clock newID) db"
| "fiscal_step tzs sha256 (ReleaseEvent i clock newID) db =
     with_claim i (\<lambda>cl. releaseOutboxUnavailable cl clock newID) db"
| "fiscal_step tzs sha256 (PersistEvent i clock ids simRes) db =
     (case mapSimulatorOutcome (sm_Outcome simRes) of
        Inl e \<Rightarrow> db
      | Inr ledgerTo \<Rightarrow> with_claim i (\<lambda>cl. persistAuthoritySuccess cl clock ids simRes ledgerTo) db)"

lemma with_claim_cases:
  obtains (idle) "with_claim i tx db = db"
  | (runs) m v db' where "m \<in> set (outbox_messages db)" "ob_id m = i" "tx (claim_of m) db = Inr (v, db')"
      "with_claim i tx db = db'"
proof (cases "find (\<lambda>m. ob_id m = i) (outbox_messages db)")
  case None
  then show ?thesis by (intro idle) (simp add: with_claim_def)
next
  case (Some m)
  then have m: "m \<in> set (outbox_messages db)" "ob_id m = i" by (auto simp: find_Some_iff)
  show ?thesis
  proof (cases "tx (claim_of m) db")
    case (Inl e)
    with Some show ?thesis by (intro idle) (simp add: with_claim_def)
  next
    case (Inr p)
    with Some m show ?thesis by (cases p) (intro runs [OF m], simp_all add: with_claim_def)
  qed
qed

lemma claim_step_cases:
  obtains (idle) "snd (atomically (claimOutbox locked clock) db) = db"
  | (runs) cl db' where "claimOutbox locked clock db = Inr (cl, db')" "snd (atomically (claimOutbox locked clock) db) = db'"
  by (rule atomically_cases [of "claimOutbox locked clock" db]) auto

lemma fiscal_step_inv:
  assumes inv: "fiscal_inv sha256 db"
  shows "fiscal_inv sha256 (fiscal_step tzs sha256 e db)"
proof -
  have doc: "cl_DocumentID (claim_of m) \<in> dc_id ` set (documents db)" if "m \<in> set (outbox_messages db)" for m
    using claimed_message(1) [OF fiscal_invD(2) [OF inv] that] by simp
  show ?thesis
  proof (cases e)
    case (SealEvent dia clock ids req)
    with inv show ?thesis by (simp add: seal_fiscal_inv)
  next
    case (ClaimEvent locked clock)
    show ?thesis unfolding ClaimEvent fiscal_step.simps
      by (rule claim_step_cases [of locked clock db]) (auto simp: inv intro: claim_inv [OF inv])
  next
    case (MarkEvent i clock newID)
    show ?thesis unfolding MarkEvent fiscal_step.simps
      by (rule with_claim_cases [of i "\<lambda>cl. markAuthorityProcessing cl clock newID" db])
        (auto simp: inv intro: mark_inv [OF inv doc])
  next
    case (ReleaseEvent i clock newID)
    show ?thesis unfolding ReleaseEvent fiscal_step.simps
      by (rule with_claim_cases [of i "\<lambda>cl. releaseOutboxUnavailable cl clock newID" db])
        (auto simp: inv intro: release_inv [OF inv doc])
  next
    case (PersistEvent i clock ids simRes)
    show ?thesis
    proof (cases "mapSimulatorOutcome (sm_Outcome simRes)")
      case (Inl x)
      with PersistEvent inv show ?thesis by simp
    next
      case (Inr s)
      show ?thesis unfolding PersistEvent fiscal_step.simps Inr sum.case
        by (rule with_claim_cases [of i "\<lambda>cl. persistAuthoritySuccess cl clock ids simRes s" db])
          (auto simp: inv intro: persist_inv [OF inv _ mapSimulatorOutcome_terminal [OF Inr]])
    qed
  qed
qed

section \<open>Progress that is never undone\<close>

definition fiscal_le :: "fiscal_db \<Rightarrow> fiscal_db \<Rightarrow> bool" where
  "fiscal_le db db' \<longleftrightarrow>
     idempotency_records db \<subseteq>\<^sub>m idempotency_records db'
     \<and> prefix (documents db) (documents db') \<and> prefix (document_lines db) (document_lines db')
     \<and> prefix (map claim_of (outbox_messages db)) (map claim_of (outbox_messages db'))
     \<and> prefix (ledger_events db) (ledger_events db')
     \<and> prefix (authority_attempts db) (authority_attempts db')
     \<and> prefix (authority_responses db) (authority_responses db')
     \<and> (\<forall>d \<in> set (documents db). terminal (tip db (dc_id d)) \<longrightarrow> doc_ledger db' (dc_id d) = doc_ledger db (dc_id d))"

lemma fiscal_le_refl: "fiscal_le db db"
  by (simp add: fiscal_le_def)

lemma fiscal_le_trans:
  assumes "fiscal_le a b" "fiscal_le b c"
  shows "fiscal_le a c"
proof -
  have "doc_ledger c (dc_id d) = doc_ledger a (dc_id d)"
    if "d \<in> set (documents a)" "terminal (tip a (dc_id d))" for d
  proof -
    have b: "doc_ledger b (dc_id d) = doc_ledger a (dc_id d)" using assms(1) that by (simp add: fiscal_le_def)
    moreover have "d \<in> set (documents b)"
      using assms(1) that(1) by (auto simp: fiscal_le_def dest: set_mono_prefix)
    moreover have "terminal (tip b (dc_id d))" using b that(2) by (simp add: tip_def)
    ultimately show ?thesis using assms(2) by (simp add: fiscal_le_def)
  qed
  then show ?thesis
    using assms unfolding fiscal_le_def by (meson map_le_trans prefix_order.trans)
qed

text \<open>An outbox transaction extends the ledger of a document whose outcome is still open.\<close>

lemma fiscal_le_frame:
  assumes "idempotency_records db' = idempotency_records db" "documents db' = documents db"
    "document_lines db' = document_lines db"
    "map claim_of (outbox_messages db') = map claim_of (outbox_messages db)"
    "ledger_events db' = ledger_events db @ es" "\<And>e. e \<in> set es \<Longrightarrow> \<not> terminal (tip db (le_document_id e))"
    "prefix (authority_attempts db) (authority_attempts db')"
    "prefix (authority_responses db) (authority_responses db')"
  shows "fiscal_le db db'"
proof -
  have "filter (\<lambda>e. le_document_id e = i) es = []" if "terminal (tip db i)" for i
    using assms(6) that by (auto simp: filter_empty_conv)
  then have "doc_ledger db' i = doc_ledger db i" if "terminal (tip db i)" for i
    using that by (simp add: doc_ledger_def assms(5))
  then show ?thesis using assms by (simp add: fiscal_le_def)
qed

lemma soft_change_claims: "soft_change ms ms' \<Longrightarrow> map claim_of ms' = map claim_of ms"
  by (induction rule: list_all2_induct) (simp_all add: soft_row_def claim_of_def)

lemma fiscal_le_soft:
  "soft_change (outbox_messages db) ms \<Longrightarrow> fiscal_le db (db\<lparr>outbox_messages := ms\<rparr>)"
  by (rule fiscal_le_frame [where es = "[]"]) (simp_all add: soft_change_claims)

lemma fiscal_le_transition:
  assumes "\<not> terminal (tip db d)"
    "insert_ledger_event (transition_event i d n a b now) db = Inr db'"
  shows "fiscal_le db db'"
  using assms by (intro fiscal_le_frame [where es = "[transition_event i d n a b now]"]) (simp_all add: insert_Inr)

lemma seal_le:
  assumes inv: "fiscal_inv sha256 db"
  shows "fiscal_le db (snd (SealInTx tzs sha256 dia clock ids req db))"
proof (rule SealInTx_cases [of tzs sha256 dia clock ids req db])
  assume "snd (SealInTx tzs sha256 dia clock ids req db) = db"
  then show ?thesis by (simp add: fiscal_le_refl)
next
  fix nreq r db'
  assume run: "SealInTx tzs sha256 dia clock ids req db = (Inr r, db')"
    and q: "sealInQuerier dia clock ids nreq
      (RequestHash sha256 \<lparr>pj_SeriesCode = sq_SeriesCode nreq, pj_Intent = sq_Intent nreq\<rparr>) db = Inr (r, db')"
  note I = fiscal_invD [OF inv]
  from q have "fiscal_le db db'"
  proof (cases rule: sealInQuerier_cases)
    case (replay row docID)
    then show ?thesis by (simp add: fiscal_le_refl)
  next
    case (fresh issued n)
    have "idempotency_records db (di_ScopeID (sq_Intent nreq), sq_IdempotencyKey nreq) = None"
      using fresh(1) I(1) by (auto simp: seal_inv_def idem_sound_def split: option.splits)
    then have "idempotency_records db \<subseteq>\<^sub>m idempotency_records db'"
      unfolding fresh(11) by (auto simp: sealed_db_def map_le_def)
    moreover have "doc_ledger db' (dc_id d) = doc_ledger db (dc_id d)" if "d \<in> set (documents db)" for d
      using fresh(5) that unfolding fresh(11) sealed_doc_ledger [OF I(3) fresh(5)] by force
    ultimately show ?thesis
      unfolding fiscal_le_def by (simp add: fresh(11)) (simp add: sealed_db_def)
  qed
  with run show ?thesis by simp
qed

lemma mark_le:
  assumes "fiscal_inv sha256 db" "cl_DocumentID cl \<in> dc_id ` set (documents db)"
    "markAuthorityProcessing cl clock newID db = Inr (u, db')"
  shows "fiscal_le db db'"
  using fiscal_invD(3) [OF assms(1)] assms(2,3)
  by (cases rule: markAuthority_cases) (simp_all add: fiscal_le_refl fiscal_le_transition [of db "cl_DocumentID cl"])

lemma release_le:
  assumes "fiscal_inv sha256 db" "cl_DocumentID cl \<in> dc_id ` set (documents db)"
    "releaseOutboxUnavailable cl clock newID db = Inr (u, db')"
  shows "fiscal_le db db'"
proof -
  let ?db = "released_rows (cl_ID cl) (trunc_us clock) db"
  obtain ms where ms: "?db = db\<lparr>outbox_messages := ms\<rparr>" "soft_change (outbox_messages db) ms"
    using released_rows_soft by blast
  then have 1: "fiscal_le db ?db" by (simp add: fiscal_le_soft)
  show ?thesis
    using fiscal_invD(3) [OF assms(1)] assms(2,3)
  proof (cases rule: releaseOutbox_cases)
    case rows
    with 1 show ?thesis by simp
  next
    case returned
    have "\<not> terminal (tip ?db (cl_DocumentID cl))" using returned(1) by (simp add: ms(1))
    with returned(2) 1 show ?thesis using fiscal_le_trans fiscal_le_transition by blast
  qed
qed

lemma persist_le:
  assumes "fiscal_inv sha256 db" "m \<in> set (outbox_messages db)" "terminal ledgerTo"
    "persistAuthoritySuccess (claim_of m) clock ids simRes ledgerTo db = Inr (out, db')"
  shows "fiscal_le db db'"
  using fiscal_invD(2-4) [OF assms(1)] assms(2-4)
proof (cases rule: persist_cases)
  case answered
  then show ?thesis by (simp add: fiscal_le_refl)
next
  case first
  have "map claim_of (update_where (\<lambda>x. ob_id x = ob_id m) (\<lambda>x. x\<lparr>ob_state := OutboxSucceeded, ob_updated_at := now\<rparr>) ms) =
      map claim_of ms" for now ms
    by (rule map_update_where) (simp add: claim_of_def)
  then show ?thesis
    by (intro fiscal_le_frame [where es = "outcome_events (claim_of m) (trunc_us clock) ids
          (tip db (ob_document_id m)) ledgerTo (next_ledger_seq (ob_document_id m) db)"])
      (use first(2) in \<open>auto simp: first(3) answered_db_def outcome_events_def Let_def split: if_splits\<close>)
qed

lemma fiscal_step_le:
  assumes inv: "fiscal_inv sha256 db"
  shows "fiscal_le db (fiscal_step tzs sha256 e db)"
proof -
  have doc: "cl_DocumentID (claim_of m) \<in> dc_id ` set (documents db)" if "m \<in> set (outbox_messages db)" for m
    using claimed_message(1) [OF fiscal_invD(2) [OF inv] that] by simp
  show ?thesis
  proof (cases e)
    case (SealEvent dia clock ids req)
    with inv show ?thesis by (simp add: seal_le)
  next
    case (ClaimEvent locked clock)
    show ?thesis unfolding ClaimEvent fiscal_step.simps
      by (rule claim_step_cases [of locked clock db]) (auto simp: fiscal_le_refl dest!: claimOutbox_soft intro: fiscal_le_soft)
  next
    case (MarkEvent i clock newID)
    show ?thesis unfolding MarkEvent fiscal_step.simps
      by (rule with_claim_cases [of i "\<lambda>cl. markAuthorityProcessing cl clock newID" db])
        (auto simp: fiscal_le_refl intro: mark_le [OF inv doc])
  next
    case (ReleaseEvent i clock newID)
    show ?thesis unfolding ReleaseEvent fiscal_step.simps
      by (rule with_claim_cases [of i "\<lambda>cl. releaseOutboxUnavailable cl clock newID" db])
        (auto simp: fiscal_le_refl intro: release_le [OF inv doc])
  next
    case (PersistEvent i clock ids simRes)
    show ?thesis
    proof (cases "mapSimulatorOutcome (sm_Outcome simRes)")
      case (Inl x)
      with PersistEvent show ?thesis by (simp add: fiscal_le_refl)
    next
      case (Inr s)
      show ?thesis unfolding PersistEvent fiscal_step.simps Inr sum.case
        by (rule with_claim_cases [of i "\<lambda>cl. persistAuthoritySuccess cl clock ids simRes s" db])
          (auto simp: fiscal_le_refl intro: persist_le [OF inv _ mapSimulatorOutcome_terminal [OF Inr]])
    qed
  qed
qed

interpretation fiscal: monotone_machine "\<lambda>db. db = empty_db" "fiscal_step tzs sha256" "fiscal_inv sha256" fiscal_le
  by unfold_locales
    (auto intro: fiscal_inv_empty fiscal_step_inv fiscal_step_le fiscal_le_refl fiscal_le_trans)

end
