(* ===== verification/SealProperties.thy ===== *)
theory SealProperties
  imports FiscalMachine
begin

text \<open>
  What callers of \<^verbatim>\<open>SealInTx\<close> may rely on, on every database that sealings and outbox
  workers can have built: numbering, replay, conflicts, and when sealing succeeds.
\<close>

section \<open>Reading a sealed document back\<close>

lemma idem_soundD:
  assumes "idem_sound sha256 db" "idempotency_records db k = Some row"
  shows "im_state row = IdemCompleted"
    "\<exists>d \<in> set (documents db). im_document_id row = Some (dc_id d) \<and> dc_scope_id d = fst k
       \<and> trunc_us (dc_created_at d) = dc_created_at d
       \<and> (\<exists>p. represents db d p \<and> im_request_hash row = RequestHash sha256 p)"
  using assms unfolding idem_sound_def by blast+

definition normalized_hash :: "(string \<Rightarrow> string) \<Rightarrow> seal_request \<Rightarrow> string" where
  "normalized_hash sha256 nreq =
     RequestHash sha256 \<lparr>pj_SeriesCode = sq_SeriesCode nreq, pj_Intent = sq_Intent nreq\<rparr>"

lemma SealInTx_run:
  assumes "prepareSealRequest tzs req = Inr nreq" "dia = DialectPostgres \<or> dia = DialectSQLite"
  shows "SealInTx tzs sha256 dia clock ids req db =
    atomically (sealInQuerier dia clock ids nreq (normalized_hash sha256 nreq)) db"
  using assms by (auto simp: SealInTx_def normalized_hash_def Let_def)

lemma SealInTx_Inr:
  assumes "SealInTx tzs sha256 dia clock ids req db = (Inr r, db')"
  obtains nreq where "prepareSealRequest tzs req = Inr nreq"
    "sealInQuerier dia clock ids nreq (normalized_hash sha256 nreq) db = Inr (r, db')"
proof (cases "prepareSealRequest tzs req")
  case (Inl e)
  with assms show ?thesis by (simp add: SealInTx_def)
next
  case (Inr nreq)
  have dia: "dia = DialectPostgres \<or> dia = DialectSQLite"
    using assms Inr by (cases dia) (simp_all add: SealInTx_def Let_def)
  have "atomically (sealInQuerier dia clock ids nreq (normalized_hash sha256 nreq)) db = (Inr r, db')"
    using SealInTx_run [OF Inr dia] assms by simp
  then have "sealInQuerier dia clock ids nreq (normalized_hash sha256 nreq) db = Inr (r, db')"
    by (cases rule: atomically_cases [of "sealInQuerier dia clock ids nreq (normalized_hash sha256 nreq)" db]) simp_all
  with Inr show ?thesis by (rule that)
qed

lemma load_completed:
  assumes "keys_unique db" "d \<in> set (documents db)" "m \<in> set (outbox_messages db)" "ob_document_id m = dc_id d"
  shows "loadCompletedResult (dc_id d) db =
    Inr \<lparr>rs_DocumentID = dc_id d, rs_FiscalSeq = dc_fiscal_seq d, rs_SeriesCode = dc_series_code d,
         rs_ScopeID = dc_scope_id d, rs_ExternalID = dc_external_id d, rs_SubmissionID = ob_submission_id m,
         rs_CreatedAt = trunc_us (dc_created_at d), rs_IdempotentHit = True\<rparr>"
proof -
  have k: "distinct (map dc_id (documents db))" "map ob_document_id (outbox_messages db) = map dc_id (documents db)"
    using assms(1) by (simp_all add: keys_unique_def)
  have "find (\<lambda>d'. dc_id d' = dc_id d) (documents db) = Some d"
    using k(1) assms(2) by (rule find_distinct_key)
  moreover have "find (\<lambda>m'. ob_document_id m' = ob_document_id m) (outbox_messages db) = Some m"
    by (rule find_distinct_key) (use k assms(3) in simp_all)
  ultimately show ?thesis using assms(4) by (simp add: loadCompletedResult_def)
qed

lemma document_has_message:
  assumes "keys_unique db" "d \<in> set (documents db)"
  obtains m where "m \<in> set (outbox_messages db)" "ob_document_id m = dc_id d"
proof -
  have "dc_id d \<in> set (map ob_document_id (outbox_messages db))"
    using assms by (simp add: keys_unique_def)
  then show ?thesis using that by auto
qed

text \<open>The result of a completed key, and that it is the same in every later state.\<close>

definition completed_with :: "fiscal_db \<Rightarrow> string \<times> string \<Rightarrow> string \<Rightarrow> seal_result \<Rightarrow> bool" where
  "completed_with db k hash r \<longleftrightarrow>
     (\<exists>row d m. idempotency_records db k = Some row \<and> im_state row = IdemCompleted
        \<and> im_request_hash row = hash \<and> im_document_id row = Some (dc_id d)
        \<and> d \<in> set (documents db) \<and> m \<in> set (outbox_messages db) \<and> ob_document_id m = dc_id d
        \<and> r = \<lparr>rs_DocumentID = dc_id d, rs_FiscalSeq = dc_fiscal_seq d, rs_SeriesCode = dc_series_code d,
              rs_ScopeID = dc_scope_id d, rs_ExternalID = dc_external_id d, rs_SubmissionID = ob_submission_id m,
              rs_CreatedAt = trunc_us (dc_created_at d), rs_IdempotentHit = True\<rparr>)"

lemma completed_with_le:
  assumes "completed_with db k hash r" "fiscal_le db db'"
  shows "completed_with db' k hash r"
proof -
  obtain row d m where *: "idempotency_records db k = Some row" "im_state row = IdemCompleted"
    "im_request_hash row = hash" "im_document_id row = Some (dc_id d)"
    "d \<in> set (documents db)" "m \<in> set (outbox_messages db)" "ob_document_id m = dc_id d"
    "r = \<lparr>rs_DocumentID = dc_id d, rs_FiscalSeq = dc_fiscal_seq d, rs_SeriesCode = dc_series_code d,
          rs_ScopeID = dc_scope_id d, rs_ExternalID = dc_external_id d, rs_SubmissionID = ob_submission_id m,
          rs_CreatedAt = trunc_us (dc_created_at d), rs_IdempotentHit = True\<rparr>"
    using assms(1) unfolding completed_with_def by blast
  have "idempotency_records db' k = Some row"
    using assms(2) *(1) unfolding fiscal_le_def map_le_def by (metis domI)
  moreover have "d \<in> set (documents db')"
    using assms(2) *(5) set_mono_prefix by (fastforce simp: fiscal_le_def)
  moreover have "claim_of m \<in> claim_of ` set (outbox_messages db')"
  proof -
    have "prefix (map claim_of (outbox_messages db)) (map claim_of (outbox_messages db'))"
      using assms(2) by (simp add: fiscal_le_def)
    then have "set (map claim_of (outbox_messages db)) \<subseteq> set (map claim_of (outbox_messages db'))"
      by (rule set_mono_prefix)
    then show ?thesis using *(6) by auto
  qed
  then obtain m' where "m' \<in> set (outbox_messages db')" "claim_of m' = claim_of m" by auto
  then have "m' \<in> set (outbox_messages db')" "ob_document_id m' = ob_document_id m"
    "ob_submission_id m' = ob_submission_id m" by (simp_all add: claim_of_def)
  ultimately show ?thesis using * unfolding completed_with_def by metis
qed

lemma completed_replay:
  assumes "keys_unique db" "completed_with db (di_ScopeID (sq_Intent req), sq_IdempotencyKey req) hash r"
    "sql_nonempty (di_ScopeID (sq_Intent req))" "sql_nonempty (sq_IdempotencyKey req)" "length hash = 32"
  shows "sealInQuerier dia clock ids req hash db = Inr (r, db)"
proof -
  let ?k = "(di_ScopeID (sq_Intent req), sq_IdempotencyKey req)"
  obtain row d m where *: "idempotency_records db ?k = Some row" "im_state row = IdemCompleted"
    "im_request_hash row = hash" "im_document_id row = Some (dc_id d)"
    "d \<in> set (documents db)" "m \<in> set (outbox_messages db)" "ob_document_id m = dc_id d"
    and r: "r = \<lparr>rs_DocumentID = dc_id d, rs_FiscalSeq = dc_fiscal_seq d, rs_SeriesCode = dc_series_code d,
          rs_ScopeID = dc_scope_id d, rs_ExternalID = dc_external_id d, rs_SubmissionID = ob_submission_id m,
          rs_CreatedAt = trunc_us (dc_created_at d), rs_IdempotentHit = True\<rparr>"
    using assms(2) unfolding completed_with_def by blast
  have "loadCompletedResult (dc_id d) db = Inr r"
    unfolding r using assms(1) *(5-7) by (rule load_completed)
  moreover have "db\<lparr>idempotency_records := (idempotency_records db)(?k := Some row)\<rparr> = db"
    using *(1) by (simp add: fun_upd_same)
  ultimately have "resolveIdempotency req hash (trunc_us clock) db = Inr (Some r, db)"
    using *(1-4) assms(3-5) by (simp add: resolveIdempotency_def Let_def)
  then show ?thesis by (simp add: sealInQuerier_def Let_def)
qed

lemma sealed_checks:
  assumes "sealInQuerier dia clock ids req hash db = Inr x"
  shows "sql_nonempty (di_ScopeID (sq_Intent req))" "sql_nonempty (sq_IdempotencyKey req)" "length hash = 32"
  using assms by (auto simp: sealInQuerier_def resolveIdempotency_def Let_def bind_result_Inr split: if_splits)

lemma completed_after_seal:
  assumes "fiscal_inv sha256 db" "sealInQuerier dia clock ids req hash db = Inr (r, db')"
  shows "completed_with db' (di_ScopeID (sq_Intent req), sq_IdempotencyKey req) hash (r\<lparr>rs_IdempotentHit := True\<rparr>)"
  using assms(2)
proof (cases rule: sealInQuerier_cases)
  case (replay row docID)
  obtain d where d: "d \<in> set (documents db)" "docID = dc_id d"
    using idem_soundD(2) [OF _ replay(1)] fiscal_invD(1) [OF assms(1)] replay(4)
    unfolding seal_inv_def by (metis option.inject)
  obtain m where m: "m \<in> set (outbox_messages db)" "ob_document_id m = dc_id d"
    using document_has_message [OF fiscal_invD(2) [OF assms(1)] d(1)] .
  have "Inr r = (Inr \<lparr>rs_DocumentID = dc_id d, rs_FiscalSeq = dc_fiscal_seq d, rs_SeriesCode = dc_series_code d,
         rs_ScopeID = dc_scope_id d, rs_ExternalID = dc_external_id d, rs_SubmissionID = ob_submission_id m,
         rs_CreatedAt = trunc_us (dc_created_at d), rs_IdempotentHit = True\<rparr> :: store_error + seal_result)"
    using load_completed [OF fiscal_invD(2) [OF assms(1)] d(1) m] replay(5) d(2) by simp
  then show ?thesis
    using replay(1-4,6) d m unfolding completed_with_def by auto
next
  case (fresh issued n)
  let ?d = "document_row (id_doc ids) req issued n (trunc_us clock)"
  let ?m = "seal_outbox_message ids (trunc_us clock)"
  have "?d \<in> set (documents db')" "?m \<in> set (outbox_messages db')" "ob_document_id ?m = dc_id ?d"
    by (simp_all add: fresh(11))
  moreover have "\<exists>row. idempotency_records db' (di_ScopeID (sq_Intent req), sq_IdempotencyKey req) = Some row
      \<and> im_state row = IdemCompleted \<and> im_request_hash row = hash \<and> im_document_id row = Some (dc_id ?d)"
    by (simp add: fresh(11) sealed_db_def)
  moreover have "r\<lparr>rs_IdempotentHit := True\<rparr> =
      \<lparr>rs_DocumentID = dc_id ?d, rs_FiscalSeq = dc_fiscal_seq ?d, rs_SeriesCode = dc_series_code ?d,
       rs_ScopeID = dc_scope_id ?d, rs_ExternalID = dc_external_id ?d, rs_SubmissionID = ob_submission_id ?m,
       rs_CreatedAt = trunc_us (dc_created_at ?d), rs_IdempotentHit = True\<rparr>"
    by (simp add: fresh(12))
  ultimately show ?thesis unfolding completed_with_def by blast
qed

section \<open>What validation guarantees\<close>

text \<open>A field that is more than white space passes the table's own \<^verbatim>\<open>CHECK\<close>.\<close>

lemma trim_blanks: "list_all (\<lambda>c. c = CHR '' '') s \<Longrightarrow> trim_with go_spaces s = []"
proof (induction s)
  case (Cons c s)
  then have "c = CHR '' ''" by simp
  then have "find (\<lambda>p. p \<noteq> [] \<and> prefix p (c # s)) go_spaces = Some [CHR '' '']"
    by (simp add: go_spaces_def)
  then have "trim_with go_spaces (c # s) = trim_with go_spaces s"
    unfolding trim_with.simps [of go_spaces "c # s"] option.case by (simp only: option.case) simp
  with Cons show ?case by simp
qed simp

lemma TrimSpace_nonempty: "strings_TrimSpace s \<noteq> [] \<Longrightarrow> sql_nonempty s"
proof (rule ccontr)
  assume s: "strings_TrimSpace s \<noteq> []" "\<not> sql_nonempty s"
  then have "list_all (\<lambda>c. c = CHR '' '') s" by (auto simp: sql_nonempty_def list_ex_iff list_all_iff)
  then have "strings_TrimSpace s = []" by (simp add: strings_TrimSpace_def trim_blanks)
  with s(1) show False by simp
qed

lemma validate_lines_Inr:
  "validate_lines i lns = Inr u \<Longrightarrow> list_all (\<lambda>ln. sql_nonempty (ln_LineID ln) \<and> sql_nonempty (ln_Description ln)
     \<and> sql_nonempty (ln_TaxCode ln)) lns"
  by (induction lns arbitrary: i)
    (auto simp: Let_def hasNonWhitespace_def TrimSpace_nonempty split: if_splits)

lemma sql_nonempty_trimmed: "strings_TrimSpace s \<noteq> [] \<Longrightarrow> sql_nonempty (strings_TrimSpace s)"
  using TrimSpace_nonempty [of "strings_TrimSpace s"] by simp

lemma prepare_facts:
  assumes "prepareSealRequest tzs req = Inr nreq"
  shows "sql_nonempty (sq_IdempotencyKey nreq)" "sql_nonempty (sq_SeriesCode nreq)"
    "sql_nonempty (di_ScopeID (sq_Intent nreq))"
    "document_check (document_row i nreq issued n now)"
    "list_all (\<lambda>ln. sql_nonempty (ln_LineID ln) \<and> sql_nonempty (ln_Description ln)
       \<and> sql_nonempty (ln_TaxCode ln)) (di_Lines (sq_Intent nreq))"
proof -
  note e = prepare_series [OF assms]
  note P = assms [unfolded prepareSealRequest_def Let_def hasNonWhitespace_def]
  show k: "sql_nonempty (sq_IdempotencyKey nreq)" and s: "sql_nonempty (sq_SeriesCode nreq)"
    and c: "sql_nonempty (di_ScopeID (sq_Intent nreq))"
    using P by (auto simp: e TrimSpace_nonempty sql_nonempty_trimmed split: if_splits)
  show "document_check (document_row i nreq issued n now)"
    using P s c unfolding document_check_def document_row_def Let_def
    by (auto simp: e TrimSpace_nonempty split: if_splits)
  have "\<exists>u. validate_lines 0 (di_Lines (sq_Intent req)) = Inr u"
    using P by (auto simp: bind_result_Inr split: if_splits sum.splits)
  then show "list_all (\<lambda>ln. sql_nonempty (ln_LineID ln) \<and> sql_nonempty (ln_Description ln)
       \<and> sql_nonempty (ln_TaxCode ln)) (di_Lines (sq_Intent nreq))"
    using validate_lines_Inr by (auto simp: e)
qed


section \<open>Properties\<close>

text \<open>The states that sealings and outbox workers reach from an empty database.\<close>

definition reached :: "tzdb \<Rightarrow> (string \<Rightarrow> string) \<Rightarrow> fiscal_event list \<Rightarrow> fiscal_db" where
  "reached tzs sha256 es = fold (fiscal_step tzs sha256) es empty_db"

lemma reached_inv: "fiscal_inv sha256 (reached tzs sha256 es)"
  unfolding reached_def by (rule fiscal.reach_inv [OF refl])

lemma reached_le: "fiscal_inv sha256 db \<Longrightarrow> fiscal_le db (fold (fiscal_step tzs sha256) es db)"
  by (rule fiscal.run_le)

text \<open>
  C1: fiscal numbers are progressive and continuous: after any interleaving of sealings
  (failed ones included) and outbox transactions, the documents of a scope and series carry, in
  the order in which they were sealed, exactly the numbers 1, 2, ..., n, where n is the counter.
\<close>

theorem fiscal_numbers_gapless:
  "map dc_fiscal_seq (series_documents (reached tzs sha256 es) k) = [1..last_number (reached tzs sha256 es) k]"
  using fiscal_invD(1) [OF reached_inv [where tzs = tzs and es = es]] unfolding seal_inv_def numbers_gapless_def by blast

lemma seal_replays:
  assumes "SealInTx tzs sha256 dia clock ids req (reached tzs sha256 es) = (Inr r, db)"
    and "dia' = DialectPostgres \<or> dia' = DialectSQLite"
  shows "SealInTx tzs sha256 dia' clock' ids' req (fold (fiscal_step tzs sha256) es' db) =
    (Inr (r\<lparr>rs_IdempotentHit := True\<rparr>), fold (fiscal_step tzs sha256) es' db)"
proof -
  obtain nreq where prep: "prepareSealRequest tzs req = Inr nreq"
    and tx: "sealInQuerier dia clock ids nreq (normalized_hash sha256 nreq) (reached tzs sha256 es) = Inr (r, db)"
    using assms(1) by (rule SealInTx_Inr)
  let ?db = "fold (fiscal_step tzs sha256) es' db"
  have "db = snd (SealInTx tzs sha256 dia clock ids req (reached tzs sha256 es))" using assms(1) by simp
  then have inv: "fiscal_inv sha256 db" using seal_fiscal_inv [OF reached_inv] by metis
  have "completed_with ?db (di_ScopeID (sq_Intent nreq), sq_IdempotencyKey nreq) (normalized_hash sha256 nreq)
      (r\<lparr>rs_IdempotentHit := True\<rparr>)"
    using completed_after_seal [OF reached_inv tx] reached_le [OF inv] by (rule completed_with_le)
  from completed_replay [OF fiscal_invD(2) [OF fiscal.run_inv [OF inv]] this sealed_checks [OF tx]]
  show ?thesis unfolding SealInTx_run [OF prep assms(2)] by simp
qed

text \<open>
  C2: a repeated request is answered with the first result: after a sealing succeeded, and
  whatever happened since, the same request under the same key returns the same document,
  number, submission and creation time, marked as a hit, and changes nothing.
\<close>

theorem seal_replay:
  assumes "SealInTx tzs sha256 dia clock ids req (reached tzs sha256 es) = (Inr r, db)"
    and "dia' = DialectPostgres \<or> dia' = DialectSQLite"
  shows "SealInTx tzs sha256 dia' clock' ids' req (fold (fiscal_step tzs sha256) es' db) =
    (Inr (r\<lparr>rs_IdempotentHit := True\<rparr>), fold (fiscal_step tzs sha256) es' db)"
  using assms by (rule seal_replays)


lemma represents_fields:
  assumes "represents db d p"
  shows "dc_scope_id d = di_ScopeID (pj_Intent p)" "dc_external_id d = di_ExternalID (pj_Intent p)"
    "dc_series_code d = pj_SeriesCode p"
  using assms unfolding represents_def by (metis row_simps(2,3,4) seal_request.select_convs(2,3))+



text \<open>
  C11: reuse is refused without any effect: a used key with a different request is an idempotency
  conflict, and an \<^verbatim>\<open>external_id\<close> of the scope under a new key is an external id conflict.
\<close>

theorem seal_conflicts:
  assumes "prepareSealRequest tzs req = Inr nreq" "dia = DialectPostgres \<or> dia = DialectSQLite"
    "length (normalized_hash sha256 nreq) = 32"
    "case idempotency_records (reached tzs sha256 es) (di_ScopeID (sq_Intent req), sq_IdempotencyKey req) of
       Some row \<Rightarrow> im_request_hash row \<noteq> normalized_hash sha256 nreq
     | None \<Rightarrow> \<exists>d \<in> set (documents (reached tzs sha256 es)).
         dc_scope_id d = di_ScopeID (sq_Intent req) \<and> dc_external_id d = di_ExternalID (sq_Intent req)"
  shows "SealInTx tzs sha256 dia clock ids req (reached tzs sha256 es) =
    (Inl (if idempotency_records (reached tzs sha256 es) (di_ScopeID (sq_Intent req), sq_IdempotencyKey req) = None
          then ErrExternalIDConflict else ErrIdempotencyConflict), reached tzs sha256 es)"
proof -
  let ?db = "reached tzs sha256 es"
  let ?k = "(di_ScopeID (sq_Intent req), sq_IdempotencyKey req)"
  note e = prepare_series [OF assms(1)]
  have c: "sql_nonempty (di_ScopeID (sq_Intent req))" "sql_nonempty (sq_IdempotencyKey req)"
    using prepare_facts(1,3) [OF assms(1)] by (simp_all add: e)
  have "sealInQuerier dia clock ids nreq (normalized_hash sha256 nreq) ?db =
      Inl (if idempotency_records ?db ?k = None then ErrExternalIDConflict else ErrIdempotencyConflict)"
  proof (cases "idempotency_records ?db ?k")
    case None
    then have "list_ex (\<lambda>d. dc_scope_id d = di_ScopeID (sq_Intent req) \<and> dc_external_id d = di_ExternalID (sq_Intent req))
        (documents ?db)"
      using assms(4) by (auto simp: list_ex_iff)
    with None c assms(3) show ?thesis
      by (simp add: sealInQuerier_def resolveIdempotency_def Let_def e)
  next
    case (Some row)
    have "idem_sound sha256 ?db"
      using fiscal_invD(1) [OF reached_inv] unfolding seal_inv_def by blast
    then have "im_state row = IdemCompleted" using Some by (rule idem_soundD(1))
    moreover have "im_request_hash row \<noteq> normalized_hash sha256 nreq" using Some assms(4) by simp
    ultimately have "im_state row = IdemCompleted" "im_request_hash row \<noteq> normalized_hash sha256 nreq" by simp_all
    with Some c assms(3) show ?thesis
      by (simp add: sealInQuerier_def resolveIdempotency_def Let_def e)
  qed
  then show ?thesis unfolding SealInTx_run [OF assms(1,2)] by (simp only: atomically_simps)
qed



section \<open>A concrete history\<close>

definition sha32 :: "string \<Rightarrow> string" where
  "sha32 m = take 32 (m @ replicate 32 CHR ''0'')"

definition sample_req :: seal_request where
  "sample_req = \<lparr>sq_IdempotencyKey = ''k1'', sq_SeriesCode = '' A '', sq_Intent = sample_intent\<rparr>"

definition sample_ids :: seal_ids where
  "sample_ids = \<lparr>id_doc = ''d1'', id_ledger = ''l1'', id_outbox = ''o1'', id_submission = ''s1''\<rparr>"

definition sample_result :: seal_result where
  "sample_result =
     \<lparr>rs_DocumentID = ''d1'', rs_FiscalSeq = 1, rs_SeriesCode = ''A'', rs_ScopeID = ''s1'',
      rs_ExternalID = ''e1'', rs_SubmissionID = ''s1'', rs_CreatedAt = 1000, rs_IdempotentHit = False\<rparr>"

abbreviation sample_nreq :: seal_request where
  "sample_nreq \<equiv> sample_req\<lparr>sq_SeriesCode := ''A''\<rparr>"


lemma sample_hash: "length (normalized_hash sha32 nreq) = 32"
  by (simp add: normalized_hash_def RequestHash_def RequestHashV2_def sha32_def)

lemma sample_sealed:
  "\<exists>db. SealInTx luanda_only sha32 DialectSQLite 1234 sample_ids sample_req (reached luanda_only sha32 []) =
     (Inr sample_result, db)"
proof -
  have "fst (SealInTx luanda_only sha32 DialectSQLite 1234 sample_ids sample_req empty_db) = Inr sample_result"
    by code_simp
  then show ?thesis by (simp add: reached_def) (metis prod.collapse)
qed

theorem seal_replay_witness:
  "\<exists>db. SealInTx luanda_only sha32 DialectSQLite 1234 sample_ids sample_req (reached luanda_only sha32 []) =
       (Inr sample_result, db)
     \<and> SealInTx luanda_only sha32 DialectPostgres 99 sample_ids sample_req db =
       (Inr (sample_result\<lparr>rs_IdempotentHit := True\<rparr>), db)"
proof -
  obtain db where db: "SealInTx luanda_only sha32 DialectSQLite 1234 sample_ids sample_req
      (reached luanda_only sha32 []) = (Inr sample_result, db)" using sample_sealed by blast
  show ?thesis
    using db seal_replay [OF db, of DialectPostgres 99 sample_ids "[]"] by (intro exI [of _ db]) simp
qed



definition sample_history :: "fiscal_event list" where
  "sample_history = [SealEvent DialectSQLite 1234 sample_ids sample_req]"

theorem seal_conflicts_witness:
  "SealInTx luanda_only sha32 DialectSQLite 5 sample_ids (sample_req\<lparr>sq_IdempotencyKey := ''k2''\<rparr>)
     (reached luanda_only sha32 sample_history) = (Inl ErrExternalIDConflict, reached luanda_only sha32 sample_history)"
proof -
  let ?req = "sample_req\<lparr>sq_IdempotencyKey := ''k2''\<rparr>"
  have prep: "prepareSealRequest luanda_only ?req = Inr (sample_nreq\<lparr>sq_IdempotencyKey := ''k2''\<rparr>)"
    by code_simp
  have none: "idempotency_records (reached luanda_only sha32 sample_history)
      (di_ScopeID (sq_Intent ?req), sq_IdempotencyKey ?req) = None"
    by code_simp
  have "list_ex (\<lambda>d. dc_scope_id d = di_ScopeID (sq_Intent ?req) \<and> dc_external_id d = di_ExternalID (sq_Intent ?req))
      (documents (reached luanda_only sha32 sample_history))"
    by code_simp
  then have "\<exists>d \<in> set (documents (reached luanda_only sha32 sample_history)).
      dc_scope_id d = di_ScopeID (sq_Intent ?req) \<and> dc_external_id d = di_ExternalID (sq_Intent ?req)"
    by (auto simp: list_ex_iff)
  then show ?thesis
    using seal_conflicts [OF prep, of DialectSQLite sha32 sample_history 5 sample_ids] none
    by (simp add: sample_hash)
qed


end
