(* ===== verification/OutboxProperties.thy ===== *)
theory OutboxProperties
  imports SealProperties
begin

text \<open>
  What the ledger, the outbox and the authority tables promise on every reachable database, and
  what one undisturbed pass of a worker does with each answer of the authority.
\<close>

section \<open>Safety\<close>



definition attempts_of :: "fiscal_db \<Rightarrow> outbox_message \<Rightarrow> authority_attempt list" where
  "attempts_of db m = filter (\<lambda>a. at_submission_id a = ob_submission_id m) (authority_attempts db)"

definition responses_to :: "fiscal_db \<Rightarrow> authority_attempt \<Rightarrow> authority_response list" where
  "responses_to db a = filter (\<lambda>r. rp_attempt_id r = at_id a) (authority_responses db)"

definition settled :: "fiscal_db \<Rightarrow> outbox_message \<Rightarrow> bool" where
  "settled db m \<longleftrightarrow> ob_state m = OutboxSucceeded \<and> terminal (tip db (ob_document_id m))
     \<and> (\<exists>a. attempts_of db m = [a] \<and> at_attempt_no a = 1 \<and> at_document_id a = ob_document_id m
          \<and> (\<exists>r \<in> set (responses_to db a). rp_outcome r = tip db (ob_document_id m)))"

definition unsettled :: "fiscal_db \<Rightarrow> outbox_message \<Rightarrow> bool" where
  "unsettled db m \<longleftrightarrow> ob_state m \<in> {OutboxPending, OutboxInFlight}
     \<and> tip db (ob_document_id m) \<in> {SealedLocally, AuthorityProcessing} \<and> attempts_of db m = []"

lemma filter_distinct_singleton:
  "distinct (map k xs) \<Longrightarrow> x \<in> set xs \<Longrightarrow> filter (\<lambda>y. k y = k x) xs = [x]"
  by (induction xs) (auto simp: filter_empty_conv image_iff)

lemma chain_tip_states:
  "chain_from n s es \<Longrightarrow> es \<noteq> [] \<Longrightarrow>
   le_to_status (last es) \<in> {SealedLocally, AuthorityProcessing} \<or> terminal (le_to_status (last es))"
proof (induction es arbitrary: n s)
  case (Cons e es)
  have "allowed s t \<Longrightarrow> t \<in> {SealedLocally, AuthorityProcessing} \<or> terminal t" for s t
    by (induction s t rule: allowed.induct) auto
  with Cons show ?case by (cases es) auto
qed simp

lemma message_cases:
  assumes inv: "fiscal_inv sha256 db" and m: "m \<in> set (outbox_messages db)"
  shows "settled db m \<or> unsettled db m"
proof (cases "ob_state m = OutboxSucceeded")
  case True
  note I = fiscal_invD [OF inv] and D = outbox_invD [OF fiscal_invD(4) [OF inv]]
  obtain a where a: "a \<in> set (authority_attempts db)" "at_submission_id a = ob_submission_id m"
    using D(5) [OF m True] by auto
  obtain m' where m': "m' \<in> set (outbox_messages db)" "ob_submission_id m' = at_submission_id a"
    "ob_document_id m' = at_document_id a" using D(4) [OF a(1)] by blast
  then have "m' = m" using claimed_message(5) [OF I(2) m m'(1)] a(2) by simp
  have one: "attempts_of db m = [a]"
    unfolding attempts_of_def a(2) [symmetric] by (rule filter_distinct_singleton [OF D(6) a(1)])
  obtain r where r: "r \<in> set (authority_responses db)" "rp_attempt_id r = at_id a" "rp_outcome r = tip db (at_document_id a)"
    using D(7) a(1) by (auto simp: list_all2_conv_all_nth in_set_conv_nth) metis
  have "settled db m"
    unfolding settled_def responses_to_def using True D(2) [OF m] D(3) [OF a(1)] one r m' \<open>m' = m\<close> by auto
  then show ?thesis by simp
next
  case False
  note I = fiscal_invD [OF inv] and D = outbox_invD [OF fiscal_invD(4) [OF inv]]
  note l = latest_status_tip [OF I(3) claimed_message(1) [OF I(2) m]]
  have "tip db (ob_document_id m) \<in> {SealedLocally, AuthorityProcessing}"
    using chain_tip_states [OF l(3,4)] D(2) [OF m] False by (simp add: tip_def)
  moreover have "ob_state m \<in> {OutboxPending, OutboxInFlight}"
    using False D(1) [OF m] by (cases "ob_state m") simp_all
  moreover have "attempts_of db m = []"
    using no_attempt_yet(2) [OF I(2,4) m False] unfolding attempts_of_def filter_empty_conv image_iff by metis
  ultimately show ?thesis by (simp add: unsettled_def)
qed



definition sample_pids :: persist_ids where
  "sample_pids = \<lparr>pi_attempt = ''a1'', pi_response = ''r1'', pi_processing = ''l2'', pi_outcome = ''l3''\<rparr>"





section \<open>One pass of a worker\<close>

lemma claim_takes:
  assumes "fiscal_inv sha256 db" "claimOutbox locked clock db = Inr (cl, db1)"
  obtains m ms where "db1 = db\<lparr>outbox_messages := ms\<rparr>" "m \<in> set ms" "cl = claim_of m" "ob_state m = OutboxInFlight"
    "fiscal_inv sha256 db1"
proof -
  let ?ms = "reclaim_stale (trunc_us clock) (outbox_messages db)"
  obtain m where m: "m \<in> set ?ms" "ob_state m = OutboxPending" "cl = claim_of m"
    and db1: "db1 = db\<lparr>outbox_messages := update_where (\<lambda>x. ob_id x = ob_id m \<and> ob_state x = OutboxPending)
      (\<lambda>x. x\<lparr>ob_state := OutboxInFlight, ob_updated_at := trunc_us clock\<rparr>) ?ms\<rparr>"
    using assms(2) by (auto simp: claimOutbox_def Let_def split: option.splits if_splits dest!: first_min_Some)
  let ?m = "m\<lparr>ob_state := OutboxInFlight, ob_updated_at := trunc_us clock\<rparr>"
  have "?m \<in> set (outbox_messages db1)"
    unfolding db1 using m(1,2) by (auto simp: set_update_where intro!: image_eqI [where x = m])
  moreover have "cl = claim_of ?m" using m(3) by (simp add: claim_of_def)
  ultimately show ?thesis
    using claim_inv [OF assms] db1 by (intro that [where m = ?m]) simp_all
qed

lemma chain_bound: "chain_from n s es \<Longrightarrow> e \<in> set es \<Longrightarrow> le_seq e < n + int (length es)"
proof (induction es arbitrary: n s)
  case (Cons a es)
  show ?case
  proof (cases "e = a")
    case True
    with Cons.prems(1) show ?thesis by simp
  next
    case False
    with Cons.prems have "le_seq e < (n + 1) + int (length es)"
      by (intro Cons.IH [of "n + 1" "Some (le_to_status a)"]) simp_all
    then show ?thesis by simp
  qed
qed simp

lemma insert_transition_succeeds:
  assumes "ledger_inv db" "d \<in> dc_id ` set (documents db)" "i \<notin> le_id ` set (ledger_events db)"
  shows "insert_ledger_event (transition_event i d (next_ledger_seq d db) a b now) db =
    Inr (db\<lparr>ledger_events := ledger_events db @ [transition_event i d (next_ledger_seq d db) a b now]\<rparr>)"
proof -
  note l = latest_status_tip [OF assms(1,2)]
  have old: "le_seq e < next_ledger_seq d db" if "e \<in> set (doc_ledger db d)" for e
    using chain_bound [OF l(3) that] by (simp add: l(2))
  have "(d, next_ledger_seq d db) \<notin> (\<lambda>f. (le_document_id f, le_seq f)) ` set (ledger_events db)"
  proof
    assume "(d, next_ledger_seq d db) \<in> (\<lambda>f. (le_document_id f, le_seq f)) ` set (ledger_events db)"
    then obtain f where "f \<in> set (ledger_events db)" "le_document_id f = d" "le_seq f = next_ledger_seq d db" by auto
    then show False using old [of f] by (simp add: doc_ledger_def)
  qed
  moreover have "has_document db d" using assms(2) by (auto simp: has_document_def list_ex_iff)
  ultimately show ?thesis
    unfolding insert_ledger_event_Inr using assms(3) l(2)
    by (simp add: transition_event_def sql_nonempty_def)
qed

text \<open>The mark: the ledger is at processing afterwards.\<close>

lemma mark_succeeds:
  assumes inv: "fiscal_inv sha256 db" and m: "m \<in> set (outbox_messages db)" "ob_state m \<noteq> OutboxSucceeded"
    and fresh: "i \<notin> le_id ` set (ledger_events db)"
  obtains db' where "markAuthorityProcessing (claim_of m) clock i db = Inr ((), db')"
    "tip db' (ob_document_id m) = AuthorityProcessing" "fiscal_inv sha256 db'"
    "\<exists>es. db' = db\<lparr>ledger_events := ledger_events db @ es\<rparr> \<and> le_id ` set es \<subseteq> {i}"
proof -
  note I = fiscal_invD [OF inv]
  note d = claimed_message(1) [OF I(2) m(1)]
  note l = latest_status_tip [OF I(3) d]
  have tip: "tip db (ob_document_id m) = SealedLocally \<or> tip db (ob_document_id m) = AuthorityProcessing"
    using message_cases [OF inv m(1)] m(2) by (auto simp: settled_def unsettled_def)
  show ?thesis
  proof (cases "tip db (ob_document_id m) = AuthorityProcessing")
    case True
    have "markAuthorityProcessing (claim_of m) clock i db = Inr ((), db)"
      using True l(1) by (simp add: markAuthorityProcessing_def)
    moreover have "db = db\<lparr>ledger_events := ledger_events db @ []\<rparr>" by simp
    ultimately show ?thesis using True inv that by (metis empty_subsetI image_empty list.set(1))
  next
    case False
    then have s: "tip db (ob_document_id m) = SealedLocally" using tip by simp
    let ?e = "transition_event i (ob_document_id m) (next_ledger_seq (ob_document_id m) db)
      SealedLocally AuthorityProcessing (trunc_us clock)"
    let ?db = "db\<lparr>ledger_events := ledger_events db @ [?e]\<rparr>"
    have run: "markAuthorityProcessing (claim_of m) clock i db = Inr ((), ?db)"
      using s l(1) insert_transition_succeeds [OF I(3) d fresh] by (simp add: markAuthorityProcessing_def)
    show ?thesis
    proof (rule that [OF run])
      show "fiscal_inv sha256 ?db" using mark_inv [OF inv _ run] d by simp
      have "le_id ?e = i" by (simp add: transition_event_def)
      then show "\<exists>es. ?db = db\<lparr>ledger_events := ledger_events db @ es\<rparr> \<and> le_id ` set es \<subseteq> {i}"
        by (intro exI [of _ "[?e]"]) simp
    qed (simp add: tip_append)
  qed
qed

lemma persist_succeeds:
  assumes inv: "fiscal_inv sha256 db" and m: "m \<in> set (outbox_messages db)" "ob_state m \<noteq> OutboxSucceeded"
    and tip: "tip db (ob_document_id m) = AuthorityProcessing" and t: "terminal s"
    and fresh: "pi_outcome ids \<notin> le_id ` set (ledger_events db)"
      "pi_attempt ids \<notin> at_id ` set (authority_attempts db)"
      "pi_response ids \<notin> rp_id ` set (authority_responses db)"
  shows "\<exists>db'. persistAuthoritySuccess (claim_of m) clock ids simRes s db = Inr (finished (claim_of m) 1 s, db')"
proof -
  note I = fiscal_invD [OF inv]
  note c = claimed_message [OF I(2) m(1)]
  note l = latest_status_tip [OF I(3) c(1)]
  note D = outbox_invD [OF I(4)]
  let ?d = "ob_document_id m" and ?now = "trunc_us clock"
  let ?db1 = "db\<lparr>ledger_events := ledger_events db @
    [transition_event (pi_outcome ids) ?d (next_ledger_seq ?d db) AuthorityProcessing s ?now]\<rparr>"
  have 1: "record_outcome (claim_of m) ?now ids AuthorityProcessing s db = Inr ?db1"
    using insert_transition_succeeds [OF I(3) c(1) fresh(1)] by (simp add: record_outcome_def Let_def)
  let ?a = "\<lparr>at_id = pi_attempt ids, at_document_id = ?d, at_submission_id = ob_submission_id m,
    at_attempt_no = 1, at_sent_at = ?now\<rparr>"
  have "has_document db ?d" using c(1) by (auto simp: has_document_def list_ex_iff)
  moreover have "sql_nonempty (ob_submission_id m)"
    using I(2) m(1) by (auto simp: keys_unique_def list_all_iff)
  moreover have "(ob_submission_id m, 1) \<notin> (\<lambda>b. (at_submission_id b, at_attempt_no b)) ` set (authority_attempts db)"
    using no_attempt_yet(2) [OF I(2,4) m] by auto
  ultimately have 2: "insert_attempt ?a ?db1 = Inr (?db1\<lparr>authority_attempts := authority_attempts db @ [?a]\<rparr>)"
    unfolding insert_attempt_Inr using fresh(2) by (simp add: has_document_def)
  let ?r = "\<lparr>rp_id = pi_response ids, rp_attempt_id = pi_attempt ids,
    rp_authority_request_id = nullIfEmpty (sm_AuthorityRequestID simRes), rp_outcome = s, rp_received_at = ?now\<rparr>"
  have "rp_attempt_id ` set (authority_responses db) \<subseteq> at_id ` set (authority_attempts db)"
    using D(7) by (auto simp: list_all2_conv_all_nth in_set_conv_nth) (metis image_eqI nth_mem)
  then have 3: "insert_response ?r (?db1\<lparr>authority_attempts := authority_attempts db @ [?a]\<rparr>) =
      Inr (?db1\<lparr>authority_attempts := authority_attempts db @ [?a], authority_responses := authority_responses db @ [?r]\<rparr>)"
    unfolding insert_response_Inr using fresh(2,3) t by (auto simp: terminal_iff)
  have st: "ob_state m \<in> {OutboxInFlight, OutboxPending}" using m(2) D(1) [OF m(1)] by (cases "ob_state m") simp_all
  have "filter (\<lambda>x. ob_id x = ob_id m \<and> ob_state x \<in> {OutboxInFlight, OutboxPending}) (outbox_messages db) =
      filter (\<lambda>x. ob_id x = ob_id m) (outbox_messages db)"
    by (rule filter_cong) (use c(3) st in auto)
  also have "\<dots> = [m]"
    using I(2) by (intro filter_distinct_singleton m(1)) (simp add: keys_unique_def)
  finally have rows: "length (filter (\<lambda>x. ob_id x = ob_id m \<and> ob_state x \<in> {OutboxInFlight, OutboxPending})
      (outbox_messages db)) = 1" by simp
  show ?thesis
    using 1 2 3 rows m(2) no_attempt_yet(1) [OF I(2,4) m]
    by (simp add: persistAuthoritySuccess_def Let_def c(2) l(1) tip)
qed

lemma pass_records_answer_inv:
  assumes inv: "fiscal_inv sha256 db" and "claimOutbox locked claim_now db = Inr (cl, db1)"
    and "sign_request cl env = Some req" "submit c req = (Inr res, c')"
    and "mapSimulatorOutcome (sm_Outcome res) = Inr s"
    and "fe_mark_id env \<notin> le_id ` set (ledger_events db)"
      "pi_outcome (fe_persist_ids env) \<notin> insert (fe_mark_id env) (le_id ` set (ledger_events db))"
      "pi_attempt (fe_persist_ids env) \<notin> at_id ` set (authority_attempts db)"
      "pi_response (fe_persist_ids env) \<notin> rp_id ` set (authority_responses db)"
  shows "\<exists>db'. ProcessNextAuthoritySubmission (Some submit) locked claim_now env (c, db) =
      (Inr ((finished cl 1 s)\<lparr>or_JWSAttached := (fe_Signer env \<noteq> None)\<rparr>), c', db')
    \<and> tip db' (cl_DocumentID cl) = s
    \<and> (\<exists>m \<in> set (outbox_messages db'). claim_of m = cl \<and> settled db' m)"
proof -
  obtain m ms where d1: "db1 = db\<lparr>outbox_messages := ms\<rparr>" and m: "m \<in> set (outbox_messages db1)"
    and cl: "cl = claim_of m" and st: "ob_state m \<noteq> OutboxSucceeded" and inv1: "fiscal_inv sha256 db1"
    using claim_takes [OF inv assms(2)] by (metis fiscal_db.select_convs(6) fiscal_db.surjective fiscal_db.update_convs(6) outbox_state.distinct(8))
  have "fe_mark_id env \<notin> le_id ` set (ledger_events db1)" using assms(6) by (simp add: d1)
  then obtain db2 where mark: "markAuthorityProcessing cl (fe_mark_now env) (fe_mark_id env) db1 = Inr ((), db2)"
    and tip2: "tip db2 (ob_document_id m) = AuthorityProcessing" and inv2: "fiscal_inv sha256 db2"
    and d2: "\<exists>es. db2 = db1\<lparr>ledger_events := ledger_events db1 @ es\<rparr> \<and> le_id ` set es \<subseteq> {fe_mark_id env}"
    using mark_succeeds [OF inv1 m st] unfolding cl by metis
  have m2: "m \<in> set (outbox_messages db2)" using d2 m by auto
  have t: "terminal s" using assms(5) by (rule mapSimulatorOutcome_terminal)
  have "\<exists>db3. persistAuthoritySuccess (claim_of m) (fe_end_now env) (fe_persist_ids env) res s db2 =
      Inr (finished (claim_of m) 1 s, db3)"
  proof (rule persist_succeeds [OF inv2 m2 st tip2 t])
    obtain es2 where "db2 = db1\<lparr>ledger_events := ledger_events db1 @ es2\<rparr>" "le_id ` set es2 \<subseteq> {fe_mark_id env}"
      using d2 by blast
    then have "le_id ` set (ledger_events db2) \<subseteq> insert (fe_mark_id env) (le_id ` set (ledger_events db))"
      "authority_attempts db2 = authority_attempts db" "authority_responses db2 = authority_responses db"
      by (auto simp: d1)
    with assms(7-9) show "pi_outcome (fe_persist_ids env) \<notin> le_id ` set (ledger_events db2)"
      "pi_attempt (fe_persist_ids env) \<notin> at_id ` set (authority_attempts db2)"
      "pi_response (fe_persist_ids env) \<notin> rp_id ` set (authority_responses db2)"
      by (blast, simp_all)
  qed
  then obtain db3 where persist: "persistAuthoritySuccess (claim_of m) (fe_end_now env) (fe_persist_ids env) res s db2 =
      Inr (finished (claim_of m) 1 s, db3)" by blast
  have "ProcessNextAuthoritySubmission (Some submit) locked claim_now env (c, db) =
      (Inr ((finished cl 1 s)\<lparr>or_JWSAttached := (fe_Signer env \<noteq> None)\<rparr>), c', db3)"
    using assms(2-5) mark persist
    by (simp add: ProcessNextAuthoritySubmission_def finishOutbox_def Let_def atomically_def cl)
  moreover have inv3: "fiscal_inv sha256 db3" using persist_inv [OF inv2 m2 t persist] .
  moreover have "tip db3 (cl_DocumentID cl) = s \<and> (\<exists>x \<in> set (outbox_messages db3). claim_of x = cl)"
    using fiscal_invD(2-4) [OF inv2] m2 t persist
  proof (cases rule: persist_cases)
    case answered
    with st show ?thesis by simp
  next
    case first
    have "map claim_of (outbox_messages db3) = map claim_of (outbox_messages db2)"
      unfolding first(3) answered_db_def by (simp add: claim_of_def)
    then have "claim_of m \<in> claim_of ` set (outbox_messages db3)" using m2 by (metis image_eqI image_set)
    then show ?thesis using first(7) by (auto simp: cl)
  qed
  moreover have "settled db3 x" if "x \<in> set (outbox_messages db3)" "claim_of x = cl" for x
    using message_cases [OF inv3 that(1)] t that(2) calculation(3)
    by (auto simp: unsettled_def)
  ultimately show ?thesis by blast
qed

text \<open>
  C9: when the authority answers, one pass of a worker on any reachable database claims the
  message, and leaves its document with the answered outcome at the end of the ledger, one
  attempt, one response, and the message finished; the pass reports exactly that.
\<close>

theorem pass_records_answer:
  assumes "claimOutbox locked claim_now (reached tzs sha256 es) = Inr (cl, db1)"
    and "sign_request cl env = Some req" "submit c req = (Inr res, c')"
    and "mapSimulatorOutcome (sm_Outcome res) = Inr s"
    and "fe_mark_id env \<notin> le_id ` set (ledger_events (reached tzs sha256 es))"
      "pi_outcome (fe_persist_ids env) \<notin> insert (fe_mark_id env) (le_id ` set (ledger_events (reached tzs sha256 es)))"
      "pi_attempt (fe_persist_ids env) \<notin> at_id ` set (authority_attempts (reached tzs sha256 es))"
      "pi_response (fe_persist_ids env) \<notin> rp_id ` set (authority_responses (reached tzs sha256 es))"
  shows "\<exists>db'. ProcessNextAuthoritySubmission (Some submit) locked claim_now env (c, reached tzs sha256 es) =
      (Inr ((finished cl 1 s)\<lparr>or_JWSAttached := (fe_Signer env \<noteq> None)\<rparr>), c', db')
    \<and> tip db' (cl_DocumentID cl) = s
    \<and> (\<exists>m \<in> set (outbox_messages db'). claim_of m = cl \<and> settled db' m)"
  by (rule pass_records_answer_inv [where submit = submit, OF reached_inv assms])

lemma pass_unavailable_inv:
  assumes inv: "fiscal_inv sha256 db" and "claimOutbox locked claim_now db = Inr (cl, db1)"
    and "sign_request cl env = Some req" "submit c req = (Inl ErrUnavailable, c')"
    and "fe_mark_id env \<notin> le_id ` set (ledger_events db)"
      "fe_release_id env \<notin> insert (fe_mark_id env) (le_id ` set (ledger_events db))"
  shows "\<exists>db'. ProcessNextAuthoritySubmission (Some submit) locked claim_now env (c, db) =
      (Inr \<lparr>or_SubmissionID = cl_SubmissionID cl, or_DocumentID = cl_DocumentID cl, or_AttemptNo = 0,
            or_Outcome = None, or_OutboxState = OutboxPending, or_JWSAttached = (fe_Signer env \<noteq> None)\<rparr>, c', db')
    \<and> tip db' (cl_DocumentID cl) = SealedLocally
    \<and> authority_attempts db' = authority_attempts db
    \<and> authority_responses db' = authority_responses db
    \<and> (\<exists>m \<in> set (outbox_messages db'). claim_of m = cl \<and> ob_state m = OutboxPending
         \<and> ob_available_at m = trunc_us (fe_end_now env) + 5 * second)"
proof -
  let ?fin = "trunc_us (fe_end_now env)"
  obtain m ms where d1: "db1 = db\<lparr>outbox_messages := ms\<rparr>" and m: "m \<in> set (outbox_messages db1)"
    and cl: "cl = claim_of m" and st: "ob_state m = OutboxInFlight" and inv1: "fiscal_inv sha256 db1"
    using claim_takes [OF inv assms(2)] by (metis fiscal_db.select_convs(6) fiscal_db.surjective fiscal_db.update_convs(6))
  have "fe_mark_id env \<notin> le_id ` set (ledger_events db1)" "ob_state m \<noteq> OutboxSucceeded" using assms(5) st by (simp_all add: d1)
  then obtain db2 es2 where mark: "markAuthorityProcessing cl (fe_mark_now env) (fe_mark_id env) db1 = Inr ((), db2)"
    and tip2: "tip db2 (ob_document_id m) = AuthorityProcessing" and inv2: "fiscal_inv sha256 db2"
    and d2: "db2 = db1\<lparr>ledger_events := ledger_events db1 @ es2\<rparr>" "le_id ` set es2 \<subseteq> {fe_mark_id env}"
    using mark_succeeds [OF inv1 m] unfolding cl by metis
  have m2: "m \<in> set (outbox_messages db2)" using d2 m by auto
  note I = fiscal_invD [OF inv2]
  note c = claimed_message [OF I(2) m2]
  let ?dr = "released_rows (ob_id m) ?fin db2"
  have dr: "ledger_events ?dr = ledger_events db2" "documents ?dr = documents db2" "ledger_inv ?dr"
    "tip ?dr i = tip db2 i" "next_ledger_seq i ?dr = next_ledger_seq i db2" "latest_status i ?dr = latest_status i db2" for i
    using I(3) by (simp_all add: released_rows_def next_ledger_seq_def latest_status_def)
  have "le_id ` set (ledger_events db2) \<subseteq> insert (fe_mark_id env) (le_id ` set (ledger_events db))"
    using d2 by (auto simp: d1)
  then have "fe_release_id env \<notin> le_id ` set (ledger_events ?dr)"
    using assms(6) unfolding dr(1) by blast
  then have ins: "insert_ledger_event (transition_event (fe_release_id env) (ob_document_id m)
      (next_ledger_seq (ob_document_id m) db2) AuthorityProcessing SealedLocally ?fin) ?dr =
      Inr (?dr\<lparr>ledger_events := ledger_events ?dr @ [transition_event (fe_release_id env) (ob_document_id m)
        (next_ledger_seq (ob_document_id m) db2) AuthorityProcessing SealedLocally ?fin]\<rparr>)"
    using insert_transition_succeeds [OF dr(3), of "ob_document_id m"] c(1) by (simp add: dr)
  let ?db3 = "?dr\<lparr>ledger_events := ledger_events ?dr @ [transition_event (fe_release_id env) (ob_document_id m)
        (next_ledger_seq (ob_document_id m) db2) AuthorityProcessing SealedLocally ?fin]\<rparr>"
  have rel: "releaseOutboxUnavailable cl (fe_end_now env) (fe_release_id env) db2 = Inr ((), ?db3)"
    using latest_status_tip(1) [OF I(3) c(1)] tip2 ins
    unfolding releaseOutboxUnavailable_def Let_def cl claim_of_simps released_rows_def [symmetric] dr(5,6) by simp
  have "ProcessNextAuthoritySubmission (Some submit) locked claim_now env (c, db) =
      (Inr \<lparr>or_SubmissionID = cl_SubmissionID cl, or_DocumentID = cl_DocumentID cl, or_AttemptNo = 0,
            or_Outcome = None, or_OutboxState = OutboxPending, or_JWSAttached = (fe_Signer env \<noteq> None)\<rparr>, c', ?db3)"
    using assms(2-4) mark rel
    by (simp add: ProcessNextAuthoritySubmission_def finishOutbox_def release_after_def Let_def atomically_def)
  moreover have "tip ?db3 (cl_DocumentID cl) = SealedLocally" by (simp add: tip_append cl)
  moreover have "\<exists>x \<in> set (outbox_messages ?db3). claim_of x = cl \<and> ob_state x = OutboxPending
      \<and> ob_available_at x = ?fin + 5 * second"
  proof
    let ?x = "m\<lparr>ob_state := OutboxPending, ob_available_at := ?fin + defaultUnavailableBackoff, ob_updated_at := ?fin\<rparr>"
    show "?x \<in> set (outbox_messages ?db3)"
      using m2 st by (auto simp: released_rows_def set_update_where intro!: image_eqI [where x = m])
    show "claim_of ?x = cl \<and> ob_state ?x = OutboxPending \<and> ob_available_at ?x = ?fin + 5 * second"
      by (simp add: cl claim_of_def defaultUnavailableBackoff_def)
  qed
  moreover have "authority_attempts ?db3 = authority_attempts db" "authority_responses ?db3 = authority_responses db"
    by (simp_all add: released_rows_def d2 d1)
  ultimately show ?thesis by blast
qed

text \<open>
  C10: when the authority is unavailable, the pass gives the message back: pending again five
  seconds after the clock reading, the ledger back at sealed locally, and no attempt or response
  recorded; the pass reports a retry, never an acceptance.
\<close>

theorem pass_unavailable:
  assumes "claimOutbox locked claim_now (reached tzs sha256 es) = Inr (cl, db1)"
    and "sign_request cl env = Some req" "submit c req = (Inl ErrUnavailable, c')"
    and "fe_mark_id env \<notin> le_id ` set (ledger_events (reached tzs sha256 es))"
      "fe_release_id env \<notin> insert (fe_mark_id env) (le_id ` set (ledger_events (reached tzs sha256 es)))"
  shows "\<exists>db'. ProcessNextAuthoritySubmission (Some submit) locked claim_now env (c, reached tzs sha256 es) =
      (Inr \<lparr>or_SubmissionID = cl_SubmissionID cl, or_DocumentID = cl_DocumentID cl, or_AttemptNo = 0,
            or_Outcome = None, or_OutboxState = OutboxPending, or_JWSAttached = (fe_Signer env \<noteq> None)\<rparr>, c', db')
    \<and> tip db' (cl_DocumentID cl) = SealedLocally
    \<and> authority_attempts db' = authority_attempts (reached tzs sha256 es)
    \<and> authority_responses db' = authority_responses (reached tzs sha256 es)
    \<and> (\<exists>m \<in> set (outbox_messages db'). claim_of m = cl \<and> ob_state m = OutboxPending
         \<and> ob_available_at m = trunc_us (fe_end_now env) + 5 * second)"
  by (rule pass_unavailable_inv [where submit = submit, OF reached_inv assms])

section \<open>Witnesses of the passes\<close>

definition sample_env :: finish_env where
  "sample_env = \<lparr>fe_mark_now = 3000, fe_mark_id = ''l2'', fe_sign_now = 3000, fe_end_now = 4000,
     fe_release_id = ''l4'', fe_persist_ids = sample_pids\<lparr>pi_outcome := ''l3''\<rparr>, fe_Signer = None\<rparr>"

definition sample_claim :: outbox_claim where
  "sample_claim = \<lparr>cl_ID = ''o1'', cl_DocumentID = ''d1'', cl_SubmissionID = ''s1''\<rparr>"

lemma sample_claimed:
  "\<exists>db1. claimOutbox [] 2000 (reached luanda_only sha32 sample_history) = Inr (sample_claim, db1)"
proof -
  have "(case claimOutbox [] 2000 (reached luanda_only sha32 sample_history) of Inl _ \<Rightarrow> None | Inr (cl, _) \<Rightarrow> Some cl) = Some sample_claim"
    by code_simp
  then show ?thesis by (auto split: sum.splits)
qed

lemma sample_tables:
  "map le_id (ledger_events (reached luanda_only sha32 sample_history)) = [''l1'']"
  "authority_attempts (reached luanda_only sha32 sample_history) = []"
  "authority_responses (reached luanda_only sha32 sample_history) = []"
  by code_simp+

lemma sample_ledger_ids: "le_id ` set (ledger_events (reached luanda_only sha32 sample_history)) = {''l1''}"
  using sample_tables(1) by (metis empty_set list.simps(15) set_map)

lemma sample_signed: "sign_request sample_claim sample_env =
    Some \<lparr>sr_SubmissionID = ''s1'', sr_DocumentID = ''d1'', sr_JWS = []\<rparr>"
  by code_simp

theorem pass_records_answer_witness:
  "\<exists>c' db'. ProcessNextAuthoritySubmission (Some (sim_Submit None)) [] 2000 sample_env
       (sim_New OutcomeReject, reached luanda_only sha32 sample_history) =
     (Inr (finished sample_claim 1 AuthorityRejected), c', db') \<and> tip db' ''d1'' = AuthorityRejected"
proof -
  let ?req = "\<lparr>sr_SubmissionID = ''s1'', sr_DocumentID = ''d1'', sr_JWS = []\<rparr>"
  let ?res = "\<lparr>sm_AuthorityRequestID = ''sim-s1'', sm_Outcome = OutcomeReject, sm_JWSVerified = False\<rparr>"
  obtain db1 where claim: "claimOutbox [] 2000 (reached luanda_only sha32 sample_history) = Inr (sample_claim, db1)"
    using sample_claimed by blast
  have sub: "sim_Submit None (sim_New OutcomeReject) ?req = (Inr ?res, snd (sim_Submit None (sim_New OutcomeReject) ?req))"
    by (simp add: sim_Submit_def sim_New_def sim_check_jws_def Let_def)
  have out: "mapSimulatorOutcome (sm_Outcome ?res) = Inr AuthorityRejected" by (simp add: mapSimulatorOutcome_def)
  have fresh: "fe_mark_id sample_env \<notin> {''l1''}"
    "pi_outcome (fe_persist_ids sample_env) \<notin> insert (fe_mark_id sample_env) {''l1''}"
    by (simp_all add: sample_env_def)
  have "\<exists>db'. ProcessNextAuthoritySubmission (Some (sim_Submit None)) [] 2000 sample_env
       (sim_New OutcomeReject, reached luanda_only sha32 sample_history) =
     (Inr ((finished sample_claim 1 AuthorityRejected)\<lparr>or_JWSAttached := (fe_Signer sample_env \<noteq> None)\<rparr>),
      snd (sim_Submit None (sim_New OutcomeReject) ?req), db')
     \<and> tip db' (cl_DocumentID sample_claim) = AuthorityRejected
     \<and> (\<exists>m \<in> set (outbox_messages db'). claim_of m = sample_claim \<and> settled db' m)"
    by (rule pass_records_answer [where submit = "sim_Submit None", OF claim sample_signed sub out])
      (use fresh in \<open>simp_all add: sample_ledger_ids sample_tables\<close>)
  then show ?thesis by (auto simp: sample_env_def sample_claim_def finished_def)
qed

theorem pass_unavailable_witness:
  "\<exists>c' db'. ProcessNextAuthoritySubmission (Some (sim_Submit None)) [] 2000 sample_env
       (sim_New OutcomeUnavailable, reached luanda_only sha32 sample_history) =
     (Inr \<lparr>or_SubmissionID = ''s1'', or_DocumentID = ''d1'', or_AttemptNo = 0, or_Outcome = None,
           or_OutboxState = OutboxPending, or_JWSAttached = False\<rparr>, c', db')
   \<and> tip db' ''d1'' = SealedLocally"
proof -
  let ?req = "\<lparr>sr_SubmissionID = ''s1'', sr_DocumentID = ''d1'', sr_JWS = []\<rparr>"
  obtain db1 where claim: "claimOutbox [] 2000 (reached luanda_only sha32 sample_history) = Inr (sample_claim, db1)"
    using sample_claimed by blast
  have sub: "sim_Submit None (sim_New OutcomeUnavailable) ?req =
      (Inl ErrUnavailable, snd (sim_Submit None (sim_New OutcomeUnavailable) ?req))"
    by (simp add: sim_Submit_def sim_New_def sim_check_jws_def Let_def)
  have fresh: "fe_mark_id sample_env \<notin> {''l1''}" "fe_release_id sample_env \<notin> insert (fe_mark_id sample_env) {''l1''}"
    by (simp_all add: sample_env_def)
  from pass_unavailable [where submit = "sim_Submit None", OF claim sample_signed sub, unfolded sample_ledger_ids, OF fresh]
  show ?thesis by (auto simp: sample_env_def sample_claim_def)
qed

end
