(* ===== verification/GoText.thy ===== *)
theory GoText
  imports FiscalPrelude
begin

text \<open>
  What the source uses of Unicode: the runes of a string in Go's sense (an invalid byte is one
  U+FFFD), and case mapping as far as it can produce ASCII, which is all that searching for ASCII
  needles in \<^verbatim>\<open>strings.ToLower(v)\<close> and \<^verbatim>\<open>strings.EqualFold(s, "ascii")\<close> can see.
\<close>

abbreviation byte_val :: "char \<Rightarrow> nat" where
  "byte_val c \<equiv> of_char c"

definition cont_byte :: "char \<Rightarrow> bool" where
  "cont_byte c \<longleftrightarrow> 128 \<le> byte_val c \<and> byte_val c < 192"

text \<open>One step of \<^verbatim>\<open>for _, r := range s\<close>: the rune and the number of bytes it takes.\<close>

definition decode_rune :: "string \<Rightarrow> nat \<times> nat" where
  "decode_rune s =
     (case s of
        [] \<Rightarrow> (65533, 0)
      | a # r \<Rightarrow>
          let x = byte_val a; bad = (65533, 1)
          in if x < 128 then (x, 1)
             else if 194 \<le> x \<and> x < 224 then
               (case r of b # _ \<Rightarrow> if cont_byte b then ((x - 192) * 64 + (byte_val b - 128), 2) else bad | _ \<Rightarrow> bad)
             else if 224 \<le> x \<and> x < 240 then
               (case r of b # c # _ \<Rightarrow>
                  let v = (x - 224) * 4096 + (byte_val b - 128) * 64 + (byte_val c - 128)
                  in if cont_byte b \<and> cont_byte c \<and> 2048 \<le> v \<and> \<not> (55296 \<le> v \<and> v < 57344) then (v, 3) else bad
                | _ \<Rightarrow> bad)
             else if 240 \<le> x \<and> x < 245 then
               (case r of b # c # d # _ \<Rightarrow>
                  let v = (x - 240) * 262144 + (byte_val b - 128) * 4096 + (byte_val c - 128) * 64 + (byte_val d - 128)
                  in if cont_byte b \<and> cont_byte c \<and> cont_byte d \<and> 65536 \<le> v \<and> v < 1114112 then (v, 4) else bad
                | _ \<Rightarrow> bad)
             else bad)"

lemma decode_rune_pos: "s \<noteq> [] \<Longrightarrow> 0 < snd (decode_rune s)"
  by (cases s) (auto simp: decode_rune_def Let_def split: list.splits)

function go_runes :: "string \<Rightarrow> nat list" where
  "go_runes s = (if s = [] then [] else case decode_rune s of (r, w) \<Rightarrow> r # go_runes (drop w s))"
  by pat_completeness auto
termination
proof (relation "measure length", simp)
  fix s :: string and r w
  assume ne: "s \<noteq> []" and x: "(r, w) = decode_rune s"
  have "0 < w"
    using decode_rune_pos [OF ne] x by (metis snd_conv)
  then show "(drop w s, s) \<in> measure length"
    using ne by (simp add: length_greater_0_conv)
qed

declare go_runes.simps [simp del]

text \<open>\<^verbatim>\<open>utf8.RuneCountInString\<close>\<close>

definition RuneCountInString :: "string \<Rightarrow> nat" where
  "RuneCountInString s = length (go_runes s)"

text \<open>\<^verbatim>\<open>strings.ToLower\<close>: U+212A and U+0130 are the runes beyond ASCII with an ASCII lower case.\<close>

fun go_lower :: "string \<Rightarrow> string" where
  "go_lower (a # b # c # r) =
     (if [a, b, c] = [CHR 0xE2, CHR 0x84, CHR 0xAA] then CHR ''k'' # go_lower r
      else if [a, b] = [CHR 0xC4, CHR 0xB0] then CHR ''i'' # go_lower (c # r)
      else ascii_lower a # go_lower (b # c # r))"
| "go_lower [a, b] = (if [a, b] = [CHR 0xC4, CHR 0xB0] then ''i'' else [ascii_lower a, ascii_lower b])"
| "go_lower [a] = [ascii_lower a]"
| "go_lower [] = []"

text \<open>\<^verbatim>\<open>EqualFold\<close> with an ASCII string: U+212A folds to k, U+017F to s.\<close>

fun fold_ascii :: "string \<Rightarrow> string" where
  "fold_ascii (a # b # c # r) =
     (if [a, b, c] = [CHR 0xE2, CHR 0x84, CHR 0xAA] then CHR ''k'' # fold_ascii r
      else if [a, b] = [CHR 0xC5, CHR 0xBF] then CHR ''s'' # fold_ascii (c # r)
      else ascii_lower a # fold_ascii (b # c # r))"
| "fold_ascii [a, b] = (if [a, b] = [CHR 0xC5, CHR 0xBF] then ''s'' else [ascii_lower a, ascii_lower b])"
| "fold_ascii [a] = [ascii_lower a]"
| "fold_ascii [] = []"

definition strings_EqualFold :: "string \<Rightarrow> string \<Rightarrow> bool" where
  "strings_EqualFold s t \<longleftrightarrow> fold_ascii s = fold_ascii t"

end
