(* ===== verification/FeHub.thy ===== *)
theory FeHub
  imports GoText
begin

text \<open>
  The package \<^verbatim>\<open>internal/authority/fehub\<close>: which authority lane may be dialled, and
  metadata slots that must not hold secrets. \<open>letter_or_digit\<close> stands for the tables of
  \<^verbatim>\<open>unicode.IsLetter\<close> and \<^verbatim>\<open>unicode.IsDigit\<close>.
\<close>

datatype hub_kind = KindFixture | KindHML | KindPRD | OtherKind string

datatype hub_error = ErrUnknownKind | ErrTransportDenied | ErrSecretRejected | ErrInvalidSlot

record metadata_slots =
  ms_EndpointBaseRef :: string
  ms_CredentialRef :: string
  ms_CertificateRef :: string
  ms_SoftwareValidationNoRef :: string
  ms_ValidityNote :: string

definition no_slots :: metadata_slots where
  "no_slots = \<lparr>ms_EndpointBaseRef = [], ms_CredentialRef = [], ms_CertificateRef = [],
     ms_SoftwareValidationNoRef = [], ms_ValidityNote = []\<rparr>"

text \<open>The note is display text and is left out.\<close>

record hub =
  hb_kind :: hub_kind
  hb_slots :: metadata_slots

definition hub_NewFixture :: hub where
  "hub_NewFixture = \<lparr>hb_kind = KindFixture, hb_slots = no_slots\<rparr>"

definition hub_NewReserved :: "hub_kind \<Rightarrow> hub_error + hub" where
  "hub_NewReserved k =
     (if k = KindHML \<or> k = KindPRD then Inr \<lparr>hb_kind = k, hb_slots = no_slots\<rparr> else Inl ErrUnknownKind)"

definition secret_needles :: "string list" where
  "secret_needles =
     [''password'', ''passwd'', ''private key'', ''privatekey'', ''basic '', ''bearer '', ''authorization'',
      ''api_key'', ''apikey'', ''access_token'', ''refresh_token'', ''client_secret'', ''dsn'',
      ''postgres://'', ''postgresql://'', ''mysql://'', ''mongodb://'', ''redis://'', ''amqp://'', ''jdbc:'']"

definition looksLikeSecret :: "string \<Rightarrow> bool" where
  "looksLikeSecret v \<longleftrightarrow>
     (let low = go_lower v
      in strings_Contains low ''bwb_sbox_''
         \<or> strings_Contains v ''-----'' \<or> strings_Contains low ''begin ''
         \<or> list_ex (strings_Contains low) secret_needles
         \<or> (strings_Contains low ''secret'' \<and> \<not> strings_Contains low ''secretstore'')
         \<or> prefix ''bearer'' low \<or> prefix ''basic'' low
         \<or> prefix ''eyJ'' v \<or> prefix ''eyj'' low
         \<or> (strings_Contains v ''@'' \<and> strings_Contains v '':'')
         \<or> strings_Contains low ''://'')"

definition isSafeRefCharset :: "(nat \<Rightarrow> bool) \<Rightarrow> string \<Rightarrow> bool" where
  "isSafeRefCharset letter_or_digit v \<longleftrightarrow>
     length v \<le> 128 \<and>
     list_all (\<lambda>r. letter_or_digit r \<or> r \<in> {95, 45, 46, 58, 47}) (go_runes v)"

definition validateSlotValue :: "(nat \<Rightarrow> bool) \<Rightarrow> string \<Rightarrow> hub_error + unit" where
  "validateSlotValue letter_or_digit v =
     (if strings_TrimSpace v \<noteq> v then Inl ErrInvalidSlot
      else if v = [] then Inr ()
      else if looksLikeSecret v then Inl ErrSecretRejected
      else if \<not> isSafeRefCharset letter_or_digit v then Inl ErrInvalidSlot
      else Inr ())"

fun validate_all :: "(nat \<Rightarrow> bool) \<Rightarrow> string list \<Rightarrow> hub_error + unit" where
  "validate_all ld [] = Inr ()"
| "validate_all ld (v # vs) = bind_result (validateSlotValue ld v) (\<lambda>_. validate_all ld vs)"

definition slot_values :: "metadata_slots \<Rightarrow> string list" where
  "slot_values s = [ms_EndpointBaseRef s, ms_CredentialRef s, ms_CertificateRef s,
     ms_SoftwareValidationNoRef s, ms_ValidityNote s]"

definition validateSlots :: "(nat \<Rightarrow> bool) \<Rightarrow> metadata_slots \<Rightarrow> hub_error + unit" where
  "validateSlots ld s = validate_all ld (slot_values s)"

definition hub_WithSlots :: "(nat \<Rightarrow> bool) \<Rightarrow> hub \<Rightarrow> metadata_slots \<Rightarrow> hub_error + hub" where
  "hub_WithSlots ld h slots = bind_result (validateSlots ld slots) (\<lambda>_. Inr (h\<lparr>hb_slots := slots\<rparr>))"

definition AllowTransport :: "hub \<Rightarrow> bool" where
  "AllowTransport h \<longleftrightarrow> hb_kind h = KindFixture"

definition AssertTransportAllowed :: "hub \<Rightarrow> hub_error + unit" where
  "AssertTransportAllowed h = (if \<not> AllowTransport h then Inl ErrTransportDenied else Inr ())"

record public_view =
  pv_Kind :: hub_kind
  pv_TransportAllowed :: bool
  pv_ExternalVerified :: bool
  pv_Slots :: metadata_slots

definition hub_View :: "(nat \<Rightarrow> bool) \<Rightarrow> hub \<Rightarrow> public_view" where
  "hub_View ld h =
     (let slots = (case validateSlots ld (hb_slots h) of Inl _ \<Rightarrow> no_slots | Inr _ \<Rightarrow> hb_slots h)
      in \<lparr>pv_Kind = hb_kind h, pv_TransportAllowed = AllowTransport h, pv_ExternalVerified = False, pv_Slots = slots\<rparr>)"

section \<open>Properties\<close>

definition slot_clean :: "string \<Rightarrow> bool" where
  "slot_clean v \<longleftrightarrow> v = [] \<or> (\<not> looksLikeSecret v \<and> length v \<le> 128 \<and> strings_TrimSpace v = v)"

lemma validate_slot_clean: "validateSlotValue ld v = Inr u \<Longrightarrow> slot_clean v"
  by (auto simp: validateSlotValue_def slot_clean_def isSafeRefCharset_def split: if_splits)

lemma validate_all_clean: "validate_all ld vs = Inr u \<Longrightarrow> list_all slot_clean vs"
  by (induction vs) (auto simp: bind_result_Inr validate_slot_clean)

lemma no_slots_clean: "list_all slot_clean (slot_values no_slots)"
  by (simp add: slot_values_def no_slots_def slot_clean_def)

text \<open>
  What the hub shows is safe whatever it holds: every slot of the public view is empty or
  a trimmed reference of at most 128 bytes that does not look like a secret, the view never claims
  external verification, and transport is allowed for the fixture lane only.
\<close>

theorem hub_view_safe:
  "list_all slot_clean (slot_values (pv_Slots (hub_View ld h))) \<and> \<not> pv_ExternalVerified (hub_View ld h)
   \<and> (pv_TransportAllowed (hub_View ld h) \<longleftrightarrow> pv_Kind (hub_View ld h) = KindFixture)
   \<and> (AssertTransportAllowed h = Inr () \<longleftrightarrow> hb_kind h = KindFixture)"
proof -
  have "list_all slot_clean (slot_values (pv_Slots (hub_View ld h)))"
    using validate_all_clean [of ld "slot_values (hb_slots h)"] no_slots_clean
    by (cases "validateSlots ld (hb_slots h)") (auto simp: hub_View_def validateSlots_def Let_def)
  then show ?thesis
    by (simp add: hub_View_def Let_def AllowTransport_def AssertTransportAllowed_def)
qed

end
