(* ===== verification/FeBoundary.thy ===== *)
theory FeBoundary
  imports FeHub GoTime
begin

text \<open>
  The package \<^verbatim>\<open>internal/authority/feboundary\<close>: an in-memory engine that takes a
  submission from queued to one attempt at the local mock and a final state. \<open>Process\<close> gives its
  mutex up while it signs and posts, so it is modelled by the three parts that hold the mutex or
  run between, and composed as the source composes them. Parameters: the signer (the test keys),
  the HTTP client, and the parsers \<^verbatim>\<open>url.Parse\<close>, \<^verbatim>\<open>net.ParseIP\<close>,
  \<^verbatim>\<open>mime.ParseMediaType\<close> and \<^verbatim>\<open>json.Unmarshal\<close>, by the parts of
  their results the code reads.
\<close>

section \<open>Data\<close>

datatype boundary_state = StateQueued | StateInFlight | StateOK | StateReject | StateBlocked | StateFailed

definition OpSoftwareInfo :: string where "OpSoftwareInfo = ''softwareInfo''"
definition OpObterEstado :: string where "OpObterEstado = ''obterEstado''"
definition OpConsultarFactura :: string where "OpConsultarFactura = ''consultarFactura''"

datatype boundary_error =
  ErrClosed | ErrUnknownOp string | Boundary_NotFound | Boundary_InvalidInput | ErrBaseURLRejected string
| ErrInFlight | ErrInvalidTransition | ErrMockResponse string
| HubError hub_error | SignError string | Boundary_ContextError string

record submission =
  sb_ID :: string
  sb_Operation :: string
  sb_State :: boundary_state
  sb_Attempts :: nat
  sb_MockRequestID :: string
  sb_MockCode :: string
  sb_SourceID :: string
  sb_Note :: string
  sb_UpdatedAt :: gotime

definition IsAGTAccepted :: "submission \<Rightarrow> bool" where
  "IsAGTAccepted s = False"

record software_claims =
  sc_ProductID :: string
  sc_ProductVersion :: string
  sc_SoftwareValidationNumber :: string

record obter_claims =
  oc_TaxRegistrationNumber :: string
  oc_RequestID :: string

record consultar_claims =
  cc_TaxRegistrationNumber :: string
  cc_DocumentNo :: string

datatype claims = SoftwareClaims software_claims | ObterClaims obter_claims | ConsultarClaims consultar_claims

text \<open>The signer of \<^verbatim>\<open>femock\<close>: an identity reference and claims to a compact JWS or an error.\<close>

type_synonym signer = "string \<Rightarrow> claims \<Rightarrow> string + string"

record dial_snapshot =
  ds_baseURL :: string
  ds_user :: string
  ds_pass :: string

record engine =
  en_hub :: hub
  en_provider :: signer
  en_baseURL :: string
  en_user :: string
  en_pass :: string
  en_closed :: bool
  en_byID :: "string \<Rightarrow> submission option"

record boundary_config =
  cf_Hub :: hub
  cf_Provider :: "signer option"
  cf_BaseURL :: string
  cf_Username :: string
  cf_Password :: string

record parsed_url =
  pu_Scheme :: string
  pu_Host :: string
  pu_HasUser :: bool
  pu_RawQuery :: string
  pu_Fragment :: string
  pu_EscapedPath :: string
  pu_Hostname :: string

text \<open>\<open>url_String h\<close> is the text of a URL with scheme http and host \<open>h\<close>; \<open>ip_IsLoopback\<close>: parses as an IP and is loopback.\<close>

record url_lib =
  url_Parse :: "string \<Rightarrow> parsed_url option"
  url_String :: "string \<Rightarrow> string"
  ip_IsLoopback :: "string \<Rightarrow> bool"

section \<open>Construction\<close>

definition isAuthorizedLoopbackHost :: "url_lib \<Rightarrow> string \<Rightarrow> bool" where
  "isAuthorizedLoopbackHost lib host \<longleftrightarrow>
     go_lower (strings_TrimSpace host) \<in> {''127.0.0.1'', ''localhost'', ''::1''} \<or> ip_IsLoopback lib host"

definition trim_suffix_slash :: "string \<Rightarrow> string" where
  "trim_suffix_slash s = (if suffix ''/'' s then butlast s else s)"

definition trim_right_slashes :: "string \<Rightarrow> string" where
  "trim_right_slashes s = rev (dropWhile (\<lambda>c. c = CHR ''/'') (rev s))"

definition normalizeFixtureBaseURL :: "url_lib \<Rightarrow> string \<Rightarrow> boundary_error + string" where
  "normalizeFixtureBaseURL lib raw0 =
     (let raw = strings_TrimSpace raw0
      in if raw = [] then Inl (ErrBaseURLRejected [])
         else case url_Parse lib raw of
           None \<Rightarrow> Inl (ErrBaseURLRejected [])
         | Some u \<Rightarrow>
             if pu_Scheme u = [] \<or> pu_Host u = [] then Inl (ErrBaseURLRejected [])
             else if \<not> strings_EqualFold (pu_Scheme u) ''http'' then Inl (ErrBaseURLRejected ''scheme'')
             else if pu_HasUser u then Inl (ErrBaseURLRejected ''userinfo'')
             else if pu_RawQuery u \<noteq> [] \<or> pu_Fragment u \<noteq> [] then Inl (ErrBaseURLRejected ''query/fragment'')
             else if trim_suffix_slash (pu_EscapedPath u) \<noteq> [] then Inl (ErrBaseURLRejected ''path'')
             else if \<not> isAuthorizedLoopbackHost lib (pu_Hostname u) then Inl (ErrBaseURLRejected ''host'')
             else Inr (trim_right_slashes (url_String lib (pu_Host u))))"

definition feboundary_New :: "url_lib \<Rightarrow> boundary_config \<Rightarrow> boundary_error + engine" where
  "feboundary_New lib cfg =
     (case cf_Provider cfg of
        None \<Rightarrow> Inl Boundary_InvalidInput
      | Some provider \<Rightarrow>
          (case AssertTransportAllowed (cf_Hub cfg) of
             Inl e \<Rightarrow> Inl (HubError e)
           | Inr _ \<Rightarrow>
               if strings_TrimSpace (cf_Username cfg) = [] \<or> strings_TrimSpace (cf_Password cfg) = []
               then Inl Boundary_InvalidInput
               else bind_result (normalizeFixtureBaseURL lib (cf_BaseURL cfg)) (\<lambda>base.
                 Inr \<lparr>en_hub = cf_Hub cfg, en_provider = provider, en_baseURL = base,
                      en_user = cf_Username cfg, en_pass = cf_Password cfg, en_closed = False, en_byID = Map.empty\<rparr>)))"

definition feboundary_Close :: "engine \<Rightarrow> engine" where
  "feboundary_Close e = e\<lparr>en_closed := True, en_byID := Map.empty, en_user := [], en_pass := []\<rparr>"

section \<open>Enqueue and Get\<close>

text \<open>U+2260, which the notes of the source use.\<close>

definition neq_sign :: string where "neq_sign = [CHR 0xE2, CHR 0x89, CHR 0xA0]"

definition is_operation :: "string \<Rightarrow> bool" where
  "is_operation op \<longleftrightarrow> op = OpSoftwareInfo \<or> op = OpObterEstado \<or> op = OpConsultarFactura"

definition new_submission :: "string \<Rightarrow> string \<Rightarrow> gotime \<Rightarrow> submission" where
  "new_submission i op now =
     \<lparr>sb_ID = i, sb_Operation = op, sb_State = StateQueued, sb_Attempts = 0, sb_MockRequestID = [], sb_MockCode = [],
      sb_SourceID = [], sb_Note = ''queued local fixture boundary; '' @ neq_sign @ '' AGT'', sb_UpdatedAt = now\<rparr>"

definition feboundary_Enqueue :: "string \<Rightarrow> gotime \<Rightarrow> string \<Rightarrow> engine \<Rightarrow> (boundary_error + submission) \<times> engine" where
  "feboundary_Enqueue newID now op e =
     (if \<not> is_operation op then (Inl (ErrUnknownOp op), e)
      else if en_closed e then (Inl ErrClosed, e)
      else let s = new_submission newID op now in (Inr s, e\<lparr>en_byID := (en_byID e)(newID \<mapsto> s)\<rparr>))"

definition feboundary_Get :: "string \<Rightarrow> engine \<Rightarrow> boundary_error + submission" where
  "feboundary_Get i e = (case en_byID e i of None \<Rightarrow> Inl Boundary_NotFound | Some s \<Rightarrow> Inr s)"

section \<open>Process: the first locked part\<close>

record process_input =
  in_SubmissionID :: string
  in_IdentityRef :: string
  in_IdempotencyKey :: string
  in_Software :: "software_claims option"
  in_ObterEstado :: "obter_claims option"
  in_Consultar :: "consultar_claims option"

definition process_begin ::
  "string option \<Rightarrow> gotime \<Rightarrow> process_input \<Rightarrow> engine \<Rightarrow> boundary_error + (string \<times> dial_snapshot) \<times> engine" where
  "process_begin ctx_err now inp e =
     (case ctx_err of
        Some c \<Rightarrow> Inl (Boundary_ContextError c)
      | None \<Rightarrow>
          if in_IdentityRef inp = [] \<or> in_IdempotencyKey inp = [] then Inl Boundary_InvalidInput
          else if en_closed e then Inl ErrClosed
          else case en_byID e (in_SubmissionID inp) of
            None \<Rightarrow> Inl Boundary_NotFound
          | Some s \<Rightarrow>
              (case sb_State s of
                 StateQueued \<Rightarrow>
                   Inr ((sb_Operation s, \<lparr>ds_baseURL = en_baseURL e, ds_user = en_user e, ds_pass = en_pass e\<rparr>),
                        e\<lparr>en_byID := (en_byID e)(in_SubmissionID inp \<mapsto>
                            s\<lparr>sb_State := StateInFlight, sb_Attempts := sb_Attempts s + 1, sb_UpdatedAt := now\<rparr>)\<rparr>)
               | StateInFlight \<Rightarrow> Inl ErrInFlight
               | _ \<Rightarrow> Inl ErrInvalidTransition))"

section \<open>Process: signing, posting and reading the answer\<close>

definition boundary_sign :: "signer \<Rightarrow> string \<Rightarrow> process_input \<Rightarrow> boundary_error + string" where
  "boundary_sign provider op inp =
     (let signed = (\<lambda>c. case provider (in_IdentityRef inp) c of Inl x \<Rightarrow> Inl (SignError x) | Inr jws \<Rightarrow> Inr jws)
      in if op = OpSoftwareInfo then
           (case in_Software inp of None \<Rightarrow> Inl Boundary_InvalidInput | Some c \<Rightarrow> signed (SoftwareClaims c))
         else if op = OpObterEstado then
           (case in_ObterEstado inp of None \<Rightarrow> Inl Boundary_InvalidInput | Some c \<Rightarrow> signed (ObterClaims c))
         else if op = OpConsultarFactura then
           (case in_Consultar inp of None \<Rightarrow> Inl Boundary_InvalidInput | Some c \<Rightarrow> signed (ConsultarClaims c))
         else Inl (ErrUnknownOp []))"

datatype json_value = JString string | JBool bool | JOther

type_synonym json_object = "string \<Rightarrow> json_value option"

record mock_request =
  mq_url :: string
  mq_user :: string
  mq_pass :: string
  mq_identityRef :: string
  mq_jws :: string
  mq_idempotencyKey :: string

text \<open>An answer of the client: the body is \<open>None\<close> when reading it fails.\<close>

record http_reply =
  hr_StatusCode :: int
  hr_ContentType :: string
  hr_Body :: "string option"

type_synonym http_client = "mock_request \<Rightarrow> http_reply option"

text \<open>\<open>json_Unmarshal\<close>: no object when the text is invalid, not an object, or \<^verbatim>\<open>null\<close>.\<close>

record answer_lib =
  json_Unmarshal :: "string \<Rightarrow> json_object option"
  mime_ParseMediaType :: "string \<Rightarrow> string option"

definition PathPrefix :: string where "PathPrefix = ''/mock/agt-fe/v1''"
definition TypMock :: string where "TypMock = ''BWB-MOCK''"
definition CodeProfileBlocked :: string where "CodeProfileBlocked = ''BWB-MOCK-PROFILE-BLOCKED''"

definition postMock ::
  "answer_lib \<Rightarrow> http_client \<Rightarrow> dial_snapshot \<Rightarrow> string \<Rightarrow> string \<Rightarrow> string \<Rightarrow> string
   \<Rightarrow> (int \<times> string \<times> json_object option) option" where
  "postMock lib http snap op ref jws idem =
     (case http \<lparr>mq_url = ds_baseURL snap @ PathPrefix @ ''/'' @ op, mq_user = ds_user snap, mq_pass = ds_pass snap,
        mq_identityRef = ref, mq_jws = jws, mq_idempotencyKey = idem\<rparr> of
        None \<Rightarrow> None
      | Some res \<Rightarrow>
          (case hr_Body res of
             None \<Rightarrow> None
           | Some full \<Rightarrow>
               let raw = take 1048576 full
               in if strings_TrimSpace raw = [] then Some (hr_StatusCode res, hr_ContentType res, None)
                  else Some (hr_StatusCode res, hr_ContentType res, json_Unmarshal lib raw)))"

definition json_string :: "json_value option \<Rightarrow> string" where
  "json_string v = (case v of Some (JString s) \<Rightarrow> s | _ \<Rightarrow> [])"

definition json_bool :: "json_value option \<Rightarrow> bool" where
  "json_bool v = (case v of Some (JBool b) \<Rightarrow> b | _ \<Rightarrow> False)"

definition classifyMockBody :: "json_object option \<Rightarrow> string \<times> string \<times> string \<times> bool" where
  "classifyMockBody body =
     (case body of
        None \<Rightarrow> ([], [], [], False)
      | Some b \<Rightarrow>
          let code = json_string (b ''code''); mockOK = strings_EqualFold (json_string (b ''status'')) ''ok''
          in (if code = [] \<and> mockOK then ''ok'' else code, json_string (b ''requestID''),
              json_string (b ''source_id''), mockOK))"

definition isMockEnvelope :: "json_object option \<Rightarrow> bool" where
  "isMockEnvelope body =
     (case body of None \<Rightarrow> False | Some b \<Rightarrow> json_bool (b ''simulated'') \<and> json_string (b ''mock'') = TypMock)"

definition assertMockSuccess ::
  "answer_lib \<Rightarrow> string \<Rightarrow> string \<Rightarrow> json_object option \<Rightarrow> bool \<Rightarrow> string \<Rightarrow> boundary_error + unit" where
  "assertMockSuccess lib op contentType body mockOK reqID =
     (case body of
        None \<Rightarrow> Inl (ErrMockResponse [])
      | Some b \<Rightarrow>
          (case mime_ParseMediaType lib contentType of
             None \<Rightarrow> Inl (ErrMockResponse ''content-type'')
           | Some media \<Rightarrow>
               if \<not> strings_EqualFold media ''application/json'' then Inl (ErrMockResponse ''content-type'')
               else if \<not> isMockEnvelope body then Inl (ErrMockResponse ''envelope'')
               else if \<not> mockOK then Inl (ErrMockResponse ''status field'')
               else if strings_TrimSpace reqID = [] then Inl (ErrMockResponse ''requestID'')
               else let opName = json_string (b ''operation'')
                    in if opName \<noteq> [] \<and> opName \<noteq> op then Inl (ErrMockResponse ''operation mismatch'')
                       else Inr ()))"

text \<open>What a pass writes back.\<close>

record verdict =
  vd_State :: boundary_state
  vd_ReqID :: string
  vd_Code :: string
  vd_Src :: string
  vd_Note :: string

abbreviation failed :: "string \<Rightarrow> string \<Rightarrow> string \<Rightarrow> verdict" where
  "failed reqID code note \<equiv>
     \<lparr>vd_State = StateFailed, vd_ReqID = reqID, vd_Code = code, vd_Src = [], vd_Note = note\<rparr>"

definition classify_answer :: "answer_lib \<Rightarrow> string \<Rightarrow> int \<Rightarrow> string \<Rightarrow> json_object option \<Rightarrow> verdict" where
  "classify_answer lib op status ct body =
     (case classifyMockBody body of (code, reqID, src, mockOK) \<Rightarrow>
        if status = 200 then
          (case assertMockSuccess lib op ct body mockOK reqID of
             Inl _ \<Rightarrow> failed reqID code ''mock success body rejected (sanitized)''
           | Inr _ \<Rightarrow> \<lparr>vd_State = StateOK, vd_ReqID = reqID, vd_Code = ''ok'', vd_Src = src,
               vd_Note = ''fixture_boundary_ok '' @ neq_sign @ '' AGT homologation''\<rparr>)
        else if code = CodeProfileBlocked \<or> strings_Contains code CodeProfileBlocked then
          if \<not> isMockEnvelope body \<or> reqID = [] then failed reqID code ''mock blocked body rejected (sanitized)''
          else \<lparr>vd_State = StateBlocked, vd_ReqID = reqID, vd_Code = code, vd_Src = src, vd_Note = ''wire profile blocked''\<rparr>
        else if status = 422 \<and> prefix ''FE-RNG-'' code then
          if \<not> isMockEnvelope body \<or> reqID = [] then failed reqID code ''mock FE-RNG body rejected (sanitized)''
          else \<lparr>vd_State = StateReject, vd_ReqID = reqID, vd_Code = code, vd_Src = src,
                 vd_Note = ''simulated FE-RNG '' @ neq_sign @ '' AGT live''\<rparr>
        else if status = 401 \<or> status = 403 then
          if \<not> isMockEnvelope body then failed reqID code ''mock authz body rejected (sanitized)''
          else \<lparr>vd_State = StateReject, vd_ReqID = reqID, vd_Code = code, vd_Src = src,
                 vd_Note = ''mock authz reject '' @ neq_sign @ '' AGT''\<rparr>
        else if body = None then failed [] [] ''empty/malformed mock response''
        else \<lparr>vd_State = StateReject, vd_ReqID = reqID, vd_Code = code, vd_Src = src,
               vd_Note = ''mock non-OK '' @ neq_sign @ '' AGT''\<rparr>)"

section \<open>Process: the last locked part, and the whole\<close>

definition boundary_finish :: "gotime \<Rightarrow> string \<Rightarrow> verdict \<Rightarrow> engine \<Rightarrow> (boundary_error + submission) \<times> engine" where
  "boundary_finish now i v e =
     (case en_byID e i of
        None \<Rightarrow> (Inl Boundary_NotFound, e)
      | Some s \<Rightarrow>
          let s' = s\<lparr>sb_State := vd_State v, sb_MockRequestID := vd_ReqID v, sb_MockCode := vd_Code v,
                sb_SourceID := vd_Src v, sb_Note := vd_Note v, sb_UpdatedAt := now\<rparr>
          in (Inr s', e\<lparr>en_byID := (en_byID e)(i \<mapsto> s')\<rparr>))"

definition boundary_outcome ::
  "answer_lib \<Rightarrow> http_client \<Rightarrow> signer \<Rightarrow> dial_snapshot \<Rightarrow> string \<Rightarrow> process_input \<Rightarrow> boundary_error option \<times> verdict" where
  "boundary_outcome lib http provider snap op inp =
     (case boundary_sign provider op inp of
        Inl err \<Rightarrow> (Some err, failed [] [] ''sign/validation failed (sanitized)'')
      | Inr jws \<Rightarrow>
          (case postMock lib http snap op (in_IdentityRef inp) jws (in_IdempotencyKey inp) of
             None \<Rightarrow> (None, failed [] [] ''transport failed (sanitized)'')
           | Some (status, ct, body) \<Rightarrow> (None, classify_answer lib op status ct body)))"

definition Process_boundary ::
  "answer_lib \<Rightarrow> http_client \<Rightarrow> string option \<Rightarrow> gotime \<Rightarrow> gotime \<Rightarrow> process_input \<Rightarrow> engine
   \<Rightarrow> (boundary_error + submission) \<times> engine" where
  "Process_boundary lib http ctx_err now1 now2 inp e =
     (case process_begin ctx_err now1 inp e of
        Inl err \<Rightarrow> (Inl err, e)
      | Inr ((op, snap), e1) \<Rightarrow>
          (case boundary_outcome lib http (en_provider e1) snap op inp of
             (Some err, v) \<Rightarrow> (Inl err, snd (boundary_finish now2 (in_SubmissionID inp) v e1))
           | (None, v) \<Rightarrow> boundary_finish now2 (in_SubmissionID inp) v e1))"

end
