(* ===== verification/FeFixQueue.thy ===== *)
theory FeFixQueue
  imports FeBoundary FiscalDb
begin

text \<open>
  The package \<^verbatim>\<open>internal/authority/fefixqueue\<close>: fixture submissions kept in the table
  \<^verbatim>\<open>fe_fixture_submissions\<close> and driven through the boundary engine with retries. A claim is
  one transaction; finishing and requeueing are single updates by primary key. Clock readings, the
  identifiers drawn and the rows other transactions have locked are arguments; the JSON form of a
  payload is a parameter. Failures of the connection are not modelled.
\<close>

section \<open>Payloads\<close>

datatype queue_state = Boundary boundary_state | StateDead

datatype queue_error =
  Queue_InvalidInput string | Queue_NotFound | ErrEmpty | NilEngine | InsertError | PayloadJSON
| EngineError boundary_error

record payload =
  pl_Software :: "software_claims option"
  pl_ObterEstado :: "obter_claims option"
  pl_Consultar :: "consultar_claims option"

definition Payload_Validate :: "string \<Rightarrow> payload \<Rightarrow> queue_error + unit" where
  "Payload_Validate op p =
     (if op = OpSoftwareInfo then
        if pl_Software p = None then Inl (Queue_InvalidInput ''software claims required'') else Inr ()
      else if op = OpObterEstado then
        if pl_ObterEstado p = None then Inl (Queue_InvalidInput ''obterEstado claims required'') else Inr ()
      else if op = OpConsultarFactura then
        if pl_Consultar p = None then Inl (Queue_InvalidInput ''consultarFactura claims required'') else Inr ()
      else Inl (Queue_InvalidInput (''unknown operation '' @ op)))"

record payload_json =
  pj_Marshal :: "payload \<Rightarrow> string"
  pj_Unmarshal :: "string \<Rightarrow> payload option"

definition payload_marshal :: "payload_json \<Rightarrow> payload \<Rightarrow> queue_error + string" where
  "payload_marshal js p =
     (let b = pj_Marshal js p in if length b < 3 then Inl (Queue_InvalidInput ''empty payload'') else Inr b)"

definition parsePayload :: "payload_json \<Rightarrow> string \<Rightarrow> queue_error + payload" where
  "parsePayload js raw = (case pj_Unmarshal js raw of None \<Rightarrow> Inl PayloadJSON | Some p \<Rightarrow> Inr p)"

section \<open>The table\<close>

record row =
  rw_ID :: string
  rw_Operation :: string
  rw_State :: queue_state
  rw_IdentityRef :: string
  rw_IdempotencyKey :: string
  rw_PayloadJSON :: string
  rw_Attempts :: int
  rw_MockRequestID :: string
  rw_MockCode :: string
  rw_SourceID :: string
  rw_Note :: string

text \<open>The columns the package reads into \<^verbatim>\<open>Row\<close>, and its timestamps.\<close>

record fixture_row = row +
  fx_next_attempt_at :: sql_time
  fx_created_at :: sql_time
  fx_updated_at :: sql_time

definition scan_row :: "fixture_row \<Rightarrow> row" where
  "scan_row r = row.truncate r"

datatype queue_dialect = QueueSQLite | QueuePostgres

definition timeArg :: "queue_dialect \<Rightarrow> gotime \<Rightarrow> sql_time" where
  "timeArg dia t = (if dia = QueuePostgres then StampTime (trunc_us t) else TextTime (format_rfc3339nano t 0))"

definition queue_isTerminal :: "queue_state \<Rightarrow> bool" where
  "queue_isTerminal s \<longleftrightarrow> s \<in> {Boundary StateOK, Boundary StateReject, Boundary StateBlocked, StateDead}"

definition isRetryableEngineState :: "boundary_state \<Rightarrow> bool" where
  "isRetryableEngineState s \<longleftrightarrow> s = StateFailed"

definition fixture_check :: "fixture_row \<Rightarrow> bool" where
  "fixture_check r \<longleftrightarrow>
     sql_nonempty (rw_ID r) \<and> is_operation (rw_Operation r) \<and> sql_nonempty (rw_IdentityRef r)
     \<and> sql_nonempty (rw_IdempotencyKey r) \<and> sql_nonempty (rw_PayloadJSON r) \<and> 0 \<le> rw_Attempts r"

section \<open>Enqueue, Get and ListRecent\<close>

record enqueue_input =
  ei_Operation :: string
  ei_IdentityRef :: string
  ei_IdempotencyKey :: string
  ei_Payload :: payload

definition findByIdempotency :: "string \<Rightarrow> string \<Rightarrow> fixture_row list \<Rightarrow> queue_error + row" where
  "findByIdempotency idem op rows =
     (case find (\<lambda>r. rw_IdempotencyKey r = idem \<and> rw_Operation r = op) rows of
        None \<Rightarrow> Inl Queue_NotFound | Some r \<Rightarrow> Inr (scan_row r))"

definition queue_Get :: "string \<Rightarrow> fixture_row list \<Rightarrow> queue_error + row" where
  "queue_Get i rows =
     (case find (\<lambda>r. rw_ID r = i) rows of None \<Rightarrow> Inl Queue_NotFound | Some r \<Rightarrow> Inr (scan_row r))"

text \<open>\<^verbatim>\<open>ORDER BY created_at DESC LIMIT ?\<close>\<close>

definition list_limit :: "int \<Rightarrow> int" where
  "list_limit limit = (let l = (if limit \<le> 0 then 50 else limit) in if l > 200 then 200 else l)"

definition ListRecent :: "int \<Rightarrow> fixture_row list \<Rightarrow> row list" where
  "ListRecent limit rows = map scan_row (take (nat (list_limit limit)) (rev (sort_key fx_created_at rows)))"

definition queued_note :: string where
  "queued_note = ''queued persistent fixture; '' @ neq_sign @ '' AGT''"

definition new_fixture_row :: "queue_dialect \<Rightarrow> string \<Rightarrow> gotime \<Rightarrow> string \<Rightarrow> string \<Rightarrow> string \<Rightarrow> string \<Rightarrow> fixture_row" where
  "new_fixture_row dia newID now op ref idem json =
     \<lparr>rw_ID = newID, rw_Operation = op, rw_State = Boundary StateQueued, rw_IdentityRef = ref,
      rw_IdempotencyKey = idem, rw_PayloadJSON = json, rw_Attempts = 0, rw_MockRequestID = [], rw_MockCode = [],
      rw_SourceID = [], rw_Note = queued_note, fx_next_attempt_at = timeArg dia now,
      fx_created_at = timeArg dia now, fx_updated_at = timeArg dia now\<rparr>"

datatype insert_error = UniqueViolation | CheckViolation

definition insert_fixture :: "fixture_row \<Rightarrow> fixture_row list \<Rightarrow> insert_error + fixture_row list" where
  "insert_fixture r rows =
     (if \<not> fixture_check r then Inl CheckViolation
      else if list_ex (\<lambda>x. rw_ID x = rw_ID r) rows
        \<or> list_ex (\<lambda>x. rw_IdempotencyKey x = rw_IdempotencyKey r \<and> rw_Operation x = rw_Operation r) rows
      then Inl UniqueViolation
      else Inr (rows @ [r]))"

text \<open>\<open>raced\<close>: a competing insert came after the lookup, which therefore saw nothing.\<close>

definition queue_Enqueue ::
  "payload_json \<Rightarrow> queue_dialect \<Rightarrow> bool \<Rightarrow> string \<Rightarrow> gotime \<Rightarrow> enqueue_input \<Rightarrow> fixture_row list
   \<Rightarrow> (queue_error + row) \<times> fixture_row list" where
  "queue_Enqueue js dia raced newID now inp rows =
     (let op = strings_TrimSpace (ei_Operation inp); ref = strings_TrimSpace (ei_IdentityRef inp);
          idem = strings_TrimSpace (ei_IdempotencyKey inp)
      in if op = [] \<or> ref = [] \<or> idem = [] then (Inl (Queue_InvalidInput []), rows)
         else case bind_result (Payload_Validate op (ei_Payload inp)) (\<lambda>_. payload_marshal js (ei_Payload inp)) of
           Inl e \<Rightarrow> (Inl e, rows)
         | Inr json \<Rightarrow>
             (case (if raced then Inl Queue_NotFound else findByIdempotency idem op rows) of
                Inr r \<Rightarrow> (Inr r, rows)
              | Inl _ \<Rightarrow>
                  (case insert_fixture (new_fixture_row dia newID now op ref idem json) rows of
                     Inl UniqueViolation \<Rightarrow> (findByIdempotency idem op rows, rows)
                   | Inl CheckViolation \<Rightarrow> (Inl InsertError, rows)
                   | Inr rows' \<Rightarrow>
                       (Inr \<lparr>rw_ID = newID, rw_Operation = op, rw_State = Boundary StateQueued, rw_IdentityRef = ref,
                          rw_IdempotencyKey = idem, rw_PayloadJSON = json, rw_Attempts = 0, rw_MockRequestID = [],
                          rw_MockCode = [], rw_SourceID = [], rw_Note = queued_note\<rparr>, rows'))))"

section \<open>Claiming\<close>

definition defaultMaxAttempts :: int where "defaultMaxAttempts = 5"
definition queueUnavailableBackoff :: int where "queueUnavailableBackoff = 5 * second"
definition defaultInFlightReclaim :: int where "defaultInFlightReclaim = 30 * second"

definition is_stale :: "queue_dialect \<Rightarrow> gotime \<Rightarrow> fixture_row \<Rightarrow> bool" where
  "is_stale dia now r \<longleftrightarrow>
     rw_State r = Boundary StateInFlight \<and> fx_updated_at r < timeArg dia (now - defaultInFlightReclaim)"

definition queue_reclaim :: "queue_dialect \<Rightarrow> gotime \<Rightarrow> fixture_row list \<Rightarrow> fixture_row list" where
  "queue_reclaim dia now rows =
     update_where (is_stale dia now)
       (\<lambda>r. r\<lparr>rw_State := Boundary StateQueued, rw_Note := ''reclaimed stale in_flight'', fx_updated_at := timeArg dia now\<rparr>)
       rows"

definition is_due :: "queue_dialect \<Rightarrow> string list \<Rightarrow> gotime \<Rightarrow> fixture_row \<Rightarrow> bool" where
  "is_due dia locked now r \<longleftrightarrow>
     rw_State r = Boundary StateQueued \<and> fx_next_attempt_at r \<le> timeArg dia now
     \<and> \<not> (dia = QueuePostgres \<and> rw_ID r \<in> set locked)"

text \<open>The update hits the primary key that was just selected: \<^verbatim>\<open>n != 1\<close> cannot happen unless it hits none.\<close>

definition claimNext ::
  "queue_dialect \<Rightarrow> string list \<Rightarrow> gotime \<Rightarrow> fixture_row list \<Rightarrow> queue_error + row \<times> fixture_row list" where
  "claimNext dia locked now rows0 =
     (let rows = queue_reclaim dia now rows0
      in case first_min (\<lambda>r. (fx_next_attempt_at r, fx_created_at r)) (is_due dia locked now) rows of
           None \<Rightarrow> Inl ErrEmpty
         | Some r \<Rightarrow>
             let hit = (\<lambda>x. rw_ID x = rw_ID r \<and> rw_State x = Boundary StateQueued)
             in if length (filter hit rows) \<noteq> 1 then Inl ErrEmpty
                else Inr ((scan_row r)\<lparr>rw_State := Boundary StateInFlight, rw_Attempts := rw_Attempts r + 1\<rparr>,
                  update_where hit
                    (\<lambda>x. x\<lparr>rw_State := Boundary StateInFlight, rw_Attempts := rw_Attempts x + 1,
                       rw_Note := ''claimed for fixture boundary'', fx_updated_at := timeArg dia now\<rparr>) rows))"

section \<open>Finishing and requeueing\<close>

definition queue_finish ::
  "queue_dialect \<Rightarrow> gotime \<Rightarrow> string \<Rightarrow> queue_state \<Rightarrow> string \<Rightarrow> string \<Rightarrow> string \<Rightarrow> string
   \<Rightarrow> fixture_row list \<Rightarrow> fixture_row list" where
  "queue_finish dia now i state mockReqID mockCode sourceID note rows =
     update_where (\<lambda>r. rw_ID r = i)
       (\<lambda>r. r\<lparr>rw_State := state, rw_MockRequestID := mockReqID, rw_MockCode := mockCode, rw_SourceID := sourceID,
              rw_Note := note, fx_updated_at := timeArg dia now\<rparr>) rows"

definition queue_requeue :: "queue_dialect \<Rightarrow> gotime \<Rightarrow> string \<Rightarrow> string \<Rightarrow> fixture_row list \<Rightarrow> fixture_row list" where
  "queue_requeue dia now i note rows =
     update_where (\<lambda>r. rw_ID r = i)
       (\<lambda>r. r\<lparr>rw_State := Boundary StateQueued, fx_next_attempt_at := timeArg dia (now + queueUnavailableBackoff),
              rw_Note := note, fx_updated_at := timeArg dia now\<rparr>) rows"

record process_result =
  pr_RowID :: string
  pr_Operation :: string
  pr_State :: queue_state
  pr_Attempts :: int
  pr_Retried :: bool
  pr_MockRequest :: string

definition retried :: "row \<Rightarrow> process_result" where
  "retried row = \<lparr>pr_RowID = rw_ID row, pr_Operation = rw_Operation row, pr_State = Boundary StateQueued,
     pr_Attempts = rw_Attempts row, pr_Retried = True, pr_MockRequest = []\<rparr>"

definition ended :: "row \<Rightarrow> queue_state \<Rightarrow> string \<Rightarrow> process_result" where
  "ended row state req = \<lparr>pr_RowID = rw_ID row, pr_Operation = rw_Operation row, pr_State = state,
     pr_Attempts = rw_Attempts row, pr_Retried = False, pr_MockRequest = req\<rparr>"

definition handleTransportFailure ::
  "queue_dialect \<Rightarrow> gotime \<Rightarrow> row \<Rightarrow> fixture_row list \<Rightarrow> process_result \<times> fixture_row list" where
  "handleTransportFailure dia now row rows =
     (let note = ''transport/sign failure (sanitized)''
      in if rw_Attempts row < defaultMaxAttempts
         then (retried row, queue_requeue dia now (rw_ID row) note rows)
         else (ended row StateDead [],
               queue_finish dia now (rw_ID row) StateDead [] [] [] (note @ ''; dead'') rows))"

text \<open>What a pass does with the engine's answer for the row it claimed.\<close>

definition queue_settle ::
  "queue_dialect \<Rightarrow> gotime \<Rightarrow> row \<Rightarrow> submission \<Rightarrow> fixture_row list \<Rightarrow> process_result \<times> fixture_row list" where
  "queue_settle dia now row result rows =
     (if isRetryableEngineState (sb_State result) \<and> rw_Attempts row < defaultMaxAttempts
      then (retried row, queue_requeue dia now (rw_ID row) (sb_Note result @ ''; retry scheduled'') rows)
      else
        let dead = isRetryableEngineState (sb_State result) \<and> rw_Attempts row \<ge> defaultMaxAttempts;
            state = (if dead then StateDead else Boundary (sb_State result));
            note = (if dead then ''max attempts exhausted; '' @ neq_sign @ '' AGT'' else sb_Note result)
        in (ended row state (sb_MockRequestID result),
            queue_finish dia now (rw_ID row) state (sb_MockRequestID result) (sb_MockCode result)
              (sb_SourceID result) note rows))"

section \<open>ProcessNext and ReconcileObterEstado\<close>

text \<open>What a pass takes from its environment, in the order of use.\<close>

record pass_env =
  pe_ctx :: "string option"
  pe_lib :: answer_lib
  pe_http :: http_client
  pe_newID :: string
  pe_now :: "gotime \<times> gotime \<times> gotime \<times> gotime \<times> gotime"  \<comment> \<open>claim, enqueue, begin, finish, settle\<close>

definition engine_pass ::
  "pass_env \<Rightarrow> row \<Rightarrow> payload \<Rightarrow> engine \<Rightarrow> (boundary_error + submission) \<times> engine" where
  "engine_pass env row p eng =
     (case pe_now env of (_, t2, t3, t4, _) \<Rightarrow>
        (case feboundary_Enqueue (pe_newID env) t2 (rw_Operation row) eng of
           (Inl err, eng1) \<Rightarrow> (Inl err, eng1)
         | (Inr sub, eng1) \<Rightarrow>
             Process_boundary (pe_lib env) (pe_http env) (pe_ctx env) t3 t4
               \<lparr>in_SubmissionID = sb_ID sub, in_IdentityRef = rw_IdentityRef row,
                in_IdempotencyKey = rw_IdempotencyKey row, in_Software = pl_Software p,
                in_ObterEstado = pl_ObterEstado p, in_Consultar = pl_Consultar p\<rparr> eng1))"

text \<open>The part of a pass after its claim.\<close>

definition process_claimed ::
  "payload_json \<Rightarrow> queue_dialect \<Rightarrow> pass_env \<Rightarrow> row \<Rightarrow> engine \<Rightarrow> fixture_row list
   \<Rightarrow> (process_result \<times> queue_error option) \<times> engine \<times> fixture_row list" where
  "process_claimed js dia env row eng rows =
     (case pe_now env of (_, _, _, _, t5) \<Rightarrow>
        (case parsePayload js (rw_PayloadJSON row) of
           Inl e \<Rightarrow> ((ended row StateDead [], Some e), eng,
                     queue_finish dia t5 (rw_ID row) StateDead [] [] [] ''invalid payload_json'' rows)
         | Inr p \<Rightarrow>
             (case engine_pass env row p eng of
                (Inl err, eng') \<Rightarrow>
                  (case handleTransportFailure dia t5 row rows of
                     (res, rows') \<Rightarrow> ((res, Some (EngineError err)), eng', rows'))
              | (Inr result, eng') \<Rightarrow>
                  (case queue_settle dia t5 row result rows of (res, rows') \<Rightarrow> ((res, None), eng', rows')))))"

definition ProcessNext ::
  "payload_json \<Rightarrow> queue_dialect \<Rightarrow> string list \<Rightarrow> pass_env \<Rightarrow> engine option \<Rightarrow> fixture_row list
   \<Rightarrow> (queue_error + process_result \<times> queue_error option) \<times> engine option \<times> fixture_row list" where
  "ProcessNext js dia locked env eng rows =
     (case eng of
        None \<Rightarrow> (Inl NilEngine, None, rows)
      | Some e \<Rightarrow>
          (case claimNext dia locked (fst (pe_now env)) rows of
             Inl err \<Rightarrow> (Inl err, Some e, rows)
           | Inr (row, rows1) \<Rightarrow>
               (case process_claimed js dia env row e rows1 of (res, e', rows2) \<Rightarrow> (Inr res, Some e', rows2))))"

definition state_text :: "boundary_state \<Rightarrow> string" where
  "state_text s =
     (case s of StateQueued \<Rightarrow> ''queued_for_fixture_boundary'' | StateInFlight \<Rightarrow> ''fixture_boundary_in_flight''
      | StateOK \<Rightarrow> ''fixture_boundary_ok'' | StateReject \<Rightarrow> ''fixture_boundary_reject''
      | StateBlocked \<Rightarrow> ''fixture_boundary_profile_blocked'' | StateFailed \<Rightarrow> ''fixture_boundary_transport_failed'')"

text \<open>The last statement of a reconciliation, with the row as it was read at its start.\<close>

definition reconcile_write :: "queue_dialect \<Rightarrow> gotime \<Rightarrow> row \<Rightarrow> submission \<Rightarrow> fixture_row list \<Rightarrow> fixture_row list" where
  "reconcile_write dia now row result rows =
     queue_finish dia now (rw_ID row) (rw_State row) (sb_MockRequestID result) (sb_MockCode result) (sb_SourceID result)
       (rw_Note row @ ''; reconcile obterEstado='' @ state_text (sb_State result) @ '' ('' @ neq_sign @ '' AGT accepted)'') rows"

definition ReconcileObterEstado ::
  "queue_dialect \<Rightarrow> pass_env \<Rightarrow> engine option \<Rightarrow> string \<Rightarrow> string \<Rightarrow> string \<Rightarrow> string \<Rightarrow> fixture_row list
   \<Rightarrow> (queue_error + process_result) \<times> engine option \<times> fixture_row list" where
  "ReconcileObterEstado dia env eng rowID identityRef requestID taxNIF rows =
     (case eng of
        None \<Rightarrow> (Inl (Queue_InvalidInput []), None, rows)
      | Some e \<Rightarrow>
          if rowID = [] \<or> identityRef = [] \<or> requestID = [] \<or> taxNIF = [] then (Inl (Queue_InvalidInput []), Some e, rows)
          else case queue_Get rowID rows of
            Inl err \<Rightarrow> (Inl err, Some e, rows)
          | Inr row \<Rightarrow>
              if rw_State row \<noteq> Boundary StateOK
              then (Inl (Queue_InvalidInput ''row not fixture_boundary_ok''), Some e, rows)
              else case pe_now env of (_, t2, t3, t4, t5) \<Rightarrow>
                (case feboundary_Enqueue (pe_newID env) t2 OpObterEstado e of
                   (Inl err, e1) \<Rightarrow> (Inl (EngineError err), Some e1, rows)
                 | (Inr sub, e1) \<Rightarrow>
                     (case Process_boundary (pe_lib env) (pe_http env) (pe_ctx env) t3 t4
                         \<lparr>in_SubmissionID = sb_ID sub, in_IdentityRef = identityRef,
                          in_IdempotencyKey = rw_IdempotencyKey row @ '':reconcile:'' @ requestID, in_Software = None,
                          in_ObterEstado = Some \<lparr>oc_TaxRegistrationNumber = taxNIF, oc_RequestID = requestID\<rparr>,
                          in_Consultar = None\<rparr> e1 of
                        (Inl err, e2) \<Rightarrow> (Inl (EngineError err), Some e2, rows)
                      | (Inr result, e2) \<Rightarrow>
                          (Inr \<lparr>pr_RowID = rowID, pr_Operation = OpObterEstado, pr_State = rw_State row,
                                pr_Attempts = rw_Attempts row, pr_Retried = False, pr_MockRequest = sb_MockRequestID result\<rparr>,
                           Some e2,
                           reconcile_write dia t5 row result rows))))"

end
