(* ===== verification/FeBoundaryProperties.thy ===== *)
theory FeBoundaryProperties
  imports FeBoundary
begin

text \<open>
  What the boundary engine guarantees: what counts as success, that every pass settles its
  submission, that concurrent passes never attempt a submission twice or change a final state, and
  that only the loopback base URL is dialled.
\<close>

section \<open>Reading answers\<close>

definition final_state :: "boundary_state \<Rightarrow> bool" where
  "final_state s \<longleftrightarrow> s \<noteq> StateQueued \<and> s \<noteq> StateInFlight"

lemma classify_final [simp]: "final_state (vd_State (classify_answer lib op status ct body))"
  by (simp add: classify_answer_def final_state_def split: prod.split sum.split)

lemma outcome_final [simp]: "final_state (vd_State (snd (boundary_outcome lib http provider snap op inp)))"
proof -
  have "final_state StateFailed" by (simp add: final_state_def)
  then show ?thesis
    by (auto simp: boundary_outcome_def split: sum.split option.split prod.split)
qed

lemma assertMockSuccess_ok:
  "assertMockSuccess lib op ct body mockOK reqID = Inr u \<longleftrightarrow>
   (\<exists>b media. body = Some b \<and> mime_ParseMediaType lib ct = Some media \<and> strings_EqualFold media ''application/json''
      \<and> isMockEnvelope body \<and> mockOK \<and> strings_TrimSpace reqID \<noteq> []
      \<and> json_string (b ''operation'') \<in> {[], op})"
  by (auto simp: assertMockSuccess_def Let_def split: option.splits)

lemma classify_ok_code:
  "vd_State (classify_answer lib op status ct body) = StateOK \<longleftrightarrow>
   status = 200 \<and> (\<exists>code reqID src ok. classifyMockBody body = (code, reqID, src, ok)
     \<and> assertMockSuccess lib op ct body ok reqID = Inr ())"
  by (auto simp: classify_answer_def split: prod.splits sum.splits)

text \<open>
  A submission counts as successful exactly when the mock answered 200 with a JSON content
  type and an object that declares itself simulated and of the mock type, says status ok, names a
  request and does not name another operation.
\<close>

theorem boundary_ok_iff:
  "vd_State (classify_answer lib op status ct body) = StateOK \<longleftrightarrow>
   status = 200 \<and> (\<exists>b media. body = Some b \<and> mime_ParseMediaType lib ct = Some media
     \<and> strings_EqualFold media ''application/json''
     \<and> b ''simulated'' = Some (JBool True) \<and> b ''mock'' = Some (JString ''BWB-MOCK'')
     \<and> strings_EqualFold (json_string (b ''status'')) ''ok''
     \<and> strings_TrimSpace (json_string (b ''requestID'')) \<noteq> []
     \<and> json_string (b ''operation'') \<in> {[], op})"
proof -
  have env: "isMockEnvelope (Some b) \<longleftrightarrow> b ''simulated'' = Some (JBool True) \<and> b ''mock'' = Some (JString ''BWB-MOCK'')"
    for b by (auto simp: isMockEnvelope_def json_bool_def json_string_def TypMock_def split: option.splits json_value.splits)
  show ?thesis
    unfolding classify_ok_code
    by (cases body) (auto simp: assertMockSuccess_ok classifyMockBody_def env Let_def)
qed

section \<open>One pass\<close>

lemma process_begin_ok:
  "process_begin ctx_err now inp e = Inr ((op, snap), e1) \<longleftrightarrow>
   ctx_err = None \<and> in_IdentityRef inp \<noteq> [] \<and> in_IdempotencyKey inp \<noteq> [] \<and> \<not> en_closed e
   \<and> (\<exists>s. en_byID e (in_SubmissionID inp) = Some s \<and> sb_State s = StateQueued \<and> op = sb_Operation s
        \<and> snap = \<lparr>ds_baseURL = en_baseURL e, ds_user = en_user e, ds_pass = en_pass e\<rparr>
        \<and> e1 = e\<lparr>en_byID := (en_byID e)(in_SubmissionID inp \<mapsto>
             s\<lparr>sb_State := StateInFlight, sb_Attempts := sb_Attempts s + 1, sb_UpdatedAt := now\<rparr>)\<rparr>)"
  by (auto simp: process_begin_def split: option.splits boundary_state.splits)

lemma boundary_finish_byID:
  "en_byID e i = Some s \<Longrightarrow> \<exists>s'. en_byID (snd (boundary_finish now i v e)) = (en_byID e)(i \<mapsto> s')
     \<and> sb_State s' = vd_State v \<and> sb_Attempts s' = sb_Attempts s \<and> sb_ID s' = sb_ID s \<and> sb_Operation s' = sb_Operation s"
  by (auto simp: boundary_finish_def Let_def)

lemma finish_frame [simp]:
  "en_closed (snd (boundary_finish now i v e)) = en_closed e"
  "en_provider (snd (boundary_finish now i v e)) = en_provider e"
  "en_baseURL (snd (boundary_finish now i v e)) = en_baseURL e"
  by (auto simp: boundary_finish_def Let_def split: option.splits)

text \<open>
  C15: a pass that takes a queued submission always settles it: whatever the signer, the mock
  and the network do, the submission is in a final state afterwards with one more attempt, no other
  submission has changed, and a second pass over it is refused without effect.
\<close>

theorem boundary_pass_settles:
  assumes "process_begin None now1 inp e = Inr r"
  shows "\<exists>s s'. en_byID e (in_SubmissionID inp) = Some s
     \<and> en_byID (snd (Process_boundary lib http None now1 now2 inp e)) = (en_byID e)(in_SubmissionID inp \<mapsto> s')
     \<and> final_state (sb_State s') \<and> sb_Attempts s' = sb_Attempts s + 1
     \<and> Process_boundary lib' http' None now3 now4 inp (snd (Process_boundary lib http None now1 now2 inp e))
         = (Inl ErrInvalidTransition, snd (Process_boundary lib http None now1 now2 inp e))"
proof -
  obtain op snap e1 where r: "r = ((op, snap), e1)" by (metis prod.collapse)
  note b = assms [unfolded r process_begin_ok]
  then obtain s where s: "en_byID e (in_SubmissionID inp) = Some s" "sb_State s = StateQueued"
    and e1: "e1 = e\<lparr>en_byID := (en_byID e)(in_SubmissionID inp \<mapsto>
      s\<lparr>sb_State := StateInFlight, sb_Attempts := sb_Attempts s + 1, sb_UpdatedAt := now1\<rparr>)\<rparr>" by blast
  define v where "v = snd (boundary_outcome lib http (en_provider e1) snap op inp)"
  let ?e2 = "snd (Process_boundary lib http None now1 now2 inp e)"
  have e2: "?e2 = snd (boundary_finish now2 (in_SubmissionID inp) v e1)"
    using assms by (simp add: Process_boundary_def r v_def split: prod.split option.split)
  obtain s' where s': "en_byID ?e2 = (en_byID e1)(in_SubmissionID inp \<mapsto> s')"
    "sb_State s' = vd_State v" "sb_Attempts s' = sb_Attempts s + 1"
    using boundary_finish_byID [of e1 "in_SubmissionID inp"] by (fastforce simp: e2 e1)
  have f: "final_state (sb_State s')" by (simp add: s' v_def)
  have "process_begin None now3 inp ?e2 = Inl ErrInvalidTransition"
    using b f s'(1) by (auto simp: process_begin_def e2 e1 final_state_def split: boundary_state.splits)
  then have "Process_boundary lib' http' None now3 now4 inp ?e2 = (Inl ErrInvalidTransition, ?e2)"
    by (simp add: Process_boundary_def)
  moreover have "en_byID ?e2 = (en_byID e)(in_SubmissionID inp \<mapsto> s')" by (simp add: s'(1) e1)
  ultimately show ?thesis using s(1) s'(3) f by blast
qed

definition sample_engine :: engine where
  "sample_engine =
     \<lparr>en_hub = hub_NewFixture, en_provider = (\<lambda>_ _. Inr ''jws''), en_baseURL = ''http://127.0.0.1:9'',
      en_user = ''u'', en_pass = ''p'', en_closed = False,
      en_byID = Map.empty(''a'' \<mapsto> new_submission ''a'' ''obterEstado'' 0)\<rparr>"

definition sample_input :: process_input where
  "sample_input = \<lparr>in_SubmissionID = ''a'', in_IdentityRef = ''ref'', in_IdempotencyKey = ''k'', in_Software = None,
     in_ObterEstado = Some \<lparr>oc_TaxRegistrationNumber = ''1'', oc_RequestID = ''2''\<rparr>, in_Consultar = None\<rparr>"

definition no_answer_lib :: answer_lib where
  "no_answer_lib = \<lparr>json_Unmarshal = (\<lambda>_. None), mime_ParseMediaType = (\<lambda>_. None)\<rparr>"

lemma sample_begin: "\<exists>r. process_begin None 1 sample_input sample_engine = Inr r"
  by (simp add: process_begin_def sample_engine_def sample_input_def new_submission_def)

lemma boundary_pass_settles_witness:
  "\<exists>s s'. en_byID sample_engine (in_SubmissionID sample_input) = Some s
     \<and> en_byID (snd (Process_boundary no_answer_lib (\<lambda>_. None) None 1 2 sample_input sample_engine))
         = (en_byID sample_engine)(in_SubmissionID sample_input \<mapsto> s')
     \<and> final_state (sb_State s') \<and> sb_Attempts s' = sb_Attempts s + 1
     \<and> Process_boundary no_answer_lib (\<lambda>_. None) None 3 4 sample_input
           (snd (Process_boundary no_answer_lib (\<lambda>_. None) None 1 2 sample_input sample_engine))
         = (Inl ErrInvalidTransition, snd (Process_boundary no_answer_lib (\<lambda>_. None) None 1 2 sample_input sample_engine))"
  using sample_begin by (elim exE) (rule boundary_pass_settles)

section \<open>Where the engine dials\<close>

definition loopback_url :: "url_lib \<Rightarrow> string \<Rightarrow> bool" where
  "loopback_url lib base \<longleftrightarrow>
     (\<exists>raw u. url_Parse lib raw = Some u \<and> base = trim_right_slashes (url_String lib (pu_Host u))
        \<and> strings_EqualFold (pu_Scheme u) ''http'' \<and> \<not> pu_HasUser u \<and> pu_RawQuery u = [] \<and> pu_Fragment u = []
        \<and> isAuthorizedLoopbackHost lib (pu_Hostname u))"

lemma normalize_loopback: "normalizeFixtureBaseURL lib raw = Inr base \<Longrightarrow> loopback_url lib base"
  by (auto simp: normalizeFixtureBaseURL_def loopback_url_def Let_def split: option.splits if_splits)

text \<open>
  An engine exists only for the fixture lane and an authorised loopback base URL, and a pass
  of it reaches the network only there: HTTP clients that agree on URLs under that base give the
  same result and state.
\<close>

theorem boundary_dials_loopback_only:
  assumes "feboundary_New ulib cfg = Inr e0"
  shows "hb_kind (en_hub e0) = KindFixture \<and> loopback_url ulib (en_baseURL e0)
     \<and> (\<forall>e. en_baseURL e = en_baseURL e0 \<longrightarrow>
          (\<forall>q. prefix (en_baseURL e0 @ ''/mock/agt-fe/v1/'') (mq_url q) \<longrightarrow> http q = http' q) \<longrightarrow>
          Process_boundary lib http ctx_err now1 now2 inp e = Process_boundary lib http' ctx_err now1 now2 inp e)"
proof -
  have 1: "hb_kind (en_hub e0) = KindFixture \<and> loopback_url ulib (en_baseURL e0)"
    using assms normalize_loopback
    by (auto simp: feboundary_New_def AssertTransportAllowed_def AllowTransport_def bind_result_Inr split: option.splits if_splits)
  have "Process_boundary lib http ctx_err now1 now2 inp e = Process_boundary lib http' ctx_err now1 now2 inp e"
    if e: "en_baseURL e = en_baseURL e0"
      and same: "\<And>q. prefix (en_baseURL e0 @ ''/mock/agt-fe/v1/'') (mq_url q) \<Longrightarrow> http q = http' q" for e
  proof (cases "process_begin ctx_err now1 inp e")
    case (Inl err)
    then show ?thesis by (simp add: Process_boundary_def)
  next
    case (Inr r)
    obtain op snap e1 where r: "r = ((op, snap), e1)" by (metis prod.collapse)
    have "ds_baseURL snap = en_baseURL e0"
      using Inr e unfolding r process_begin_ok by auto
    then have post: "postMock lib http snap op a b c = postMock lib http' snap op a b c" for a b c
      by (simp add: postMock_def same PathPrefix_def)
    have "boundary_outcome lib http (en_provider e1) snap op inp = boundary_outcome lib http' (en_provider e1) snap op inp"
      by (simp add: boundary_outcome_def post split: sum.split)
    then show ?thesis
      by (simp add: Process_boundary_def Inr r)
  qed
  with 1 show ?thesis by blast
qed

definition sample_url_lib :: url_lib where
  "sample_url_lib =
     \<lparr>url_Parse = (\<lambda>_. Some \<lparr>pu_Scheme = ''http'', pu_Host = ''localhost:9'', pu_HasUser = False, pu_RawQuery = [],
        pu_Fragment = [], pu_EscapedPath = [], pu_Hostname = ''localhost''\<rparr>),
      url_String = (\<lambda>h. ''http://'' @ h), ip_IsLoopback = (\<lambda>_. False)\<rparr>"

definition sample_config :: boundary_config where
  "sample_config = \<lparr>cf_Hub = hub_NewFixture, cf_Provider = Some (\<lambda>_ _. Inr ''jws''), cf_BaseURL = ''http://localhost:9'',
     cf_Username = ''u'', cf_Password = ''p''\<rparr>"

lemma sample_New: "\<exists>e0. feboundary_New sample_url_lib sample_config = Inr e0"
proof -
  have "\<not> isl (feboundary_New sample_url_lib sample_config)" by code_simp
  then show ?thesis by (cases "feboundary_New sample_url_lib sample_config") simp_all
qed

lemma boundary_dials_loopback_only_witness:
  "\<exists>e0. feboundary_New sample_url_lib sample_config = Inr e0
     \<and> hb_kind (en_hub e0) = KindFixture \<and> loopback_url sample_url_lib (en_baseURL e0)"
proof -
  obtain e0 where e0: "feboundary_New sample_url_lib sample_config = Inr e0" using sample_New by blast
  from e0 boundary_dials_loopback_only [OF e0, of "\<lambda>_. None" "\<lambda>_. None" no_answer_lib None 0 0 sample_input]
  show ?thesis by blast
qed

section \<open>Concurrent passes\<close>

text \<open>
  The engine with the passes that are between their two locked parts, and a log of the
  submissions ever taken for an attempt. \<open>newID\<close> draws 128 random bits: that an identifier is not
  drawn twice is part of the step for \<open>Enqueue\<close>.
\<close>

record boundary_world =
  bw_engine :: engine
  bw_pending :: "(string \<times> dial_snapshot \<times> process_input) list"
  bw_attempted :: "string list"

datatype boundary_event =
  EnqueueEvent string gotime string
| BeginEvent "string option" gotime process_input
| FinishEvent nat answer_lib http_client gotime
| CloseEvent

fun boundary_step :: "boundary_event \<Rightarrow> boundary_world \<Rightarrow> boundary_world" where
  "boundary_step (EnqueueEvent newID now op) w =
     (if en_byID (bw_engine w) newID \<noteq> None then w
      else w\<lparr>bw_engine := snd (feboundary_Enqueue newID now op (bw_engine w))\<rparr>)"
| "boundary_step (BeginEvent ctx_err now inp) w =
     (case process_begin ctx_err now inp (bw_engine w) of
        Inl _ \<Rightarrow> w
      | Inr ((op, snap), e1) \<Rightarrow>
          w\<lparr>bw_engine := e1, bw_pending := bw_pending w @ [(op, snap, inp)],
            bw_attempted := bw_attempted w @ [in_SubmissionID inp]\<rparr>)"
| "boundary_step (FinishEvent k lib http now) w =
     (if k < length (bw_pending w) then
        case bw_pending w ! k of (op, snap, inp) \<Rightarrow>
          w\<lparr>bw_engine := snd (boundary_finish now (in_SubmissionID inp)
               (snd (boundary_outcome lib http (en_provider (bw_engine w)) snap op inp)) (bw_engine w)),
            bw_pending := take k (bw_pending w) @ drop (Suc k) (bw_pending w)\<rparr>
      else w)"
| "boundary_step CloseEvent w = w\<lparr>bw_engine := feboundary_Close (bw_engine w)\<rparr>"

abbreviation pending_ids :: "boundary_world \<Rightarrow> string list" where
  "pending_ids w \<equiv> map (\<lambda>p. in_SubmissionID (snd (snd p))) (bw_pending w)"

definition submission_ok :: "boundary_world \<Rightarrow> string \<Rightarrow> submission \<Rightarrow> bool" where
  "submission_ok w i s \<longleftrightarrow>
     sb_ID s = i
     \<and> sb_Attempts s = (if sb_State s = StateQueued then 0 else 1)
     \<and> (sb_State s = StateQueued \<longleftrightarrow> i \<notin> set (bw_attempted w))
     \<and> (sb_State s = StateInFlight \<longleftrightarrow> i \<in> set (pending_ids w))"

definition boundary_inv :: "boundary_world \<Rightarrow> bool" where
  "boundary_inv w \<longleftrightarrow>
     (\<forall>i s. en_byID (bw_engine w) i = Some s \<longrightarrow> submission_ok w i s)
     \<and> distinct (pending_ids w) \<and> distinct (bw_attempted w) \<and> set (pending_ids w) \<subseteq> set (bw_attempted w)
     \<and> (if en_closed (bw_engine w) then en_byID (bw_engine w) = Map.empty
        else set (bw_attempted w) \<subseteq> dom (en_byID (bw_engine w)))"

definition boundary_start :: "boundary_world \<Rightarrow> bool" where
  "boundary_start w \<longleftrightarrow> en_byID (bw_engine w) = Map.empty \<and> bw_pending w = [] \<and> bw_attempted w = []"

definition boundary_le :: "boundary_world \<Rightarrow> boundary_world \<Rightarrow> bool" where
  "boundary_le w w' \<longleftrightarrow>
     prefix (bw_attempted w) (bw_attempted w')
     \<and> (en_closed (bw_engine w) \<longrightarrow> en_closed (bw_engine w'))
     \<and> (\<forall>i s. en_byID (bw_engine w) i = Some s \<and> final_state (sb_State s) \<longrightarrow>
          en_byID (bw_engine w') i = Some s \<or> en_closed (bw_engine w'))"

lemma boundary_inv_start: "boundary_start w \<Longrightarrow> boundary_inv w"
  by (simp add: boundary_start_def boundary_inv_def)

lemma enqueue_cases:
  obtains (idle) "boundary_step (EnqueueEvent newID now op) w = w"
  | (new) "en_byID (bw_engine w) newID = None" "\<not> en_closed (bw_engine w)"
      "boundary_step (EnqueueEvent newID now op) w =
         w\<lparr>bw_engine := (bw_engine w)\<lparr>en_byID := (en_byID (bw_engine w))(newID \<mapsto> new_submission newID op now)\<rparr>\<rparr>"
proof (cases "en_byID (bw_engine w) newID = None \<and> \<not> en_closed (bw_engine w) \<and> is_operation op")
  case True
  then show ?thesis by (intro new) (simp_all add: feboundary_Enqueue_def Let_def)
next
  case False
  then show ?thesis by (intro idle) (auto simp: feboundary_Enqueue_def Let_def)
qed

lemma begin_cases:
  obtains (idle) "boundary_step (BeginEvent ctx_err now inp) w = w"
  | (taken) s where "en_byID (bw_engine w) (in_SubmissionID inp) = Some s" "sb_State s = StateQueued"
      "\<not> en_closed (bw_engine w)"
      "boundary_step (BeginEvent ctx_err now inp) w =
         w\<lparr>bw_engine := (bw_engine w)\<lparr>en_byID := (en_byID (bw_engine w))(in_SubmissionID inp \<mapsto>
             s\<lparr>sb_State := StateInFlight, sb_Attempts := sb_Attempts s + 1, sb_UpdatedAt := now\<rparr>)\<rparr>,
           bw_pending := bw_pending w @ [(sb_Operation s, \<lparr>ds_baseURL = en_baseURL (bw_engine w),
             ds_user = en_user (bw_engine w), ds_pass = en_pass (bw_engine w)\<rparr>, inp)],
           bw_attempted := bw_attempted w @ [in_SubmissionID inp]\<rparr>"
proof (cases "process_begin ctx_err now inp (bw_engine w)")
  case (Inl err)
  then show ?thesis by (intro idle) simp
next
  case (Inr r)
  obtain op snap e1 where r: "r = ((op, snap), e1)" by (metis prod.collapse)
  from Inr [unfolded r process_begin_ok] obtain s where
    "en_byID (bw_engine w) (in_SubmissionID inp) = Some s" "sb_State s = StateQueued" "\<not> en_closed (bw_engine w)"
    "op = sb_Operation s" "snap = \<lparr>ds_baseURL = en_baseURL (bw_engine w), ds_user = en_user (bw_engine w), ds_pass = en_pass (bw_engine w)\<rparr>"
    "e1 = (bw_engine w)\<lparr>en_byID := (en_byID (bw_engine w))(in_SubmissionID inp \<mapsto>
       s\<lparr>sb_State := StateInFlight, sb_Attempts := sb_Attempts s + 1, sb_UpdatedAt := now\<rparr>)\<rparr>" by blast
  then show ?thesis using Inr r by (intro taken) simp_all
qed

lemma boundary_invD:
  assumes "boundary_inv w"
  shows "en_byID (bw_engine w) i = Some s \<Longrightarrow> submission_ok w i s"
    and "distinct (pending_ids w)" "distinct (bw_attempted w)" "set (pending_ids w) \<subseteq> set (bw_attempted w)"
    and "\<not> en_closed (bw_engine w) \<Longrightarrow> i \<in> set (bw_attempted w) \<Longrightarrow> en_byID (bw_engine w) i \<noteq> None"
    and "en_closed (bw_engine w) \<Longrightarrow> en_byID (bw_engine w) = Map.empty"
  using assms by (auto simp: boundary_inv_def)

lemma enqueue_inv:
  assumes inv: "boundary_inv w"
  shows "boundary_inv (boundary_step (EnqueueEvent newID now op) w)"
proof (cases rule: enqueue_cases [of newID now op w])
  case idle
  then show ?thesis using inv by (simp del: boundary_step.simps)
next
  case new
  note I = boundary_invD [OF inv]
  have "newID \<notin> set (bw_attempted w)" using I(5) new by blast
  then show ?thesis
    unfolding new(3) using inv new I(4)
    by (auto simp: boundary_inv_def submission_ok_def new_submission_def)
qed

lemma begin_inv:
  assumes inv: "boundary_inv w"
  shows "boundary_inv (boundary_step (BeginEvent ctx_err now inp) w)"
proof (cases rule: begin_cases [of ctx_err now inp w])
  case idle
  then show ?thesis using inv by (simp del: boundary_step.simps)
next
  case (taken s)
  note I = boundary_invD [OF inv]
  have s: "submission_ok w (in_SubmissionID inp) s" by (rule I(1) [OF taken(1)])
  then have new: "in_SubmissionID inp \<notin> set (bw_attempted w)" "in_SubmissionID inp \<notin> set (pending_ids w)"
    using taken(2) by (simp_all add: submission_ok_def)
  show ?thesis
    unfolding taken(4) using inv new s taken(1-3)
    by (auto simp: boundary_inv_def submission_ok_def)
qed

lemma remove_nth_props:
  assumes "k < length xs" "distinct (map f xs)"
  shows "distinct (map f (take k xs @ drop (Suc k) xs))"
    and "set (map f (take k xs @ drop (Suc k) xs)) = set (map f xs) - {f (xs ! k)}"
proof -
  have "xs = take k xs @ xs ! k # drop (Suc k) xs" using assms(1) by (rule id_take_nth_drop)
  then have "map f xs = map f (take k xs) @ f (xs ! k) # map f (drop (Suc k) xs)"
    by (metis list.simps(9) map_append)
  with assms(2) show "distinct (map f (take k xs @ drop (Suc k) xs))"
    and "set (map f (take k xs @ drop (Suc k) xs)) = set (map f xs) - {f (xs ! k)}"
    by (auto simp del: list.set_map)
qed

lemma pending_id_mem:
  assumes "k < length (bw_pending w)" "bw_pending w ! k = (op, snap, inp)"
  shows "in_SubmissionID inp \<in> set (pending_ids w)"
proof -
  have "(op, snap, inp) \<in> set (bw_pending w)" using assms nth_mem by fastforce
  then show ?thesis by force
qed

lemma finish_inv:
  assumes inv: "boundary_inv w"
  shows "boundary_inv (boundary_step (FinishEvent k lib http now) w)"
proof (cases "k < length (bw_pending w)")
  case False
  then show ?thesis using inv by simp
next
  case True
  note I = boundary_invD [OF inv]
  obtain op snap inp where p: "bw_pending w ! k = (op, snap, inp)" by (metis prod.collapse)
  let ?i = "in_SubmissionID inp"
  define v where "v = snd (boundary_outcome lib http (en_provider (bw_engine w)) snap op inp)"
  let ?e = "snd (boundary_finish now ?i v (bw_engine w))"
  let ?ps = "take k (bw_pending w) @ drop (Suc k) (bw_pending w)"
  let ?w = "boundary_step (FinishEvent k lib http now) w"
  have w': "?w = w\<lparr>bw_engine := ?e, bw_pending := ?ps\<rparr>" using True p by (simp add: v_def)
  note ids = remove_nth_props [OF True I(2)]
  have set_ids: "set (pending_ids ?w) = set (pending_ids w) - {?i}"
    using ids(2) p unfolding w' by (simp del: set_map)
  have att: "bw_attempted ?w = bw_attempted w" and eng: "bw_engine ?w = ?e"
    unfolding w' by simp_all
  have v: "final_state (vd_State v)" by (simp add: v_def)
  have i: "?i \<in> set (pending_ids w)"
    by (rule pending_id_mem [OF True p])
  have ok: "submission_ok ?w j s" if j: "en_byID ?e j = Some s" for j s
  proof (cases "j = ?i")
    case False
    then have "en_byID (bw_engine w) j = Some s"
      using j by (auto simp: boundary_finish_def Let_def split: option.splits)
    from I(1) [OF this] False show ?thesis
      unfolding submission_ok_def set_ids att by simp
  next
    case eq: True
    obtain s0 where s0: "en_byID (bw_engine w) ?i = Some s0"
      using j eq by (auto simp: boundary_finish_def Let_def split: option.splits)
    have "sb_State s = vd_State v" "sb_Attempts s = sb_Attempts s0" "sb_ID s = sb_ID s0"
      using boundary_finish_byID [OF s0, of now v] j eq by auto
    moreover have "submission_ok w ?i s0" by (rule I(1) [OF s0])
    moreover have "sb_State s0 = StateInFlight" using calculation(4) i by (simp add: submission_ok_def)
    ultimately show ?thesis
      using v I(4) i unfolding submission_ok_def set_ids att by (auto simp: eq final_state_def)
  qed
  have dom: "dom (en_byID ?e) = dom (en_byID (bw_engine w))"
    by (auto simp: boundary_finish_def Let_def split: option.splits)
  have "distinct (pending_ids ?w)" using ids(1) unfolding w' by simp
  moreover have "set (pending_ids ?w) \<subseteq> set (bw_attempted ?w)"
    unfolding set_ids att using I(4) by auto
  moreover have "en_byID ?e = Map.empty" if "en_closed (bw_engine w)"
    using I(6) [OF that] by (simp add: boundary_finish_def)
  ultimately show ?thesis
    unfolding boundary_inv_def att eng using ok inv dom by (simp add: boundary_inv_def)
qed

lemma boundary_step_inv:
  assumes inv: "boundary_inv w"
  shows "boundary_inv (boundary_step ev w)"
proof (cases ev)
  case CloseEvent
  with boundary_invD(2-4) [OF inv] show ?thesis
    by (simp add: boundary_inv_def feboundary_Close_def)
qed (use inv in \<open>simp_all only: enqueue_inv begin_inv finish_inv\<close>)

lemma boundary_step_le:
  assumes inv: "boundary_inv w"
  shows "boundary_le w (boundary_step ev w)"
proof (cases ev)
  case (EnqueueEvent i now op)
  show ?thesis unfolding EnqueueEvent
    by (cases rule: enqueue_cases [of i now op w]) (auto simp del: boundary_step.simps simp: boundary_le_def)
next
  case (BeginEvent c now inp)
  show ?thesis unfolding BeginEvent
    by (cases rule: begin_cases [of c now inp w])
      (auto simp del: boundary_step.simps simp: boundary_le_def final_state_def)
next
  case (FinishEvent k lib http now)
  show ?thesis
  proof (cases "k < length (bw_pending w)")
    case False
    then show ?thesis by (simp add: FinishEvent boundary_le_def)
  next
    case True
    obtain op snap inp where p: "bw_pending w ! k = (op, snap, inp)" by (metis prod.collapse)
    have "in_SubmissionID inp \<in> set (pending_ids w)"
      by (rule pending_id_mem [OF True p])
    then have "\<not> final_state (sb_State s)" if "en_byID (bw_engine w) (in_SubmissionID inp) = Some s" for s
      using boundary_invD(1) [OF inv that] by (simp add: submission_ok_def final_state_def)
    then show ?thesis
      using True p by (auto simp: FinishEvent boundary_le_def boundary_finish_def Let_def split: option.splits)
  qed
next
  case CloseEvent
  then show ?thesis by (simp add: boundary_le_def feboundary_Close_def)
qed

lemma boundary_le_refl: "boundary_le w w"
  by (simp add: boundary_le_def)

lemma boundary_le_trans: "boundary_le s t \<Longrightarrow> boundary_le t u \<Longrightarrow> boundary_le s u"
  unfolding boundary_le_def by (metis prefix_order.order_trans)

interpretation boundary: monotone_machine boundary_start boundary_step boundary_inv boundary_le
  by unfold_locales
    (fact boundary_inv_start boundary_step_inv boundary_le_refl boundary_le_trans boundary_step_le)+

text \<open>
  C14: whatever passes run at the same time, no submission is taken for an attempt twice, and
  a submission has one attempt once it has left the queue and none before.
\<close>

theorem boundary_attempted_once:
  assumes "boundary_start w"
  shows "distinct (bw_attempted (fold boundary_step es w))
     \<and> (\<forall>i s. en_byID (bw_engine (fold boundary_step es w)) i = Some s \<longrightarrow>
          sb_Attempts s = (if sb_State s = StateQueued then 0 else 1)
          \<and> (sb_State s = StateInFlight \<longleftrightarrow> i \<in> set (pending_ids (fold boundary_step es w))))"
  using boundary.reach_inv [OF assms, of es] by (auto simp: boundary_inv_def submission_ok_def)

definition sample_world :: boundary_world where
  "sample_world = \<lparr>bw_engine = sample_engine\<lparr>en_byID := Map.empty\<rparr>, bw_pending = [], bw_attempted = []\<rparr>"

lemma sample_world_start: "boundary_start sample_world"
  by (simp add: boundary_start_def sample_world_def)

lemma boundary_attempted_once_witness:
  "distinct (bw_attempted (fold boundary_step
     [EnqueueEvent ''a'' 0 ''obterEstado'', BeginEvent None 1 sample_input, BeginEvent None 1 sample_input] sample_world))"
  using boundary_attempted_once [OF sample_world_start] by blast

text \<open>
  A final state is final: as long as the engine is open, whatever happens later leaves a
  settled submission as it is.
\<close>

theorem boundary_final_is_final:
  assumes "boundary_start w"
    and "en_byID (bw_engine (fold boundary_step es w)) i = Some s" "final_state (sb_State s)"
    and "\<not> en_closed (bw_engine (fold boundary_step (es @ es') w))"
  shows "en_byID (bw_engine (fold boundary_step (es @ es') w)) i = Some s"
  using boundary.run_le [OF boundary.reach_inv [OF assms(1), of es], of es'] assms(2-4)
  by (auto simp: boundary_le_def)

definition sample_run :: "boundary_event list" where
  "sample_run = [EnqueueEvent ''a'' 0 ''obterEstado'', BeginEvent None 1 sample_input,
     FinishEvent 0 no_answer_lib (\<lambda>_. None) 2]"

lemma sample_run_settles:
  "\<exists>s. en_byID (bw_engine (fold boundary_step sample_run sample_world)) ''a'' = Some s \<and> final_state (sb_State s)"
proof -
  have "case en_byID (bw_engine (fold boundary_step sample_run sample_world)) ''a'' of
          None \<Rightarrow> False | Some s \<Rightarrow> final_state (sb_State s)" by code_simp
  then show ?thesis by (auto split: option.splits)
qed

lemma sample_run_open: "\<not> en_closed (bw_engine (fold boundary_step (sample_run @ sample_run) sample_world))"
  by code_simp

lemma boundary_final_is_final_witness:
  "\<exists>s. final_state (sb_State s)
     \<and> en_byID (bw_engine (fold boundary_step (sample_run @ sample_run) sample_world)) ''a'' = Some s"
  using sample_run_settles boundary_final_is_final [OF sample_world_start _ _ sample_run_open] by blast

end
