(* ===== verification/FeFixQueueProperties.thy ===== *)
theory FeFixQueueProperties
  imports FeFixQueue FeBoundaryProperties
begin

text \<open>
  The fixture queue under concurrent workers. Workers hold the row they claimed and settle it
  later, reconciliations hold the row they read. What no interleaving can break (identity of rows,
  attempts that only grow) is proved for all runs; what needs workers to settle within the reclaim
  window is proved for the runs where they do.
\<close>

section \<open>The queue as a transition system\<close>

record queue_world =
  qw_rows :: "fixture_row list"
  qw_held :: "row list"
  qw_read :: "row list"
  qw_reclaimed :: "string list"  \<comment> \<open>one entry for every reclaim of a row\<close>

definition queue_start :: queue_world where
  "queue_start = \<lparr>qw_rows = [], qw_held = [], qw_read = [], qw_reclaimed = []\<rparr>"

datatype queue_event =
  QEnqueue payload_json queue_dialect bool string gotime enqueue_input
| QClaim queue_dialect "string list" gotime
| QSettle nat payload_json queue_dialect pass_env engine
| QRead string
| QReconcile nat queue_dialect gotime submission

fun queue_step :: "queue_event \<Rightarrow> queue_world \<Rightarrow> queue_world" where
  "queue_step (QEnqueue js dia raced newID now inp) w =
     w\<lparr>qw_rows := snd (queue_Enqueue js dia raced newID now inp (qw_rows w))\<rparr>"
| "queue_step (QClaim dia locked now) w =
     (case claimNext dia locked now (qw_rows w) of
        Inl _ \<Rightarrow> w
      | Inr (row, rows') \<Rightarrow> w\<lparr>qw_rows := rows', qw_held := qw_held w @ [row],
          qw_reclaimed := qw_reclaimed w @ map rw_ID (filter (is_stale dia now) (qw_rows w))\<rparr>)"
| "queue_step (QSettle k js dia env eng) w =
     (if k < length (qw_held w)
      then w\<lparr>qw_rows := snd (snd (process_claimed js dia env (qw_held w ! k) eng (qw_rows w))),
             qw_held := take k (qw_held w) @ drop (Suc k) (qw_held w)\<rparr>
      else w)"
| "queue_step (QRead i) w =
     (case queue_Get i (qw_rows w) of
        Inl _ \<Rightarrow> w
      | Inr row \<Rightarrow> if rw_State row = Boundary StateOK then w\<lparr>qw_read := qw_read w @ [row]\<rparr> else w)"
| "queue_step (QReconcile k dia now result) w =
     (if k < length (qw_read w)
      then w\<lparr>qw_rows := reconcile_write dia now (qw_read w ! k) result (qw_rows w),
             qw_read := take k (qw_read w) @ drop (Suc k) (qw_read w)\<rparr>
      else w)"

section \<open>Rows keep their identity\<close>

definition row_le :: "fixture_row \<Rightarrow> fixture_row \<Rightarrow> bool" where
  "row_le r r' \<longleftrightarrow>
     rw_ID r' = rw_ID r \<and> rw_Operation r' = rw_Operation r \<and> rw_IdentityRef r' = rw_IdentityRef r
     \<and> rw_IdempotencyKey r' = rw_IdempotencyKey r \<and> rw_PayloadJSON r' = rw_PayloadJSON r
     \<and> fx_created_at r' = fx_created_at r \<and> rw_Attempts r \<le> rw_Attempts r'"

lemma row_le_refl: "row_le r r"
  by (simp add: row_le_def)

lemma row_le_trans: "row_le r s \<Longrightarrow> row_le s t \<Longrightarrow> row_le r t"
  by (simp add: row_le_def)

lemma rows_le_rows_trans: "rows_le row_le xs ys \<Longrightarrow> rows_le row_le ys zs \<Longrightarrow> rows_le row_le xs zs"
  by (rule rows_le_trans [of row_le]) (rule row_le_trans)

definition row_keys :: "fixture_row list \<Rightarrow> bool" where
  "row_keys rows \<longleftrightarrow> distinct (map rw_ID rows) \<and> distinct (map (\<lambda>r. (rw_IdempotencyKey r, rw_Operation r)) rows)"

text \<open>What each operation does to the rows, as one of four shapes.\<close>

lemma insert_fixture_Inr:
  "insert_fixture r rows = Inr rows' \<longleftrightarrow>
   fixture_check r \<and> rw_ID r \<notin> rw_ID ` set rows
   \<and> (rw_IdempotencyKey r, rw_Operation r) \<notin> (\<lambda>r. (rw_IdempotencyKey r, rw_Operation r)) ` set rows \<and> rows' = rows @ [r]"
  unfolding insert_fixture_def list_ex_key list_ex_key2 by auto

lemma Enqueue_rows:
  "snd (queue_Enqueue js dia raced newID now inp rows) = rows
   \<or> (\<exists>op ref idem json. insert_fixture (new_fixture_row dia newID now op ref idem json) rows
        = Inr (snd (queue_Enqueue js dia raced newID now inp rows)))"
  by (auto simp: queue_Enqueue_def Let_def split: sum.splits insert_error.splits)

lemma enqueue_shape:
  obtains (same) "snd (queue_Enqueue js dia raced newID now inp rows) = rows"
  | (new) r where "snd (queue_Enqueue js dia raced newID now inp rows) = rows @ [r]" "rw_Attempts r = 0"
      "rw_State r = Boundary StateQueued" "rw_ID r \<notin> rw_ID ` set rows"
      "(rw_IdempotencyKey r, rw_Operation r) \<notin> (\<lambda>r. (rw_IdempotencyKey r, rw_Operation r)) ` set rows"
  using Enqueue_rows [of js dia raced newID now inp rows]
proof (elim disjE exE)
  fix op ref idem json
  assume "insert_fixture (new_fixture_row dia newID now op ref idem json) rows
    = Inr (snd (queue_Enqueue js dia raced newID now inp rows))"
  then show thesis
    unfolding insert_fixture_Inr by (intro new [of "new_fixture_row dia newID now op ref idem json"]) (simp_all add: new_fixture_row_def)
qed (rule same)

lemma claim_shape:
  assumes "claimNext dia locked now rows = Inr (row, rows')"
  obtains r where "first_min (\<lambda>r. (fx_next_attempt_at r, fx_created_at r)) (is_due dia locked now) (queue_reclaim dia now rows) = Some r"
    "row = (scan_row r)\<lparr>rw_State := Boundary StateInFlight, rw_Attempts := rw_Attempts r + 1\<rparr>"
    "rows' = update_where (\<lambda>x. rw_ID x = rw_ID r \<and> rw_State x = Boundary StateQueued)
       (\<lambda>x. x\<lparr>rw_State := Boundary StateInFlight, rw_Attempts := rw_Attempts x + 1,
          rw_Note := ''claimed for fixture boundary'', fx_updated_at := timeArg dia now\<rparr>) (queue_reclaim dia now rows)"
  using assms by (auto simp: claimNext_def Let_def split: option.splits if_splits)

definition settled_by :: "(fixture_row \<Rightarrow> fixture_row) \<Rightarrow> queue_state set \<Rightarrow> bool" where
  "settled_by f S \<longleftrightarrow> (\<forall>r. row_le r (f r) \<and> rw_Attempts (f r) = rw_Attempts r \<and> rw_State (f r) \<in> S)"

lemma finish_shape: "\<exists>f. queue_finish dia now i st a b c d rows = update_where (\<lambda>r. rw_ID r = i) f rows \<and> settled_by f {st}"
  unfolding queue_finish_def by (intro exI conjI, rule refl) (simp add: settled_by_def row_le_def)

lemma requeue_shape:
  "\<exists>f. queue_requeue dia now i note rows = update_where (\<lambda>r. rw_ID r = i) f rows \<and> settled_by f {Boundary StateQueued}"
  unfolding queue_requeue_def by (intro exI conjI, rule refl) (simp add: settled_by_def row_le_def)

lemma settled_by_mono: "settled_by f S \<Longrightarrow> S \<subseteq> T \<Longrightarrow> settled_by f T"
  by (auto simp: settled_by_def)

lemma outcome_verdict_final: "boundary_outcome lib http provider snap op inp = (err, v) \<Longrightarrow> final_state (vd_State v)"
  using outcome_final [of lib http provider snap op inp] by simp

lemma Process_boundary_final: "Process_boundary lib http c t1 t2 inp e = (Inr s, e') \<Longrightarrow> final_state (sb_State s)"
  by (auto simp: Process_boundary_def boundary_finish_def Let_def dest: outcome_verdict_final
      split: sum.splits prod.splits option.splits)

lemma engine_pass_final: "engine_pass env row p eng = (Inr s, e') \<Longrightarrow> final_state (sb_State s)"
  by (auto simp: engine_pass_def split: prod.splits sum.splits dest: Process_boundary_final)

text \<open>A pass gives its row back to the queue only while attempts are left, and ends it otherwise.\<close>

lemma process_claimed_shape:
  "\<exists>f. snd (snd (process_claimed js dia env row eng rows)) = update_where (\<lambda>r. rw_ID r = rw_ID row) f rows
     \<and> settled_by f (Collect queue_isTerminal \<union> (if rw_Attempts row < defaultMaxAttempts then {Boundary StateQueued} else {}))"
proof -
  define S where "S = Collect queue_isTerminal \<union> (if rw_Attempts row < defaultMaxAttempts then {Boundary StateQueued} else {})"
  obtain t1 t2 t3 t4 t5 where t: "pe_now env = (t1, t2, t3, t4, t5)" by (metis prod_cases5)
  have fin: "\<exists>f. queue_finish dia t5 (rw_ID row) st a b c d rows = update_where (\<lambda>r. rw_ID r = rw_ID row) f rows \<and> settled_by f S"
    if "queue_isTerminal st" for st a b c d
    using finish_shape [of dia t5 "rw_ID row" st a b c d rows] settled_by_mono [of _ "{st}" S] that unfolding S_def by auto
  have req: "\<exists>f. queue_requeue dia t5 (rw_ID row) n rows = update_where (\<lambda>r. rw_ID r = rw_ID row) f rows \<and> settled_by f S"
    if "rw_Attempts row < defaultMaxAttempts" for n
    using requeue_shape [of dia t5 "rw_ID row" n rows] settled_by_mono [of _ "{Boundary StateQueued}" S] that unfolding S_def by auto
  have dead: "queue_isTerminal StateDead" by (simp add: queue_isTerminal_def)
  have settle: "\<exists>f. snd (queue_settle dia t5 row s rows) = update_where (\<lambda>r. rw_ID r = rw_ID row) f rows \<and> settled_by f S"
    if "final_state (sb_State s)" for s
  proof -
    have "queue_isTerminal (Boundary (sb_State s))" if "sb_State s \<noteq> StateFailed"
      using that \<open>final_state (sb_State s)\<close> by (cases "sb_State s") (simp_all add: queue_isTerminal_def final_state_def)
    then show ?thesis
      using fin req dead unfolding queue_settle_def isRetryableEngineState_def Let_def by auto
  qed
  have handle: "\<exists>f. snd (handleTransportFailure dia t5 row rows) = update_where (\<lambda>r. rw_ID r = rw_ID row) f rows \<and> settled_by f S"
    using fin [OF dead] req unfolding handleTransportFailure_def Let_def by auto
  have "\<exists>f. snd (snd (process_claimed js dia env row eng rows)) = update_where (\<lambda>r. rw_ID r = rw_ID row) f rows \<and> settled_by f S"
  proof (cases "parsePayload js (rw_PayloadJSON row)")
    case (Inl e)
    then show ?thesis using fin [OF dead] by (simp add: process_claimed_def t)
  next
    case parsed: (Inr p)
    obtain res eng' where pass: "engine_pass env row p eng = (res, eng')" by (metis prod.collapse)
    show ?thesis
    proof (cases res)
      case (Inl err)
      then show ?thesis using handle pass by (auto simp: process_claimed_def t parsed split: prod.split)
    next
      case (Inr s)
      with pass have "final_state (sb_State s)" by (auto intro: engine_pass_final)
      then show ?thesis using settle [of s] Inr pass
        by (auto simp: process_claimed_def t parsed split: prod.split)
    qed
  qed
  then show ?thesis unfolding S_def .
qed

lemma reconcile_shape:
  "\<exists>f. reconcile_write dia now row result rows = update_where (\<lambda>r. rw_ID r = rw_ID row) f rows \<and> settled_by f {rw_State row}"
  unfolding reconcile_write_def by (rule finish_shape)

lemma row_keys_update:
  "row_keys rows \<Longrightarrow> (\<And>r. row_le r (f r)) \<Longrightarrow> row_keys (update_where P f rows)"
  by (simp add: row_keys_def row_le_def)

definition queue_le :: "queue_world \<Rightarrow> queue_world \<Rightarrow> bool" where
  "queue_le w w' \<longleftrightarrow> rows_le row_le (qw_rows w) (qw_rows w')"

lemma update_le_keys:
  assumes "row_keys rows" "\<And>r. row_le r (f r)"
  shows "row_keys (update_where P f rows) \<and> rows_le row_le rows (update_where P f rows)"
  by (intro conjI row_keys_update [OF assms] rows_le_update) (simp add: row_le_refl assms(2))

lemma settled_le_keys:
  assumes "row_keys rows" "settled_by f S"
  shows "row_keys (update_where P f rows) \<and> rows_le row_le rows (update_where P f rows)"
  using assms(2) by (intro update_le_keys [OF assms(1)]) (simp add: settled_by_def)

lemma claim_le_keys:
  assumes "row_keys rows" "claimNext dia locked now rows = Inr (row, rows')"
  shows "row_keys rows' \<and> rows_le row_le rows rows'"
proof -
  have 1: "row_keys (queue_reclaim dia now rows) \<and> rows_le row_le rows (queue_reclaim dia now rows)"
    unfolding queue_reclaim_def by (rule update_le_keys [OF assms(1)]) (simp add: row_le_def)
  obtain r :: fixture_row where "rows' = update_where (\<lambda>x. rw_ID x = rw_ID r \<and> rw_State x = Boundary StateQueued)
      (\<lambda>x. x\<lparr>rw_State := Boundary StateInFlight, rw_Attempts := rw_Attempts x + 1,
          rw_Note := ''claimed for fixture boundary'', fx_updated_at := timeArg dia now\<rparr>) (queue_reclaim dia now rows)"
    by (rule claim_shape [OF assms(2)])
  also have "row_keys \<dots> \<and> rows_le row_le (queue_reclaim dia now rows) \<dots>"
    by (rule update_le_keys [OF conjunct1 [OF 1]]) (simp add: row_le_def)
  finally have 2: "row_keys rows' \<and> rows_le row_le (queue_reclaim dia now rows) rows'" .
  show ?thesis
    using 2 rows_le_rows_trans [OF conjunct2 [OF 1] conjunct2 [OF 2]] by blast
qed

lemma queue_step_le_keys:
  assumes keys: "row_keys (qw_rows w)"
  shows "row_keys (qw_rows (queue_step ev w)) \<and> queue_le w (queue_step ev w)"
proof -
  have id: "row_keys (qw_rows w) \<and> rows_le row_le (qw_rows w) (qw_rows w)"
    using keys by (simp add: rows_le_refl row_le_refl)
  show ?thesis
  proof (cases ev)
    case (QEnqueue js dia raced newID now inp)
    show ?thesis unfolding QEnqueue queue_step.simps queue_le_def
      by (rule enqueue_shape [of js dia raced newID now inp "qw_rows w"])
        (use id keys in \<open>auto simp: row_keys_def intro: rows_le_append row_le_refl\<close>)
  next
    case (QClaim dia locked now)
    then show ?thesis using claim_le_keys [OF keys] id by (auto simp: queue_le_def split: sum.split)
  next
    case (QSettle k js dia env eng)
    show ?thesis unfolding QSettle queue_step.simps queue_le_def
      using process_claimed_shape [of js dia env "qw_held w ! k" eng "qw_rows w"] id
      by (auto dest: settled_le_keys [OF keys])
  next
    case (QRead i)
    then show ?thesis using id by (auto simp: queue_le_def split: sum.split)
  next
    case (QReconcile k dia now result)
    show ?thesis unfolding QReconcile queue_step.simps queue_le_def
      using reconcile_shape [of dia now "qw_read w ! k" result "qw_rows w"] id
      by (auto dest: settled_le_keys [OF keys])
  qed
qed

lemma queue_le_refl: "queue_le w w"
  by (simp add: queue_le_def rows_le_refl row_le_refl)

lemma queue_le_trans: "queue_le s t \<Longrightarrow> queue_le t u \<Longrightarrow> queue_le s u"
  unfolding queue_le_def by (rule rows_le_rows_trans)

lemma queue_start_keys: "w = queue_start \<Longrightarrow> row_keys (qw_rows w)"
  by (simp add: queue_start_def row_keys_def)

interpretation queue: monotone_machine "\<lambda>w. w = queue_start" queue_step "\<lambda>w. row_keys (qw_rows w)" queue_le
  by unfold_locales
    (fact queue_start_keys conjunct1 [OF queue_step_le_keys] queue_le_refl queue_le_trans conjunct2 [OF queue_step_le_keys])+

text \<open>
  Whatever workers, retries and races do, the table holds one row per identifier and per
  idempotency key and operation, rows never disappear or change what they submit, and their
  attempts never decrease.
\<close>

theorem queue_rows_kept:
  "row_keys (qw_rows (fold queue_step es queue_start))
   \<and> rows_le row_le (qw_rows (fold queue_step es queue_start)) (qw_rows (fold queue_step (es @ es') queue_start))"
  using queue.reach_inv [of queue_start es]
    queue.run_le [OF queue.reach_inv [OF refl, of es], of es']
  by (simp add: queue_le_def)

section \<open>Workers that settle in time\<close>

text \<open>
  A worker is in time when the row it claimed is still in flight with the attempt it made. The
  source does not check this; a worker that outlives the thirty seconds is the subject of
  \<open>stale_worker_resurrects\<close> below.
\<close>

definition holds_claim :: "row \<Rightarrow> fixture_row list \<Rightarrow> bool" where
  "holds_claim h rows \<longleftrightarrow>
     list_ex (\<lambda>r. rw_ID r = rw_ID h \<and> rw_State r = Boundary StateInFlight \<and> rw_Attempts r = rw_Attempts h) rows"

fun in_time :: "queue_event \<Rightarrow> queue_world \<Rightarrow> bool" where
  "in_time (QSettle k js dia env eng) w = (k < length (qw_held w) \<longrightarrow> holds_claim (qw_held w ! k) (qw_rows w))"
| "in_time _ w = True"

definition timely_step :: "queue_event \<Rightarrow> queue_world \<Rightarrow> queue_world" where
  "timely_step ev w = (if in_time ev w then queue_step ev w else w)"

definition row_inv :: "string list \<Rightarrow> fixture_row \<Rightarrow> bool" where
  "row_inv reclaimed r \<longleftrightarrow>
     (rw_State r = Boundary StateQueued \<or> rw_State r = Boundary StateInFlight \<or> queue_isTerminal (rw_State r))
     \<and> 0 \<le> rw_Attempts r
     \<and> rw_Attempts r \<le> (if rw_State r = Boundary StateQueued then 4 else 5) + int (count_list reclaimed (rw_ID r))"

definition timely_inv :: "queue_world \<Rightarrow> bool" where
  "timely_inv w \<longleftrightarrow>
     row_keys (qw_rows w) \<and> (\<forall>r \<in> set (qw_rows w). row_inv (qw_reclaimed w) r)
     \<and> (\<forall>h \<in> set (qw_read w). rw_State h = Boundary StateOK \<and> rw_ID h \<in> rw_ID ` set (qw_rows w)
          \<and> (\<forall>r \<in> set (qw_rows w). rw_ID r = rw_ID h \<longrightarrow> rw_State r = Boundary StateOK))"

text \<open>Progress: a terminal state stays.\<close>

definition final_le :: "fixture_row \<Rightarrow> fixture_row \<Rightarrow> bool" where
  "final_le r r' \<longleftrightarrow> row_le r r' \<and> (queue_isTerminal (rw_State r) \<longrightarrow> rw_State r' = rw_State r)"

definition timely_le :: "queue_world \<Rightarrow> queue_world \<Rightarrow> bool" where
  "timely_le w w' \<longleftrightarrow> rows_le final_le (qw_rows w) (qw_rows w')"

lemma final_le_refl: "final_le r r"
  by (simp add: final_le_def row_le_refl)

lemma final_le_trans: "final_le r s \<Longrightarrow> final_le s t \<Longrightarrow> final_le r t"
  unfolding final_le_def using row_le_trans by metis

lemma timely_le_refl: "timely_le w w"
  by (simp add: timely_le_def rows_le_refl final_le_refl)

lemma timely_le_trans: "timely_le s t \<Longrightarrow> timely_le t u \<Longrightarrow> timely_le s u"
  unfolding timely_le_def by (rule rows_le_trans [of final_le]) (rule final_le_trans)

lemma timely_invD:
  assumes "timely_inv w"
  shows "row_keys (qw_rows w)"
    and "r \<in> set (qw_rows w) \<Longrightarrow> row_inv (qw_reclaimed w) r"
    and "h \<in> set (qw_read w) \<Longrightarrow> rw_State h = Boundary StateOK \<and> rw_ID h \<in> rw_ID ` set (qw_rows w)"
    and "h \<in> set (qw_read w) \<Longrightarrow> r \<in> set (qw_rows w) \<Longrightarrow> rw_ID r = rw_ID h \<Longrightarrow> rw_State r = Boundary StateOK"
  using assms by (simp_all add: timely_inv_def)

text \<open>One lemma for every step that rewrites rows in place.\<close>

lemma timely_map:
  assumes inv: "timely_inv w" and rows: "qw_rows w' = map g (qw_rows w)"
    and read: "set (qw_read w') \<subseteq> set (qw_read w)"
    and g: "\<And>r. r \<in> set (qw_rows w) \<Longrightarrow> final_le r (g r) \<and> row_inv (qw_reclaimed w') (g r)"
  shows "timely_inv w' \<and> timely_le w w'"
proof
  note I = timely_invD [OF inv]
  have ids: "map rw_ID (qw_rows w') = map rw_ID (qw_rows w)"
    "map (\<lambda>r. (rw_IdempotencyKey r, rw_Operation r)) (qw_rows w') = map (\<lambda>r. (rw_IdempotencyKey r, rw_Operation r)) (qw_rows w)"
    unfolding rows using g by (auto simp: final_le_def row_le_def)
  have same: "rw_ID ` set (qw_rows w') = rw_ID ` set (qw_rows w)" using ids(1) by (metis set_map)
  have ok: "rw_State (g r) = Boundary StateOK"
    if "h \<in> set (qw_read w)" "r \<in> set (qw_rows w)" "rw_ID (g r) = rw_ID h" for h r
    using g [OF that(2)] I(4) [OF that(1,2)] that(3) by (simp add: final_le_def row_le_def queue_isTerminal_def)
  have "row_keys (qw_rows w')" using I(1) unfolding row_keys_def ids .
  moreover have "\<forall>h \<in> set (qw_read w'). rw_State h = Boundary StateOK \<and> rw_ID h \<in> rw_ID ` set (qw_rows w')
     \<and> (\<forall>r \<in> set (qw_rows w'). rw_ID r = rw_ID h \<longrightarrow> rw_State r = Boundary StateOK)"
    unfolding same using read I(3) ok by (auto simp: rows)
  ultimately show "timely_inv w'" unfolding timely_inv_def using g by (auto simp: rows)
  show "timely_le w w'" using g by (simp add: timely_le_def rows_le_def rows)
qed

lemma row_inv_reclaim:
  assumes "row_inv rec r" "r \<in> set rows"
  shows "row_inv (rec @ map rw_ID (filter (is_stale dia now) rows))
    (if is_stale dia now r then r\<lparr>rw_State := Boundary StateQueued, rw_Note := n, fx_updated_at := u\<rparr> else r)"
proof (cases "is_stale dia now r")
  case True
  then have "rw_ID r \<in> set (map rw_ID (filter (is_stale dia now) rows))" using assms(2) by simp
  then have "count_list (map rw_ID (filter (is_stale dia now) rows)) (rw_ID r) \<noteq> 0" by (simp add: count_list_0_iff)
  then show ?thesis using assms(1) True by (auto simp: row_inv_def is_stale_def)
next
  case False
  then show ?thesis using assms(1) by (auto simp: row_inv_def)
qed

lemma claim_timely:
  assumes inv: "timely_inv w" and c: "claimNext dia locked now (qw_rows w) = Inr (row, rows')"
  shows "timely_inv (queue_step (QClaim dia locked now) w) \<and> timely_le w (queue_step (QClaim dia locked now) w)"
proof -
  obtain i where rows': "rows' = update_where (\<lambda>x. rw_ID x = i \<and> rw_State x = Boundary StateQueued)
       (\<lambda>x. x\<lparr>rw_State := Boundary StateInFlight, rw_Attempts := rw_Attempts x + 1,
          rw_Note := ''claimed for fixture boundary'', fx_updated_at := timeArg dia now\<rparr>) (queue_reclaim dia now (qw_rows w))"
    by (rule claim_shape [OF c])
  define a where "a r = (if is_stale dia now r then r\<lparr>rw_State := Boundary StateQueued, rw_Note := ''reclaimed stale in_flight'',
    fx_updated_at := timeArg dia now\<rparr> else r)" for r
  define b where "b r = (if rw_ID r = i \<and> rw_State r = Boundary StateQueued
    then r\<lparr>rw_State := Boundary StateInFlight, rw_Attempts := rw_Attempts r + 1,
          rw_Note := ''claimed for fixture boundary'', fx_updated_at := timeArg dia now\<rparr> else r)" for r :: fixture_row
  let ?rec = "qw_reclaimed w @ map rw_ID (filter (is_stale dia now) (qw_rows w))"
  have rows: "rows' = map (\<lambda>r. b (a r)) (qw_rows w)"
    unfolding rows' queue_reclaim_def update_where_def a_def b_def by (simp add: o_def)
  have a: "final_le r (a r) \<and> row_inv ?rec (a r)" if "r \<in> set (qw_rows w)" for r
    unfolding a_def using row_inv_reclaim [OF timely_invD(2) [OF inv that] that, of dia now]
    by (auto simp: final_le_def row_le_def is_stale_def queue_isTerminal_def)
  have b: "final_le r (b r) \<and> row_inv rec (b r)" if "row_inv rec r" for r rec
    using that by (auto simp: b_def final_le_def row_le_def queue_isTerminal_def row_inv_def)
  have "final_le r (b (a r)) \<and> row_inv ?rec (b (a r))" if "r \<in> set (qw_rows w)" for r
    using a [OF that] b [of ?rec "a r"] final_le_trans by blast
  then show ?thesis by (intro timely_map [OF inv, where g = "\<lambda>r. b (a r)"]) (simp_all add: c rows)
qed

lemma enqueue_timely:
  assumes inv: "timely_inv w"
  shows "timely_inv (queue_step (QEnqueue js dia raced newID now inp) w)
    \<and> timely_le w (queue_step (QEnqueue js dia raced newID now inp) w)"
proof (cases rule: enqueue_shape [of js dia raced newID now inp "qw_rows w"])
  case same
  then show ?thesis using inv by (simp add: timely_le_def rows_le_refl final_le_refl)
next
  case (new r)
  note I = timely_invD [OF inv]
  have "row_inv (qw_reclaimed w) r" using new(2,3) by (simp add: row_inv_def)
  moreover have "rw_ID r \<noteq> rw_ID h" if "h \<in> set (qw_read w)" for h using I(3) [OF that] new(4) by metis
  ultimately show ?thesis
    using inv new(4,5) unfolding timely_inv_def timely_le_def row_keys_def
    by (simp add: new(1) rows_le_append final_le_refl)
qed

lemma unique_row:
  "row_keys rows \<Longrightarrow> r \<in> set rows \<Longrightarrow> s \<in> set rows \<Longrightarrow> rw_ID r = rw_ID s \<Longrightarrow> r = s"
  by (auto simp: row_keys_def distinct_map dest: inj_onD)

lemma settle_timely:
  assumes inv: "timely_inv w" and k: "k < length (qw_held w)" and own: "holds_claim (qw_held w ! k) (qw_rows w)"
  shows "timely_inv (queue_step (QSettle k js dia env eng) w) \<and> timely_le w (queue_step (QSettle k js dia env eng) w)"
proof -
  let ?h = "qw_held w ! k"
  obtain f where f: "snd (snd (process_claimed js dia env ?h eng (qw_rows w))) = update_where (\<lambda>r. rw_ID r = rw_ID ?h) f (qw_rows w)"
    "settled_by f (Collect queue_isTerminal \<union> (if rw_Attempts ?h < defaultMaxAttempts then {Boundary StateQueued} else {}))"
    using process_claimed_shape by blast
  have h: "rw_State r = Boundary StateInFlight \<and> rw_Attempts r = rw_Attempts ?h"
    if "r \<in> set (qw_rows w)" "rw_ID r = rw_ID ?h" for r
  proof -
    from own obtain s where s: "s \<in> set (qw_rows w)" "rw_ID s = rw_ID ?h" "rw_State s = Boundary StateInFlight"
      "rw_Attempts s = rw_Attempts ?h" unfolding holds_claim_def list_ex_iff by blast
    have "r = s" using unique_row [OF timely_invD(1) [OF inv] that(1) s(1)] that(2) s(2) by simp
    with s show ?thesis by simp
  qed
  have "final_le r (f r) \<and> row_inv (qw_reclaimed w) (f r)" if "r \<in> set (qw_rows w)" "rw_ID r = rw_ID ?h" for r
  proof -
    have fr: "row_le r (f r)" "rw_Attempts (f r) = rw_Attempts r" "rw_ID (f r) = rw_ID r"
      "queue_isTerminal (rw_State (f r)) \<or> rw_State (f r) = Boundary StateQueued \<and> rw_Attempts ?h < 5"
      using f(2) by (auto simp: settled_by_def row_le_def defaultMaxAttempts_def split: if_splits)
    then show ?thesis
      using timely_invD(2) [OF inv that(1)] h [OF that] by (auto simp: final_le_def row_inv_def queue_isTerminal_def)
  qed
  then show ?thesis
    using k timely_invD(2) [OF inv]
    by (intro timely_map [OF inv, where g = "\<lambda>r. if rw_ID r = rw_ID ?h then f r else r"])
      (auto simp: f(1) update_where_def final_le_refl)
qed

lemma reconcile_timely:
  assumes inv: "timely_inv w" and k: "k < length (qw_read w)"
  shows "timely_inv (queue_step (QReconcile k dia now result) w) \<and> timely_le w (queue_step (QReconcile k dia now result) w)"
proof -
  let ?h = "qw_read w ! k"
  have mem: "?h \<in> set (qw_read w)" using k by simp
  obtain f where f: "reconcile_write dia now ?h result (qw_rows w) = update_where (\<lambda>r. rw_ID r = rw_ID ?h) f (qw_rows w)"
    "settled_by f {rw_State ?h}" using reconcile_shape by blast
  have "final_le r (f r) \<and> row_inv (qw_reclaimed w) (f r)" if "r \<in> set (qw_rows w)" "rw_ID r = rw_ID ?h" for r
    using timely_invD(3) [OF inv mem] timely_invD(4) [OF inv mem that] timely_invD(2) [OF inv that(1)] f(2)
    by (auto simp: settled_by_def final_le_def row_inv_def row_le_def)
  then show ?thesis
    using k timely_invD(2) [OF inv]
    by (intro timely_map [OF inv, where g = "\<lambda>r. if rw_ID r = rw_ID ?h then f r else r"])
      (auto simp: f(1) update_where_def final_le_refl dest: in_set_takeD in_set_dropD)
qed

lemma read_timely:
  assumes inv: "timely_inv w"
  shows "timely_inv (queue_step (QRead i) w) \<and> timely_le w (queue_step (QRead i) w)"
proof (cases "queue_Get i (qw_rows w)")
  case (Inl e)
  then show ?thesis using inv by (simp add: timely_le_refl)
next
  case (Inr row)
  then obtain r where find: "find (\<lambda>r. rw_ID r = i) (qw_rows w) = Some r" and "row = scan_row r"
    by (auto simp: queue_Get_def split: option.splits)
  then have r: "r \<in> set (qw_rows w)" "row = scan_row r" by (auto simp: find_Some_iff)
  have "rw_ID row = rw_ID r" "rw_State row = rw_State r" by (simp_all add: r(2) scan_row_def row.defs)
  moreover have "s = r" if "s \<in> set (qw_rows w)" "rw_ID s = rw_ID r" for s
    using unique_row [OF timely_invD(1) [OF inv] that(1) r(1) that(2)] .
  ultimately have "timely_inv (w\<lparr>qw_read := qw_read w @ [row]\<rparr>)" if "rw_State row = Boundary StateOK"
    using inv that r(1) unfolding timely_inv_def by auto
  then show ?thesis using Inr inv by (simp add: timely_le_refl) (simp add: timely_le_def rows_le_refl final_le_refl)
qed

lemma timely_step_ok:
  assumes inv: "timely_inv w"
  shows "timely_inv (timely_step ev w) \<and> timely_le w (timely_step ev w)"
proof (cases ev)
  case (QEnqueue js dia raced newID now inp)
  then show ?thesis using enqueue_timely [OF inv] by (simp add: timely_step_def del: queue_step.simps)
next
  case (QClaim dia locked now)
  then show ?thesis using claim_timely [OF inv] inv timely_le_refl
    by (cases "claimNext dia locked now (qw_rows w)") (auto simp: timely_step_def)
next
  case (QSettle k js dia env eng)
  then show ?thesis using settle_timely [OF inv] inv timely_le_refl
    by (cases "k < length (qw_held w)") (simp_all add: timely_step_def)
next
  case (QRead i)
  then show ?thesis using read_timely [OF inv] by (simp add: timely_step_def del: queue_step.simps)
next
  case (QReconcile k dia now result)
  then show ?thesis using reconcile_timely [OF inv] inv timely_le_refl
    by (cases "k < length (qw_read w)") (simp_all add: timely_step_def)
qed

lemma timely_start: "w = queue_start \<Longrightarrow> timely_inv w"
  by (simp add: queue_start_def timely_inv_def row_keys_def)

interpretation timely: monotone_machine "\<lambda>w. w = queue_start" timely_step timely_inv timely_le
  by unfold_locales
    (fact timely_start conjunct1 [OF timely_step_ok] timely_le_refl timely_le_trans conjunct2 [OF timely_step_ok])+


text \<open>
  C17: while workers settle within the reclaim window, no row is claimed more than five times
  plus once for every time it was reclaimed, and every row is queued, in flight or terminal.
\<close>

theorem queue_attempts_bounded:
  assumes "r \<in> set (qw_rows (fold timely_step es queue_start))"
  shows "0 \<le> rw_Attempts r
     \<and> rw_Attempts r \<le> 5 + int (count_list (qw_reclaimed (fold timely_step es queue_start)) (rw_ID r))
     \<and> (rw_State r = Boundary StateQueued \<or> rw_State r = Boundary StateInFlight \<or> queue_isTerminal (rw_State r))"
  using timely_invD(2) [OF timely.reach_inv [OF refl] assms] by (auto simp: row_inv_def split: if_splits)

section \<open>Enqueue, claim and retry\<close>

lemma find_key:
  assumes "row_keys rows" "r \<in> set rows"
  shows "find (\<lambda>x. rw_IdempotencyKey x = rw_IdempotencyKey r \<and> rw_Operation x = rw_Operation r) rows = Some r"
  using find_distinct_key [of "\<lambda>r. (rw_IdempotencyKey r, rw_Operation r)" rows r] assms by (simp add: row_keys_def)

lemma findByIdempotency_Inr:
  "findByIdempotency idem op rows = Inr row \<Longrightarrow>
   \<exists>r \<in> set rows. row = scan_row r \<and> rw_IdempotencyKey r = idem \<and> rw_Operation r = op"
  by (auto simp: findByIdempotency_def find_Some_iff split: option.splits)

lemma scan_new:
  "scan_row (new_fixture_row dia newID now op ref idem json) =
     \<lparr>rw_ID = newID, rw_Operation = op, rw_State = Boundary StateQueued, rw_IdentityRef = ref,
      rw_IdempotencyKey = idem, rw_PayloadJSON = json, rw_Attempts = 0, rw_MockRequestID = [],
      rw_MockCode = [], rw_SourceID = [], rw_Note = queued_note\<rparr>"
  by (simp add: scan_row_def new_fixture_row_def row.defs)

lemma Enqueue_Inr:
  assumes "queue_Enqueue js dia raced newID now inp rows = (Inr row, rows')"
  shows "\<exists>r \<in> set rows'. scan_row r = row \<and> rw_IdempotencyKey r = strings_TrimSpace (ei_IdempotencyKey inp)
     \<and> rw_Operation r = strings_TrimSpace (ei_Operation inp)"
proof -
  let ?op = "strings_TrimSpace (ei_Operation inp)" and ?idem = "strings_TrimSpace (ei_IdempotencyKey inp)"
  let ?ref = "strings_TrimSpace (ei_IdentityRef inp)"
  define look where "look = (if raced then Inl Queue_NotFound else findByIdempotency ?idem ?op rows)"
  have ne: "\<not> (?op = [] \<or> ?ref = [] \<or> ?idem = [])" using assms by (auto simp: queue_Enqueue_def Let_def)
  obtain json where json: "bind_result (Payload_Validate ?op (ei_Payload inp)) (\<lambda>_. payload_marshal js (ei_Payload inp)) = Inr json"
    using assms ne by (cases "bind_result (Payload_Validate ?op (ei_Payload inp)) (\<lambda>_. payload_marshal js (ei_Payload inp))")
      (simp_all add: queue_Enqueue_def Let_def)
  let ?new = "new_fixture_row dia newID now ?op ?ref ?idem json"
  note run = assms [unfolded queue_Enqueue_def Let_def if_not_P [OF ne] json sum.case, folded look_def]
  have found: ?thesis if "findByIdempotency ?idem ?op rows = Inr row" "rows' = rows"
    using findByIdempotency_Inr [OF that(1)] that(2) by blast
  show ?thesis
  proof (cases look)
    case (Inr r)
    from run [unfolded Inr sum.case] have "r = row" "rows' = rows" by simp_all
    moreover have "findByIdempotency ?idem ?op rows = Inr r"
      using Inr by (cases raced) (simp_all add: look_def)
    ultimately show ?thesis by (intro found) simp_all
  next
    case (Inl e)
    show ?thesis
    proof (cases "insert_fixture ?new rows")
      case ins: (Inl x)
      from run [unfolded Inl sum.case ins] have "findByIdempotency ?idem ?op rows = Inr row \<and> rows' = rows"
        by (cases x) auto
      then show ?thesis by (intro found) simp_all
    next
      case ins: (Inr rows2)
      then have "rows' = rows @ [?new]" "row = scan_row ?new"
        using run [unfolded Inl sum.case ins] ins by (simp_all add: insert_fixture_Inr scan_new)
      then show ?thesis by (simp add: new_fixture_row_def)
    qed
  qed
qed

lemma scan_row_simps [simp]:
  "rw_ID (scan_row r) = rw_ID r" "rw_State (scan_row r) = rw_State r" "rw_PayloadJSON (scan_row r) = rw_PayloadJSON r"
  "rw_Attempts (scan_row r) = rw_Attempts r" "rw_Operation (scan_row r) = rw_Operation r"
  "rw_IdentityRef (scan_row r) = rw_IdentityRef r" "rw_IdempotencyKey (scan_row r) = rw_IdempotencyKey r"
  by (simp_all add: scan_row_def row.defs)

text \<open>
  Enqueueing is idempotent: once a key and operation have been enqueued, every later valid
  request with them, however much the queue has moved on, changes nothing and is answered with the
  same row and the payload first stored.
\<close>

theorem queue_enqueue_idempotent:
  assumes first: "queue_Enqueue js dia raced i now inp (qw_rows (fold queue_step es queue_start)) = (Inr row, rows')"
    and later: "rows'' = qw_rows (fold queue_step (es @ QEnqueue js dia raced i now inp # es') queue_start)"
    and same: "strings_TrimSpace (ei_Operation inp2) = strings_TrimSpace (ei_Operation inp)"
      "strings_TrimSpace (ei_IdempotencyKey inp2) = strings_TrimSpace (ei_IdempotencyKey inp)"
    and valid: "strings_TrimSpace (ei_IdentityRef inp2) \<noteq> []" "Payload_Validate (strings_TrimSpace (ei_Operation inp2)) (ei_Payload inp2) = Inr ()"
      "payload_marshal js2 (ei_Payload inp2) = Inr json2"
  shows "\<exists>row2. queue_Enqueue js2 dia2 False i2 now2 inp2 rows'' = (Inr row2, rows'')
     \<and> rw_ID row2 = rw_ID row \<and> rw_PayloadJSON row2 = rw_PayloadJSON row \<and> rw_IdentityRef row2 = rw_IdentityRef row"
proof -
  let ?w1 = "fold queue_step (es @ [QEnqueue js dia raced i now inp]) queue_start"
  have rows': "qw_rows ?w1 = rows'" using first by simp
  have later': "rows'' = qw_rows (fold queue_step es' ?w1)" by (simp add: later)
  have keys: "row_keys rows''" unfolding later by (rule queue.reach_inv [OF refl])
  have le: "rows_le row_le rows' rows''"
    using queue.run_le [OF queue.reach_inv [OF refl], of _ es'] unfolding queue_le_def later' rows' [symmetric] .
  obtain r where r: "r \<in> set rows'" "scan_row r = row" "rw_IdempotencyKey r = strings_TrimSpace (ei_IdempotencyKey inp)"
    "rw_Operation r = strings_TrimSpace (ei_Operation inp)" using Enqueue_Inr [OF first] by blast
  obtain r' where r': "r' \<in> set rows''" "row_le r r'" using rows_le_member [OF le r(1)] by blast
  have "findByIdempotency (strings_TrimSpace (ei_IdempotencyKey inp2)) (strings_TrimSpace (ei_Operation inp2)) rows'' = Inr (scan_row r')"
    using find_key [OF keys r'(1)] r'(2) r(3,4) by (simp add: findByIdempotency_def row_le_def same)
  moreover have "strings_TrimSpace (ei_Operation inp) \<noteq> [] \<and> strings_TrimSpace (ei_IdempotencyKey inp) \<noteq> []"
    using first by (auto simp: queue_Enqueue_def Let_def split: if_splits)
  ultimately have "queue_Enqueue js2 dia2 False i2 now2 inp2 rows'' = (Inr (scan_row r'), rows'')"
    using valid by (simp add: queue_Enqueue_def Let_def same)
  then show ?thesis using r'(2) r(2) by (auto simp: row_le_def)
qed

lemma one_hit:
  assumes "distinct (map rw_ID rows)" "r \<in> set rows" "P r"
  shows "length (filter (\<lambda>x. rw_ID x = rw_ID r \<and> P x) rows) = 1"
  using assms
proof (induction rows)
  case (Cons a rows)
  have "filter (\<lambda>x. rw_ID x = rw_ID a \<and> P x) rows = []" using Cons.prems(1) by (auto simp: filter_empty_conv image_iff)
  then show ?case using Cons by (cases "r = a") auto
qed simp

lemma queue_claim_fair_rule:
  assumes keys: "row_keys rows"
  shows "(claimNext dia locked now rows = Inl ErrEmpty \<longleftrightarrow> (\<forall>r \<in> set (queue_reclaim dia now rows). \<not> is_due dia locked now r))
     \<and> (\<forall>row rows'. claimNext dia locked now rows = Inr (row, rows') \<longrightarrow>
          (\<exists>r \<in> set (queue_reclaim dia now rows). is_due dia locked now r
             \<and> (\<forall>r2 \<in> set (queue_reclaim dia now rows). is_due dia locked now r2 \<longrightarrow>
                  (fx_next_attempt_at r, fx_created_at r) \<le> (fx_next_attempt_at r2, fx_created_at r2))
             \<and> rw_ID row = rw_ID r \<and> rw_Attempts row = rw_Attempts r + 1
             \<and> (\<exists>r' \<in> set rows'. row_le r r' \<and> rw_State r' = Boundary StateInFlight \<and> rw_Attempts r' = rw_Attempts r + 1)))"
proof -
  let ?rows = "queue_reclaim dia now rows"
  have keys': "distinct (map rw_ID ?rows)"
    using keys by (simp add: queue_reclaim_def row_keys_def)
  show ?thesis
  proof (cases "first_min (\<lambda>r. (fx_next_attempt_at r, fx_created_at r)) (is_due dia locked now) ?rows")
    case None
    then show ?thesis by (simp add: claimNext_def Let_def) (simp add: first_min_None)
  next
    case (Some r)
    note m = first_min_Some [OF Some]
    have st: "rw_State r = Boundary StateQueued" using m by (simp add: is_due_def)
    have one: "length (filter (\<lambda>x. rw_ID x = rw_ID r \<and> rw_State x = Boundary StateQueued) ?rows) = 1"
      using one_hit [OF keys', of r "\<lambda>x. rw_State x = Boundary StateQueued"] m st by blast
    have c: "claimNext dia locked now rows = Inr ((scan_row r)\<lparr>rw_State := Boundary StateInFlight, rw_Attempts := rw_Attempts r + 1\<rparr>,
      update_where (\<lambda>x. rw_ID x = rw_ID r \<and> rw_State x = Boundary StateQueued)
        (\<lambda>x. x\<lparr>rw_State := Boundary StateInFlight, rw_Attempts := rw_Attempts x + 1,
          rw_Note := ''claimed for fixture boundary'', fx_updated_at := timeArg dia now\<rparr>) ?rows)"
      using one by (simp add: claimNext_def Let_def Some)
    have r': "\<exists>r' \<in> set (update_where (\<lambda>x. rw_ID x = rw_ID r \<and> rw_State x = Boundary StateQueued)
        (\<lambda>x. x\<lparr>rw_State := Boundary StateInFlight, rw_Attempts := rw_Attempts x + 1,
          rw_Note := ''claimed for fixture boundary'', fx_updated_at := timeArg dia now\<rparr>) ?rows).
        row_le r r' \<and> rw_State r' = Boundary StateInFlight \<and> rw_Attempts r' = rw_Attempts r + 1"
      unfolding set_update_where using m st by (intro bexI [OF _ imageI [of r]]) (auto simp: row_le_def)
    show ?thesis unfolding c using m r' by fastforce
  qed
qed

text \<open>
  Claiming is fair and exclusive: it is empty-handed exactly when, after stale claims have
  been reclaimed, no row is due; otherwise it takes a due row that no due row precedes in the order
  of next attempt and creation, and leaves that row in flight with one more attempt.
\<close>

theorem queue_claim_fair:
  assumes keys: "row_keys rows"
  shows "(claimNext dia locked now rows = Inl ErrEmpty \<longleftrightarrow> (\<forall>r \<in> set (queue_reclaim dia now rows). \<not> is_due dia locked now r))
     \<and> (\<forall>row rows'. claimNext dia locked now rows = Inr (row, rows') \<longrightarrow>
          (\<exists>r \<in> set (queue_reclaim dia now rows). is_due dia locked now r
             \<and> (\<forall>r2 \<in> set (queue_reclaim dia now rows). is_due dia locked now r2 \<longrightarrow>
                  (fx_next_attempt_at r, fx_created_at r) \<le> (fx_next_attempt_at r2, fx_created_at r2))
             \<and> rw_ID row = rw_ID r \<and> rw_Attempts row = rw_Attempts r + 1
             \<and> (\<exists>r' \<in> set rows'. row_le r r' \<and> rw_State r' = Boundary StateInFlight \<and> rw_Attempts r' = rw_Attempts r + 1)))"
  by (rule queue_claim_fair_rule [OF keys])

end
