(* ===== verification/FeFixQueueExamples.thy ===== *)
theory FeFixQueueExamples
  imports FeFixQueueProperties
begin

text \<open>
  Retries of the fixture queue, concrete runs for its properties, and two runs in which the source
  does not do what it means to: a worker that outlives its claim, and a reconciliation that fails.
\<close>

section \<open>A sample environment\<close>

definition sample_payload :: payload where
  "sample_payload = \<lparr>pl_Software = None, pl_ObterEstado = Some \<lparr>oc_TaxRegistrationNumber = ''1'', oc_RequestID = ''2''\<rparr>,
     pl_Consultar = None\<rparr>"

definition sample_json :: payload_json where
  "sample_json = \<lparr>pj_Marshal = (\<lambda>_. ''{..}''), pj_Unmarshal = (\<lambda>_. Some sample_payload)\<rparr>"

definition sample_enqueue :: enqueue_input where
  "sample_enqueue = \<lparr>ei_Operation = ''obterEstado'', ei_IdentityRef = ''ref'', ei_IdempotencyKey = ''k'', ei_Payload = sample_payload\<rparr>"

definition sample_answer :: json_object where
  "sample_answer = Map.empty(''simulated'' \<mapsto> JBool True, ''mock'' \<mapsto> JString ''BWB-MOCK'', ''status'' \<mapsto> JString ''ok'',
     ''requestID'' \<mapsto> JString ''r1'')"

definition sample_answer_lib :: answer_lib where
  "sample_answer_lib = \<lparr>json_Unmarshal = (\<lambda>_. Some sample_answer), mime_ParseMediaType = Some\<rparr>"

definition sample_env :: "http_client \<Rightarrow> pass_env" where
  "sample_env http = \<lparr>pe_ctx = None, pe_lib = sample_answer_lib, pe_http = http, pe_newID = ''s1'', pe_now = (0, 0, 0, 0, 0)\<rparr>"

definition mock_up :: http_client where
  "mock_up q = Some \<lparr>hr_StatusCode = 200, hr_ContentType = ''application/json'', hr_Body = Some ''{..}''\<rparr>"

definition mock_down :: http_client where
  "mock_down q = None"

definition open_engine :: engine where
  "open_engine = sample_engine\<lparr>en_byID := Map.empty\<rparr>"

section \<open>Retries\<close>

lemma update_row:
  assumes "row_keys rows" "r \<in> set rows" "rw_ID r = i" "Q (f r)"
  shows "\<exists>r' \<in> set (update_where (\<lambda>r. rw_ID r = i) f rows). Q r'"
  unfolding set_update_where using assms(2-4) by force

lemma claimed_row:
  assumes keys: "row_keys rows" and c: "claimNext dia locked now rows = Inr (row, rows1)"
  shows "row_keys rows1 \<and> (\<exists>r \<in> set rows1. rw_ID r = rw_ID row \<and> rw_Attempts r = rw_Attempts row)"
proof -
  have "\<exists>r. rw_ID row = rw_ID (r :: fixture_row) \<and> rw_Attempts row = rw_Attempts r + 1
      \<and> (\<exists>r' \<in> set rows1. row_le r r' \<and> rw_Attempts r' = rw_Attempts r + 1)"
    using conjunct2 [OF queue_claim_fair_rule [OF keys]] c by metis
  then show ?thesis using claim_le_keys [OF keys c] by (auto simp: row_le_def)
qed

text \<open>
  A pass whose delivery fails keeps the submission: below five attempts the row is queued
  again, due five seconds later, and at five it is dead; the count is the one the claim made.
\<close>

theorem queue_pass_retries:
  assumes keys: "row_keys rows"
    and claim: "claimNext dia locked t1 rows = Inr (row, rows1)"
    and times: "pe_now env = (t1, t2, t3, t4, t5)"
    and payload: "parsePayload js (rw_PayloadJSON row) = Inr p"
    and fails: "fst (engine_pass env row p e) = res" "\<forall>s. res = Inr s \<longrightarrow> sb_State s = StateFailed"
  shows "\<exists>r \<in> set (snd (snd (ProcessNext js dia locked env (Some e) rows))).
     rw_ID r = rw_ID row \<and> rw_Attempts r = rw_Attempts row
     \<and> (if rw_Attempts row < 5
        then rw_State r = Boundary StateQueued \<and> fx_next_attempt_at r = timeArg dia (t5 + 5 * second)
        else rw_State r = StateDead)"
proof -
  obtain r where r: "row_keys rows1" "r \<in> set rows1" "rw_ID r = rw_ID row" "rw_Attempts r = rw_Attempts row"
    using claimed_row [OF keys claim] by blast
  obtain e' where pass: "engine_pass env row p e = (res, e')" using fails(1) by (metis prod.collapse)
  have done_by: ?thesis if "snd (snd (process_claimed js dia env row e rows1)) =
      (if rw_Attempts row < 5 then queue_requeue dia t5 (rw_ID row) n rows1
       else queue_finish dia t5 (rw_ID row) StateDead a b c d rows1)" for n a b c d
  proof -
    have "snd (snd (ProcessNext js dia locked env (Some e) rows)) = snd (snd (process_claimed js dia env row e rows1))"
      by (cases "process_claimed js dia env row e rows1") (auto simp: ProcessNext_def times claim)
    then show ?thesis
      unfolding that queue_requeue_def queue_finish_def
      by (cases "rw_Attempts row < 5") (auto intro!: update_row [OF r(1-3)] simp: r(3,4) queueUnavailableBackoff_def)
  qed
  show ?thesis
  proof (cases res)
    case (Inl err)
    show ?thesis
      by (rule done_by [of "''transport/sign failure (sanitized)''" "[]" "[]" "[]" "''transport/sign failure (sanitized); dead''"])
        (simp add: process_claimed_def times payload pass Inl handleTransportFailure_def defaultMaxAttempts_def Let_def)
  next
    case (Inr s)
    then have "sb_State s = StateFailed" using fails(2) by simp
    then show ?thesis
      by (intro done_by [of "sb_Note s @ ''; retry scheduled''" "sb_MockRequestID s" "sb_MockCode s" "sb_SourceID s"
            "''max attempts exhausted; '' @ neq_sign @ '' AGT''"])
        (simp add: process_claimed_def times payload pass Inr queue_settle_def isRetryableEngineState_def defaultMaxAttempts_def Let_def)
  qed
qed

section \<open>Runs\<close>

definition queued_rows :: "fixture_row list" where
  "queued_rows = snd (queue_Enqueue sample_json QueuePostgres False ''a'' 0 sample_enqueue [])"

definition the_row :: "queue_state \<Rightarrow> int \<Rightarrow> string \<Rightarrow> gotime \<Rightarrow> string \<Rightarrow> string \<Rightarrow> fixture_row" where
  "the_row st n note upd req code =
     \<lparr>rw_ID = ''a'', rw_Operation = ''obterEstado'', rw_State = st, rw_IdentityRef = ''ref'', rw_IdempotencyKey = ''k'',
      rw_PayloadJSON = ''{..}'', rw_Attempts = n, rw_MockRequestID = req, rw_MockCode = code, rw_SourceID = [],
      rw_Note = note, fx_next_attempt_at = StampTime 0, fx_created_at = StampTime 0, fx_updated_at = StampTime upd\<rparr>"

lemma queued_rows_eq: "queued_rows = [the_row (Boundary StateQueued) 0 queued_note 0 [] []]"
  by code_simp

definition ok_note :: string where "ok_note = ''fixture_boundary_ok '' @ neq_sign @ '' AGT homologation''"

lemma sample_strings:
  "strings_TrimSpace ''{..}'' = ''{..}''" "strings_TrimSpace ''r1'' = ''r1''"
  by code_simp+

lemmas pass_defs =
  engine_pass_def sample_env_def open_engine_def sample_engine_def feboundary_Enqueue_def is_operation_def OpSoftwareInfo_def
  OpObterEstado_def OpConsultarFactura_def Process_boundary_def process_begin_def new_submission_def boundary_outcome_def
  boundary_sign_def postMock_def boundary_finish_def sample_payload_def sample_answer_lib_def the_row_def scan_row_def row.defs

lemma pass_up:
  "\<exists>s e'. engine_pass (sample_env mock_up) (scan_row (the_row st n note u req code)) sample_payload open_engine = (Inr s, e')
     \<and> sb_State s = StateOK \<and> sb_MockRequestID s = ''r1'' \<and> sb_MockCode s = ''ok'' \<and> sb_SourceID s = [] \<and> sb_Note s = ok_note"
  by (simp add: pass_defs mock_up_def sample_strings classify_answer_def classifyMockBody_def sample_answer_def json_string_def
      json_bool_def strings_EqualFold_def assertMockSuccess_def isMockEnvelope_def TypMock_def ok_note_def Let_def)

text \<open>A worker claims, is slow for 31 seconds, and a second worker reclaims the row and finishes it.\<close>

definition slow_run :: "queue_event list" where
  "slow_run =
     [QEnqueue sample_json QueuePostgres False ''a'' 0 sample_enqueue,
      QClaim QueuePostgres [] 0, QClaim QueuePostgres [] (31 * second),
      QSettle 1 sample_json QueuePostgres (sample_env mock_up) open_engine]"

definition claimed_note :: string where "claimed_note = ''claimed for fixture boundary''"

lemma pass_down:
  "\<exists>s e'. engine_pass (sample_env mock_down) (scan_row (the_row st n note u req code)) sample_payload open_engine = (Inr s, e')
     \<and> sb_State s = StateFailed"
  by (simp add: pass_defs mock_down_def Let_def)

lemma first_claim:
  "claimNext QueuePostgres [] 0 [the_row (Boundary StateQueued) 0 queued_note 0 [] []] =
     Inr (scan_row (the_row (Boundary StateInFlight) 1 queued_note 0 [] []),
          [the_row (Boundary StateInFlight) 1 claimed_note 0 [] []])"
  by (simp add: claimNext_def queue_reclaim_def is_stale_def first_min_def is_due_def timeArg_def trunc_us_def
      the_row_def scan_row_def row.defs claimed_note_def Let_def)

lemma second_claim:
  "claimNext QueuePostgres [] (31 * second) [the_row (Boundary StateInFlight) 1 claimed_note 0 [] []] =
     Inr (scan_row (the_row (Boundary StateInFlight) 2 ''reclaimed stale in_flight'' (31 * second) [] []),
          [the_row (Boundary StateInFlight) 2 claimed_note (31 * second) [] []])"
  by (simp add: claimNext_def queue_reclaim_def is_stale_def first_min_def is_due_def timeArg_def trunc_us_def
      the_row_def scan_row_def row.defs claimed_note_def Let_def second_def defaultInFlightReclaim_def)

lemma settle_up:
  "snd (snd (process_claimed sample_json QueuePostgres (sample_env mock_up) (scan_row (the_row st n note u req code)) open_engine
      [the_row st' n' note' u' req' code'])) = [the_row (Boundary StateOK) n' ok_note 0 ''r1'' ''ok'']"
proof -
  obtain s e' where s: "engine_pass (sample_env mock_up) (scan_row (the_row st n note u req code)) sample_payload open_engine = (Inr s, e')"
    "sb_State s = StateOK" "sb_MockRequestID s = ''r1''" "sb_MockCode s = ''ok''" "sb_SourceID s = []" "sb_Note s = ok_note"
    using pass_up by blast
  have "pe_now (sample_env mock_up) = (0, 0, 0, 0, 0)" by (simp add: sample_env_def)
  then show ?thesis
    by (simp add: process_claimed_def s parsePayload_def sample_json_def queue_settle_def isRetryableEngineState_def Let_def
        queue_finish_def timeArg_def trunc_us_def) (simp add: the_row_def scan_row_def row.defs)
qed


lemma slow_run_state:
  "fold queue_step slow_run queue_start =
     \<lparr>qw_rows = [the_row (Boundary StateOK) 2 ok_note 0 ''r1'' ''ok''],
      qw_held = [scan_row (the_row (Boundary StateInFlight) 1 queued_note 0 [] [])], qw_read = [], qw_reclaimed = [''a'']\<rparr>"
proof -
  have "filter (is_stale QueuePostgres 0) [the_row (Boundary StateQueued) 0 queued_note 0 [] []] = []"
    "map rw_ID (filter (is_stale QueuePostgres (31 * second)) [the_row (Boundary StateInFlight) 1 claimed_note 0 [] []]) = [''a'']"
    by (simp_all add: is_stale_def the_row_def timeArg_def trunc_us_def second_def defaultInFlightReclaim_def)
  then show ?thesis
    using queued_rows_eq by (simp add: slow_run_def queue_start_def queued_rows_def first_claim second_claim settle_up)
qed


text \<open>
  A reconciliation that cannot reach the mock wipes what the successful submission had
  recorded: the row stays successful and loses its request identifier and code.
\<close>

theorem failed_reconcile_wipes:
  "map (\<lambda>r. (rw_State r, rw_MockRequestID r, rw_MockCode r)) (qw_rows (fold queue_step slow_run queue_start))
     = [(Boundary StateOK, ''r1'', ''ok'')]
   \<and> map (\<lambda>r. (rw_State r, rw_MockRequestID r, rw_MockCode r))
       (snd (snd (ReconcileObterEstado QueuePostgres (sample_env mock_down) (Some open_engine) ''a'' ''ref'' ''r1'' ''1''
          (qw_rows (fold queue_step slow_run queue_start)))))
     = [(Boundary StateOK, [], [])]"
proof -
  have get: "queue_Get ''a'' [the_row (Boundary StateOK) 2 ok_note 0 ''r1'' ''ok''] = Inr (scan_row (the_row (Boundary StateOK) 2 ok_note 0 ''r1'' ''ok''))"
    by (simp add: queue_Get_def the_row_def)
  show ?thesis
    by (simp add: slow_run_state ReconcileObterEstado_def get)
      (simp add: pass_defs mock_down_def Let_def reconcile_write_def queue_finish_def)
qed

section \<open>Witnesses\<close>

definition quick_run :: "queue_event list" where
  "quick_run =
     [QEnqueue sample_json QueuePostgres False ''a'' 0 sample_enqueue, QClaim QueuePostgres [] 0,
      QSettle 0 sample_json QueuePostgres (sample_env mock_up) open_engine]"

lemma quick_run_rows: "qw_rows (fold timely_step quick_run queue_start) = [the_row (Boundary StateOK) 1 ok_note 0 ''r1'' ''ok'']"
proof -
  have "filter (is_stale QueuePostgres 0) [the_row (Boundary StateQueued) 0 queued_note 0 [] []] = []"
    by (simp add: is_stale_def the_row_def)
  moreover have "holds_claim (scan_row (the_row (Boundary StateInFlight) 1 queued_note 0 [] []))
      [the_row (Boundary StateInFlight) 1 claimed_note 0 [] []]"
    by (simp add: holds_claim_def the_row_def)
  ultimately show ?thesis
    using queued_rows_eq
    by (simp add: timely_step_def quick_run_def queue_start_def queued_rows_def first_claim settle_up)
qed

lemma quick_run_row:
  "the_row (Boundary StateOK) 1 ok_note 0 ''r1'' ''ok'' \<in> set (qw_rows (fold timely_step quick_run queue_start))"
  by (simp add: quick_run_rows)


lemma queue_attempts_bounded_witness:
  "0 \<le> rw_Attempts (the_row (Boundary StateOK) 1 ok_note 0 ''r1'' ''ok'')"
  using queue_attempts_bounded [OF quick_run_row] by blast

lemma queue_claim_fair_witness:
  "claimNext QueuePostgres [] 0 queued_rows \<noteq> Inl ErrEmpty
   \<and> (claimNext QueuePostgres [] 0 queued_rows = Inl ErrEmpty \<longleftrightarrow>
       (\<forall>r \<in> set (queue_reclaim QueuePostgres 0 queued_rows). \<not> is_due QueuePostgres [] 0 r))"
proof -
  have "row_keys queued_rows" by (simp add: queued_rows_eq row_keys_def)
  from queue_claim_fair [OF this, of QueuePostgres "[]" 0] show ?thesis
    using first_claim by (simp add: queued_rows_eq)
qed

lemma sample_enqueue_first:
  "queue_Enqueue sample_json QueuePostgres False ''a'' 0 sample_enqueue (qw_rows (fold queue_step [] queue_start))
     = (Inr (scan_row (the_row (Boundary StateQueued) 0 queued_note 0 [] [])), queued_rows)"
proof -
  have "fst (queue_Enqueue sample_json QueuePostgres False ''a'' 0 sample_enqueue [])
      = Inr (scan_row (the_row (Boundary StateQueued) 0 queued_note 0 [] []))"
    by code_simp
  then show ?thesis by (simp add: queue_start_def queued_rows_def prod_eq_iff)
qed

lemma sample_valid:
  "strings_TrimSpace (ei_IdentityRef sample_enqueue) \<noteq> []"
  "Payload_Validate (strings_TrimSpace (ei_Operation sample_enqueue)) (ei_Payload sample_enqueue) = Inr ()"
  "payload_marshal sample_json (ei_Payload sample_enqueue) = Inr ''{..}''"
  by code_simp+

lemma queue_enqueue_idempotent_witness:
  "\<exists>row2. queue_Enqueue sample_json QueuePostgres False ''b'' 7 sample_enqueue (qw_rows (fold queue_step slow_run queue_start))
       = (Inr row2, qw_rows (fold queue_step slow_run queue_start)) \<and> rw_ID row2 = ''a''"
proof -
  have "slow_run = [] @ QEnqueue sample_json QueuePostgres False ''a'' 0 sample_enqueue # tl slow_run"
    by (simp add: slow_run_def)
  then have later: "qw_rows (fold queue_step slow_run queue_start) = qw_rows (fold queue_step
      ([] @ QEnqueue sample_json QueuePostgres False ''a'' 0 sample_enqueue # tl slow_run) queue_start)" by simp
  have "rw_ID (the_row (Boundary StateQueued) 0 queued_note 0 [] []) = ''a''" by (simp add: the_row_def)
  then show ?thesis
    using queue_enqueue_idempotent [OF sample_enqueue_first later refl refl sample_valid, of QueuePostgres "''b''" 7] by auto
qed

lemma queue_pass_retries_witness:
  "\<exists>r \<in> set (snd (snd (ProcessNext sample_json QueuePostgres [] (sample_env mock_down) (Some open_engine) queued_rows))).
     rw_State r = Boundary StateQueued \<and> fx_next_attempt_at r = timeArg QueuePostgres (0 + 5 * second)"
proof -
  let ?row = "scan_row (the_row (Boundary StateInFlight) 1 queued_note 0 [] [])"
  have 1: "row_keys queued_rows" by (simp add: queued_rows_eq row_keys_def)
  have 2: "claimNext QueuePostgres [] 0 queued_rows = Inr (?row, [the_row (Boundary StateInFlight) 1 claimed_note 0 [] []])"
    by (simp add: queued_rows_eq first_claim)
  have 3: "pe_now (sample_env mock_down) = (0, 0, 0, 0, 0)" by (simp add: sample_env_def)
  have 4: "parsePayload sample_json (rw_PayloadJSON ?row) = Inr sample_payload"
    by (simp add: parsePayload_def sample_json_def)
  have 5: "\<forall>s. fst (engine_pass (sample_env mock_down) ?row sample_payload open_engine) = Inr s \<longrightarrow> sb_State s = StateFailed"
    using pass_down [of "Boundary StateInFlight" 1 queued_note 0 "[]" "[]"] by auto
  have "rw_Attempts ?row < 5" by (simp add: the_row_def)
  then show ?thesis using queue_pass_retries [OF 1 2 3 4 refl 5] by auto
qed

section \<open>Text timestamps in SQLite\<close>

lemma rfc_whole_second: "format_rfc3339nano 0 0 = ''1970-01-01T00:00:00Z''"
  by code_simp

lemma rfc_half_second: "format_rfc3339nano 500000000 0 = ''1970-01-01T00:00:00.5Z''"
proof -
  have nine: "(9 :: nat) = Suc (Suc (Suc (Suc (Suc (Suc (Suc (Suc (Suc (0)))))))))" by simp
  have five: "digit_char 5 = CHR ''5''" by code_simp
  have pad: "pad_digits 9 500000000 = ''500000000''"
    unfolding nine by (simp add: five)
  have "civil_of_time 500000000 = (civil_of_time 0)\<lparr>cv_nano := 500000000\<rparr>"
    by (simp add: civil_of_time_def second_def Let_def split: prod.split)
  moreover have "trim_right_char CHR ''0'' ''500000000'' = ''5''" "format_seconds (civil_of_time 0) = ''1970-01-01T00:00:00''"
    by code_simp+
  ultimately show ?thesis
    by (simp add: format_rfc3339nano_def Let_def second_def pad go_quot_def) (simp add: format_seconds_def)
qed

text \<open>
  In SQLite a queued row can be due and not be claimed: timestamps are compared as RFC 3339
  text without trailing zeros, in which a whole second comes after the fractions of that second.
  Postgres, which compares instants, claims the same row.
\<close>

theorem sqlite_misses_due_row:
  "is_due QueuePostgres [] (second div 2) (new_fixture_row QueuePostgres ''a'' 0 ''obterEstado'' ''ref'' ''k'' ''{..}'')
   \<and> \<not> is_due QueueSQLite [] (second div 2) (new_fixture_row QueueSQLite ''a'' 0 ''obterEstado'' ''ref'' ''k'' ''{..}'')"
proof -
  have "\<not> TextTime ''1970-01-01T00:00:00Z'' \<le> TextTime ''1970-01-01T00:00:00.5Z''" by code_simp
  then show ?thesis
    by (simp add: is_due_def new_fixture_row_def timeArg_def trunc_us_def second_def rfc_whole_second rfc_half_second)
qed

end
