(* ===== verification/Credentials.thy ===== *)
theory Credentials
  imports FiscalDb
begin

text \<open>
  Scopes, API credentials and their audit trail (\<^verbatim>\<open>internal/persistence/credentials.go\<close>, migration
  0003). A mutation is one transaction over the tables: it commits whole or not at all. Clock
  readings, drawn identifiers and token entropy are arguments; SHA-256 is a parameter; the token sink
  is a function that accepts or refuses the token. Failures of the connection are not modelled.
\<close>

section \<open>Tables\<close>

datatype cred_status = CredActive | CredGrace | CredRevoked

datatype cred_error =
  CredValidation string string | ErrScopeNotFound | ErrCredentialNotFound | ErrNoActiveCredential
| ErrCredentialConflict | ErrInvalidCredentialState | CredConstraint | TokenDeliverError | ParseTimeError

record scope_row =
  sp_scope_id :: string
  sp_taxpayer_nif :: string
  sp_iana_timezone :: string
  sp_series_effective_code :: string
  sp_environment :: string
  sp_status :: string
  sp_created_at :: sql_time

record credential_row =
  cr_id :: string
  cr_scope :: string
  cr_token_hash :: string
  cr_status :: cred_status
  cr_expires_at :: "sql_time option"
  cr_grace_until :: "sql_time option"
  cr_rotated_from :: "string option"
  cr_revoked_at :: "sql_time option"
  cr_created_at :: sql_time
  cr_created_by :: string

record audit_row =
  au_event_id :: string
  au_occurred_at :: sql_time
  au_credential_id :: "string option"
  au_scope_id :: "string option"
  au_action :: string
  au_result :: string
  au_reason_code :: "string option"
  au_request_id :: "string option"

record cred_db =
  scopes :: "scope_row list"
  api_credentials :: "credential_row list"
  audit_events :: "audit_row list"

definition has_scope :: "string \<Rightarrow> cred_db \<Rightarrow> bool" where
  "has_scope i db \<longleftrightarrow> list_ex (\<lambda>s. sp_scope_id s = i) (scopes db)"

definition scope_check :: "scope_row \<Rightarrow> bool" where
  "scope_check s \<longleftrightarrow>
     sql_nonempty (sp_scope_id s) \<and> sql_nonempty (sp_taxpayer_nif s) \<and> sql_nonempty (sp_iana_timezone s)
     \<and> sql_nonempty (sp_series_effective_code s) \<and> sp_environment s \<in> {''homologation'', ''development''}
     \<and> sp_status s \<in> {''active'', ''inactive''}"

definition credential_check :: "credential_row \<Rightarrow> bool" where
  "credential_check c \<longleftrightarrow>
     length (cr_token_hash c) = 32 \<and> sql_nonempty (cr_created_by c)
     \<and> (cr_status c = CredRevoked \<longleftrightarrow> cr_revoked_at c \<noteq> None)
     \<and> (cr_status c = CredGrace \<longrightarrow> cr_grace_until c \<noteq> None)
     \<and> cr_rotated_from c \<noteq> Some (cr_id c)"

text \<open>The unique keys and the two partial unique indexes.\<close>

definition with_status :: "cred_status \<Rightarrow> credential_row list \<Rightarrow> string list" where
  "with_status st rows = map cr_scope (filter (\<lambda>c. cr_status c = st) rows)"

definition credential_unique :: "credential_row list \<Rightarrow> bool" where
  "credential_unique rows \<longleftrightarrow>
     distinct (map cr_id rows) \<and> distinct (map cr_token_hash rows)
     \<and> distinct (with_status CredActive rows) \<and> distinct (with_status CredGrace rows)"

definition credential_fk :: "credential_row \<Rightarrow> cred_db \<Rightarrow> bool" where
  "credential_fk c db \<longleftrightarrow>
     has_scope (cr_scope c) db
     \<and> (case cr_rotated_from c of
          None \<Rightarrow> True
        | Some i \<Rightarrow> list_ex (\<lambda>x. cr_id x = i \<and> cr_scope x = cr_scope c) (api_credentials db))"

text \<open>An update statement fails as a whole when a row it leaves violates a constraint.\<close>

definition update_credentials ::
  "(credential_row \<Rightarrow> bool) \<Rightarrow> (credential_row \<Rightarrow> credential_row) \<Rightarrow> cred_db \<Rightarrow> cred_error + cred_db" where
  "update_credentials P f db =
     (let rows = update_where P f (api_credentials db)
      in if list_all credential_check rows \<and> credential_unique rows
         then Inr (db\<lparr>api_credentials := rows\<rparr>) else Inl CredConstraint)"

section \<open>Values\<close>

definition stamp :: "dialect \<Rightarrow> gotime \<Rightarrow> sql_time" where
  "stamp dia t = (if dia = DialectPostgres then StampTime t else TextTime (format_utc_micro t))"

definition parseUTCMicro :: "string \<Rightarrow> cred_error + gotime" where
  "parseUTCMicro s =
     (case parse_utc_micro s of
        Some t \<Rightarrow> Inr t
      | None \<Rightarrow> (case parse_rfc3339 s of Some (t, _) \<Rightarrow> Inr t | None \<Rightarrow> Inl ParseTimeError))"

definition read_time :: "sql_time \<Rightarrow> cred_error + gotime" where
  "read_time v = (case v of StampTime t \<Rightarrow> Inr t | TextTime s \<Rightarrow> parseUTCMicro s)"

definition read_null_time :: "sql_time option \<Rightarrow> cred_error + gotime option" where
  "read_null_time v =
     (case v of None \<Rightarrow> Inr None | Some x \<Rightarrow> bind_result (read_time x) (\<lambda>t. Inr (Some t)))"

definition nullStr :: "string \<Rightarrow> string option" where
  "nullStr s = (if s = [] then None else Some s)"

text \<open>\<^verbatim>\<open>time.Time{}\<close>, 1 January of year 1.\<close>

definition zero_time :: gotime where
  "zero_time = - 62135596800 * second"

definition CredentialTokenPrefix :: string where "CredentialTokenPrefix = ''bwb_sbox_''"

definition CredentialTokenExactLen :: nat where
  "CredentialTokenExactLen = length CredentialTokenPrefix + 43"

definition base64url_char :: "nat \<Rightarrow> char" where
  "base64url_char n =
     (if n < 26 then char_of (65 + n) else if n < 52 then char_of (71 + n) else if n < 62 then digit_char (n - 52)
      else if n = 62 then CHR ''-'' else CHR ''_'')"

text \<open>\<^verbatim>\<open>base64.RawURLEncoding\<close>: groups of three bytes, no padding.\<close>

fun base64_RawURL :: "string \<Rightarrow> string" where
  "base64_RawURL (a # b # c # r) =
     (let n = of_char a * 65536 + of_char b * 256 + (of_char c :: nat)
      in base64url_char (n div 262144) # base64url_char (n div 4096 mod 64) # base64url_char (n div 64 mod 64)
         # base64url_char (n mod 64) # base64_RawURL r)"
| "base64_RawURL [a, b] =
     (let n = of_char a * 256 + (of_char b :: nat)
      in [base64url_char (n div 1024), base64url_char (n div 16 mod 64), base64url_char (n mod 16 * 4)])"
| "base64_RawURL [a] = (let n = (of_char a :: nat) in [base64url_char (n div 4), base64url_char (n mod 4 * 16)])"
| "base64_RawURL [] = []"

definition generateCredentialToken :: "(string \<Rightarrow> string) \<Rightarrow> string \<Rightarrow> string \<times> string" where
  "generateCredentialToken sha256 raw =
     (let token = CredentialTokenPrefix @ base64_RawURL raw in (token, sha256 token))"

definition HashCredentialToken :: "(string \<Rightarrow> string) \<Rightarrow> string \<Rightarrow> string" where
  "HashCredentialToken sha256 token = sha256 token"

section \<open>Records returned to callers\<close>

record scope_record =
  sr_ScopeID :: string
  sr_TaxpayerNIF :: string
  sr_IANATimezone :: string
  sr_SeriesEffectiveCode :: string
  sr_Environment :: string
  sr_Status :: string
  sr_CreatedAt :: gotime

record credential_record =
  cd_CredentialID :: string
  cd_ScopeID :: string
  cd_Status :: cred_status
  cd_ExpiresAt :: "gotime option"
  cd_GraceUntil :: "gotime option"
  cd_RotatedFrom :: "string option"
  cd_RevokedAt :: "gotime option"
  cd_CreatedAt :: gotime
  cd_CreatedBy :: string

record credential_auth_record =
  ca_CredentialID :: string
  ca_ScopeID :: string
  ca_Status :: cred_status
  ca_ExpiresAt :: "gotime option"
  ca_GraceUntil :: "gotime option"
  ca_RevokedAt :: "gotime option"
  ca_ScopeStatus :: string
  ca_ScopeEnvironment :: string
  ca_TaxpayerNIF :: string
  ca_IANATimezone :: string
  ca_SeriesEffectiveCode :: string

section \<open>Scopes\<close>

record create_scope_params =
  sc_ScopeID :: string
  sc_TaxpayerNIF :: string
  sc_IANATimezone :: string
  sc_SeriesEffectiveCode :: string
  sc_Environment :: string

definition CreateScope ::
  "dialect \<Rightarrow> gotime \<Rightarrow> create_scope_params \<Rightarrow> cred_db \<Rightarrow> (cred_error + scope_record) \<times> cred_db" where
  "CreateScope dia clock p db =
     (let i = strings_TrimSpace (sc_ScopeID p); nif = strings_TrimSpace (sc_TaxpayerNIF p);
          tz = strings_TrimSpace (sc_IANATimezone p); series = strings_TrimSpace (sc_SeriesEffectiveCode p);
          env = strings_TrimSpace (sc_Environment p)
      in if i = [] then (Inl (CredValidation ''scope_id'' ''required''), db)
         else if nif = [] then (Inl (CredValidation ''taxpayer_nif'' ''required''), db)
         else if tz = [] then (Inl (CredValidation ''iana_timezone'' ''required''), db)
         else if series = [] then (Inl (CredValidation ''series_effective_code'' ''required''), db)
         else if env \<noteq> ''homologation'' \<and> env \<noteq> ''development'' then (Inl (CredValidation ''environment'' ''invalid''), db)
         else
           let now = trunc_us clock;
               s = \<lparr>sp_scope_id = i, sp_taxpayer_nif = nif, sp_iana_timezone = tz, sp_series_effective_code = series,
                    sp_environment = env, sp_status = ''active'', sp_created_at = stamp dia now\<rparr>
           in if \<not> scope_check s \<or> has_scope i db then (Inl CredConstraint, db)
              else (Inr \<lparr>sr_ScopeID = i, sr_TaxpayerNIF = nif, sr_IANATimezone = tz, sr_SeriesEffectiveCode = series,
                         sr_Environment = env, sr_Status = ''active'', sr_CreatedAt = now\<rparr>,
                    db\<lparr>scopes := scopes db @ [s]\<rparr>))"

definition GetScope :: "string \<Rightarrow> cred_db \<Rightarrow> cred_error + scope_record" where
  "GetScope scopeID db =
     (let i = strings_TrimSpace scopeID
      in if i = [] then Inl ErrScopeNotFound
         else case find (\<lambda>s. sp_scope_id s = i) (scopes db) of
           None \<Rightarrow> Inl ErrScopeNotFound
         | Some s \<Rightarrow> bind_result (read_time (sp_created_at s)) (\<lambda>t.
             Inr \<lparr>sr_ScopeID = i, sr_TaxpayerNIF = sp_taxpayer_nif s, sr_IANATimezone = sp_iana_timezone s,
                  sr_SeriesEffectiveCode = sp_series_effective_code s, sr_Environment = sp_environment s,
                  sr_Status = sp_status s, sr_CreatedAt = t\<rparr>))"

section \<open>Statements inside a transaction\<close>

text \<open>The empty string stands for no row, as in the source.\<close>

definition findStatusID :: "string \<Rightarrow> cred_status \<Rightarrow> cred_db \<Rightarrow> string" where
  "findStatusID scopeID st db =
     (case find (\<lambda>c. cr_scope c = scopeID \<and> cr_status c = st) (api_credentials db) of
        None \<Rightarrow> [] | Some c \<Rightarrow> cr_id c)"

definition credentialStatus :: "string \<Rightarrow> string \<Rightarrow> cred_db \<Rightarrow> cred_status option" where
  "credentialStatus scopeID i db =
     map_option cr_status (find (\<lambda>c. cr_id c = i \<and> cr_scope c = scopeID) (api_credentials db))"

definition getCredential :: "string \<Rightarrow> string \<Rightarrow> cred_db \<Rightarrow> cred_error + credential_record" where
  "getCredential scopeID i db =
     (case find (\<lambda>c. cr_id c = i \<and> cr_scope c = scopeID) (api_credentials db) of
        None \<Rightarrow> Inl ErrCredentialNotFound
      | Some c \<Rightarrow>
          bind_result (read_time (cr_created_at c)) (\<lambda>created.
          bind_result (read_null_time (cr_expires_at c)) (\<lambda>expires.
          bind_result (read_null_time (cr_grace_until c)) (\<lambda>grace.
          bind_result (read_null_time (cr_revoked_at c)) (\<lambda>revoked.
            Inr \<lparr>cd_CredentialID = i, cd_ScopeID = scopeID, cd_Status = cr_status c, cd_ExpiresAt = expires,
                 cd_GraceUntil = grace, cd_RotatedFrom = cr_rotated_from c, cd_RevokedAt = revoked,
                 cd_CreatedAt = created, cd_CreatedBy = cr_created_by c\<rparr>)))))"

record insert_args =
  ia_CredentialID :: string
  ia_ScopeID :: string
  ia_TokenHash :: string
  ia_Status :: cred_status
  ia_ExpiresAt :: "gotime option"
  ia_RotatedFrom :: "string option"
  ia_CreatedAt :: gotime
  ia_CreatedBy :: string

definition credential_of_args :: "dialect \<Rightarrow> insert_args \<Rightarrow> credential_row" where
  "credential_of_args dia a =
     \<lparr>cr_id = ia_CredentialID a, cr_scope = ia_ScopeID a, cr_token_hash = ia_TokenHash a, cr_status = ia_Status a,
      cr_expires_at = map_option (\<lambda>t. stamp dia (trunc_us t)) (ia_ExpiresAt a), cr_grace_until = None,
      cr_rotated_from = ia_RotatedFrom a, cr_revoked_at = None, cr_created_at = stamp dia (ia_CreatedAt a),
      cr_created_by = ia_CreatedBy a\<rparr>"

text \<open>Every violated unique key is mapped to \<open>ErrCredentialConflict\<close> by \<^verbatim>\<open>mapCredentialConflict\<close>.\<close>

definition insertCredential :: "dialect \<Rightarrow> insert_args \<Rightarrow> cred_db \<Rightarrow> cred_error + credential_record \<times> cred_db" where
  "insertCredential dia a db =
     (let c = credential_of_args dia a; rows = api_credentials db @ [c]
      in if \<not> credential_check c then Inl CredConstraint
         else if \<not> credential_unique rows then Inl ErrCredentialConflict
         else if \<not> credential_fk c db then Inl CredConstraint
         else Inr (\<lparr>cd_CredentialID = ia_CredentialID a, cd_ScopeID = ia_ScopeID a, cd_Status = ia_Status a,
                    cd_ExpiresAt = ia_ExpiresAt a, cd_GraceUntil = None, cd_RotatedFrom = ia_RotatedFrom a,
                    cd_RevokedAt = None, cd_CreatedAt = ia_CreatedAt a, cd_CreatedBy = ia_CreatedBy a\<rparr>,
                   db\<lparr>api_credentials := rows\<rparr>))"

definition markRevoked :: "string \<Rightarrow> string \<Rightarrow> sql_time \<Rightarrow> cred_db \<Rightarrow> cred_error + cred_db" where
  "markRevoked scopeID i nowArg db =
     (let hit = (\<lambda>c. cr_id c = i \<and> cr_scope c = scopeID \<and> cr_status c \<noteq> CredRevoked)
      in bind_result (update_credentials hit
             (\<lambda>c. c\<lparr>cr_status := CredRevoked, cr_revoked_at := Some nowArg, cr_grace_until := None\<rparr>) db)
           (\<lambda>db'. if filter hit (api_credentials db) = [] then Inl ErrCredentialNotFound else Inr db'))"

record audit_event =
  ae_OccurredAt :: gotime
  ae_CredentialID :: "string option"
  ae_ScopeID :: "string option"
  ae_Action :: string
  ae_Result :: string
  ae_ReasonCode :: "string option"
  ae_RequestID :: "string option"

definition nullStrPtr :: "string option \<Rightarrow> string option" where
  "nullStrPtr p = (case p of None \<Rightarrow> None | Some s \<Rightarrow> nullStr s)"

definition writeAudit :: "dialect \<Rightarrow> string \<Rightarrow> audit_event \<Rightarrow> cred_db \<Rightarrow> cred_error + cred_db" where
  "writeAudit dia eventID ev db =
     (let r = \<lparr>au_event_id = eventID, au_occurred_at = stamp dia (ae_OccurredAt ev),
            au_credential_id = nullStrPtr (ae_CredentialID ev), au_scope_id = nullStrPtr (ae_ScopeID ev),
            au_action = ae_Action ev, au_result = ae_Result ev, au_reason_code = nullStrPtr (ae_ReasonCode ev),
            au_request_id = nullStrPtr (ae_RequestID ev)\<rparr>
      in if \<not> sql_nonempty (au_action r) \<or> \<not> sql_nonempty (au_result r)
           \<or> list_ex (\<lambda>x. au_event_id x = eventID) (audit_events db)
         then Inl CredConstraint
         else Inr (db\<lparr>audit_events := audit_events db @ [r]\<rparr>))"

definition withScopeTx ::
  "gotime \<Rightarrow> string \<Rightarrow> (gotime \<Rightarrow> cred_db \<Rightarrow> cred_error + 'a \<times> cred_db) \<Rightarrow> cred_db \<Rightarrow> (cred_error + 'a) \<times> cred_db" where
  "withScopeTx clock scopeID fn db =
     (if \<not> has_scope scopeID db then (Inl ErrScopeNotFound, db)
      else case fn (trunc_us clock) db of
        Inl e \<Rightarrow> (Inl e, db)
      | Inr (v, db') \<Rightarrow> (Inr v, db'))"

section \<open>Issue, Rotate, Revoke\<close>

type_synonym token_sink = "(string \<Rightarrow> bool) option"  \<comment> \<open>None is nil; True is success\<close>

record issue_params =
  is_ScopeID :: string
  is_CreatedBy :: string
  is_ExpiresAt :: "gotime option"
  is_RequestID :: string
  is_Deliver :: token_sink

text \<open>What a mutation draws: the credential id, the audit id, and 32 bytes of token entropy.\<close>

record cred_draw =
  dr_credID :: string
  dr_eventID :: string
  dr_raw :: string

definition audit_ok :: "gotime \<Rightarrow> string \<Rightarrow> string \<Rightarrow> string \<Rightarrow> string \<Rightarrow> string \<Rightarrow> audit_event" where
  "audit_ok now action credID scopeID reason requestID =
     \<lparr>ae_OccurredAt = now, ae_CredentialID = Some credID, ae_ScopeID = Some scopeID, ae_Action = action,
      ae_Result = ''success'', ae_ReasonCode = nullStr reason, ae_RequestID = nullStr requestID\<rparr>"

definition issue_tx ::
  "(string \<Rightarrow> string) \<Rightarrow> dialect \<Rightarrow> cred_draw \<Rightarrow> string \<Rightarrow> string \<Rightarrow> gotime option \<Rightarrow> string \<Rightarrow> (string \<Rightarrow> bool)
   \<Rightarrow> gotime \<Rightarrow> cred_db \<Rightarrow> cred_error + credential_record \<times> cred_db" where
  "issue_tx sha256 dia dr scopeID createdBy expiresAt requestID sink now db =
     (if findStatusID scopeID CredActive db \<noteq> [] then Inl ErrCredentialConflict
      else case generateCredentialToken sha256 (dr_raw dr) of (token, hash) \<Rightarrow>
        bind_result (insertCredential dia
            \<lparr>ia_CredentialID = dr_credID dr, ia_ScopeID = scopeID, ia_TokenHash = hash, ia_Status = CredActive,
             ia_ExpiresAt = expiresAt, ia_RotatedFrom = None, ia_CreatedAt = now, ia_CreatedBy = createdBy\<rparr> db) (\<lambda>(rec, db1).
          if \<not> sink token then Inl TokenDeliverError
          else bind_result (writeAudit dia (dr_eventID dr)
                 (audit_ok now ''credential.issue'' (dr_credID dr) scopeID [] requestID) db1) (\<lambda>db2. Inr (rec, db2))))"

definition Issue ::
  "(string \<Rightarrow> string) \<Rightarrow> dialect \<Rightarrow> gotime \<Rightarrow> cred_draw \<Rightarrow> issue_params \<Rightarrow> cred_db
   \<Rightarrow> (cred_error + credential_record) \<times> cred_db" where
  "Issue sha256 dia clock dr p db =
     (let scopeID = strings_TrimSpace (is_ScopeID p); createdBy = strings_TrimSpace (is_CreatedBy p);
          requestID = strings_TrimSpace (is_RequestID p)
      in if scopeID = [] then (Inl (CredValidation ''scope_id'' ''required''), db)
         else if createdBy = [] then (Inl (CredValidation ''created_by'' ''required''), db)
         else case is_Deliver p of
           None \<Rightarrow> (Inl (CredValidation ''deliver'' ''required''), db)
         | Some sink \<Rightarrow>
             withScopeTx clock scopeID
               (issue_tx sha256 dia dr scopeID createdBy (is_ExpiresAt p) requestID sink) db)"

record rotate_params =
  rt_ScopeID :: string
  rt_CreatedBy :: string
  rt_GraceUntil :: gotime
  rt_ExpiresAt :: "gotime option"
  rt_RequestID :: string
  rt_Deliver :: token_sink

definition demote_active :: "string \<Rightarrow> string \<Rightarrow> sql_time \<Rightarrow> cred_db \<Rightarrow> cred_error + cred_db" where
  "demote_active scopeID activeID graceUntilArg db =
     update_credentials (\<lambda>c. cr_id c = activeID \<and> cr_scope c = scopeID \<and> cr_status c = CredActive)
       (\<lambda>c. c\<lparr>cr_status := CredGrace, cr_grace_until := Some graceUntilArg, cr_revoked_at := None\<rparr>) db"

definition rotate_tx ::
  "(string \<Rightarrow> string) \<Rightarrow> dialect \<Rightarrow> cred_draw \<Rightarrow> string \<Rightarrow> string \<Rightarrow> gotime \<Rightarrow> gotime option \<Rightarrow> string \<Rightarrow> (string \<Rightarrow> bool)
   \<Rightarrow> gotime \<Rightarrow> cred_db \<Rightarrow> cred_error + (credential_record \<times> string) \<times> cred_db" where
  "rotate_tx sha256 dia dr scopeID createdBy graceUntil expiresAt requestID sink now db =
     (let activeID = findStatusID scopeID CredActive db
      in if activeID = [] then Inl ErrNoActiveCredential
         else
           let prevGrace = findStatusID scopeID CredGrace db
           in bind_result (if prevGrace \<noteq> [] then markRevoked scopeID prevGrace (stamp dia now) db else Inr db) (\<lambda>db1.
              bind_result (demote_active scopeID activeID (stamp dia graceUntil) db1) (\<lambda>db2.
              case generateCredentialToken sha256 (dr_raw dr) of (token, hash) \<Rightarrow>
              bind_result (insertCredential dia
                  \<lparr>ia_CredentialID = dr_credID dr, ia_ScopeID = scopeID, ia_TokenHash = hash, ia_Status = CredActive,
                   ia_ExpiresAt = expiresAt, ia_RotatedFrom = Some activeID, ia_CreatedAt = now, ia_CreatedBy = createdBy\<rparr> db2)
                (\<lambda>(rec, db3).
                   if \<not> sink token then Inl TokenDeliverError
                   else bind_result (writeAudit dia (dr_eventID dr)
                          (audit_ok now ''credential.rotate'' (dr_credID dr) scopeID [] requestID) db3)
                        (\<lambda>db4. Inr ((rec, activeID), db4))))))"

text \<open>The clock is read once for the validation and once in the transaction.\<close>

definition Rotate ::
  "(string \<Rightarrow> string) \<Rightarrow> dialect \<Rightarrow> gotime \<Rightarrow> gotime \<Rightarrow> cred_draw \<Rightarrow> rotate_params \<Rightarrow> cred_db
   \<Rightarrow> (cred_error + credential_record \<times> string) \<times> cred_db" where
  "Rotate sha256 dia clock1 clock2 dr p db =
     (let scopeID = strings_TrimSpace (rt_ScopeID p); createdBy = strings_TrimSpace (rt_CreatedBy p);
          requestID = strings_TrimSpace (rt_RequestID p)
      in if scopeID = [] then (Inl (CredValidation ''scope_id'' ''required''), db)
         else if createdBy = [] then (Inl (CredValidation ''created_by'' ''required''), db)
         else case rt_Deliver p of
           None \<Rightarrow> (Inl (CredValidation ''deliver'' ''required''), db)
         | Some sink \<Rightarrow>
             let now = trunc_us clock1; graceUntil = trunc_us (rt_GraceUntil p)
             in if graceUntil = zero_time then (Inl (CredValidation ''grace_until'' ''required''), db)
                else if \<not> now < graceUntil then (Inl (CredValidation ''grace_until'' ''not_future''), db)
                else withScopeTx clock2 scopeID
                       (rotate_tx sha256 dia dr scopeID createdBy graceUntil (rt_ExpiresAt p) requestID sink) db)"

record revoke_params =
  rv_ScopeID :: string
  rv_CredentialID :: string
  rv_RequestID :: string
  rv_ReasonCode :: string

definition revoke_tx ::
  "dialect \<Rightarrow> string \<Rightarrow> string \<Rightarrow> string \<Rightarrow> string \<Rightarrow> string \<Rightarrow> gotime \<Rightarrow> cred_db
   \<Rightarrow> cred_error + credential_record \<times> cred_db" where
  "revoke_tx dia eventID scopeID credentialID requestID reason now db =
     (case credentialStatus scopeID credentialID db of
        None \<Rightarrow> Inl ErrCredentialNotFound
      | Some st \<Rightarrow>
          if st = CredRevoked then Inl ErrInvalidCredentialState
          else
            bind_result (markRevoked scopeID credentialID (stamp dia now) db) (\<lambda>db1.
            bind_result (writeAudit dia eventID
                (audit_ok now ''credential.revoke'' credentialID scopeID reason requestID) db1) (\<lambda>db2.
            bind_result (getCredential scopeID credentialID db2) (\<lambda>rec. Inr (rec, db2)))))"

definition Revoke ::
  "dialect \<Rightarrow> gotime \<Rightarrow> string \<Rightarrow> revoke_params \<Rightarrow> cred_db \<Rightarrow> (cred_error + credential_record) \<times> cred_db" where
  "Revoke dia clock eventID p db =
     (let scopeID = strings_TrimSpace (rv_ScopeID p); credentialID = strings_TrimSpace (rv_CredentialID p);
          requestID = strings_TrimSpace (rv_RequestID p); reason = strings_TrimSpace (rv_ReasonCode p)
      in if scopeID = [] then (Inl (CredValidation ''scope_id'' ''required''), db)
         else if credentialID = [] then (Inl (CredValidation ''credential_id'' ''required''), db)
         else withScopeTx clock scopeID (revoke_tx dia eventID scopeID credentialID requestID reason) db)"

section \<open>Verification and authentication audit\<close>

text \<open>
  \<^verbatim>\<open>subtle.ConstantTimeCompare\<close> is equality. The hash column is unique, so the join has one row at most.
\<close>

definition VerifyCredentialTokenHash :: "string \<Rightarrow> cred_db \<Rightarrow> cred_error + credential_auth_record" where
  "VerifyCredentialTokenHash computedHash db =
     (if length computedHash \<noteq> 32 then Inl ErrCredentialNotFound
      else case find (\<lambda>c. cr_token_hash c = computedHash) (api_credentials db) of
        None \<Rightarrow> Inl ErrCredentialNotFound
      | Some c \<Rightarrow>
          (case find (\<lambda>s. sp_scope_id s = cr_scope c) (scopes db) of
             None \<Rightarrow> Inl ErrCredentialNotFound
           | Some s \<Rightarrow>
               bind_result (read_null_time (cr_expires_at c)) (\<lambda>expires.
               bind_result (read_null_time (cr_grace_until c)) (\<lambda>grace.
               bind_result (read_null_time (cr_revoked_at c)) (\<lambda>revoked.
                 if length (cr_token_hash c) \<noteq> 32 \<or> cr_token_hash c \<noteq> computedHash then Inl ErrCredentialNotFound
                 else Inr \<lparr>ca_CredentialID = cr_id c, ca_ScopeID = cr_scope c, ca_Status = cr_status c,
                        ca_ExpiresAt = expires, ca_GraceUntil = grace, ca_RevokedAt = revoked,
                        ca_ScopeStatus = sp_status s, ca_ScopeEnvironment = sp_environment s,
                        ca_TaxpayerNIF = sp_taxpayer_nif s, ca_IANATimezone = sp_iana_timezone s,
                        ca_SeriesEffectiveCode = sp_series_effective_code s\<rparr>)))))"

record auth_audit_event =
  av_Action :: string
  av_Result :: string
  av_ReasonCode :: string
  av_RequestID :: string
  av_CredentialID :: string
  av_ScopeID :: string

definition RecordAuthAudit :: "dialect \<Rightarrow> gotime \<Rightarrow> string \<Rightarrow> auth_audit_event \<Rightarrow> cred_db \<Rightarrow> cred_error + cred_db" where
  "RecordAuthAudit dia clock eventID ev db =
     (let res = strings_TrimSpace (av_Result ev); res = (if res = [] then ''success'' else res)
      in writeAudit dia eventID
           \<lparr>ae_OccurredAt = trunc_us clock, ae_CredentialID = nullStr (strings_TrimSpace (av_CredentialID ev)),
            ae_ScopeID = nullStr (strings_TrimSpace (av_ScopeID ev)), ae_Action = strings_TrimSpace (av_Action ev),
            ae_Result = res, ae_ReasonCode = nullStr (strings_TrimSpace (av_ReasonCode ev)),
            ae_RequestID = nullStr (strings_TrimSpace (av_RequestID ev))\<rparr> db)"

end
