(* ===== verification/Auth.thy ===== *)
theory Auth
  imports Credentials
begin

text \<open>
  Authentication of the POS interface (\<^verbatim>\<open>internal/auth/auth.go\<close>): bearer tokens against the
  credential store, and the static authenticator for development. A request is its
  \<^verbatim>\<open>Authorization\<close> header.
\<close>

datatype auth_error = ErrUnauthorized | ErrForbidden | ErrInternal cred_error

record scope_binding =
  sn_ScopeID :: string
  sn_TaxpayerNIF :: string
  sn_IANATimezone :: string
  sn_SeriesEffectiveCode :: string
  sn_Environment :: string
  sn_CredentialID :: string

definition bearer_prefix :: string where "bearer_prefix = ''Bearer ''"

definition extractBearer :: "string \<Rightarrow> string option" where
  "extractBearer raw =
     (if \<not> prefix bearer_prefix raw then None
      else let tok = strings_TrimSpace (drop (length bearer_prefix) raw) in if tok = [] then None else Some tok)"

definition is_base64url :: "char \<Rightarrow> bool" where
  "is_base64url c \<longleftrightarrow>
     (let n = (of_char c :: nat)
      in 65 \<le> n \<and> n \<le> 90 \<or> 97 \<le> n \<and> n \<le> 122 \<or> 48 \<le> n \<and> n \<le> 57 \<or> c = CHR ''-'' \<or> c = CHR ''_'')"

definition validSandboxTokenFormat :: "string \<Rightarrow> bool" where
  "validSandboxTokenFormat token \<longleftrightarrow>
     length token = CredentialTokenExactLen \<and> prefix CredentialTokenPrefix token
     \<and> list_all is_base64url (drop (length CredentialTokenPrefix) token)"

definition NewCredentialStoreAuthenticator :: "string \<Rightarrow> string option" where
  "NewCredentialStoreAuthenticator fiscalEnv =
     (let env = strings_TrimSpace fiscalEnv
      in if env \<noteq> ''homologation'' \<and> env \<noteq> ''development'' then None else Some env)"

definition credentialAcceptable :: "string \<Rightarrow> gotime \<Rightarrow> credential_auth_record \<Rightarrow> bool" where
  "credentialAcceptable fiscalEnv now rec \<longleftrightarrow>
     ca_ScopeStatus rec = ''active'' \<and> ca_ScopeEnvironment rec = fiscalEnv \<and> ca_RevokedAt rec = None
     \<and> (let expired = (case ca_ExpiresAt rec of None \<Rightarrow> False | Some t \<Rightarrow> \<not> now < t)
        in case ca_Status rec of
             CredActive \<Rightarrow> \<not> expired
           | CredGrace \<Rightarrow> \<not> expired \<and> (case ca_GraceUntil rec of None \<Rightarrow> False | Some g \<Rightarrow> now < g)
           | CredRevoked \<Rightarrow> False)"

text \<open>The audit is best effort: an error of the insert is dropped.\<close>

definition best_effort_audit :: "dialect \<Rightarrow> gotime \<Rightarrow> string \<Rightarrow> auth_audit_event \<Rightarrow> cred_db \<Rightarrow> cred_db" where
  "best_effort_audit dia clock eventID ev db =
     (case RecordAuthAudit dia clock eventID ev db of Inl _ \<Rightarrow> db | Inr db' \<Rightarrow> db')"

definition auditReject :: "dialect \<Rightarrow> gotime \<Rightarrow> string \<Rightarrow> string \<Rightarrow> string \<Rightarrow> cred_db \<Rightarrow> cred_db" where
  "auditReject dia clock eventID reqID reason db =
     best_effort_audit dia clock eventID
       \<lparr>av_Action = ''auth.reject'', av_Result = ''failure'', av_ReasonCode = reason, av_RequestID = reqID,
        av_CredentialID = [], av_ScopeID = []\<rparr> db"

record auth_env =
  ax_sha256 :: "string \<Rightarrow> string"
  ax_dialect :: dialect
  ax_fiscalEnv :: string
  ax_now :: gotime
  ax_clock :: gotime
  ax_eventID :: string
  ax_requestID :: string

definition binding_of :: "credential_auth_record \<Rightarrow> scope_binding" where
  "binding_of rec =
     \<lparr>sn_ScopeID = ca_ScopeID rec, sn_TaxpayerNIF = ca_TaxpayerNIF rec, sn_IANATimezone = ca_IANATimezone rec,
      sn_SeriesEffectiveCode = ca_SeriesEffectiveCode rec, sn_Environment = ca_ScopeEnvironment rec,
      sn_CredentialID = ca_CredentialID rec\<rparr>"

definition Authenticate :: "auth_env \<Rightarrow> string \<Rightarrow> cred_db \<Rightarrow> (auth_error + scope_binding) \<times> cred_db" where
  "Authenticate ax header db =
     (let reject = (\<lambda>reason. (Inl ErrUnauthorized,
            auditReject (ax_dialect ax) (ax_clock ax) (ax_eventID ax) (ax_requestID ax) reason db))
      in case extractBearer header of
           None \<Rightarrow> reject ''malformed''
         | Some token \<Rightarrow>
             if \<not> validSandboxTokenFormat token then reject ''malformed''
             else case VerifyCredentialTokenHash (HashCredentialToken (ax_sha256 ax) token) db of
               Inl e \<Rightarrow> if e = ErrCredentialNotFound then reject ''not_found'' else (Inl (ErrInternal e), db)
             | Inr rec \<Rightarrow>
                 if \<not> credentialAcceptable (ax_fiscalEnv ax) (ax_now ax) rec then reject ''policy''
                 else (Inr (binding_of rec),
                       best_effort_audit (ax_dialect ax) (ax_clock ax) (ax_eventID ax)
                         \<lparr>av_Action = ''auth.accept'', av_Result = ''success'', av_ReasonCode = [],
                          av_RequestID = ax_requestID ax, av_CredentialID = ca_CredentialID rec,
                          av_ScopeID = ca_ScopeID rec\<rparr> db))"

section \<open>The development authenticator\<close>

record dev_static_config =
  dv_Token :: string
  dv_ScopeID :: string
  dv_ForbiddenToken :: string
  dv_TaxpayerNIF :: string
  dv_IANATimezone :: string
  dv_SeriesEffectiveCode :: string
  dv_Environment :: string
  dv_CredentialID :: string

record dev_static =
  ds_tokenHash :: string
  ds_forbiddenTokenHash :: "string option"  \<comment> \<open>None is hasForbidden = false\<close>
  ds_binding :: scope_binding

definition default_to :: "string \<Rightarrow> string \<Rightarrow> string" where
  "default_to d s = (if s = [] then d else s)"

definition NewDevStatic :: "(string \<Rightarrow> string) \<Rightarrow> dev_static_config \<Rightarrow> string + dev_static" where
  "NewDevStatic sha256 cfg =
     (let scope = strings_TrimSpace (dv_ScopeID cfg); nif = strings_TrimSpace (dv_TaxpayerNIF cfg);
          tz = strings_TrimSpace (dv_IANATimezone cfg); series = strings_TrimSpace (dv_SeriesEffectiveCode cfg);
          env = default_to ''development'' (strings_TrimSpace (dv_Environment cfg));
          credID = default_to ''dev-static'' (strings_TrimSpace (dv_CredentialID cfg));
          binding = \<lparr>sn_ScopeID = scope, sn_TaxpayerNIF = nif, sn_IANATimezone = tz, sn_SeriesEffectiveCode = series,
            sn_Environment = env, sn_CredentialID = credID\<rparr>
      in if length (dv_Token cfg) < 32 then Inl ''dev token''
         else if scope = [] then Inl ''dev scope_id''
         else if nif = [] then Inl ''dev taxpayer_nif''
         else if tz = [] then Inl ''dev iana_timezone''
         else if series = [] then Inl ''dev series_effective_code''
         else if dv_ForbiddenToken cfg = []
         then Inr \<lparr>ds_tokenHash = sha256 (dv_Token cfg), ds_forbiddenTokenHash = None, ds_binding = binding\<rparr>
         else if length (dv_ForbiddenToken cfg) < 32 then Inl ''forbidden token''
         else Inr \<lparr>ds_tokenHash = sha256 (dv_Token cfg),
                ds_forbiddenTokenHash = Some (sha256 (dv_ForbiddenToken cfg)), ds_binding = binding\<rparr>)"

definition Authenticate_dev :: "(string \<Rightarrow> string) \<Rightarrow> dev_static \<Rightarrow> string \<Rightarrow> auth_error + scope_binding" where
  "Authenticate_dev sha256 d raw =
     (if \<not> prefix bearer_prefix raw then Inl ErrUnauthorized
      else let got = strings_TrimSpace (drop (length bearer_prefix) raw)
           in if got = [] then Inl ErrUnauthorized
              else if ds_forbiddenTokenHash d = Some (sha256 got) then Inl ErrForbidden
              else if sha256 got \<noteq> ds_tokenHash d then Inl ErrUnauthorized
              else Inr (ds_binding d))"

end
