(* ===== verification/DocType.thy ===== *)
theory DocType
  imports FiscalPrelude "HOL-Library.List_Lexorder" "HOL-Library.Char_ord"
begin

text \<open>
  The catalogue of document types (\<^verbatim>\<open>internal/doctype/doctype.go\<close>) and what an
  establishment may issue (\<^verbatim>\<open>availability.go\<close>). The catalogue is the table of a
  Markdown file; the text of the file is an argument of the parser. A Go map keyed by code is
  the list of its entries, and \<^verbatim>\<open>nil\<close> receivers are \<open>None\<close>.
\<close>

section \<open>Data\<close>

definition APIInvoice :: string where "APIInvoice = ''invoice''"
definition APICreditNote :: string where "APICreditNote = ''credit_note''"
definition CanonicalFT :: string where "CanonicalFT = ''bwb.ao.vendas.ft''"
definition CanonicalNC :: string where "CanonicalNC = ''bwb.ao.vendas.nc''"
definition ActiveOn :: string where "ActiveOn = ''on''"
definition ActiveOff :: string where "ActiveOff = ''off''"

datatype doctype_error = ErrUnknownAPI string | ErrInactive string | ErrCatalog string

record channel_adapters =
  ad_FECode :: string
  ad_SAFTType :: string
  ad_SAFTStructure :: string
  ad_Eligibility :: string

record entry =
  en_Grupo :: string
  en_CodigoCanonico :: string
  en_Designacao :: string
  en_Activo :: string
  en_EstadoNormativo :: string
  en_ChannelAdapters :: channel_adapters

record resolved =
  rv_APIType :: string
  rv_Canonical :: string
  rv_Entry :: entry

type_synonym registry = "(string \<times> entry) list"

section \<open>Parsing\<close>

text \<open>The empty-set sign U+2205, which marks an absent code.\<close>

definition empty_sign :: string where "empty_sign = [CHR 0xE2, CHR 0x88, CHR 0x85]"

definition strings_Trim :: "char \<Rightarrow> string \<Rightarrow> string" where
  "strings_Trim c s = rev (dropWhile (\<lambda>x. x = c) (rev (dropWhile (\<lambda>x. x = c) s)))"

definition backtick :: char where "backtick = CHR 0x60"

definition TrimPrefix :: "char \<Rightarrow> string \<Rightarrow> string" where
  "TrimPrefix c s = (case s of x # r \<Rightarrow> if x = c then r else s | [] \<Rightarrow> [])"

definition splitCells :: "string \<Rightarrow> string list" where
  "splitCells line =
     (let trimmed = TrimPrefix CHR ''|'' (strings_TrimSpace line);
          trimmed = rev (TrimPrefix CHR ''|'' (rev trimmed))
      in map strings_TrimSpace (split_on CHR ''|'' trimmed))"

text \<open>What follows the first occurrence of a needle.\<close>

fun after_first :: "string \<Rightarrow> string \<Rightarrow> string option" where
  "after_first p [] = (if p = [] then Some [] else None)"
| "after_first p (c # s) = (if prefix p (c # s) then Some (drop (length p) (c # s)) else after_first p s)"

definition extractBacktickAfter :: "string \<Rightarrow> string \<Rightarrow> string" where
  "extractBacktickAfter s p =
     (case after_first p s of
        Some (c # rest) \<Rightarrow>
          if c \<noteq> backtick then []
          else (case cut_at backtick rest of
                  (v, Some _) \<Rightarrow> if v = empty_sign then [] else v
                | (_, None) \<Rightarrow> [])
      | _ \<Rightarrow> [])"

definition parseChannelCodes :: "string \<Rightarrow> string \<times> string" where
  "parseChannelCodes s = (extractBacktickAfter s ''FE:'', extractBacktickAfter s ''SAFT:'')"

definition entryFromCells :: "string list \<Rightarrow> doctype_error + entry" where
  "entryFromCells cells =
     (let canon = strings_Trim backtick (cells ! 1); activo = last cells
      in if activo \<noteq> ActiveOn \<and> activo \<noteq> ActiveOff \<and> activo \<noteq> ''pending_dec_reg_003''
         then Inl (ErrCatalog ''activo'')
         else
           let (fe, saft) = parseChannelCodes (cells ! 3);
               estrutura = strings_Trim backtick (cells ! 4)
           in Inr \<lparr>en_Grupo = cells ! 0, en_CodigoCanonico = canon, en_Designacao = cells ! 2, en_Activo = activo,
                   en_EstadoNormativo = cells ! 11,
                   en_ChannelAdapters = \<lparr>ad_FECode = fe, ad_SAFTType = saft,
                     ad_SAFTStructure = (if estrutura = empty_sign then [] else estrutura),
                     ad_Eligibility = cells ! 5\<rparr>\<rparr>)"

text \<open>The loop over the lines: the seed rows after the header.\<close>

fun seed_rows :: "bool \<Rightarrow> string list \<Rightarrow> string list list" where
  "seed_rows headerSeen [] = []"
| "seed_rows headerSeen (line # lines) =
     (if \<not> prefix ''|'' line then seed_rows headerSeen lines
      else if strings_Contains line ''codigo_canonico'' \<and> strings_Contains line ''grupo'' then seed_rows True lines
      else if \<not> headerSeen then seed_rows headerSeen lines
      else if prefix ''|---'' (filter (\<lambda>c. c \<noteq> CHR '' '') line) then seed_rows headerSeen lines
      else
        let cells = splitCells line
        in if length cells < 13 then seed_rows headerSeen lines
           else if \<not> prefix ''bwb.ao.'' (strings_Trim backtick (cells ! 1)) then seed_rows headerSeen lines
           else cells # seed_rows headerSeen lines)"

fun add_rows :: "string list list \<Rightarrow> registry \<Rightarrow> doctype_error + registry" where
  "add_rows [] reg = Inr reg"
| "add_rows (cells # rows) reg =
     bind_result (entryFromCells cells) (\<lambda>e.
       if map_of reg (en_CodigoCanonico e) \<noteq> None then Inl (ErrCatalog ''duplicado'')
       else add_rows rows (reg @ [(en_CodigoCanonico e, e)]))"

definition ParseCatalog :: "string \<Rightarrow> doctype_error + registry" where
  "ParseCatalog md =
     (let rows = seed_rows False (split_on CHR 0x0A md)
      in if rows = [] then Inl (ErrCatalog ''nenhuma linha seed'')
         else bind_result (add_rows rows []) (\<lambda>reg.
           case (map_of reg CanonicalFT, map_of reg CanonicalNC) of
             (Some ft, Some nc) \<Rightarrow>
               if en_Activo ft \<noteq> ActiveOn \<or> en_Activo nc \<noteq> ActiveOn then Inl (ErrCatalog ''DEC-REG-003'')
               else Inr reg
           | _ \<Rightarrow> Inl (ErrCatalog ''FT/NC'')))"

section \<open>Lookups\<close>

definition doctype_Lookup :: "registry option \<Rightarrow> string \<Rightarrow> entry option" where
  "doctype_Lookup r canonical = (case r of None \<Rightarrow> None | Some reg \<Rightarrow> map_of reg canonical)"

definition doctype_All :: "registry option \<Rightarrow> entry list" where
  "doctype_All r = (case r of None \<Rightarrow> [] | Some reg \<Rightarrow> sort_key en_CodigoCanonico (map snd reg))"

definition doctype_Groups :: "string list" where
  "doctype_Groups = [''vendas'', ''movimentacao'', ''conferencia'', ''pagamentos'', ''compras'']"

definition ValidGroup :: "string \<Rightarrow> bool" where
  "ValidGroup g \<longleftrightarrow>
     g = ''vendas'' \<or> g = ''movimentacao'' \<or> g = ''conferencia'' \<or> g = ''pagamentos'' \<or> g = ''compras''"

definition registry_ResolveAPI :: "registry option \<Rightarrow> string \<Rightarrow> doctype_error + resolved" where
  "registry_ResolveAPI r documentType =
     (case r of
        None \<Rightarrow> Inl (ErrCatalog ''nil'')
      | Some reg \<Rightarrow>
          bind_result
            (if documentType = APIInvoice then Inr CanonicalFT
             else if documentType = APICreditNote then Inr CanonicalNC
             else Inl (ErrUnknownAPI documentType))
            (\<lambda>canonical.
               case map_of reg canonical of
                 None \<Rightarrow> Inl (ErrCatalog canonical)
               | Some e \<Rightarrow>
                   if en_Activo e \<noteq> ActiveOn then Inl (ErrInactive canonical)
                   else Inr \<lparr>rv_APIType = documentType, rv_Canonical = canonical, rv_Entry = e\<rparr>))"

text \<open>The package variables hold the result of parsing the embedded file.\<close>

definition doctype_ResolveAPI :: "doctype_error + registry \<Rightarrow> string \<Rightarrow> doctype_error + resolved" where
  "doctype_ResolveAPI loaded documentType =
     bind_result loaded (\<lambda>reg. registry_ResolveAPI (Some reg) documentType)"

section \<open>Availability\<close>

datatype availability_reason =
  ReasonGroupInactive | ReasonTypeInactive | ReasonAGTPending | ReasonSAFTIncompatible | ReasonFEMatrixUnsupported
  | ReasonUnknownCanonical

definition IsAGTPending :: "string \<Rightarrow> bool" where
  "IsAGTPending estado \<longleftrightarrow> strings_TrimSpace estado = ''pending_validation'' \<or> strings_TrimSpace estado = ''conflito''"

record availability_config =
  ac_GroupActive :: "string \<rightharpoonup> bool"
  ac_TypeActiveOverride :: "string \<rightharpoonup> bool"

record availability_input =
  ai_FEEnrollmentStatus :: string
  ai_Config :: availability_config

record type_availability =
  ta_Grupo :: string
  ta_CodigoCanonico :: string
  ta_Designacao :: string
  ta_Available :: bool
  ta_Reasons :: "availability_reason list"
  ta_Eligibility :: string
  ta_FECode :: string
  ta_SAFTType :: string
  ta_EstadoNormativo :: string
  ta_SeedActivo :: string
  ta_EffectiveActivo :: bool
  ta_GroupActive :: bool

record group_availability =
  ga_Grupo :: string
  ga_Active :: bool

record availability_report =
  ar_FEEnrollmentStatus :: string
  ar_FEAderiu :: bool
  ar_Groups :: "group_availability list"
  ar_Types :: "type_availability list"

definition groupIsActive :: "availability_config \<Rightarrow> string \<Rightarrow> bool" where
  "groupIsActive cfg grupo = (case ac_GroupActive cfg grupo of None \<Rightarrow> True | Some v \<Rightarrow> v)"

definition typeIsActive :: "entry \<Rightarrow> availability_config \<Rightarrow> bool" where
  "typeIsActive e cfg =
     (case ac_TypeActiveOverride cfg (en_CodigoCanonico e) of Some v \<Rightarrow> v | None \<Rightarrow> en_Activo e = ActiveOn)"

definition evaluateType :: "entry \<Rightarrow> availability_config \<Rightarrow> bool \<Rightarrow> type_availability" where
  "evaluateType e cfg feAderiu =
     (let groupActive = groupIsActive cfg (en_Grupo e); effective = typeIsActive e cfg;
          elig = strings_TrimSpace (ad_Eligibility (en_ChannelAdapters e));
          feCode = ad_FECode (en_ChannelAdapters e); saft = ad_SAFTType (en_ChannelAdapters e);
          hasSAFT = (saft \<noteq> [] \<or> ad_SAFTStructure (en_ChannelAdapters e) \<noteq> []); hasFE = (feCode \<noteq> []);
          reasons = (if \<not> groupActive then [ReasonGroupInactive] else [])
            @ (if \<not> effective then [ReasonTypeInactive] else [])
            @ (if IsAGTPending (en_EstadoNormativo e) then [ReasonAGTPending] else [])
            @ (if feAderiu then (if \<not> hasFE then [ReasonFEMatrixUnsupported] else [])
               else if \<not> hasSAFT \<or> elig = ''FE'' then [ReasonSAFTIncompatible] else [])
      in \<lparr>ta_Grupo = en_Grupo e, ta_CodigoCanonico = en_CodigoCanonico e, ta_Designacao = en_Designacao e,
          ta_Available = (length reasons = 0), ta_Reasons = reasons, ta_Eligibility = elig, ta_FECode = feCode,
          ta_SAFTType = saft, ta_EstadoNormativo = en_EstadoNormativo e, ta_SeedActivo = en_Activo e,
          ta_EffectiveActivo = effective, ta_GroupActive = groupActive\<rparr>)"

definition ComputeAvailability :: "registry option \<Rightarrow> availability_input \<Rightarrow> availability_report" where
  "ComputeAvailability r inp =
     (let trimmed = strings_TrimSpace (ai_FEEnrollmentStatus inp);
          feStatus = (if trimmed = [] then ''not_enrolled'' else trimmed);
          feAderiu = (feStatus = ''active'')
      in \<lparr>ar_FEEnrollmentStatus = feStatus, ar_FEAderiu = feAderiu,
          ar_Groups = map (\<lambda>g. \<lparr>ga_Grupo = g, ga_Active = groupIsActive (ai_Config inp) g\<rparr>) doctype_Groups,
          ar_Types = map (\<lambda>e. evaluateType e (ai_Config inp) feAderiu) (doctype_All r)\<rparr>)"

end
