(* ===== verification/GoJson.thy ===== *)
theory GoJson
  imports GoText
begin

text \<open>
  What the source uses of \<^verbatim>\<open>encoding/json\<close>: the scanner, which finds the first value
  of a byte stream, and the decoding of strings and struct fields. The scanner is the state machine of the
  library: a text may hold a value, break the syntax, or stop before the value is complete.
\<close>

section \<open>Scanning\<close>

datatype json = JNull | JBool bool | JNum string | JStr string | JArr "json list" | JObj "(string \<times> json) list"

datatype 'a scan = Got 'a string | Cut | Bad

fun map_scan :: "('a \<Rightarrow> 'b) \<Rightarrow> 'a scan \<Rightarrow> 'b scan" where
  "map_scan f (Got a r) = Got (f a) r"
| "map_scan f Cut = Cut"
| "map_scan f Bad = Bad"

lemma map_scan_Got: "map_scan f x = Got b r \<longleftrightarrow> (\<exists>a. x = Got a r \<and> b = f a)"
  by (cases x) auto

definition quote :: char where "quote = CHR 0x22"
definition backslash :: char where "backslash = CHR 0x5C"

definition json_space :: "char \<Rightarrow> bool" where
  "json_space c \<longleftrightarrow> c = CHR 0x20 \<or> c = CHR 0x09 \<or> c = CHR 0x0D \<or> c = CHR 0x0A"

definition hex_val :: "char \<Rightarrow> nat option" where
  "hex_val c =
     (let n = byte_val c
      in if 48 \<le> n \<and> n \<le> 57 then Some (n - 48)
         else if 97 \<le> n \<and> n \<le> 102 then Some (n - 87)
         else if 65 \<le> n \<and> n \<le> 70 then Some (n - 55) else None)"

text \<open>The rest of a string after its opening quote, raw. In a hexadecimal escape the digits still due are counted.\<close>

datatype str_state = InString | InEscape | InHex nat

fun scan_string :: "str_state \<Rightarrow> string \<Rightarrow> string scan" where
  "scan_string st [] = Cut"
| "scan_string InString (c # s) =
     (if c = quote then Got [] s
      else if c = backslash then map_scan ((#) c) (scan_string InEscape s)
      else if byte_val c < 32 then Bad
      else map_scan ((#) c) (scan_string InString s))"
| "scan_string InEscape (c # s) =
     (if c \<in> set ''bfnrt/'' \<or> c = quote \<or> c = backslash then map_scan ((#) c) (scan_string InString s)
      else if c = CHR ''u'' then map_scan ((#) c) (scan_string (InHex 4) s)
      else Bad)"
| "scan_string (InHex n) (c # s) =
     (if hex_val c = None then Bad
      else map_scan ((#) c) (scan_string (if n \<le> 1 then InString else InHex (n - 1)) s))"

text \<open>Numbers by the states of the library; the string is what has been read, reversed.\<close>

datatype num_state = NumNeg | NumZero | NumInt | NumDot | NumFrac | NumE | NumESign | NumExp

definition num_step :: "num_state \<Rightarrow> char \<Rightarrow> num_state option" where
  "num_step st c =
     (case st of
        NumNeg \<Rightarrow> if c = CHR ''0'' then Some NumZero else if is_digit c then Some NumInt else None
      | NumZero \<Rightarrow> if c = CHR ''.'' then Some NumDot else if c = CHR ''e'' \<or> c = CHR ''E'' then Some NumE else None
      | NumInt \<Rightarrow> if is_digit c then Some NumInt else if c = CHR ''.'' then Some NumDot
                 else if c = CHR ''e'' \<or> c = CHR ''E'' then Some NumE else None
      | NumDot \<Rightarrow> if is_digit c then Some NumFrac else None
      | NumFrac \<Rightarrow> if is_digit c then Some NumFrac else if c = CHR ''e'' \<or> c = CHR ''E'' then Some NumE else None
      | NumE \<Rightarrow> if c = CHR ''+'' \<or> c = CHR ''-'' then Some NumESign else if is_digit c then Some NumExp else None
      | NumESign \<Rightarrow> if is_digit c then Some NumExp else None
      | NumExp \<Rightarrow> if is_digit c then Some NumExp else None)"

definition num_final :: "num_state \<Rightarrow> bool" where
  "num_final st \<longleftrightarrow> st = NumZero \<or> st = NumInt \<or> st = NumFrac \<or> st = NumExp"

fun scan_number :: "num_state \<Rightarrow> string \<Rightarrow> string \<Rightarrow> string scan" where
  "scan_number st acc [] = Cut"
| "scan_number st acc (c # s) =
     (case num_step st c of
        Some st' \<Rightarrow> scan_number st' (c # acc) s
      | None \<Rightarrow> if num_final st then Got (rev acc) (c # s) else Bad)"

fun scan_literal :: "string \<Rightarrow> string \<Rightarrow> unit scan" where
  "scan_literal [] s = Got () s"
| "scan_literal (l # ls) [] = Cut"
| "scan_literal (l # ls) (c # s) = (if c = l then scan_literal ls s else Bad)"

lemma scan_string_shorter: "scan_string st s = Got a r \<Longrightarrow> length r < length s"
  by (induction st s arbitrary: a rule: scan_string.induct) (auto simp: map_scan_Got split: if_splits)

lemma scan_number_shorter: "scan_number st acc s = Got a r \<Longrightarrow> length r \<le> length s"
  by (induction st acc s rule: scan_number.induct) (auto split: option.splits if_splits)

lemma scan_literal_shorter: "scan_literal ls s = Got u r \<Longrightarrow> length r \<le> length s"
  by (induction ls s rule: scan_literal.induct) (auto split: if_splits)

section \<open>Strings\<close>

definition replacement :: string where "replacement = [CHR 0xEF, CHR 0xBF, CHR 0xBD]"

definition encode_rune :: "nat \<Rightarrow> string" where
  "encode_rune r =
     map char_of
       (if r < 128 then [r]
        else if r < 2048 then [192 + r div 64, 128 + r mod 64]
        else if r < 65536 then [224 + r div 4096, 128 + r div 64 mod 64, 128 + r mod 64]
        else [240 + r div 262144, 128 + r div 4096 mod 64, 128 + r div 64 mod 64, 128 + r mod 64])"

definition hex4 :: "string \<Rightarrow> nat" where
  "hex4 s = fold (\<lambda>c n. n * 16 + (case hex_val c of Some v \<Rightarrow> v | None \<Rightarrow> 0)) (take 4 s) 0"

text \<open>A surrogate pair is one rune; a surrogate alone is replaced.\<close>

definition unescape_u :: "string \<Rightarrow> string \<times> nat" where
  "unescape_u s =
     (let hi = hex4 s; s' = drop 4 s
      in if \<not> (55296 \<le> hi \<and> hi < 57344) then (encode_rune hi, 4)
         else if prefix [backslash, CHR ''u''] s' then
           (let lo = hex4 (drop 2 s')
            in if hi < 56320 \<and> 56320 \<le> lo \<and> lo < 57344
               then (encode_rune ((hi - 55296) * 1024 + (lo - 56320) + 65536), 10) else (replacement, 4))
         else (replacement, 4))"

definition simple_escape :: "char \<Rightarrow> char" where
  "simple_escape c =
     (if c = CHR ''b'' then CHR 0x08 else if c = CHR ''f'' then CHR 0x0C else if c = CHR ''n'' then CHR 0x0A
      else if c = CHR ''r'' then CHR 0x0D else if c = CHR ''t'' then CHR 0x09 else c)"

text \<open>Escapes are resolved and invalid UTF-8 replaced.\<close>

function unquote :: "string \<Rightarrow> string" where
  "unquote [] = []"
| "unquote (c # s) =
     (if c = backslash then
        (case s of
           [] \<Rightarrow> []
         | e # s' \<Rightarrow>
             if e = CHR ''u'' then (case unescape_u s' of (t, n) \<Rightarrow> t @ unquote (drop n s'))
             else simple_escape e # unquote s')
      else if byte_val c < 128 then c # unquote s
      else (case decode_rune (c # s) of
              (r, w) \<Rightarrow> (if r = 65533 \<and> w = 1 then replacement else take w (c # s)) @ unquote (drop (w - 1) s)))"
  by pat_completeness auto
termination by (relation "measure length") auto

section \<open>Values\<close>

datatype json_mode =
  BeginValue | BeginValueOrEmpty | BeginString | BeginStringOrEmpty | WantColon string | EndValue json

text \<open>An open array holds its elements so far, an open object its members and the key in hand; both reversed.\<close>

datatype frame = FArr "json list" | FObj "(string \<times> json) list" string

definition maxNestingDepth :: nat where "maxNestingDepth = 10000"

datatype json_next = Step json_mode "frame list" string | Stop "json scan"

definition push_frame :: "frame \<Rightarrow> frame list \<Rightarrow> json_mode \<Rightarrow> string \<Rightarrow> json_next" where
  "push_frame f fs mode r = (if maxNestingDepth \<le> length fs then Stop Bad else Step mode (f # fs) r)"

fun after_scan :: "'a scan \<Rightarrow> ('a \<Rightarrow> json_mode) \<Rightarrow> frame list \<Rightarrow> json_next" where
  "after_scan (Got a r) f fs = Step (f a) fs r"
| "after_scan Cut f fs = Stop Cut"
| "after_scan Bad f fs = Stop Bad"

text \<open>The state after the next byte that is not a space.\<close>

definition begin_value :: "frame list \<Rightarrow> char \<Rightarrow> string \<Rightarrow> json_next" where
  "begin_value fs c r =
     (if c = CHR ''{'' then push_frame (FObj [] []) fs BeginStringOrEmpty r
      else if c = CHR ''['' then push_frame (FArr []) fs BeginValueOrEmpty r
      else if c = quote then after_scan (scan_string InString r) (\<lambda>s. EndValue (JStr (unquote s))) fs
      else if c = CHR ''-'' then after_scan (scan_number NumNeg [c] r) (\<lambda>s. EndValue (JNum s)) fs
      else if c = CHR ''0'' then after_scan (scan_number NumZero [c] r) (\<lambda>s. EndValue (JNum s)) fs
      else if is_digit c then after_scan (scan_number NumInt [c] r) (\<lambda>s. EndValue (JNum s)) fs
      else if c = CHR ''t'' then after_scan (scan_literal ''rue'' r) (\<lambda>_. EndValue (JBool True)) fs
      else if c = CHR ''f'' then after_scan (scan_literal ''alse'' r) (\<lambda>_. EndValue (JBool False)) fs
      else if c = CHR ''n'' then after_scan (scan_literal ''ull'' r) (\<lambda>_. EndValue JNull) fs
      else Stop Bad)"

fun json_step :: "json_mode \<Rightarrow> frame list \<Rightarrow> char \<Rightarrow> string \<Rightarrow> json_next" where
  "json_step BeginValue fs c r = begin_value fs c r"
| "json_step BeginValueOrEmpty (FArr vs # fs) c r =
     (if c = CHR '']'' then Step (EndValue (JArr [])) fs r else begin_value (FArr vs # fs) c r)"
| "json_step BeginStringOrEmpty (FObj kvs k # fs) c r =
     (if c = CHR ''}'' then Step (EndValue (JObj [])) fs r
      else if c = quote then after_scan (scan_string InString r) (\<lambda>s. WantColon (unquote s)) (FObj kvs k # fs)
      else Stop Bad)"
| "json_step BeginString fs c r =
     (if c = quote then after_scan (scan_string InString r) (\<lambda>s. WantColon (unquote s)) fs else Stop Bad)"
| "json_step (WantColon k') (FObj kvs k # fs) c r =
     (if c = CHR '':'' then Step BeginValue (FObj kvs k' # fs) r else Stop Bad)"
| "json_step (EndValue v) (FArr vs # fs) c r =
     (if c = CHR '','' then Step BeginValue (FArr (v # vs) # fs) r
      else if c = CHR '']'' then Step (EndValue (JArr (rev (v # vs)))) fs r
      else Stop Bad)"
| "json_step (EndValue v) (FObj kvs k # fs) c r =
     (if c = CHR '','' then Step BeginString (FObj ((k, v) # kvs) k # fs) r
      else if c = CHR ''}'' then Step (EndValue (JObj (rev ((k, v) # kvs)))) fs r
      else Stop Bad)"
| "json_step _ _ c r = Stop Bad"

lemma after_scan_Step: "after_scan x f fs = Step m fs' r \<longleftrightarrow> (\<exists>a. x = Got a r \<and> m = f a \<and> fs' = fs)"
  by (cases x) auto

lemma begin_value_shorter: "begin_value fs c s = Step m fs' r \<Longrightarrow> length r \<le> length s"
  by (auto simp: begin_value_def push_frame_def after_scan_Step split: if_splits
      dest: scan_string_shorter scan_number_shorter scan_literal_shorter)

lemma json_step_shorter: "json_step m fs c s = Step m' fs' r \<Longrightarrow> length r \<le> length s"
  by (cases "(m, fs, c, s)" rule: json_step.cases)
    (auto simp: after_scan_Step split: if_splits dest: begin_value_shorter scan_string_shorter)

text \<open>The value ends at once when the last bracket closes; spaces before a byte are skipped.\<close>

fun complete_value :: "json_mode \<Rightarrow> frame list \<Rightarrow> json option" where
  "complete_value (EndValue v) [] = Some v"
| "complete_value _ _ = None"

lemma dropWhile_shorter: "dropWhile p s = c # r \<Longrightarrow> length r < length s"
  using length_dropWhile_le [of p s] by simp

lemma json_step_dropWhile: "dropWhile p s = c # r \<Longrightarrow> json_step m fs c r = Step m' fs' r' \<Longrightarrow> length r' < length s"
  by (rule le_less_trans [OF json_step_shorter dropWhile_shorter])

function json_run :: "json_mode \<Rightarrow> frame list \<Rightarrow> string \<Rightarrow> json scan" where
  "json_run m fs s =
     (case complete_value m fs of
        Some v \<Rightarrow> Got v s
      | None \<Rightarrow>
          (case dropWhile json_space s of
             [] \<Rightarrow> Cut
           | c # r \<Rightarrow> (case json_step m fs c r of Stop x \<Rightarrow> x | Step m' fs' r' \<Rightarrow> json_run m' fs' r')))"
  by pat_completeness auto
termination
  by (relation "measure (\<lambda>(m, fs, s). length s)") (auto dest: json_step_dropWhile)

declare json_run.simps [simp del] unquote.simps [simp del]

definition json_read :: "string \<Rightarrow> json scan" where
  "json_read s = json_run BeginValue [] s"

text \<open>\<^verbatim>\<open>Decoder.More\<close>: whether another byte follows that closes nothing.\<close>

definition dec_More :: "string \<Rightarrow> bool" where
  "dec_More rest = (case dropWhile json_space rest of [] \<Rightarrow> False | c # _ \<Rightarrow> c \<noteq> CHR '']'' \<and> c \<noteq> CHR ''}'')"

section \<open>Decoding into structs\<close>

text \<open>A field is found by its exact name first, then by a folded one. A null leaves a string alone.\<close>

definition json_field :: "string list \<Rightarrow> string \<Rightarrow> string option" where
  "json_field names key = (if key \<in> set names then Some key else find (\<lambda>n. strings_EqualFold n key) names)"

fun dec_string :: "json \<Rightarrow> string \<Rightarrow> string option" where
  "dec_string (JStr s) old = Some s"
| "dec_string JNull old = Some old"
| "dec_string _ old = None"

text \<open>Members are decoded in order onto the struct; an unknown name or a member of the wrong type is an error.\<close>

fun dec_members :: "string list \<Rightarrow> (string \<Rightarrow> json \<Rightarrow> 's \<Rightarrow> 's option) \<Rightarrow> (string \<times> json) list \<Rightarrow> 's \<Rightarrow> 's option" where
  "dec_members names set_field [] x = Some x"
| "dec_members names set_field ((k, v) # kvs) x =
     (case json_field names k of
        None \<Rightarrow> None
      | Some n \<Rightarrow> (case set_field n v x of None \<Rightarrow> None | Some x' \<Rightarrow> dec_members names set_field kvs x'))"

fun dec_struct :: "string list \<Rightarrow> (string \<Rightarrow> json \<Rightarrow> 's \<Rightarrow> 's option) \<Rightarrow> json \<Rightarrow> 's \<Rightarrow> 's option" where
  "dec_struct names set_field (JObj kvs) x = dec_members names set_field kvs x"
| "dec_struct names set_field JNull x = Some x"
| "dec_struct names set_field _ x = None"

end
