(* ===== verification/DocumentsApi.thy ===== *)
theory DocumentsApi
  imports SealStore Auth DocType GoJson
begin

text \<open>
  \<^verbatim>\<open>POST /v1/documents\<close> (\<^verbatim>\<open>internal/httpapi/documents.go\<close>): from the
  bytes of a request to the sealed document or to a problem. The authenticator is an argument of
  the handler, as it is an interface in the source; \<^verbatim>\<open>mime.ParseMediaType\<close> and
  \<^verbatim>\<open>uuid.Parse\<close> are parameters, nothing is assumed of them. The response body is kept
  as a record, titles and messages are left out.
\<close>

section \<open>Requests and answers\<close>

definition maxBodyBytes :: nat where "maxBodyBytes = 1048576"
definition maxCorrelationIDLen :: nat where "maxCorrelationIDLen = 128"
definition statusSealedLocally :: string where "statusSealedLocally = ''sealed_locally''"

record http_request =
  rq_Method :: string
  rq_Authorization :: string
  rq_ContentType :: string
  rq_IdempotencyKey :: string
  rq_CorrelationID :: string
  rq_Body :: string

record field_error =
  fe_Field :: string
  fe_Code :: string

record problem =
  pr_Type :: string
  pr_Status :: int
  pr_Code :: string
  pr_RequestID :: string
  pr_Errors :: "field_error list"

record create_document_response =
  cn_ID :: string
  cn_ExternalID :: string
  cn_Status :: string
  cn_SubmissionID :: string
  cn_CreatedAt :: string

datatype answer_body = ProblemBody problem | CreatedBody create_document_response

record answer =
  an_Status :: int
  an_Headers :: "(string \<times> string) list"
  an_Body :: answer_body

section \<open>The body\<close>

record party_body =
  pb_TaxID :: string
  pb_Name :: string

record document_line_body =
  lb_LineID :: string
  lb_Description :: string
  lb_Quantity :: string
  lb_UnitPrice :: string
  lb_TaxCode :: string

record intent_body =
  ib_ExternalID :: string
  ib_DocumentType :: string
  ib_Currency :: string
  ib_IssuedAt :: string
  ib_RequestedSeries :: string
  ib_Seller :: "party_body option"
  ib_Customer :: "party_body option"
  ib_Lines :: "document_line_body list"
  ib_ScopeID :: "string option"

definition empty_party :: party_body where "empty_party = \<lparr>pb_TaxID = [], pb_Name = []\<rparr>"

definition empty_line :: document_line_body where
  "empty_line = \<lparr>lb_LineID = [], lb_Description = [], lb_Quantity = [], lb_UnitPrice = [], lb_TaxCode = []\<rparr>"

definition empty_body :: intent_body where
  "empty_body = \<lparr>ib_ExternalID = [], ib_DocumentType = [], ib_Currency = [], ib_IssuedAt = [], ib_RequestedSeries = [],
     ib_Seller = None, ib_Customer = None, ib_Lines = [], ib_ScopeID = None\<rparr>"

definition party_field :: "string \<Rightarrow> json \<Rightarrow> party_body \<Rightarrow> party_body option" where
  "party_field n v p =
     (if n = ''tax_id'' then map_option (\<lambda>s. p\<lparr>pb_TaxID := s\<rparr>) (dec_string v (pb_TaxID p))
      else map_option (\<lambda>s. p\<lparr>pb_Name := s\<rparr>) (dec_string v (pb_Name p)))"

definition line_field :: "string \<Rightarrow> json \<Rightarrow> document_line_body \<Rightarrow> document_line_body option" where
  "line_field n v l =
     (if n = ''line_id'' then map_option (\<lambda>s. l\<lparr>lb_LineID := s\<rparr>) (dec_string v (lb_LineID l))
      else if n = ''description'' then map_option (\<lambda>s. l\<lparr>lb_Description := s\<rparr>) (dec_string v (lb_Description l))
      else if n = ''quantity'' then map_option (\<lambda>s. l\<lparr>lb_Quantity := s\<rparr>) (dec_string v (lb_Quantity l))
      else if n = ''unit_price'' then map_option (\<lambda>s. l\<lparr>lb_UnitPrice := s\<rparr>) (dec_string v (lb_UnitPrice l))
      else map_option (\<lambda>s. l\<lparr>lb_TaxCode := s\<rparr>) (dec_string v (lb_TaxCode l)))"

text \<open>A null makes a pointer nil; anything else is decoded onto what it points to, or onto a fresh struct.\<close>

definition dec_pointer :: "(json \<Rightarrow> 'a \<Rightarrow> 'a option) \<Rightarrow> 'a \<Rightarrow> json \<Rightarrow> 'a option \<Rightarrow> 'a option option" where
  "dec_pointer dec zero v old =
     (if v = JNull then Some None else map_option Some (dec v (case old of Some x \<Rightarrow> x | None \<Rightarrow> zero)))"

text \<open>
  An array reuses the elements the slice's memory still holds (a second \<^verbatim>\<open>"lines"\<close> member
  is decoded onto the first); the memory beyond the length stays for a third.
\<close>

fun dec_elements :: "(json \<Rightarrow> 'a \<Rightarrow> 'a option) \<Rightarrow> 'a \<Rightarrow> json list \<Rightarrow> 'a list \<Rightarrow> 'a list option" where
  "dec_elements dec zero [] mem = Some []"
| "dec_elements dec zero (v # vs) mem =
     (case dec v (case mem of x # _ \<Rightarrow> x | [] \<Rightarrow> zero) of
        None \<Rightarrow> None
      | Some y \<Rightarrow> map_option ((#) y) (dec_elements dec zero vs (tl mem)))"

record decode_state =
  dz_body :: intent_body
  dz_spare :: "document_line_body list"

fun dec_lines :: "json \<Rightarrow> decode_state \<Rightarrow> decode_state option" where
  "dec_lines (JArr vs) z =
     (let mem = ib_Lines (dz_body z) @ dz_spare z
      in map_option (\<lambda>ls. z\<lparr>dz_body := (dz_body z)\<lparr>ib_Lines := ls\<rparr>,
           dz_spare := (if vs = [] then [] else drop (length vs) mem)\<rparr>)
         (dec_elements (dec_struct [''line_id'', ''description'', ''quantity'', ''unit_price'', ''tax_code''] line_field)
            empty_line vs mem))"
| "dec_lines JNull z = Some (z\<lparr>dz_body := (dz_body z)\<lparr>ib_Lines := []\<rparr>, dz_spare := []\<rparr>)"
| "dec_lines _ z = None"

definition intent_names :: "string list" where
  "intent_names =
     [''external_id'', ''document_type'', ''currency'', ''issued_at'', ''requested_series'', ''seller'', ''customer'',
      ''lines'', ''scope_id'']"

definition dec_party :: "json \<Rightarrow> party_body option \<Rightarrow> party_body option option" where
  "dec_party = dec_pointer (dec_struct [''tax_id'', ''name''] party_field) empty_party"

definition body_field :: "string \<Rightarrow> json \<Rightarrow> decode_state \<Rightarrow> decode_state option" where
  "body_field n v z =
     (let b = dz_body z; keep = map_option (\<lambda>b'. z\<lparr>dz_body := b'\<rparr>)
      in if n = ''external_id'' then keep (map_option (\<lambda>s. b\<lparr>ib_ExternalID := s\<rparr>) (dec_string v (ib_ExternalID b)))
         else if n = ''document_type'' then keep (map_option (\<lambda>s. b\<lparr>ib_DocumentType := s\<rparr>) (dec_string v (ib_DocumentType b)))
         else if n = ''currency'' then keep (map_option (\<lambda>s. b\<lparr>ib_Currency := s\<rparr>) (dec_string v (ib_Currency b)))
         else if n = ''issued_at'' then keep (map_option (\<lambda>s. b\<lparr>ib_IssuedAt := s\<rparr>) (dec_string v (ib_IssuedAt b)))
         else if n = ''requested_series''
         then keep (map_option (\<lambda>s. b\<lparr>ib_RequestedSeries := s\<rparr>) (dec_string v (ib_RequestedSeries b)))
         else if n = ''seller'' then keep (map_option (\<lambda>p. b\<lparr>ib_Seller := p\<rparr>) (dec_party v (ib_Seller b)))
         else if n = ''customer'' then keep (map_option (\<lambda>p. b\<lparr>ib_Customer := p\<rparr>) (dec_party v (ib_Customer b)))
         else if n = ''lines'' then dec_lines v z
         else keep (map_option (\<lambda>p. b\<lparr>ib_ScopeID := p\<rparr>) (dec_pointer dec_string [] v (ib_ScopeID b))))"

datatype decode_error = PayloadTooLarge | InvalidJson | ValidationFailure "field_error list"

definition unfinished :: "bool \<Rightarrow> decode_error" where
  "unfinished tooLarge = (if tooLarge then PayloadTooLarge else InvalidJson)"

text \<open>
  The reader delivers at most \<^verbatim>\<open>maxBodyBytes\<close> bytes and then fails: a value that is not complete by
  then is too large, one that is complete is decoded. A scalar is complete when another byte or
  the end of the body follows.
\<close>

definition decodeDocumentIntent :: "string \<Rightarrow> decode_error + intent_body" where
  "decodeDocumentIntent raw =
     (let tooLarge = maxBodyBytes < length raw
      in case json_read (take maxBodyBytes raw) of
           Cut \<Rightarrow> Inl (unfinished tooLarge)
         | Bad \<Rightarrow> Inl InvalidJson
         | Got v rest \<Rightarrow>
             (let container = (case v of JObj _ \<Rightarrow> True | JArr _ \<Rightarrow> True | _ \<Rightarrow> False)
              in if tooLarge \<and> rest = [] \<and> \<not> container then Inl PayloadTooLarge
                 else case dec_struct intent_names body_field v \<lparr>dz_body = empty_body, dz_spare = []\<rparr> of
                   None \<Rightarrow> Inl InvalidJson
                 | Some z \<Rightarrow>
                     if dec_More rest then Inl (ValidationFailure [\<lparr>fe_Field = ''body'', fe_Code = ''TRAILING_DATA''\<rparr>])
                     else if ib_ScopeID (dz_body z) \<noteq> None
                     then Inl (ValidationFailure [\<lparr>fe_Field = ''scope_id'', fe_Code = ''FORBIDDEN_FIELD''\<rparr>])
                     else Inr (dz_body z)))"

section \<open>From the body to an intent\<close>

definition requireNonEmpty :: "string \<Rightarrow> string \<Rightarrow> field_error list" where
  "requireNonEmpty field v = (if strings_TrimSpace v = [] then [\<lparr>fe_Field = field, fe_Code = ''REQUIRED''\<rparr>] else [])"

definition field_if :: "bool \<Rightarrow> string \<Rightarrow> string \<Rightarrow> field_error list" where
  "field_if b field code = (if b then [\<lparr>fe_Field = field, fe_Code = code\<rparr>] else [])"

definition api_itoa :: "nat \<Rightarrow> string" where
  "api_itoa i = (if i = 0 then ''0'' else nat_digits i)"

definition map_line :: "string \<Rightarrow> document_line_body \<Rightarrow> field_error list \<times> canonical_line option" where
  "map_line p ln =
     (let req = requireNonEmpty (p @ ''.line_id'') (lb_LineID ln) @ requireNonEmpty (p @ ''.description'') (lb_Description ln)
            @ requireNonEmpty (p @ ''.tax_code'') (lb_TaxCode ln)
      in case quantity_ParseCanonical (lb_Quantity ln) of
           Inl _ \<Rightarrow> (req @ [\<lparr>fe_Field = p @ ''.quantity'', fe_Code = ''INVALID_FORMAT''\<rparr>], None)
         | Inr q \<Rightarrow>
             (case money_ParseCanonical (lb_UnitPrice ln) of
                Inl _ \<Rightarrow> (req @ [\<lparr>fe_Field = p @ ''.unit_price'', fe_Code = ''INVALID_FORMAT''\<rparr>], None)
              | Inr price \<Rightarrow>
                  (req, Some \<lparr>ln_LineID = lb_LineID ln, ln_Description = lb_Description ln, ln_Quantity = q,
                              ln_UnitPrice = price, ln_TaxCode = lb_TaxCode ln\<rparr>)))"

fun map_lines :: "nat \<Rightarrow> document_line_body list \<Rightarrow> field_error list \<times> canonical_line list" where
  "map_lines i [] = ([], [])"
| "map_lines i (ln # lns) =
     (case map_line (''lines['' @ api_itoa i @ '']'') ln of
        (e, l) \<Rightarrow> (case map_lines (Suc i) lns of (es, ls) \<Rightarrow> (e @ es, (case l of None \<Rightarrow> ls | Some x \<Rightarrow> x # ls))))"

definition header_errors :: "doctype_error + registry \<Rightarrow> intent_body \<Rightarrow> field_error list" where
  "header_errors catalog body =
     requireNonEmpty ''external_id'' (ib_ExternalID body)
     @ field_if (100 < length (ib_ExternalID body)) ''external_id'' ''MAX_LENGTH''
     @ field_if (isl (doctype_ResolveAPI catalog (ib_DocumentType body))) ''document_type'' ''INVALID_ENUM''
     @ field_if (ib_Currency body \<noteq> ''AOA'') ''currency'' ''INVALID_ENUM''
     @ (case ib_Seller body of
          None \<Rightarrow> [\<lparr>fe_Field = ''seller'', fe_Code = ''REQUIRED''\<rparr>]
        | Some s \<Rightarrow> requireNonEmpty ''seller.tax_id'' (pb_TaxID s) @ requireNonEmpty ''seller.name'' (pb_Name s))
     @ field_if (length (ib_Lines body) = 0) ''lines'' ''REQUIRED''"

definition mapIntent ::
  "doctype_error + registry \<Rightarrow> string \<Rightarrow> intent_body \<Rightarrow> normalized_issued \<Rightarrow> field_error list + document_intent" where
  "mapIntent catalog scopeID body issued =
     (let seller = (case ib_Seller body of Some s \<Rightarrow> s | None \<Rightarrow> empty_party);
          customer = (case ib_Customer body of Some c \<Rightarrow> c | None \<Rightarrow> empty_party);
          (lineErrs, ls) = map_lines 0 (ib_Lines body);
          errs = header_errors catalog body @ lineErrs
      in if errs \<noteq> [] then Inl errs
         else Inr \<lparr>di_ScopeID = scopeID, di_ExternalID = ib_ExternalID body, di_DocumentType = ib_DocumentType body,
                   di_Currency = ib_Currency body, di_IssuedAtUTC = ni_UTCString issued,
                   di_IssuedTimezone = ni_Timezone issued, di_IssuedOffsetMinutes = ni_OffsetMinutes issued,
                   di_RequestedSeries = ib_RequestedSeries body, di_SellerTaxID = pb_TaxID seller,
                   di_SellerName = pb_Name seller, di_CustomerTaxID = pb_TaxID customer,
                   di_CustomerName = pb_Name customer, di_Lines = ls\<rparr>)"

section \<open>The handler\<close>

text \<open>The interface of the source: a request identifier and a header, against the credential tables.\<close>

type_synonym authenticator = "string \<Rightarrow> string \<Rightarrow> cred_db \<Rightarrow> (auth_error + scope_binding) \<times> cred_db"

definition store_authenticator :: "auth_env \<Rightarrow> authenticator" where
  "store_authenticator ax reqID header db = Authenticate (ax\<lparr>ax_requestID := reqID\<rparr>) header db"

definition dev_authenticator :: "(string \<Rightarrow> string) \<Rightarrow> dev_static \<Rightarrow> authenticator" where
  "dev_authenticator sha256 d reqID header db = (Authenticate_dev sha256 d header, db)"

text \<open>What a request meets: clocks, random draws, and the code outside the repository.\<close>

record api_env =
  ae_tzs :: tzdb
  ae_sha256 :: "string \<Rightarrow> string"
  ae_dialect :: dialect
  ae_catalog :: "doctype_error + registry"
  ae_mediatype :: "string \<Rightarrow> (string \<times> (string \<rightharpoonup> string)) option"
  ae_uuid_ok :: "string \<Rightarrow> bool"
  ae_auditor :: bool
  ae_auditClock :: gotime
  ae_auditEventID :: string
  ae_sealClock :: gotime
  ae_sealIDs :: seal_ids
  ae_random :: string

record api_db =
  ap_cred :: cred_db
  ap_fiscal :: fiscal_db

definition hex_digit :: "nat \<Rightarrow> char" where
  "hex_digit n = (if n < 10 then char_of (48 + n) else char_of (87 + n))"

definition hex_encode :: "string \<Rightarrow> string" where
  "hex_encode s = concat (map (\<lambda>c. [hex_digit (byte_val c div 16), hex_digit (byte_val c mod 16)]) s)"

definition newRequestID :: "string \<Rightarrow> string" where
  "newRequestID random = ''req_'' @ hex_encode random"

definition correlation_char :: "char \<Rightarrow> bool" where
  "correlation_char c \<longleftrightarrow>
     (let n = byte_val c
      in 65 \<le> n \<and> n \<le> 90 \<or> 97 \<le> n \<and> n \<le> 122 \<or> 48 \<le> n \<and> n \<le> 57 \<or> c \<in> set ''._:-'')"

definition correlation_header :: "string \<Rightarrow> (string \<times> string) list" where
  "correlation_header raw =
     (let corr = strings_TrimSpace raw
      in if corr \<noteq> [] \<and> length corr \<le> maxCorrelationIDLen \<and> list_all correlation_char corr
         then [(''X-Correlation-Id'', corr)] else [])"

definition content_type :: "string \<times> string" where
  "content_type = (''Content-Type'', ''application/json; charset=utf-8'')"

definition writeProblem :: "string \<Rightarrow> (string \<times> string) list \<Rightarrow> int \<Rightarrow> string \<Rightarrow> string \<Rightarrow> field_error list \<Rightarrow> answer" where
  "writeProblem reqID headers status typ code errs =
     \<lparr>an_Status = status, an_Headers = headers @ [content_type],
      an_Body = ProblemBody \<lparr>pr_Type = typ, pr_Status = status, pr_Code = code, pr_RequestID = reqID, pr_Errors = errs\<rparr>\<rparr>"

definition invalid_document :: "string \<Rightarrow> field_error list \<Rightarrow> answer" where
  "invalid_document reqID errs =
     writeProblem reqID [] 422 ''urn:bwb:fiscal:error:validation'' ''FISCAL_VALIDATION_FAILED'' errs"

definition requireJSONContentType :: "(string \<Rightarrow> (string \<times> (string \<rightharpoonup> string)) option) \<Rightarrow> string \<Rightarrow> bool" where
  "requireJSONContentType parse raw \<longleftrightarrow>
     strings_TrimSpace raw \<noteq> []
     \<and> (case parse raw of
          None \<Rightarrow> False
        | Some (mediatype, params) \<Rightarrow>
            strings_EqualFold mediatype ''application/json''
            \<and> (case params ''charset'' of
                 None \<Rightarrow> True
               | Some cs \<Rightarrow> (let cs = go_lower (strings_TrimSpace cs) in cs = [] \<or> cs = ''utf-8'' \<or> cs = ''utf8'')))"

definition created_answer :: "seal_result \<Rightarrow> answer" where
  "created_answer res =
     \<lparr>an_Status = 201, an_Headers = [content_type],
      an_Body = CreatedBody \<lparr>cn_ID = rs_DocumentID res, cn_ExternalID = rs_ExternalID res,
        cn_Status = statusSealedLocally, cn_SubmissionID = rs_SubmissionID res,
        cn_CreatedAt = format_rfc3339nano (rs_CreatedAt res) 0\<rparr>\<rparr>"

fun seal_answer :: "string \<Rightarrow> store_error + seal_result \<Rightarrow> answer" where
  "seal_answer reqID (Inr res) = created_answer res"
| "seal_answer reqID (Inl ErrIdempotencyConflict) =
     writeProblem reqID [] 409 ''urn:bwb:fiscal:error:idempotency-conflict'' ''FISCAL_IDEMPOTENCY_CONFLICT'' []"
| "seal_answer reqID (Inl ErrExternalIDConflict) =
     writeProblem reqID [] 409 ''urn:bwb:fiscal:error:external-id-conflict'' ''FISCAL_EXTERNAL_ID_CONFLICT'' []"
| "seal_answer reqID (Inl (ValidationError f c)) = invalid_document reqID [\<lparr>fe_Field = f, fe_Code = c\<rparr>]"
| "seal_answer reqID (Inl _) =
     writeProblem reqID [] 500 ''urn:bwb:fiscal:error:internal'' ''FISCAL_INTERNAL_ERROR'' []"

text \<open>After authentication: everything that can be refused before the database is asked.\<close>

definition readDocument ::
  "api_env \<Rightarrow> string \<Rightarrow> http_request \<Rightarrow> scope_binding \<Rightarrow> answer + string \<times> intent_body \<times> document_intent" where
  "readDocument ae reqID rq b =
     (let idemKey = strings_TrimSpace (rq_IdempotencyKey rq)
      in if \<not> requireJSONContentType (ae_mediatype ae) (rq_ContentType rq)
         then Inl (writeProblem reqID [] 415 ''urn:bwb:fiscal:error:unsupported-media-type'' ''FISCAL_UNSUPPORTED_MEDIA_TYPE'' [])
         else if \<not> ae_uuid_ok ae idemKey
         then Inl (invalid_document reqID [\<lparr>fe_Field = ''Idempotency-Key'', fe_Code = ''INVALID_UUID''\<rparr>])
         else case decodeDocumentIntent (rq_Body rq) of
           Inl PayloadTooLarge \<Rightarrow>
             Inl (writeProblem reqID [] 413 ''urn:bwb:fiscal:error:payload-too-large'' ''FISCAL_PAYLOAD_TOO_LARGE'' [])
         | Inl (ValidationFailure errs) \<Rightarrow> Inl (invalid_document reqID errs)
         | Inl InvalidJson \<Rightarrow> Inl (invalid_document reqID [\<lparr>fe_Field = ''body'', fe_Code = ''INVALID_JSON''\<rparr>])
         | Inr body \<Rightarrow>
             if strings_TrimSpace (ib_IssuedAt body) = []
             then Inl (invalid_document reqID [\<lparr>fe_Field = ''issued_at'', fe_Code = ''REQUIRED''\<rparr>])
             else case NormalizeIssued (ae_tzs ae) (ib_IssuedAt body) (sn_IANATimezone b) of
               Inl _ \<Rightarrow> Inl (invalid_document reqID [\<lparr>fe_Field = ''issued_at'', fe_Code = ''INVALID_ISSUED_AT''\<rparr>])
             | Inr issued \<Rightarrow>
                 (case mapIntent (ae_catalog ae) (sn_ScopeID b) body issued of
                    Inl ferrs \<Rightarrow> Inl (invalid_document reqID ferrs)
                  | Inr intent \<Rightarrow> Inr (idemKey, body, intent)))"

definition seller_nif :: "intent_body \<Rightarrow> string" where
  "seller_nif body = (case ib_Seller body of Some s \<Rightarrow> strings_TrimSpace (pb_TaxID s) | None \<Rightarrow> [])"

definition auditMismatch :: "api_env \<Rightarrow> string \<Rightarrow> scope_binding \<Rightarrow> cred_db \<Rightarrow> cred_db" where
  "auditMismatch ae reqID b db =
     (if ae_auditor ae then
        best_effort_audit (ae_dialect ae) (ae_auditClock ae) (ae_auditEventID ae)
          \<lparr>av_Action = ''auth.scope_mismatch'', av_Result = ''failure'', av_ReasonCode = ''nif_mismatch'',
           av_RequestID = reqID, av_CredentialID = sn_CredentialID b, av_ScopeID = sn_ScopeID b\<rparr> db
      else db)"

definition serve_bound ::
  "api_env \<Rightarrow> string \<Rightarrow> http_request \<Rightarrow> scope_binding \<Rightarrow> api_db \<Rightarrow> answer \<times> api_db" where
  "serve_bound ae reqID rq b db =
     (case readDocument ae reqID rq b of
        Inl a \<Rightarrow> (a, db)
      | Inr (idemKey, body, intent) \<Rightarrow>
          if seller_nif body \<noteq> sn_TaxpayerNIF b then
            (writeProblem reqID [] 403 ''urn:bwb:fiscal:error:scope-mismatch'' ''FISCAL_SCOPE_MISMATCH'' [],
             db\<lparr>ap_cred := auditMismatch ae reqID b (ap_cred db)\<rparr>)
          else
            (case SealInTx (ae_tzs ae) (ae_sha256 ae) (ae_dialect ae) (ae_sealClock ae) (ae_sealIDs ae)
                    \<lparr>sq_IdempotencyKey = idemKey, sq_SeriesCode = sn_SeriesEffectiveCode b, sq_Intent = intent\<rparr>
                    (ap_fiscal db) of
               (res, fdb) \<Rightarrow> (seal_answer reqID res, db\<lparr>ap_fiscal := fdb\<rparr>)))"

definition ServeHTTP_documents ::
  "authenticator \<Rightarrow> api_env \<Rightarrow> string \<Rightarrow> http_request \<Rightarrow> api_db \<Rightarrow> answer \<times> api_db" where
  "ServeHTTP_documents auth ae reqID rq db =
     (if rq_Method rq \<noteq> ''POST'' then
        (writeProblem reqID [(''Allow'', ''POST'')] 405 ''urn:bwb:fiscal:error:method-not-allowed''
           ''FISCAL_METHOD_NOT_ALLOWED'' [], db)
      else
        (case auth reqID (rq_Authorization rq) (ap_cred db) of
           (Inl ErrForbidden, cdb) \<Rightarrow>
             (writeProblem reqID [] 403 ''urn:bwb:fiscal:error:forbidden'' ''FISCAL_FORBIDDEN'' [], db\<lparr>ap_cred := cdb\<rparr>)
         | (Inl (ErrInternal _), cdb) \<Rightarrow>
             (writeProblem reqID [] 500 ''urn:bwb:fiscal:error:internal'' ''FISCAL_INTERNAL_ERROR'' [], db\<lparr>ap_cred := cdb\<rparr>)
         | (Inl ErrUnauthorized, cdb) \<Rightarrow>
             (writeProblem reqID [(''WWW-Authenticate'', ''Bearer realm='' @ [quote] @ ''fiscal-api'' @ [quote])] 401
                ''urn:bwb:fiscal:error:unauthorized'' ''FISCAL_UNAUTHORIZED'' [], db\<lparr>ap_cred := cdb\<rparr>)
         | (Inr b, cdb) \<Rightarrow> serve_bound ae reqID rq b (db\<lparr>ap_cred := cdb\<rparr>)))"

text \<open>The middleware sets its headers first.\<close>

definition WithRequestID :: "string \<Rightarrow> string \<Rightarrow> (string \<Rightarrow> answer \<times> 'db) \<Rightarrow> answer \<times> 'db" where
  "WithRequestID random correlation next =
     (let reqID = newRequestID random; (a, db) = next reqID
      in (a\<lparr>an_Headers := [(''X-Request-Id'', reqID)] @ correlation_header correlation @ an_Headers a\<rparr>, db))"

definition post_document :: "authenticator \<Rightarrow> api_env \<Rightarrow> http_request \<Rightarrow> api_db \<Rightarrow> answer \<times> api_db" where
  "post_document auth ae rq db =
     WithRequestID (ae_random ae) (rq_CorrelationID rq) (\<lambda>reqID. ServeHTTP_documents auth ae reqID rq db)"

end
