(* ===== verification/CredentialInvariants.thy ===== *)
theory CredentialInvariants
  imports Auth
begin

text \<open>
  The credential store as a transition system: the invariant of its tables and the progress no
  operation undoes (scopes and audit only grow, a credential only moves towards revoked).
\<close>

section \<open>The invariant\<close>

definition grace_coherent :: "credential_row \<Rightarrow> bool" where
  "grace_coherent c \<longleftrightarrow> (cr_status c = CredGrace \<longleftrightarrow> cr_grace_until c \<noteq> None)"

definition cred_inv :: "cred_db \<Rightarrow> bool" where
  "cred_inv db \<longleftrightarrow>
     distinct (map sp_scope_id (scopes db)) \<and> distinct (map au_event_id (audit_events db))
     \<and> credential_unique (api_credentials db)
     \<and> (\<forall>c \<in> set (api_credentials db). credential_check c \<and> grace_coherent c \<and> cr_id c \<noteq> [] \<and> credential_fk c db)"

definition cred_row_le :: "credential_row \<Rightarrow> credential_row \<Rightarrow> bool" where
  "cred_row_le c c' \<longleftrightarrow>
     cr_id c' = cr_id c \<and> cr_scope c' = cr_scope c \<and> cr_token_hash c' = cr_token_hash c
     \<and> cr_expires_at c' = cr_expires_at c \<and> cr_rotated_from c' = cr_rotated_from c
     \<and> cr_created_at c' = cr_created_at c \<and> cr_created_by c' = cr_created_by c
     \<and> (cr_status c' = CredActive \<longrightarrow> cr_status c = CredActive)
     \<and> (cr_status c = CredRevoked \<longrightarrow> c' = c)"

definition cred_le :: "cred_db \<Rightarrow> cred_db \<Rightarrow> bool" where
  "cred_le db db' \<longleftrightarrow>
     prefix (scopes db) (scopes db') \<and> prefix (audit_events db) (audit_events db')
     \<and> rows_le cred_row_le (api_credentials db) (api_credentials db')"

lemma cred_row_le_refl: "cred_row_le c c"
  by (simp add: cred_row_le_def)

lemma cred_row_le_trans: "cred_row_le a b \<Longrightarrow> cred_row_le b c \<Longrightarrow> cred_row_le a c"
  unfolding cred_row_le_def by metis

lemma cred_le_refl: "cred_le db db"
  by (simp add: cred_le_def rows_le_refl cred_row_le_refl)

lemma cred_le_trans: "cred_le s t \<Longrightarrow> cred_le t u \<Longrightarrow> cred_le s u"
  unfolding cred_le_def
  using rows_le_trans [of cred_row_le "api_credentials s" "api_credentials t" "api_credentials u"] cred_row_le_trans
  by (meson prefix_order.order_trans)

lemma cred_invD:
  assumes "cred_inv db"
  shows "credential_unique (api_credentials db)" "distinct (map sp_scope_id (scopes db))"
    and "c \<in> set (api_credentials db) \<Longrightarrow> credential_check c \<and> grace_coherent c \<and> cr_id c \<noteq> [] \<and> credential_fk c db"
  using assms by (simp_all add: cred_inv_def)

definition step_ok :: "cred_db \<Rightarrow> cred_db \<Rightarrow> bool" where
  "step_ok db db' \<longleftrightarrow> cred_inv db' \<and> cred_le db db'"

lemma step_ok_refl: "cred_inv db \<Longrightarrow> step_ok db db"
  by (simp add: step_ok_def cred_le_refl)

lemma step_ok_trans: "step_ok a b \<Longrightarrow> step_ok b c \<Longrightarrow> step_ok a c"
  unfolding step_ok_def using cred_le_trans by blast

lemma step_okD: "step_ok a b \<Longrightarrow> cred_inv b"
  by (simp add: step_ok_def)

section \<open>Statements\<close>

lemma update_credentials_Inr:
  "update_credentials P f db = Inr db' \<longleftrightarrow>
   list_all credential_check (update_where P f (api_credentials db)) \<and> credential_unique (update_where P f (api_credentials db))
   \<and> db' = db\<lparr>api_credentials := update_where P f (api_credentials db)\<rparr>"
  by (auto simp: update_credentials_def Let_def)

text \<open>The foreign keys look at identifiers and scopes of credentials only.\<close>

lemma credential_fk_keys:
  assumes "scopes db' = scopes db"
    and "(\<lambda>x. (cr_id x, cr_scope x)) ` set (api_credentials db) \<subseteq> (\<lambda>x. (cr_id x, cr_scope x)) ` set (api_credentials db')"
    and "credential_fk c db" "cr_scope c' = cr_scope c" "cr_rotated_from c' = cr_rotated_from c"
  shows "credential_fk c' db'"
  using assms unfolding credential_fk_def has_scope_def list_ex_key2 by (auto split: option.splits)

lemma update_ok:
  assumes inv: "cred_inv db" and u: "update_credentials P f db = Inr db'"
    and f: "\<And>c. P c \<Longrightarrow> cred_row_le c (f c) \<and> grace_coherent (f c)"
  shows "step_ok db db'"
proof -
  note I = cred_invD [OF inv]
  let ?rows = "update_where P f (api_credentials db)"
  note u = u [unfolded update_credentials_Inr]
  have le: "cred_row_le c (if P c then f c else c)" for c using f cred_row_le_refl by simp
  have same: "cr_id (if P c then f c else c) = cr_id c" "cr_scope (if P c then f c else c) = cr_scope c" for c
    using le [of c] unfolding cred_row_le_def by blast+
  have ids: "map (\<lambda>x. (cr_id x, cr_scope x)) ?rows = map (\<lambda>x. (cr_id x, cr_scope x)) (api_credentials db)"
    by (simp only: update_where_def map_map o_def same)
  have "credential_check c' \<and> grace_coherent c' \<and> cr_id c' \<noteq> [] \<and> credential_fk c' db'" if c': "c' \<in> set ?rows" for c'
  proof -
    obtain c where c: "c \<in> set (api_credentials db)" "c' = (if P c then f c else c)"
      using c' by (auto simp: set_update_where)
    have "credential_check c'" using u c' by (auto simp: list_all_iff)
    moreover have "grace_coherent c'" using c f I(3) by auto
    moreover have "cred_row_le c c'" using le c(2) by simp
    moreover have "credential_fk c' db'"
      by (rule credential_fk_keys [of db' db c])
        (use I(3) [OF c(1)] \<open>cred_row_le c c'\<close> u ids in \<open>auto simp: cred_row_le_def set_map [symmetric] simp del: set_map\<close>)
    ultimately show ?thesis using I(3) [OF c(1)] by (simp add: cred_row_le_def)
  qed
  then have "cred_inv db'" using inv u by (simp add: cred_inv_def)
  moreover have "cred_le db db'" using u le by (simp add: cred_le_def rows_le_update)
  ultimately show ?thesis by (simp add: step_ok_def)
qed

lemma markRevoked_ok:
  assumes "cred_inv db" "markRevoked scopeID i now db = Inr db'"
  shows "step_ok db db'"
proof -
  have "update_credentials (\<lambda>c. cr_id c = i \<and> cr_scope c = scopeID \<and> cr_status c \<noteq> CredRevoked)
      (\<lambda>c. c\<lparr>cr_status := CredRevoked, cr_revoked_at := Some now, cr_grace_until := None\<rparr>) db = Inr db'"
    using assms(2) by (auto simp: markRevoked_def Let_def bind_result_Inr split: if_splits)
  then show ?thesis
    by (rule update_ok [OF assms(1)]) (simp add: cred_row_le_def grace_coherent_def)
qed

lemma demote_ok:
  assumes "cred_inv db" "demote_active scopeID i g db = Inr db'"
  shows "step_ok db db'"
  by (rule update_ok [OF assms(1) assms(2) [unfolded demote_active_def]]) (simp add: cred_row_le_def grace_coherent_def)

lemma insert_ok:
  assumes inv: "cred_inv db" and ins: "insertCredential dia a db = Inr (rec, db')"
    and a: "ia_CredentialID a \<noteq> []" "ia_Status a = CredActive"
  shows "step_ok db db'"
proof -
  let ?c = "credential_of_args dia a"
  note I = cred_invD [OF inv]
  have c: "credential_check ?c" "credential_unique (api_credentials db @ [?c])" "credential_fk ?c db"
    and db': "db' = db\<lparr>api_credentials := api_credentials db @ [?c]\<rparr>"
    using ins by (auto simp: insertCredential_def Let_def split: if_splits)
  have fk: "credential_fk x db'" if "credential_fk x db" for x
    by (rule credential_fk_keys [OF _ _ that]) (auto simp: db')
  have "cred_inv db'"
    using inv c a fk by (auto simp: cred_inv_def db' grace_coherent_def credential_of_args_def)
  moreover have "cred_le db db'" by (simp add: cred_le_def db' rows_le_append cred_row_le_refl)
  ultimately show ?thesis by (simp add: step_ok_def)
qed

lemma writeAudit_Inr:
  assumes "writeAudit dia i ev db = Inr db'"
  obtains r where "db' = db\<lparr>audit_events := audit_events db @ [r]\<rparr>" "au_event_id r = i" "i \<notin> au_event_id ` set (audit_events db)"
    "au_action r = ae_Action ev"
  using assms unfolding writeAudit_def Let_def list_ex_key by (auto split: if_splits)

lemma writeAudit_ok:
  assumes inv: "cred_inv db" and w: "writeAudit dia i ev db = Inr db'"
  shows "step_ok db db'"
proof (rule writeAudit_Inr [OF w])
  fix r
  assume r: "db' = db\<lparr>audit_events := audit_events db @ [r]\<rparr>" "au_event_id r = i" "i \<notin> au_event_id ` set (audit_events db)"
  have "credential_fk x db'" if "credential_fk x db" for x
    by (rule credential_fk_keys [OF _ _ that]) (auto simp: r(1))
  then show ?thesis
    using inv r by (simp add: step_ok_def cred_inv_def cred_le_def rows_le_refl cred_row_le_refl)
qed

section \<open>Operations\<close>

lemma withScopeTx_ok:
  assumes "cred_inv db" "\<And>v db'. fn (trunc_us clock) db = Inr (v, db') \<Longrightarrow> step_ok db db'"
  shows "step_ok db (snd (withScopeTx clock scopeID fn db))"
  using assms step_ok_refl by (auto simp: withScopeTx_def split: sum.split)

lemma issue_tx_ok:
  assumes "cred_inv db" "dr_credID dr \<noteq> []"
    "issue_tx sha256 dia dr scopeID createdBy expiresAt requestID sink now db = Inr (rec, db')"
  shows "step_ok db db'"
  using assms(3) step_ok_trans [OF insert_ok [OF assms(1)] writeAudit_ok]
  by (fastforce simp: issue_tx_def generateCredentialToken_def Let_def bind_result_Inr assms(2) step_okD
      dest: insert_ok [OF assms(1)] split: if_splits)

lemma rotate_tx_steps:
  assumes "rotate_tx sha256 dia dr scopeID createdBy graceUntil expiresAt requestID sink now db = Inr ((rec, prev), db')"
  obtains db1 db2 db3 where "prev = findStatusID scopeID CredActive db" "prev \<noteq> []"
    "(if findStatusID scopeID CredGrace db \<noteq> [] then markRevoked scopeID (findStatusID scopeID CredGrace db) (stamp dia now) db else Inr db) = Inr db1"
    "demote_active scopeID prev (stamp dia graceUntil) db1 = Inr db2"
    "insertCredential dia
       \<lparr>ia_CredentialID = dr_credID dr, ia_ScopeID = scopeID, ia_TokenHash = snd (generateCredentialToken sha256 (dr_raw dr)),
        ia_Status = CredActive, ia_ExpiresAt = expiresAt, ia_RotatedFrom = Some prev, ia_CreatedAt = now, ia_CreatedBy = createdBy\<rparr> db2
      = Inr (rec, db3)"
    "writeAudit dia (dr_eventID dr) (audit_ok now ''credential.rotate'' (dr_credID dr) scopeID [] requestID) db3 = Inr db'"
  using assms by (auto simp: rotate_tx_def generateCredentialToken_def Let_def bind_result_Inr split: if_splits)

lemma rotate_tx_ok:
  assumes inv: "cred_inv db" and id: "dr_credID dr \<noteq> []"
    and tx: "rotate_tx sha256 dia dr scopeID createdBy graceUntil expiresAt requestID sink now db = Inr (v, db')"
  shows "step_ok db db'"
proof -
  obtain rec prev where v: "v = (rec, prev)" by (metis prod.collapse)
  show ?thesis
  proof (rule rotate_tx_steps [OF tx [unfolded v]])
    fix db1 db2 db3
    assume 1: "(if findStatusID scopeID CredGrace db \<noteq> [] then markRevoked scopeID (findStatusID scopeID CredGrace db) (stamp dia now) db else Inr db) = Inr db1"
      and 2: "demote_active scopeID prev (stamp dia graceUntil) db1 = Inr db2"
      and 3: "insertCredential dia
       \<lparr>ia_CredentialID = dr_credID dr, ia_ScopeID = scopeID, ia_TokenHash = snd (generateCredentialToken sha256 (dr_raw dr)),
        ia_Status = CredActive, ia_ExpiresAt = expiresAt, ia_RotatedFrom = Some prev, ia_CreatedAt = now, ia_CreatedBy = createdBy\<rparr> db2
      = Inr (rec, db3)"
      and 4: "writeAudit dia (dr_eventID dr) (audit_ok now ''credential.rotate'' (dr_credID dr) scopeID [] requestID) db3 = Inr db'"
    have s1: "step_ok db db1" using 1 markRevoked_ok [OF inv] step_ok_refl [OF inv] by (auto split: if_splits)
    have s2: "step_ok db1 db2" by (rule demote_ok [OF step_okD [OF s1] 2])
    have s3: "step_ok db2 db3" by (rule insert_ok [OF step_okD [OF s2] 3]) (simp_all add: id)
    have s4: "step_ok db3 db'" by (rule writeAudit_ok [OF step_okD [OF s3] 4])
    show ?thesis using s1 s2 s3 s4 step_ok_trans by blast
  qed
qed

lemma revoke_tx_ok:
  assumes "cred_inv db" "revoke_tx dia eventID scopeID credentialID requestID reason now db = Inr (rec, db')"
  shows "step_ok db db'"
proof -
  obtain db1 where 1: "markRevoked scopeID credentialID (stamp dia now) db = Inr db1"
    and 2: "writeAudit dia eventID (audit_ok now ''credential.revoke'' credentialID scopeID reason requestID) db1 = Inr db'"
    using assms(2) by (auto simp: revoke_tx_def bind_result_Inr split: option.splits if_splits)
  show ?thesis using markRevoked_ok [OF assms(1) 1] writeAudit_ok [OF _ 2] step_okD step_ok_trans by blast
qed

lemma CreateScope_ok:
  assumes inv: "cred_inv db"
  shows "step_ok db (snd (CreateScope dia clock p db))"
proof (cases "snd (CreateScope dia clock p db) = db")
  case True
  then show ?thesis using step_ok_refl [OF inv] by simp
next
  case False
  then obtain s where s: "snd (CreateScope dia clock p db) = db\<lparr>scopes := scopes db @ [s]\<rparr>" "\<not> has_scope (sp_scope_id s) db"
    by (auto simp: CreateScope_def Let_def split: if_splits)
  have "credential_fk c (db\<lparr>scopes := scopes db @ [s]\<rparr>)" if "credential_fk c db" for c
    using that by (auto simp: credential_fk_def has_scope_def split: option.splits)
  then show ?thesis
    using inv s(2) unfolding s(1) step_ok_def cred_inv_def cred_le_def has_scope_def list_ex_key
    by (simp add: rows_le_refl cred_row_le_refl)
qed

lemma best_effort_audit_ok: "cred_inv db \<Longrightarrow> step_ok db (best_effort_audit dia clock i ev db)"
  using writeAudit_ok step_ok_refl
  by (auto simp: best_effort_audit_def RecordAuthAudit_def Let_def split: sum.split)

lemma Authenticate_ok:
  assumes "cred_inv db"
  shows "step_ok db (snd (Authenticate ax header db))"
  using best_effort_audit_ok [OF assms] step_ok_refl [OF assms]
  by (auto simp: Authenticate_def auditReject_def Let_def split: option.split sum.split)

section \<open>The transition system\<close>

datatype cred_event =
  ScopeEv dialect gotime create_scope_params
| IssueEv dialect gotime cred_draw issue_params
| RotateEv dialect gotime gotime cred_draw rotate_params
| RevokeEv dialect gotime string revoke_params
| AuthEv auth_env string

text \<open>\<^verbatim>\<open>newID\<close> never draws the empty string, which the store uses for no credential.\<close>

fun cred_step :: "(string \<Rightarrow> string) \<Rightarrow> cred_event \<Rightarrow> cred_db \<Rightarrow> cred_db" where
  "cred_step sha256 (ScopeEv dia clock p) db = snd (CreateScope dia clock p db)"
| "cred_step sha256 (IssueEv dia clock dr p) db =
     (if dr_credID dr = [] then db else snd (Issue sha256 dia clock dr p db))"
| "cred_step sha256 (RotateEv dia clock1 clock2 dr p) db =
     (if dr_credID dr = [] then db else snd (Rotate sha256 dia clock1 clock2 dr p db))"
| "cred_step sha256 (RevokeEv dia clock i p) db = snd (Revoke dia clock i p db)"
| "cred_step sha256 (AuthEv ax header) db = snd (Authenticate (ax\<lparr>ax_sha256 := sha256\<rparr>) header db)"

definition empty_cred_db :: cred_db where
  "empty_cred_db = \<lparr>scopes = [], api_credentials = [], audit_events = []\<rparr>"

lemma cred_step_ok:
  assumes inv: "cred_inv db"
  shows "step_ok db (cred_step sha256 ev db)"
proof (cases ev)
  case (ScopeEv dia clock p)
  then show ?thesis by (simp add: CreateScope_ok [OF inv])
next
  case (IssueEv dia clock dr p)
  then show ?thesis
    using step_ok_refl [OF inv] by (auto simp: Issue_def Let_def intro!: withScopeTx_ok inv dest: issue_tx_ok [OF inv] split: option.split)
next
  case (RotateEv dia clock1 clock2 dr p)
  then show ?thesis
    using step_ok_refl [OF inv] by (auto simp: Rotate_def Let_def intro!: withScopeTx_ok inv dest: rotate_tx_ok [OF inv] split: option.split)
next
  case (RevokeEv dia clock i p)
  then show ?thesis
    using step_ok_refl [OF inv] by (auto simp: Revoke_def Let_def intro!: withScopeTx_ok inv dest: revoke_tx_ok [OF inv])
next
  case (AuthEv ax header)
  then show ?thesis by (simp add: Authenticate_ok [OF inv])
qed

lemma cred_start: "db = empty_cred_db \<Longrightarrow> cred_inv db"
  by (simp add: empty_cred_db_def cred_inv_def credential_unique_def with_status_def)

interpretation creds: monotone_machine "\<lambda>db. db = empty_cred_db" "cred_step sha256" cred_inv cred_le for sha256
  by unfold_locales
    (fact cred_start conjunct1 [OF cred_step_ok [unfolded step_ok_def]] cred_le_refl cred_le_trans
      conjunct2 [OF cred_step_ok [unfolded step_ok_def]])+

end
