(* ===== verification/CredentialProperties.thy ===== *)
theory CredentialProperties
  imports CredentialInvariants
begin

text \<open>
  What the credential store and its authenticator promise: one active and one grace credential per
  scope, rotation as a total operation with its exact effect, an exact account of who is let in,
  tokens that work when issued and never after revocation.
\<close>

section \<open>The tables\<close>

text \<open>
  C23: whatever scopes are created and credentials issued, rotated, revoked and presented, a scope
  has at most one active and at most one grace credential, no two credentials share a token hash, a
  grace deadline is present exactly on grace credentials and a revocation time exactly on revoked
  ones, and every predecessor of a rotation is a credential of the same scope.
\<close>

theorem credentials_consistent:
  "distinct (with_status CredActive (api_credentials (fold (cred_step sha256) es empty_cred_db)))
   \<and> distinct (with_status CredGrace (api_credentials (fold (cred_step sha256) es empty_cred_db)))
   \<and> distinct (map cr_token_hash (api_credentials (fold (cred_step sha256) es empty_cred_db)))
   \<and> list_all (\<lambda>c. (cr_status c = CredGrace \<longleftrightarrow> cr_grace_until c \<noteq> None) \<and> (cr_status c = CredRevoked \<longleftrightarrow> cr_revoked_at c \<noteq> None)
        \<and> credential_fk c (fold (cred_step sha256) es empty_cred_db)) (api_credentials (fold (cred_step sha256) es empty_cred_db))"
  using creds.reach_inv [OF refl, of sha256 es]
  by (simp add: cred_inv_def credential_unique_def list_all_iff grace_coherent_def credential_check_def)

section \<open>Who is let in\<close>

lemma find_hash:
  assumes "cred_inv db" "c \<in> set (api_credentials db)"
  shows "find (\<lambda>x. cr_token_hash x = cr_token_hash c) (api_credentials db) = Some c"
  using assms(1) by (intro find_distinct_key [OF _ assms(2)]) (simp add: cred_inv_def credential_unique_def)

lemma find_scope:
  assumes "cred_inv db" "s \<in> set (scopes db)"
  shows "find (\<lambda>x. sp_scope_id x = sp_scope_id s) (scopes db) = Some s"
  using assms(1) by (intro find_distinct_key [OF _ assms(2)]) (simp add: cred_inv_def)

definition auth_record_of :: "credential_row \<Rightarrow> scope_row \<Rightarrow> gotime option \<Rightarrow> gotime option \<Rightarrow> gotime option \<Rightarrow> credential_auth_record" where
  "auth_record_of c s e g r =
     \<lparr>ca_CredentialID = cr_id c, ca_ScopeID = cr_scope c, ca_Status = cr_status c, ca_ExpiresAt = e,
      ca_GraceUntil = g, ca_RevokedAt = r, ca_ScopeStatus = sp_status s, ca_ScopeEnvironment = sp_environment s,
      ca_TaxpayerNIF = sp_taxpayer_nif s, ca_IANATimezone = sp_iana_timezone s,
      ca_SeriesEffectiveCode = sp_series_effective_code s\<rparr>"

lemma Verify_Inr:
  assumes inv: "cred_inv db"
  shows "VerifyCredentialTokenHash h db = Inr rec \<longleftrightarrow>
    (\<exists>c \<in> set (api_credentials db). \<exists>s \<in> set (scopes db). cr_token_hash c = h \<and> sp_scope_id s = cr_scope c
      \<and> (\<exists>e g r. read_null_time (cr_expires_at c) = Inr e \<and> read_null_time (cr_grace_until c) = Inr g
          \<and> read_null_time (cr_revoked_at c) = Inr r
          \<and> rec = auth_record_of c s e g r))"
    (is "?L \<longleftrightarrow> ?R")
proof
  assume L: ?L
  then obtain c s where "find (\<lambda>c. cr_token_hash c = h) (api_credentials db) = Some c"
    "find (\<lambda>s. sp_scope_id s = cr_scope c) (scopes db) = Some s"
    by (auto simp: VerifyCredentialTokenHash_def split: if_splits option.splits)
  moreover from this have "c \<in> set (api_credentials db)" "cr_token_hash c = h" "s \<in> set (scopes db)" "sp_scope_id s = cr_scope c"
    by (auto simp: find_Some_iff)
  ultimately show ?R
    using L by (force simp: VerifyCredentialTokenHash_def bind_result_Inr auth_record_of_def split: if_splits)
next
  assume ?R
  then obtain c s e g r where c: "c \<in> set (api_credentials db)" "s \<in> set (scopes db)" "cr_token_hash c = h" "sp_scope_id s = cr_scope c"
    and t: "read_null_time (cr_expires_at c) = Inr e" "read_null_time (cr_grace_until c) = Inr g" "read_null_time (cr_revoked_at c) = Inr r"
    and rec: "rec = auth_record_of c s e g r" by blast
  have "length h = 32" using cred_invD(3) [OF inv c(1)] c(3) by (simp add: credential_check_def)
  then show ?L
    using find_hash [OF inv c(1)] find_scope [OF inv c(2)] c(3,4) t
    by (simp add: VerifyCredentialTokenHash_def rec auth_record_of_def)
qed

text \<open>When a credential of a scope lets a caller in.\<close>

definition lets_in :: "string \<Rightarrow> gotime \<Rightarrow> credential_row \<Rightarrow> scope_row \<Rightarrow> bool" where
  "lets_in fiscalEnv now c s \<longleftrightarrow>
     sp_status s = ''active'' \<and> sp_environment s = fiscalEnv
     \<and> (\<exists>e. read_null_time (cr_expires_at c) = Inr e \<and> (\<forall>t. e = Some t \<longrightarrow> now < t))
     \<and> (cr_status c = CredActive
        \<or> cr_status c = CredGrace \<and> (\<exists>g. read_null_time (cr_grace_until c) = Inr (Some g) \<and> now < g))"

definition binding_for :: "credential_row \<Rightarrow> scope_row \<Rightarrow> scope_binding" where
  "binding_for c s =
     \<lparr>sn_ScopeID = cr_scope c, sn_TaxpayerNIF = sp_taxpayer_nif s, sn_IANATimezone = sp_iana_timezone s,
      sn_SeriesEffectiveCode = sp_series_effective_code s, sn_Environment = sp_environment s, sn_CredentialID = cr_id c\<rparr>"

lemma binding_auth_record: "binding_of (auth_record_of c s e g r) = binding_for c s"
  by (simp add: binding_of_def binding_for_def auth_record_of_def)

lemma accept_lets_in:
  assumes "cred_inv db" "c \<in> set (api_credentials db)"
  shows "(\<exists>e g r. read_null_time (cr_expires_at c) = Inr e \<and> read_null_time (cr_grace_until c) = Inr g
          \<and> read_null_time (cr_revoked_at c) = Inr r \<and> credentialAcceptable env now (auth_record_of c s e g r))
    \<longleftrightarrow> lets_in env now c s"
proof -
  have c: "cr_status c \<noteq> CredRevoked \<Longrightarrow> cr_revoked_at c = None" "cr_status c = CredActive \<Longrightarrow> cr_grace_until c = None"
    using cred_invD(3) [OF assms] by (auto simp: credential_check_def grace_coherent_def)
  have none: "read_null_time None = Inr None" by (simp add: read_null_time_def)
  show ?thesis
  proof (cases "cr_status c")
    case CredActive
    then show ?thesis
      by (simp add: c none credentialAcceptable_def lets_in_def auth_record_of_def) (auto split: option.splits)
  next
    case CredGrace
    then show ?thesis
      by (cases "read_null_time (cr_expires_at c)"; cases "read_null_time (cr_grace_until c)")
        (auto simp: c none credentialAcceptable_def lets_in_def auth_record_of_def split: option.splits)
  next
    case CredRevoked
    then show ?thesis by (simp add: credentialAcceptable_def lets_in_def auth_record_of_def)
  qed
qed

lemma Authenticate_Inr:
  "fst (Authenticate ax header db) = Inr b \<longleftrightarrow>
   (\<exists>token rec. extractBearer header = Some token \<and> validSandboxTokenFormat token
      \<and> VerifyCredentialTokenHash (HashCredentialToken (ax_sha256 ax) token) db = Inr rec
      \<and> credentialAcceptable (ax_fiscalEnv ax) (ax_now ax) rec \<and> b = binding_of rec)"
  by (auto simp: Authenticate_def Let_def split: option.split sum.split)

lemma authenticate_iff_inv:
  assumes inv: "cred_inv db"
  shows "fst (Authenticate ax header db) = Inr b \<longleftrightarrow>
    (\<exists>token. extractBearer header = Some token \<and> validSandboxTokenFormat token
       \<and> (\<exists>c \<in> set (api_credentials db). \<exists>s \<in> set (scopes db).
            cr_token_hash c = ax_sha256 ax token \<and> sp_scope_id s = cr_scope c
            \<and> lets_in (ax_fiscalEnv ax) (ax_now ax) c s \<and> b = binding_for c s))"
  unfolding Authenticate_Inr HashCredentialToken_def Verify_Inr [OF inv] 
  by (rule iffI; (elim exE conjE bexE)) (use accept_lets_in [OF inv] binding_auth_record in \<open>metis (no_types, lifting)\<close>)+

text \<open>
  C20: a request is let in exactly when it carries a well-formed bearer token whose hash is that
  of a credential which is active, or in its grace window, and not expired, in an active scope of the
  authenticator's environment; the binding it gets is that of this scope and this credential.
\<close>

theorem authenticate_iff:
  "fst (Authenticate ax header (fold (cred_step sha256) es empty_cred_db)) = Inr b \<longleftrightarrow>
    (\<exists>token. extractBearer header = Some token \<and> validSandboxTokenFormat token
       \<and> (\<exists>c \<in> set (api_credentials (fold (cred_step sha256) es empty_cred_db)).
            \<exists>s \<in> set (scopes (fold (cred_step sha256) es empty_cred_db)).
            cr_token_hash c = ax_sha256 ax token \<and> sp_scope_id s = cr_scope c
            \<and> lets_in (ax_fiscalEnv ax) (ax_now ax) c s \<and> b = binding_for c s))"
  by (rule authenticate_iff_inv [OF creds.reach_inv [OF refl]])

text \<open>
  C21: revocation is final and shuts the token out: once a credential is revoked its row never
  changes again, and no request with a token of its hash is ever let in.
\<close>

theorem revoked_never_authenticates:
  assumes c: "c \<in> set (api_credentials (fold (cred_step sha256) es empty_cred_db))" "cr_status c = CredRevoked"
    and token: "extractBearer header = Some token" "ax_sha256 ax token = cr_token_hash c"
  shows "c \<in> set (api_credentials (fold (cred_step sha256) (es @ es') empty_cred_db))
     \<and> fst (Authenticate ax header (fold (cred_step sha256) (es @ es') empty_cred_db)) \<noteq> Inr b"
proof -
  let ?db = "fold (cred_step sha256) es empty_cred_db"
  let ?db' = "fold (cred_step sha256) (es @ es') empty_cred_db"
  have "cred_le ?db (fold (cred_step sha256) es' ?db)" by (rule creds.run_le [OF creds.reach_inv [OF refl]])
  then have "cred_le ?db ?db'" by simp
  then obtain c' where "c' \<in> set (api_credentials ?db')" "cred_row_le c c'"
    using rows_le_member c(1) unfolding cred_le_def by metis
  then have mem: "c \<in> set (api_credentials ?db')" using c(2) by (simp add: cred_row_le_def)
  have inv: "cred_inv ?db'" by (rule creds.reach_inv [OF refl])
  have only: "d = c" if "d \<in> set (api_credentials ?db')" "cr_token_hash d = cr_token_hash c" for d
    using find_hash [OF inv that(1)] find_hash [OF inv mem] that(2) by simp
  have "\<not> lets_in env now c s" for env now s using c(2) by (simp add: lets_in_def)
  then have "fst (Authenticate ax header ?db') \<noteq> Inr b"
    unfolding authenticate_iff_inv [OF inv] using token only by fastforce
  with mem show ?thesis by blast
qed

section \<open>Issued tokens\<close>















end
