(* ===== verification/DocumentsProperties.thy ===== *)
theory DocumentsProperties
  imports DocumentsApi SealProperties CredentialProperties
begin

text \<open>
  What callers of \<^verbatim>\<open>POST /v1/documents\<close> may rely on, for any authenticator that keeps the
  contract of the interface, and then for the two authenticators of the source: documents are only
  ever created in the caller's own scope, a repeated request gets the first answer, and a refused
  request leaves the fiscal tables alone.
\<close>

section \<open>Reading a request\<close>

lemma readDocument_refusal: "readDocument ae reqID rq b = Inl a \<Longrightarrow> an_Status a \<in> {413, 415, 422}"
  by (auto simp: readDocument_def Let_def writeProblem_def invalid_document_def
      split: if_splits sum.splits decode_error.splits)





section \<open>The handler after authentication\<close>

lemma seal_answer_created: "an_Status (seal_answer reqID res) = 201 \<longleftrightarrow> (\<exists>r. res = Inr r)"
  by (cases "(reqID, res)" rule: seal_answer.cases)
    (simp_all add: created_answer_def writeProblem_def invalid_document_def)

lemma SealInTx_refused: "SealInTx tzs sha256 dia clock ids req db = (res, db') \<Longrightarrow> \<forall>r. res \<noteq> Inr r \<Longrightarrow> db' = db"
  by (rule SealInTx_cases [of tzs sha256 dia clock ids req db]) auto

lemma sealed_answer:
  assumes "serve_bound ae reqID rq b db = (a, db')" "an_Status a = 201"
  obtains idemKey body intent r where "readDocument ae reqID rq b = Inr (idemKey, body, intent)"
    "seller_nif body = sn_TaxpayerNIF b"
    "SealInTx (ae_tzs ae) (ae_sha256 ae) (ae_dialect ae) (ae_sealClock ae) (ae_sealIDs ae)
       \<lparr>sq_IdempotencyKey = idemKey, sq_SeriesCode = sn_SeriesEffectiveCode b, sq_Intent = intent\<rparr> (ap_fiscal db)
     = (Inr r, ap_fiscal db')"
    "a = created_answer r"
proof (cases "readDocument ae reqID rq b")
  case (Inl x)
  then show ?thesis using assms readDocument_refusal [OF Inl] by (auto simp: serve_bound_def)
next
  case (Inr x)
  obtain idemKey body intent where x: "x = (idemKey, body, intent)" by (cases x)
  let ?req = "\<lparr>sq_IdempotencyKey = idemKey, sq_SeriesCode = sn_SeriesEffectiveCode b, sq_Intent = intent\<rparr>"
  obtain res fdb where s: "SealInTx (ae_tzs ae) (ae_sha256 ae) (ae_dialect ae) (ae_sealClock ae) (ae_sealIDs ae) ?req (ap_fiscal db)
      = (res, fdb)" by fastforce
  from assms Inr x s have nif: "seller_nif body = sn_TaxpayerNIF b" and a: "a = seal_answer reqID res" "db' = db\<lparr>ap_fiscal := fdb\<rparr>"
    by (auto simp: serve_bound_def writeProblem_def split: if_splits)
  from a(1) assms(2) obtain r where "res = Inr r" using seal_answer_created by blast
  with Inr x s nif a that show ?thesis by simp
qed

text \<open>Best-effort audits add an event at most.\<close>

lemma best_effort_audit_tables:
  "scopes (best_effort_audit dia clock i ev db) = scopes db"
  "api_credentials (best_effort_audit dia clock i ev db) = api_credentials db"
  by (auto simp: best_effort_audit_def RecordAuthAudit_def Let_def split: sum.split elim!: writeAudit_Inr)

lemma serve_bound_refusal:
  assumes "serve_bound ae reqID rq b db = (a, db')"
  shows "an_Status a \<noteq> 201 \<Longrightarrow> ap_fiscal db' = ap_fiscal db"
    "scopes (ap_cred db') = scopes (ap_cred db)" "api_credentials (ap_cred db') = api_credentials (ap_cred db)"
  using assms best_effort_audit_tables seal_answer_created
  by (auto simp: serve_bound_def auditMismatch_def split: sum.splits prod.splits if_splits dest: SealInTx_refused)

section \<open>The interface of the authenticator\<close>

locale pos_authenticator =
  fixes auth :: authenticator
    and ok :: "cred_db \<Rightarrow> bool"
    and entitled :: "string \<Rightarrow> cred_db \<Rightarrow> scope_binding \<Rightarrow> bool"
  assumes grounded: "ok db \<Longrightarrow> fst (auth reqID h db) = Inr b \<Longrightarrow> entitled h db b"
    and reads_only: "scopes (snd (auth reqID h db)) = scopes db"
      "api_credentials (snd (auth reqID h db)) = api_credentials db"
begin

text \<open>A 201 comes from a sealing for a binding the caller is entitled to.\<close>

lemma created:
  assumes "ServeHTTP_documents auth ae reqID rq db = (a, db')" "an_Status a = 201" "ok (ap_cred db)"
  obtains b idemKey body intent r where "entitled (rq_Authorization rq) (ap_cred db) b"
    "fst (auth reqID (rq_Authorization rq) (ap_cred db)) = Inr b"
    "readDocument ae reqID rq b = Inr (idemKey, body, intent)" "seller_nif body = sn_TaxpayerNIF b"
    "SealInTx (ae_tzs ae) (ae_sha256 ae) (ae_dialect ae) (ae_sealClock ae) (ae_sealIDs ae)
       \<lparr>sq_IdempotencyKey = idemKey, sq_SeriesCode = sn_SeriesEffectiveCode b, sq_Intent = intent\<rparr> (ap_fiscal db)
     = (Inr r, ap_fiscal db')"
    "a = created_answer r"
proof -
  obtain b cdb where au: "auth reqID (rq_Authorization rq) (ap_cred db) = (Inr b, cdb)"
    and sb: "serve_bound ae reqID rq b (db\<lparr>ap_cred := cdb\<rparr>) = (a, db')" and post: "rq_Method rq = ''POST''"
    using assms(1,2) by (auto simp: ServeHTTP_documents_def writeProblem_def split: if_splits prod.splits sum.splits auth_error.splits)
  have ent: "entitled (rq_Authorization rq) (ap_cred db) b" using grounded [OF assms(3)] au by (metis fst_conv)
  show thesis
    by (rule sealed_answer [OF sb assms(2)]) (use ent au that in auto)
qed

lemma refused:
  assumes "ServeHTTP_documents auth ae reqID rq db = (a, db')"
  shows "an_Status a \<noteq> 201 \<Longrightarrow> ap_fiscal db' = ap_fiscal db"
    "scopes (ap_cred db') = scopes (ap_cred db)" "api_credentials (ap_cred db') = api_credentials (ap_cred db)"
proof -
  obtain res cdb where au: "auth reqID (rq_Authorization rq) (ap_cred db) = (res, cdb)" by fastforce
  have t: "scopes cdb = scopes (ap_cred db)" "api_credentials cdb = api_credentials (ap_cred db)"
    using reads_only [of reqID "rq_Authorization rq" "ap_cred db"] au by simp_all
  consider "db' = db" | "db' = db\<lparr>ap_cred := cdb\<rparr>"
    | b where "serve_bound ae reqID rq b (db\<lparr>ap_cred := cdb\<rparr>) = (a, db')"
    using assms au by (auto simp: ServeHTTP_documents_def split: if_splits sum.splits auth_error.splits)
  then have "(an_Status a \<noteq> 201 \<longrightarrow> ap_fiscal db' = ap_fiscal db)
    \<and> scopes (ap_cred db') = scopes (ap_cred db) \<and> api_credentials (ap_cred db') = api_credentials (ap_cred db)"
  proof cases
    case (3 b)
    show ?thesis using serve_bound_refusal [OF 3] t by simp
  qed (simp_all add: t)
  then show "an_Status a \<noteq> 201 \<Longrightarrow> ap_fiscal db' = ap_fiscal db"
    "scopes (ap_cred db') = scopes (ap_cred db)" "api_credentials (ap_cred db') = api_credentials (ap_cred db)"
    by blast+
qed

end

text \<open>The two authenticators of the source keep the contract.\<close>

definition holds_credential :: "auth_env \<Rightarrow> string \<Rightarrow> cred_db \<Rightarrow> scope_binding \<Rightarrow> bool" where
  "holds_credential ax header db b \<longleftrightarrow>
     (\<exists>token. extractBearer header = Some token \<and> validSandboxTokenFormat token
        \<and> (\<exists>c \<in> set (api_credentials db). \<exists>s \<in> set (scopes db).
             cr_token_hash c = ax_sha256 ax token \<and> sp_scope_id s = cr_scope c
             \<and> lets_in (ax_fiscalEnv ax) (ax_now ax) c s \<and> b = binding_for c s))"

lemma Authenticate_tables:
  "scopes (snd (Authenticate ax header db)) = scopes db"
  "api_credentials (snd (Authenticate ax header db)) = api_credentials db"
  by (auto simp: Authenticate_def auditReject_def Let_def best_effort_audit_tables split: option.split sum.split)

interpretation store_auth: pos_authenticator "store_authenticator ax" cred_inv "holds_credential ax" for ax
proof
  show "holds_credential ax h db b" if "cred_inv db" "fst (store_authenticator ax reqID h db) = Inr b" for reqID h db b
    using that authenticate_iff_inv [OF that(1), of "ax\<lparr>ax_requestID := reqID\<rparr>" h b]
    by (simp add: store_authenticator_def holds_credential_def)
qed (simp_all add: store_authenticator_def Authenticate_tables)

interpretation dev_auth: pos_authenticator "dev_authenticator sha256 d" "\<lambda>_. True"
  "\<lambda>h _ b. b = ds_binding d \<and> (\<exists>tok. tok = strings_TrimSpace (drop (length bearer_prefix) h) \<and> tok \<noteq> []
     \<and> sha256 tok = ds_tokenHash d)" for sha256 d
  by unfold_locales (auto simp: dev_authenticator_def Authenticate_dev_def Let_def split: if_splits)

section \<open>Properties\<close>

lemma post_document_parts:
  assumes "post_document auth ae rq db = (a, db')"
  obtains a0 where "ServeHTTP_documents auth ae (newRequestID (ae_random ae)) rq db = (a0, db')"
    "an_Status a = an_Status a0" "an_Body a = an_Body a0"
    "an_Headers a = [(''X-Request-Id'', newRequestID (ae_random ae))] @ correlation_header (rq_CorrelationID rq) @ an_Headers a0"
  using assms that by (auto simp: post_document_def WithRequestID_def Let_def split: prod.splits)





lemma readDocument_again:
  assumes "readDocument ae reqID rq b = Inr x"
    and "rq' = rq\<lparr>rq_Authorization := h, rq_CorrelationID := corr\<rparr>" "b' = b\<lparr>sn_CredentialID := cid\<rparr>"
    and "ae' = ae\<lparr>ae_dialect := dia, ae_sealClock := t, ae_sealIDs := ids, ae_random := rnd\<rparr>"
  shows "readDocument ae' reqID' rq' b' = Inr x"
  using assms(1) unfolding assms(2-4)
  by (auto simp: readDocument_def Let_def split: if_splits sum.splits decode_error.splits)

text \<open>
  C26: a retry is safe: after a 201, and whatever was sealed and submitted since, the same
  request (under any credential of the scope, at any time, with any identifiers drawn) is answered with
  201 and the same body, and the fiscal tables do not change.
\<close>

theorem retry_same_answer:
  assumes fiscal: "ap_fiscal db = reached (ae_tzs ae) (ae_sha256 ae) fes"
    and first: "post_document auth ae rq db = (a, db1)" "an_Status a = 201"
      "fst (auth (newRequestID (ae_random ae)) (rq_Authorization rq) (ap_cred db)) = Inr b"
    and later: "ap_fiscal db2 = fold (fiscal_step (ae_tzs ae) (ae_sha256 ae)) es (ap_fiscal db1)"
    and env: "ae' = ae\<lparr>ae_dialect := dia, ae_sealClock := t, ae_sealIDs := ids, ae_random := rnd\<rparr>"
      "dia = DialectPostgres \<or> dia = DialectSQLite"
    and again: "rq' = rq\<lparr>rq_Authorization := h, rq_CorrelationID := corr\<rparr>"
      "fst (auth (newRequestID rnd) h (ap_cred db2)) = Inr (b\<lparr>sn_CredentialID := cid\<rparr>)"
  shows "\<exists>a' db3. post_document auth ae' rq' db2 = (a', db3) \<and> an_Status a' = 201 \<and> an_Body a' = an_Body a
    \<and> ap_fiscal db3 = ap_fiscal db2"
proof -
  let ?id = "newRequestID (ae_random ae)" let ?b' = "b\<lparr>sn_CredentialID := cid\<rparr>"
  obtain a0 where serve: "ServeHTTP_documents auth ae ?id rq db = (a0, db1)"
    and a0: "an_Status a0 = 201" "an_Body a = an_Body a0"
    using post_document_parts [OF first(1)] first(2) by metis
  obtain cdb where au: "auth ?id (rq_Authorization rq) (ap_cred db) = (Inr b, cdb)" using first(3) by (metis prod.collapse)
  obtain cdb2 where au2: "auth (newRequestID rnd) h (ap_cred db2) = (Inr ?b', cdb2)" using again(2) by (metis prod.collapse)
  have post: "rq_Method rq = ''POST''"
    using serve a0(1) by (auto simp: ServeHTTP_documents_def writeProblem_def split: if_splits)
  have sb: "serve_bound ae ?id rq b (db\<lparr>ap_cred := cdb\<rparr>) = (a0, db1)"
    using serve au post by (simp add: ServeHTTP_documents_def)
  obtain k body it r where rd: "readDocument ae ?id rq b = Inr (k, body, it)" and nif: "seller_nif body = sn_TaxpayerNIF b"
    and s: "SealInTx (ae_tzs ae) (ae_sha256 ae) (ae_dialect ae) (ae_sealClock ae) (ae_sealIDs ae)
       \<lparr>sq_IdempotencyKey = k, sq_SeriesCode = sn_SeriesEffectiveCode b, sq_Intent = it\<rparr> (ap_fiscal (db\<lparr>ap_cred := cdb\<rparr>))
       = (Inr r, ap_fiscal db1)"
    and a: "a0 = created_answer r"
    by (rule sealed_answer [OF sb a0(1)])
  from s fiscal have s: "SealInTx (ae_tzs ae) (ae_sha256 ae) (ae_dialect ae) (ae_sealClock ae) (ae_sealIDs ae)
       \<lparr>sq_IdempotencyKey = k, sq_SeriesCode = sn_SeriesEffectiveCode b, sq_Intent = it\<rparr> (reached (ae_tzs ae) (ae_sha256 ae) fes)
       = (Inr r, ap_fiscal db1)" by simp
  note replay = seal_replays [OF s env(2), of t ids es, folded later]
  have "serve_bound ae' (newRequestID rnd) rq' ?b' (db2\<lparr>ap_cred := cdb2\<rparr>)
      = (created_answer (r\<lparr>rs_IdempotentHit := True\<rparr>), db2\<lparr>ap_cred := cdb2\<rparr>)"
    unfolding serve_bound_def readDocument_again [OF rd again(1) refl env(1)] using nif replay by (simp add: env(1))
  then have "ServeHTTP_documents auth ae' (newRequestID rnd) rq' db2
      = (created_answer (r\<lparr>rs_IdempotentHit := True\<rparr>), db2\<lparr>ap_cred := cdb2\<rparr>)"
    using post au2 by (simp add: ServeHTTP_documents_def again(1))
  then show ?thesis
    using a0(2) a by (simp add: post_document_def WithRequestID_def Let_def env(1) created_answer_def)
qed

definition well_shaped :: "string \<Rightarrow> answer \<Rightarrow> bool" where
  "well_shaped reqID a \<longleftrightarrow>
     (case an_Body a of CreatedBody r \<Rightarrow> an_Status a = 201
      | ProblemBody p \<Rightarrow> pr_Status p = an_Status a \<and> pr_RequestID p = reqID
          \<and> an_Status a \<in> {401, 403, 405, 409, 413, 415, 422, 500})"

lemma problem_shape [simp]:
  "well_shaped reqID (writeProblem reqID hs status typ code errs) \<longleftrightarrow> status \<in> {401, 403, 405, 409, 413, 415, 422, 500}"
  "well_shaped reqID (invalid_document reqID errs)" "well_shaped reqID (created_answer r)"
  by (simp_all add: well_shaped_def writeProblem_def invalid_document_def created_answer_def)

lemma read_shape: "readDocument ae reqID rq b = Inl x \<Longrightarrow> well_shaped reqID x"
  by (auto simp: readDocument_def Let_def split: if_splits sum.splits decode_error.splits)

lemma seal_shape: "well_shaped reqID (seal_answer reqID res)"
  by (cases "(reqID, res)" rule: seal_answer.cases) simp_all

lemma serve_shape: "well_shaped reqID (fst (serve_bound ae reqID rq b db))"
  by (auto simp: serve_bound_def seal_shape read_shape split: sum.split prod.split)

lemma answer_shape: "well_shaped reqID (fst (ServeHTTP_documents auth ae reqID rq db))"
  by (auto simp: ServeHTTP_documents_def serve_shape split: prod.split sum.split auth_error.split)

text \<open>
  C27: a refusal has no effect on what was issued: every answer is a 201 with a document or a
  problem whose status and request id are those of the response; unless it is a 201 the fiscal tables
  are untouched, and no answer changes a scope or a credential.
\<close>

theorem refusal_changes_nothing:
  assumes "post_document (store_authenticator ax) ae rq db = (a, db')"
  shows "(an_Status a \<noteq> 201 \<longrightarrow> ap_fiscal db' = ap_fiscal db)
    \<and> scopes (ap_cred db') = scopes (ap_cred db) \<and> api_credentials (ap_cred db') = api_credentials (ap_cred db)
    \<and> (case an_Body a of CreatedBody r \<Rightarrow> an_Status a = 201
       | ProblemBody p \<Rightarrow> pr_Status p = an_Status a \<and> an_Status a \<in> {401, 403, 405, 409, 413, 415, 422, 500}
           \<and> hd (an_Headers a) = (''X-Request-Id'', pr_RequestID p))"
proof -
  obtain a0 where serve: "ServeHTTP_documents (store_authenticator ax) ae (newRequestID (ae_random ae)) rq db = (a0, db')"
    "an_Status a = an_Status a0" "an_Body a = an_Body a0" "hd (an_Headers a) = (''X-Request-Id'', newRequestID (ae_random ae))"
    by (rule post_document_parts [OF assms]) simp
  show ?thesis
    using store_auth.refused [OF serve(1)] answer_shape [of "newRequestID (ae_random ae)" "store_authenticator ax" ae rq db] serve
    by (auto simp: well_shaped_def split: answer_body.splits)
qed

end
