(* ===== verification/ChannelRouting.thy ===== *)
theory ChannelRouting
  imports DocType GoText
begin

text \<open>
  The checks of the catalogue against the documented conflicts between the e-invoice codes and the
  SAF-T structures (\<^verbatim>\<open>internal/doctype/channel_routing.go\<close>). A violation carries the
  fields of the source; the constructor of \<open>cdoc_reason\<close> is its message.
\<close>

section \<open>Adapters and violations\<close>

datatype saft_layer =
  SAFTLayerNone | SAFTLayerInvoice | SAFTLayerPayment | SAFTLayerWork | SAFTLayerPurchase | SAFTLayerMovement
  | SAFTLayerOther

definition ParseSAFTTypeAdapter :: "string \<Rightarrow> saft_layer \<times> string" where
  "ParseSAFTTypeAdapter saftType =
     (let s = strings_TrimSpace saftType
      in if s = [] \<or> s = empty_sign then (SAFTLayerNone, [])
         else case cut_at CHR ''='' s of
           (_, None) \<Rightarrow> (SAFTLayerOther, s)
         | (p, Some val) \<Rightarrow>
             (let p = strings_TrimSpace p; val = strings_TrimSpace val
              in if p = ''InvoiceType'' then (SAFTLayerInvoice, val)
                 else if p = ''PaymentType'' then (SAFTLayerPayment, val)
                 else if p = ''WorkType'' then (SAFTLayerWork, val)
                 else if p = ''PurchaseType'' then (SAFTLayerPurchase, val)
                 else if p = ''MovementType'' then (SAFTLayerMovement, val)
                 else (SAFTLayerOther, val)))"

datatype cdoc_reason =
  FANeedsNoAdapter | FANeedsEligibilityFE | ReceiptAsInvoice | PaymentTypeNotFECode | InvoiceTypeForbidden string
  | SeedMissing | SeedsCollapsed | SeedForbidden | FECodeNot string | FECodeNotEmpty | AdapterNot saft_layer string
  | StructureNot string | GrupoNot string | NotOff | ARWithoutAdapter | InsurerFEAsWorkType | WorkTypeWithFE

record cdoc003_violation =
  CodigoCanonico :: string
  FECode :: string
  SAFTType :: string
  Reason :: cdoc_reason

record cdoc_violation = cdoc003_violation +
  SAFTStructure :: string

text \<open>The three trimmed fields and the parsed adapter that every check starts from.\<close>

definition fe_of :: "entry \<Rightarrow> string" where
  "fe_of e = strings_TrimSpace (ad_FECode (en_ChannelAdapters e))"

definition l3_of :: "entry \<Rightarrow> string" where
  "l3_of e = strings_TrimSpace (ad_SAFTStructure (en_ChannelAdapters e))"

definition grupo_of :: "entry \<Rightarrow> string" where
  "grupo_of e = strings_TrimSpace (en_Grupo e)"

definition adapter_of :: "entry \<Rightarrow> saft_layer \<times> string" where
  "adapter_of e = ParseSAFTTypeAdapter (ad_SAFTType (en_ChannelAdapters e))"

definition viol003 :: "entry \<Rightarrow> cdoc_reason \<Rightarrow> cdoc003_violation" where
  "viol003 e why = \<lparr>CodigoCanonico = en_CodigoCanonico e, FECode = fe_of e,
     SAFTType = ad_SAFTType (en_ChannelAdapters e), Reason = why\<rparr>"

definition viol :: "entry \<Rightarrow> string \<Rightarrow> cdoc_reason \<Rightarrow> cdoc_violation" where
  "viol e fe why = \<lparr>CodigoCanonico = en_CodigoCanonico e, FECode = fe,
     SAFTType = ad_SAFTType (en_ChannelAdapters e), Reason = why, SAFTStructure = l3_of e\<rparr>"

definition viol_at :: "string \<Rightarrow> string \<Rightarrow> cdoc_reason \<Rightarrow> cdoc_violation" where
  "viol_at canon fe why = \<lparr>CodigoCanonico = canon, FECode = fe, SAFTType = [], Reason = why, SAFTStructure = []\<rparr>"

definition report_if :: "bool \<Rightarrow> 'v \<Rightarrow> 'v list" where
  "report_if b v = (if b then [v] else [])"

definition untrimmed_fe :: "entry \<Rightarrow> string" where
  "untrimmed_fe e = ad_FECode (en_ChannelAdapters e)"

definition vendas_code :: "string \<Rightarrow> string" where "vendas_code code = ''bwb.ao.vendas.'' @ go_lower code"
definition compras_code :: "string \<Rightarrow> string" where "compras_code code = ''bwb.ao.compras.'' @ go_lower code"
definition conferencia_code :: "string \<Rightarrow> string" where
  "conferencia_code code = ''bwb.ao.conferencia.'' @ go_lower code"

text \<open>The seed under a code must exist and pass a check of its own.\<close>

definition seed_check :: "registry option \<Rightarrow> string \<Rightarrow> (entry \<Rightarrow> cdoc_violation list) \<Rightarrow> cdoc_violation list" where
  "seed_check r canon f = (case doctype_Lookup r canon of None \<Rightarrow> [] | Some e \<Rightarrow> f e)"

definition seed_missing :: "registry option \<Rightarrow> string \<Rightarrow> string \<Rightarrow> cdoc_violation list" where
  "seed_missing r canon fe = report_if (doctype_Lookup r canon = None) (viol_at canon fe SeedMissing)"

text \<open>Two lookups that found the same entry.\<close>

definition seeds_collapsed :: "registry option \<Rightarrow> string \<Rightarrow> string \<Rightarrow> string \<Rightarrow> cdoc_violation list" where
  "seeds_collapsed r canon1 canon2 fe =
     (case (doctype_Lookup r canon1, doctype_Lookup r canon2) of
        (Some a, Some b) \<Rightarrow>
          report_if (en_CodigoCanonico a = en_CodigoCanonico b) (viol_at (en_CodigoCanonico a) fe SeedsCollapsed)
      | _ \<Rightarrow> [])"

text \<open>
  The five tests a seed undergoes, in the order of the source: its e-invoice code, its SAF-T
  adapter, its structure, its group and, where required, that it is off.
\<close>

definition binding_check ::
  "entry \<Rightarrow> bool \<Rightarrow> cdoc_reason \<Rightarrow> saft_layer \<Rightarrow> string \<Rightarrow> string \<Rightarrow> string \<Rightarrow> bool \<Rightarrow> cdoc_violation list" where
  "binding_check e feBad feWhy layer code l3 grupo mustBeOff =
     report_if feBad (viol e (fe_of e) feWhy)
     @ report_if (fst (adapter_of e) \<noteq> layer \<or> snd (adapter_of e) \<noteq> code) (viol e (fe_of e) (AdapterNot layer code))
     @ report_if (l3_of e \<noteq> l3) (viol e (fe_of e) (StructureNot l3))
     @ report_if (grupo_of e \<noteq> grupo) (viol e (fe_of e) (GrupoNot grupo))
     @ report_if (mustBeOff \<and> en_Activo e \<noteq> ActiveOff) (viol e (fe_of e) NotOff)"

section \<open>C-DOC-003: FA, RC and RG\<close>

definition cdoc003_entry :: "entry \<Rightarrow> cdoc003_violation list" where
  "cdoc003_entry e =
     (let fe = fe_of e; (layer, code) = adapter_of e;
          elig = strings_TrimSpace (ad_Eligibility (en_ChannelAdapters e))
      in (if fe = ''FA'' then
            report_if (layer \<noteq> SAFTLayerNone) (viol003 e FANeedsNoAdapter)
            @ report_if (elig \<noteq> [] \<and> elig \<noteq> ''FE'') (viol003 e FANeedsEligibilityFE)
          else if fe = ''RC'' \<or> fe = ''RG'' then
            report_if (layer = SAFTLayerInvoice) (viol003 e ReceiptAsInvoice)
            @ report_if (layer = SAFTLayerPayment \<and> code \<noteq> fe) (viol003 e PaymentTypeNotFECode)
          else [])
         @ report_if (layer = SAFTLayerInvoice \<and> (code = ''FA'' \<or> code = ''RC'' \<or> code = ''RG''))
             (viol003 e (InvoiceTypeForbidden code)))"

definition CheckCDOC003Invariants :: "registry option \<Rightarrow> cdoc003_violation list" where
  "CheckCDOC003Invariants r = concat (map cdoc003_entry (doctype_All r))"

section \<open>C-DOC-004: AR under sales and under payments\<close>

definition canonicalVendasAR :: string where "canonicalVendasAR = ''bwb.ao.vendas.ar''"
definition canonicalPagamentosAR :: string where "canonicalPagamentosAR = ''bwb.ao.pagamentos.ar''"

definition checkARHomonym :: "entry \<Rightarrow> saft_layer \<Rightarrow> string \<Rightarrow> string \<Rightarrow> cdoc_violation list" where
  "checkARHomonym e wantLayer wantL3 wantGrupo =
     binding_check e (fe_of e \<noteq> ''AR'') (FECodeNot ''AR'') wantLayer ''AR'' wantL3 wantGrupo True"

definition cdoc004_guard :: "entry \<Rightarrow> cdoc_violation list" where
  "cdoc004_guard e =
     (if en_CodigoCanonico e = canonicalVendasAR \<or> en_CodigoCanonico e = canonicalPagamentosAR then []
      else if fe_of e \<noteq> ''AR'' then []
      else let (layer, code) = adapter_of e
           in if layer = SAFTLayerInvoice \<and> code = ''AR'' \<and> l3_of e \<noteq> ''SalesInvoices''
              then [viol e ''AR'' (StructureNot ''SalesInvoices'')]
              else if layer = SAFTLayerPayment \<and> code = ''AR'' \<and> l3_of e \<noteq> ''Payments''
              then [viol e ''AR'' (StructureNot ''Payments'')]
              else if layer \<noteq> SAFTLayerInvoice \<and> layer \<noteq> SAFTLayerPayment then [viol e ''AR'' ARWithoutAdapter]
              else [])"

definition CheckCDOC004Invariants :: "registry option \<Rightarrow> cdoc_violation list" where
  "CheckCDOC004Invariants r =
     (if r = None then []
      else seed_missing r canonicalVendasAR [] @ seed_missing r canonicalPagamentosAR []
        @ seeds_collapsed r canonicalVendasAR canonicalPagamentosAR ''AR''
        @ seed_check r canonicalVendasAR (\<lambda>e. checkARHomonym e SAFTLayerInvoice ''SalesInvoices'' ''vendas'')
        @ seed_check r canonicalPagamentosAR (\<lambda>e. checkARHomonym e SAFTLayerPayment ''Payments'' ''pagamentos'')
        @ concat (map cdoc004_guard (doctype_All r)))"

section \<open>C-DOC-005: the insurers' codes\<close>

definition cdoc005InsurerFECodes :: "string list" where
  "cdoc005InsurerFECodes = [''RP'', ''RE'', ''CS'', ''LD'', ''RA'']"

definition cdoc005_seed :: "registry option \<Rightarrow> string \<Rightarrow> cdoc_violation list" where
  "cdoc005_seed r code =
     (case doctype_Lookup r (vendas_code code) of
        None \<Rightarrow> [viol_at (vendas_code code) code SeedMissing]
      | Some e \<Rightarrow>
          binding_check e (fe_of e \<noteq> code) (FECodeNot code) SAFTLayerInvoice code ''SalesInvoices'' ''vendas'' True)"

definition cdoc005_guard :: "entry \<Rightarrow> cdoc_violation list" where
  "cdoc005_guard e =
     (let fe = fe_of e; (layer, code) = adapter_of e; insurer = (\<lambda>c. c \<in> set cdoc005InsurerFECodes);
          isInsurerFE = insurer fe
      in report_if (isInsurerFE \<and> layer = SAFTLayerWork) (viol e fe InsurerFEAsWorkType)
         @ (if layer = SAFTLayerWork \<and> insurer code then
              report_if (l3_of e \<noteq> ''WorkingDocuments'') (viol e fe (StructureNot ''WorkingDocuments''))
              @ (if fe \<noteq> [] \<and> fe \<noteq> empty_sign then report_if (\<not> isInsurerFE) (viol e fe WorkTypeWithFE) else [])
            else [])
         @ (if layer = SAFTLayerInvoice \<and> insurer code
            then report_if (l3_of e \<noteq> ''SalesInvoices'') (viol e fe (StructureNot ''SalesInvoices''))
            else []))"

definition CheckCDOC005Invariants :: "registry option \<Rightarrow> cdoc_violation list" where
  "CheckCDOC005Invariants r =
     (if r = None then []
      else concat (map (cdoc005_seed r) cdoc005InsurerFECodes) @ concat (map cdoc005_guard (doctype_All r)))"

section \<open>C-DOC-006: RC under payments and under purchases\<close>

definition canonicalPagamentosRC :: string where "canonicalPagamentosRC = ''bwb.ao.pagamentos.rc''"
definition canonicalComprasRC :: string where "canonicalComprasRC = ''bwb.ao.compras.rc''"

definition cdoc006_pagamentos :: "entry \<Rightarrow> cdoc_violation list" where
  "cdoc006_pagamentos e =
     binding_check e (fe_of e \<noteq> ''RC'') (FECodeNot ''RC'') SAFTLayerPayment ''RC'' ''Payments'' ''pagamentos'' True"

definition cdoc006_compras :: "entry \<Rightarrow> cdoc_violation list" where
  "cdoc006_compras e =
     binding_check e (fe_of e \<noteq> [] \<and> fe_of e \<noteq> empty_sign) FECodeNotEmpty
       SAFTLayerPurchase ''RC'' ''PurchaseInvoices'' ''compras'' True"

text \<open>The guards of 006, 008, 009 and 010 report the e-invoice code untrimmed.\<close>

definition structure_guard :: "entry \<Rightarrow> string \<Rightarrow> cdoc_violation list" where
  "structure_guard e l3 = report_if (l3_of e \<noteq> l3) (viol e (untrimmed_fe e) (StructureNot l3))"

definition cdoc006_guard :: "entry \<Rightarrow> cdoc_violation list" where
  "cdoc006_guard e =
     (let (layer, code) = adapter_of e
      in if code \<noteq> ''RC'' then []
         else if layer = SAFTLayerPayment then structure_guard e ''Payments''
         else if layer = SAFTLayerPurchase then structure_guard e ''PurchaseInvoices''
         else if layer = SAFTLayerInvoice then [viol e (untrimmed_fe e) (InvoiceTypeForbidden ''RC'')]
         else [])"

definition CheckCDOC006Invariants :: "registry option \<Rightarrow> cdoc_violation list" where
  "CheckCDOC006Invariants r =
     (if r = None then []
      else seed_missing r canonicalPagamentosRC [] @ seed_missing r canonicalComprasRC []
        @ seeds_collapsed r canonicalPagamentosRC canonicalComprasRC ''RC''
        @ seed_check r canonicalPagamentosRC cdoc006_pagamentos @ seed_check r canonicalComprasRC cdoc006_compras
        @ concat (map cdoc006_guard (doctype_All r)))"

section \<open>C-DOC-007: GR as a movement and as a working document\<close>

definition canonicalMovimentacaoGR :: string where "canonicalMovimentacaoGR = ''bwb.ao.movimentacao.gr''"
definition canonicalConferenciaGR :: string where "canonicalConferenciaGR = ''bwb.ao.conferencia.gr''"

definition checkGRHomonym :: "entry \<Rightarrow> saft_layer \<Rightarrow> string \<Rightarrow> string \<Rightarrow> cdoc_violation list" where
  "checkGRHomonym e wantLayer wantL3 wantGrupo =
     binding_check e (fe_of e \<noteq> []) FECodeNotEmpty wantLayer ''GR'' wantL3 wantGrupo True"

definition cdoc007_guard :: "entry \<Rightarrow> cdoc_violation list" where
  "cdoc007_guard e =
     (let (layer, code) = adapter_of e
      in if code \<noteq> ''GR'' then []
         else (if layer = SAFTLayerMovement then
                 report_if (l3_of e \<noteq> ''MovementOfGoods'') (viol e (fe_of e) (StructureNot ''MovementOfGoods''))
               else if layer = SAFTLayerWork then
                 report_if (l3_of e \<noteq> ''WorkingDocuments'') (viol e (fe_of e) (StructureNot ''WorkingDocuments''))
               else [])
           @ report_if (fe_of e \<noteq> []) (viol e (fe_of e) FECodeNotEmpty))"

definition CheckCDOC007Invariants :: "registry option \<Rightarrow> cdoc_violation list" where
  "CheckCDOC007Invariants r =
     (if r = None then []
      else seed_missing r canonicalMovimentacaoGR [] @ seed_missing r canonicalConferenciaGR []
        @ seeds_collapsed r canonicalMovimentacaoGR canonicalConferenciaGR []
        @ seed_check r canonicalMovimentacaoGR (\<lambda>e. checkGRHomonym e SAFTLayerMovement ''MovementOfGoods'' ''movimentacao'')
        @ seed_check r canonicalConferenciaGR (\<lambda>e. checkGRHomonym e SAFTLayerWork ''WorkingDocuments'' ''conferencia'')
        @ concat (map cdoc007_guard (doctype_All r)))"

section \<open>C-DOC-008: FT and NC under sales and under purchases\<close>

definition cdoc008DualCodes :: "string list" where "cdoc008DualCodes = [''FT'', ''NC'']"

definition cdoc008_vendas :: "string \<Rightarrow> entry \<Rightarrow> cdoc_violation list" where
  "cdoc008_vendas code e =
     binding_check e (fe_of e \<noteq> code) (FECodeNot code) SAFTLayerInvoice code ''SalesInvoices'' ''vendas'' False"

definition cdoc008_compras :: "string \<Rightarrow> entry \<Rightarrow> cdoc_violation list" where
  "cdoc008_compras code e =
     binding_check e (fe_of e \<noteq> []) FECodeNotEmpty SAFTLayerPurchase code ''PurchaseInvoices'' ''compras'' True"

definition cdoc008_seeds :: "registry option \<Rightarrow> string \<Rightarrow> cdoc_violation list" where
  "cdoc008_seeds r code =
     seed_missing r (vendas_code code) code @ seed_missing r (compras_code code) []
     @ seeds_collapsed r (vendas_code code) (compras_code code) code
     @ seed_check r (vendas_code code) (cdoc008_vendas code) @ seed_check r (compras_code code) (cdoc008_compras code)"

definition cdoc008_guard :: "entry \<Rightarrow> cdoc_violation list" where
  "cdoc008_guard e =
     (let (layer, code) = adapter_of e
      in if code \<noteq> ''FT'' \<and> code \<noteq> ''NC'' then []
         else if layer = SAFTLayerInvoice then structure_guard e ''SalesInvoices''
         else if layer = SAFTLayerPurchase then structure_guard e ''PurchaseInvoices''
         else [])"

definition CheckCDOC008Invariants :: "registry option \<Rightarrow> cdoc_violation list" where
  "CheckCDOC008Invariants r =
     (if r = None then []
      else concat (map (cdoc008_seeds r) cdoc008DualCodes) @ concat (map cdoc008_guard (doctype_All r)))"

section \<open>C-DOC-009: AR under purchases\<close>

definition canonicalComprasAR :: string where "canonicalComprasAR = ''bwb.ao.compras.ar''"

definition cdoc009_compras :: "entry \<Rightarrow> cdoc_violation list" where
  "cdoc009_compras e =
     binding_check e (fe_of e \<noteq> []) FECodeNotEmpty SAFTLayerPurchase ''AR'' ''PurchaseInvoices'' ''compras'' True"

definition cdoc009_guard :: "entry \<Rightarrow> cdoc_violation list" where
  "cdoc009_guard e =
     (let (layer, code) = adapter_of e
      in if code \<noteq> ''AR'' \<or> layer \<noteq> SAFTLayerPurchase then [] else structure_guard e ''PurchaseInvoices'')"

definition CheckCDOC009Invariants :: "registry option \<Rightarrow> cdoc_violation list" where
  "CheckCDOC009Invariants r =
     (if r = None then []
      else seed_missing r canonicalVendasAR [] @ seed_missing r canonicalPagamentosAR []
        @ seed_missing r canonicalComprasAR []
        @ seeds_collapsed r canonicalVendasAR canonicalComprasAR [] @ seeds_collapsed r canonicalPagamentosAR canonicalComprasAR []
        @ seed_check r canonicalComprasAR cdoc009_compras @ concat (map cdoc009_guard (doctype_All r)))"

section \<open>C-DOC-010: the other codes under sales and under purchases\<close>

definition cdoc010DualCodes :: "string list" where
  "cdoc010DualCodes = [''FR'', ''GF'', ''FG'', ''AC'', ''AF'', ''TV'']"

definition cdoc010_vendas :: "string \<Rightarrow> entry \<Rightarrow> cdoc_violation list" where
  "cdoc010_vendas code e =
     binding_check e (fe_of e \<noteq> code) (FECodeNot code) SAFTLayerInvoice code ''SalesInvoices'' ''vendas'' True"

definition cdoc010_compras :: "string \<Rightarrow> entry \<Rightarrow> cdoc_violation list" where
  "cdoc010_compras code e =
     binding_check e (fe_of e \<noteq> []) FECodeNotEmpty SAFTLayerPurchase code ''PurchaseInvoices'' ''compras'' True"

definition cdoc010_seeds :: "registry option \<Rightarrow> string \<Rightarrow> cdoc_violation list" where
  "cdoc010_seeds r code =
     seed_missing r (vendas_code code) code @ seed_missing r (compras_code code) []
     @ seeds_collapsed r (vendas_code code) (compras_code code) code
     @ seed_check r (vendas_code code) (cdoc010_vendas code) @ seed_check r (compras_code code) (cdoc010_compras code)"

definition cdoc010_guard :: "entry \<Rightarrow> cdoc_violation list" where
  "cdoc010_guard e =
     (let (layer, code) = adapter_of e
      in if code \<notin> set cdoc010DualCodes then []
         else if layer = SAFTLayerInvoice then structure_guard e ''SalesInvoices''
         else if layer = SAFTLayerPurchase then structure_guard e ''PurchaseInvoices''
         else [])"

definition CheckCDOC010Invariants :: "registry option \<Rightarrow> cdoc_violation list" where
  "CheckCDOC010Invariants r =
     (if r = None then []
      else concat (map (cdoc010_seeds r) cdoc010DualCodes) @ concat (map cdoc010_guard (doctype_All r)))"

section \<open>The inventory of working documents\<close>

definition workTypeInventoryCodes :: "string list" where
  "workTypeInventoryCodes =
     [''CM'', ''CC'', ''NR'', ''FO'', ''NE'', ''OU'', ''OR'', ''PF'', ''DC'', ''PP'', ''GC'']"

definition inventory_seed :: "registry option \<Rightarrow> string \<Rightarrow> cdoc_violation list" where
  "inventory_seed r code =
     (case doctype_Lookup r (conferencia_code code) of
        None \<Rightarrow> [viol_at (conferencia_code code) [] SeedMissing]
      | Some e \<Rightarrow>
          binding_check e (fe_of e \<noteq> []) FECodeNotEmpty SAFTLayerWork code ''WorkingDocuments'' ''conferencia'' True)"

definition insurer_work_seed :: "registry option \<Rightarrow> string \<Rightarrow> cdoc_violation list" where
  "insurer_work_seed r code =
     report_if (doctype_Lookup r (conferencia_code code) \<noteq> None) (viol_at (conferencia_code code) [] SeedForbidden)"

definition CheckWorkTypeInventoryInvariants :: "registry option \<Rightarrow> cdoc_violation list" where
  "CheckWorkTypeInventoryInvariants r =
     (if r = None then []
      else concat (map (inventory_seed r) workTypeInventoryCodes)
        @ concat (map (insurer_work_seed r) [''RP'', ''RE'', ''CS'', ''LD'', ''RA'']))"

end
