(* ===== verification/ChannelRoutingProperties.thy ===== *)
theory ChannelRoutingProperties
  imports ChannelRouting
begin

text \<open>
  What the parser of the catalogue and the nine checks of the channel routing establish: a
  well-formed registry, and exactly one table of bindings between document types, e-invoice codes
  and SAF-T structures.
\<close>

section \<open>Registries\<close>

definition registry_ok :: "registry \<Rightarrow> bool" where
  "registry_ok reg \<longleftrightarrow> distinct (map fst reg) \<and> list_all (\<lambda>(k, e). en_CodigoCanonico e = k) reg"

definition activo_ok :: "entry \<Rightarrow> bool" where
  "activo_ok e \<longleftrightarrow> en_Activo e = ActiveOn \<or> en_Activo e = ActiveOff \<or> en_Activo e = ''pending_dec_reg_003''"

lemma registry_ok_lookup: "registry_ok reg \<Longrightarrow> map_of reg k = Some e \<Longrightarrow> en_CodigoCanonico e = k"
  unfolding registry_ok_def list_all_iff by (auto dest: map_of_SomeD)

lemma registry_ok_member: "registry_ok reg \<Longrightarrow> e \<in> snd ` set reg \<Longrightarrow> map_of reg (en_CodigoCanonico e) = Some e"
  unfolding registry_ok_def list_all_iff by (auto intro: map_of_is_SomeI)

lemma set_All [simp]: "set (doctype_All (Some reg)) = snd ` set reg"
  by (simp add: doctype_All_def)

lemma entryFromCells_Inr:
  assumes "entryFromCells cells = Inr e"
  shows "en_CodigoCanonico e = strings_Trim backtick (cells ! 1)" "activo_ok e"
  using assms by (auto simp: entryFromCells_def activo_ok_def Let_def split: if_splits prod.splits)

lemma seed_rows_cells:
  "cells \<in> set (seed_rows h lines) \<Longrightarrow> 13 \<le> length cells \<and> prefix ''bwb.ao.'' (strings_Trim backtick (cells ! 1))"
  by (induction h lines rule: seed_rows.induct) (auto simp: Let_def split: if_splits)

lemma add_rows_ok:
  assumes "add_rows rows reg = Inr reg'" "registry_ok reg" "list_all (\<lambda>(k, e). P e) reg"
    and "\<And>cells e. cells \<in> set rows \<Longrightarrow> entryFromCells cells = Inr e \<Longrightarrow> P e"
  shows "registry_ok reg' \<and> list_all (\<lambda>(k, e). P e) reg'"
  using assms
proof (induction rows reg rule: add_rows.induct)
  case (1 reg)
  then show ?case by simp
next
  case (2 cells rows reg)
  from 2(2) obtain e where e: "entryFromCells cells = Inr e" "map_of reg (en_CodigoCanonico e) = None"
    "add_rows rows (reg @ [(en_CodigoCanonico e, e)]) = Inr reg'"
    by (auto simp: bind_result_Inr split: if_splits)
  have "registry_ok (reg @ [(en_CodigoCanonico e, e)])"
    using 2(3) e(2) by (auto simp: registry_ok_def map_of_eq_None_iff)
  moreover have "list_all (\<lambda>(k, e). P e) (reg @ [(en_CodigoCanonico e, e)])"
    using 2(4) 2(5) [of cells e] e(1) by simp
  moreover have "P e'" if "c \<in> set rows" "entryFromCells c = Inr e'" for c e'
    using 2(5) [of c e'] that by simp
  ultimately show ?case using 2(1) [of e] e(2,3) by blast
qed

lemma ParseCatalog_Inr:
  assumes "ParseCatalog md = Inr reg"
  shows "add_rows (seed_rows False (split_on CHR 0x0A md)) [] = Inr reg"
    "\<exists>ft nc. map_of reg CanonicalFT = Some ft \<and> map_of reg CanonicalNC = Some nc
       \<and> en_Activo ft = ActiveOn \<and> en_Activo nc = ActiveOn"
proof -
  obtain reg0 where 1: "add_rows (seed_rows False (split_on CHR 0x0A md)) [] = Inr reg0"
    and 2: "(case (map_of reg0 CanonicalFT, map_of reg0 CanonicalNC) of
             (Some ft, Some nc) \<Rightarrow>
               if en_Activo ft \<noteq> ActiveOn \<or> en_Activo nc \<noteq> ActiveOn then Inl (ErrCatalog ''DEC-REG-003'')
               else Inr reg0
           | _ \<Rightarrow> Inl (ErrCatalog ''FT/NC'')) = Inr reg"
    using assms by (auto simp: ParseCatalog_def Let_def bind_result_Inr split: if_splits)
  obtain ft nc where 3: "map_of reg0 CanonicalFT = Some ft" "map_of reg0 CanonicalNC = Some nc"
    using 2 by (cases "map_of reg0 CanonicalFT"; cases "map_of reg0 CanonicalNC") auto
  with 2 have "reg0 = reg" "en_Activo ft = ActiveOn \<and> en_Activo nc = ActiveOn" by (auto split: if_splits)
  with 1 3 show "add_rows (seed_rows False (split_on CHR 0x0A md)) [] = Inr reg"
    "\<exists>ft nc. map_of reg CanonicalFT = Some ft \<and> map_of reg CanonicalNC = Some nc
       \<and> en_Activo ft = ActiveOn \<and> en_Activo nc = ActiveOn" by auto
qed

text \<open>
  A catalogue that loads is a registry keyed by its own codes, all in the product's name
  space and in one of the three activation states; the two types of the API resolve to their
  canonical entries, which are on, and no other type resolves.
\<close>

theorem catalog_resolves:
  assumes "ParseCatalog md = Inr reg"
  shows "registry_ok reg
    \<and> (\<forall>e \<in> snd ` set reg. prefix ''bwb.ao.'' (en_CodigoCanonico e) \<and> activo_ok e)
    \<and> (\<forall>t. doctype_ResolveAPI (ParseCatalog md) t =
         (if t = APIInvoice \<or> t = APICreditNote
          then Inr \<lparr>rv_APIType = t, rv_Canonical = (if t = APIInvoice then CanonicalFT else CanonicalNC),
                    rv_Entry = the (map_of reg (if t = APIInvoice then CanonicalFT else CanonicalNC))\<rparr>
          else Inl (ErrUnknownAPI t)))
    \<and> (\<forall>c \<in> {CanonicalFT, CanonicalNC}. \<exists>e. doctype_Lookup (Some reg) c = Some e
         \<and> en_CodigoCanonico e = c \<and> en_Activo e = ActiveOn)"
proof -
  let ?rows = "seed_rows False (split_on CHR 0x0A md)"
  note rows = ParseCatalog_Inr(1) [OF assms] and on = ParseCatalog_Inr(2) [OF assms]
  let ?P = "\<lambda>e. prefix ''bwb.ao.'' (en_CodigoCanonico e) \<and> activo_ok e"
  have "?P e" if "cells \<in> set ?rows" "entryFromCells cells = Inr e" for cells e
    using seed_rows_cells [OF that(1)] entryFromCells_Inr [OF that(2)] by simp
  then have ok: "registry_ok reg \<and> list_all (\<lambda>(k, e). ?P e) reg"
    by (intro add_rows_ok [OF rows]) (simp_all add: registry_ok_def)
  then have "\<forall>e \<in> snd ` set reg. ?P e" by (auto simp: list_all_iff)
  moreover have "\<forall>c \<in> {CanonicalFT, CanonicalNC}. \<exists>e. doctype_Lookup (Some reg) c = Some e
         \<and> en_CodigoCanonico e = c \<and> en_Activo e = ActiveOn"
    using on registry_ok_lookup ok by (auto simp: doctype_Lookup_def)
  moreover have "\<forall>t. doctype_ResolveAPI (ParseCatalog md) t =
         (if t = APIInvoice \<or> t = APICreditNote
          then Inr \<lparr>rv_APIType = t, rv_Canonical = (if t = APIInvoice then CanonicalFT else CanonicalNC),
                    rv_Entry = the (map_of reg (if t = APIInvoice then CanonicalFT else CanonicalNC))\<rparr>
          else Inl (ErrUnknownAPI t))"
    using on by (auto simp: assms doctype_ResolveAPI_def registry_ResolveAPI_def)
  ultimately show ?thesis using ok by blast
qed

section \<open>The table of bindings\<close>

text \<open>The structure of the tax file a layer belongs to.\<close>

fun structure_of :: "saft_layer \<Rightarrow> string" where
  "structure_of SAFTLayerInvoice = ''SalesInvoices''"
| "structure_of SAFTLayerPayment = ''Payments''"
| "structure_of SAFTLayerWork = ''WorkingDocuments''"
| "structure_of SAFTLayerPurchase = ''PurchaseInvoices''"
| "structure_of SAFTLayerMovement = ''MovementOfGoods''"
| "structure_of _ = []"

record binding =
  bd_canonical :: string
  bd_fe :: "string list"  \<comment> \<open>the e-invoice codes allowed; the empty code is none\<close>
  bd_layer :: saft_layer
  bd_code :: string
  bd_grupo :: string
  bd_off :: bool

definition sales :: "bool \<Rightarrow> string \<Rightarrow> binding" where
  "sales off c = \<lparr>bd_canonical = vendas_code c, bd_fe = [c], bd_layer = SAFTLayerInvoice, bd_code = c,
     bd_grupo = ''vendas'', bd_off = off\<rparr>"

definition payment :: "string \<Rightarrow> binding" where
  "payment c = \<lparr>bd_canonical = ''bwb.ao.pagamentos.'' @ go_lower c, bd_fe = [c], bd_layer = SAFTLayerPayment, bd_code = c,
     bd_grupo = ''pagamentos'', bd_off = True\<rparr>"

definition purchase :: "string list \<Rightarrow> string \<Rightarrow> binding" where
  "purchase fe c = \<lparr>bd_canonical = compras_code c, bd_fe = fe, bd_layer = SAFTLayerPurchase, bd_code = c,
     bd_grupo = ''compras'', bd_off = True\<rparr>"

definition working :: "string \<Rightarrow> binding" where
  "working c = \<lparr>bd_canonical = conferencia_code c, bd_fe = [[]], bd_layer = SAFTLayerWork, bd_code = c,
     bd_grupo = ''conferencia'', bd_off = True\<rparr>"

definition movement :: "string \<Rightarrow> binding" where
  "movement c = \<lparr>bd_canonical = ''bwb.ao.movimentacao.'' @ go_lower c, bd_fe = [[]], bd_layer = SAFTLayerMovement,
     bd_code = c, bd_grupo = ''movimentacao'', bd_off = True\<rparr>"

definition required_bindings :: "binding list" where
  "required_bindings =
     [sales True ''AR'', payment ''AR'', purchase [[]] ''AR'', payment ''RC'', purchase [[], empty_sign] ''RC'',
      movement ''GR'', working ''GR'']
     @ map (sales False) cdoc008DualCodes @ map (purchase [[]]) cdoc008DualCodes
     @ map (sales True) cdoc010DualCodes @ map (purchase [[]]) cdoc010DualCodes
     @ map (sales True) cdoc005InsurerFECodes @ map working workTypeInventoryCodes"

definition bound :: "registry \<Rightarrow> binding \<Rightarrow> bool" where
  "bound reg b \<longleftrightarrow>
     (case map_of reg (bd_canonical b) of
        None \<Rightarrow> False
      | Some e \<Rightarrow> fe_of e \<in> set (bd_fe b) \<and> adapter_of e = (bd_layer b, bd_code b) \<and> l3_of e = structure_of (bd_layer b)
          \<and> grupo_of e = bd_grupo b \<and> (bd_off b \<longrightarrow> en_Activo e = ActiveOff))"

text \<open>Adapters that fix the structure wherever they occur.\<close>

definition fixed_adapters :: "(saft_layer \<times> string) list" where
  "fixed_adapters =
     [(SAFTLayerPayment, ''RC''), (SAFTLayerPurchase, ''RC''), (SAFTLayerMovement, ''GR''), (SAFTLayerWork, ''GR''),
      (SAFTLayerPurchase, ''AR'')]
     @ concat (map (\<lambda>c. [(SAFTLayerInvoice, c), (SAFTLayerPurchase, c)]) (cdoc008DualCodes @ cdoc010DualCodes))
     @ concat (map (\<lambda>c. [(SAFTLayerInvoice, c), (SAFTLayerWork, c)]) cdoc005InsurerFECodes)"

text \<open>What holds of every entry, required or not.\<close>

definition routed_fields :: "string \<Rightarrow> saft_layer \<Rightarrow> string \<Rightarrow> string \<Rightarrow> string \<Rightarrow> bool" where
  "routed_fields fe layer code l3 elig \<longleftrightarrow>
     ((layer, code) \<in> set fixed_adapters \<longrightarrow> l3 = structure_of layer)
     \<and> (layer = SAFTLayerInvoice \<longrightarrow> code \<notin> {''FA'', ''RC'', ''RG''})
     \<and> (fe = ''FA'' \<longrightarrow> layer = SAFTLayerNone \<and> elig \<in> {[], ''FE''})
     \<and> (fe \<in> {''RC'', ''RG''} \<longrightarrow> layer \<noteq> SAFTLayerInvoice \<and> (layer = SAFTLayerPayment \<longrightarrow> code = fe))
     \<and> (fe = ''AR'' \<longrightarrow> layer \<in> {SAFTLayerInvoice, SAFTLayerPayment} \<and> (code = ''AR'' \<longrightarrow> l3 = structure_of layer))
     \<and> (layer = SAFTLayerWork \<and> code \<in> set cdoc005InsurerFECodes \<longrightarrow> fe \<in> {[], empty_sign})
     \<and> (fe \<in> set cdoc005InsurerFECodes \<longrightarrow> layer \<noteq> SAFTLayerWork)
     \<and> (code = ''GR'' \<longrightarrow> fe = [])"

definition routed :: "entry \<Rightarrow> bool" where
  "routed e \<longleftrightarrow> routed_fields (fe_of e) (fst (adapter_of e)) (snd (adapter_of e)) (l3_of e)
     (strings_TrimSpace (ad_Eligibility (en_ChannelAdapters e)))"

definition catalog_ok :: "registry \<Rightarrow> bool" where
  "catalog_ok reg \<longleftrightarrow>
     list_all (bound reg) required_bindings \<and> list_all (\<lambda>(k, e). routed e) reg
     \<and> list_all (\<lambda>c. map_of reg (conferencia_code c) = None) cdoc005InsurerFECodes"

definition checks_pass :: "registry option \<Rightarrow> bool" where
  "checks_pass r \<longleftrightarrow>
     CheckCDOC003Invariants r = [] \<and> CheckCDOC004Invariants r = [] \<and> CheckCDOC005Invariants r = []
     \<and> CheckCDOC006Invariants r = [] \<and> CheckCDOC007Invariants r = [] \<and> CheckCDOC008Invariants r = []
     \<and> CheckCDOC009Invariants r = [] \<and> CheckCDOC010Invariants r = [] \<and> CheckWorkTypeInventoryInvariants r = []"

section \<open>The checks, one by one\<close>

lemma report_if_Nil [simp]: "report_if b v = [] \<longleftrightarrow> \<not> b"
  by (simp add: report_if_def)

lemma binding_check_Nil:
  "binding_check e feBad why layer code l3 grupo off = [] \<longleftrightarrow>
   \<not> feBad \<and> adapter_of e = (layer, code) \<and> l3_of e = l3 \<and> grupo_of e = grupo \<and> (off \<longrightarrow> en_Activo e = ActiveOff)"
  by (auto simp: binding_check_def prod_eq_iff)

lemma concat_map_Nil: "concat (map f xs) = [] \<longleftrightarrow> (\<forall>x \<in> set xs. f x = [])"
  by auto

lemma seeds_collapsed_Nil:
  "registry_ok reg \<Longrightarrow> c1 \<noteq> c2 \<Longrightarrow> seeds_collapsed (Some reg) c1 c2 fe = []"
  by (auto simp: seeds_collapsed_def doctype_Lookup_def dest: registry_ok_lookup split: option.splits)

text \<open>A seed that is present and passes its check is a bound row.\<close>

lemma seed_bound:
  assumes "\<And>e. f e = [] \<longleftrightarrow> fe_of e \<in> set (bd_fe b) \<and> adapter_of e = (bd_layer b, bd_code b)
      \<and> l3_of e = structure_of (bd_layer b) \<and> grupo_of e = bd_grupo b \<and> (bd_off b \<longrightarrow> en_Activo e = ActiveOff)"
  shows "seed_missing (Some reg) (bd_canonical b) fe = [] \<and> seed_check (Some reg) (bd_canonical b) f = [] \<longleftrightarrow> bound reg b"
  by (simp add: seed_missing_def seed_check_def bound_def doctype_Lookup_def assms split: option.splits)

lemmas seed_simps = binding_check_Nil checkARHomonym_def checkGRHomonym_def cdoc006_pagamentos_def cdoc006_compras_def
  cdoc008_vendas_def cdoc008_compras_def cdoc009_compras_def cdoc010_vendas_def cdoc010_compras_def

lemma check003: "CheckCDOC003Invariants (Some reg) = [] \<longleftrightarrow> (\<forall>e \<in> snd ` set reg. cdoc003_entry e = [])"
  by (simp add: CheckCDOC003Invariants_def concat_map_Nil)

lemma codes_lower:
  "vendas_code ''AR'' = canonicalVendasAR" "compras_code ''AR'' = canonicalComprasAR"
  "compras_code ''RC'' = canonicalComprasRC" "conferencia_code ''GR'' = canonicalConferenciaGR"
  "''bwb.ao.pagamentos.'' @ go_lower ''AR'' = canonicalPagamentosAR"
  "''bwb.ao.pagamentos.'' @ go_lower ''RC'' = canonicalPagamentosRC"
  "''bwb.ao.movimentacao.'' @ go_lower ''GR'' = canonicalMovimentacaoGR"
  by code_simp+

lemma codes_differ:
  "canonicalVendasAR \<noteq> canonicalPagamentosAR" "canonicalPagamentosRC \<noteq> canonicalComprasRC"
  "canonicalMovimentacaoGR \<noteq> canonicalConferenciaGR" "canonicalVendasAR \<noteq> canonicalComprasAR"
  "canonicalPagamentosAR \<noteq> canonicalComprasAR" "vendas_code c \<noteq> compras_code c"
  by (code_simp, code_simp, code_simp, code_simp, code_simp, simp add: vendas_code_def compras_code_def)

lemma check004:
  assumes "registry_ok reg"
  shows "CheckCDOC004Invariants (Some reg) = [] \<longleftrightarrow>
    bound reg (sales True ''AR'') \<and> bound reg (payment ''AR'') \<and> (\<forall>e \<in> snd ` set reg. cdoc004_guard e = [])"
proof -
  have 1: "seed_missing (Some reg) canonicalVendasAR [] = [] \<and>
      seed_check (Some reg) canonicalVendasAR (\<lambda>e. checkARHomonym e SAFTLayerInvoice ''SalesInvoices'' ''vendas'') = []
      \<longleftrightarrow> bound reg (sales True ''AR'')"
    using seed_bound [of "\<lambda>e. checkARHomonym e SAFTLayerInvoice ''SalesInvoices'' ''vendas''" "sales True ''AR''" reg "[]"]
    by (simp add: seed_simps sales_def codes_lower)
  have 2: "seed_missing (Some reg) canonicalPagamentosAR [] = [] \<and>
      seed_check (Some reg) canonicalPagamentosAR (\<lambda>e. checkARHomonym e SAFTLayerPayment ''Payments'' ''pagamentos'') = []
      \<longleftrightarrow> bound reg (payment ''AR'')"
    using seed_bound [of "\<lambda>e. checkARHomonym e SAFTLayerPayment ''Payments'' ''pagamentos''" "payment ''AR''" reg "[]"]
    by (simp only: seed_simps payment_def codes_lower) simp
  show ?thesis
    by (simp add: CheckCDOC004Invariants_def concat_map_Nil seeds_collapsed_Nil assms codes_differ flip: 1 2) blast
qed
text \<open>A dual pair: present on both sides, bound on both sides.\<close>

lemma dual_bound:
  assumes "registry_ok reg" "v \<noteq> c"
    and "seed_missing (Some reg) v fv = [] \<and> seed_check (Some reg) v f = [] \<longleftrightarrow> V"
    and "seed_missing (Some reg) c fc = [] \<and> seed_check (Some reg) c g = [] \<longleftrightarrow> C"
  shows "seed_missing (Some reg) v fv @ seed_missing (Some reg) c fc @ seeds_collapsed (Some reg) v c k
    @ seed_check (Some reg) v f @ seed_check (Some reg) c g = [] \<longleftrightarrow> V \<and> C"
  using assms(3,4) by (auto simp: seeds_collapsed_Nil [OF assms(1,2)])

lemma seed_or_missing:
  assumes "\<And>e. f e = [] \<longleftrightarrow> fe_of e \<in> set (bd_fe b) \<and> adapter_of e = (bd_layer b, bd_code b)
      \<and> l3_of e = structure_of (bd_layer b) \<and> grupo_of e = bd_grupo b \<and> (bd_off b \<longrightarrow> en_Activo e = ActiveOff)"
  shows "(case doctype_Lookup (Some reg) (bd_canonical b) of None \<Rightarrow> [v] | Some e \<Rightarrow> f e) = [] \<longleftrightarrow> bound reg b"
  by (simp add: bound_def doctype_Lookup_def assms split: option.splits)

lemma seed005: "cdoc005_seed (Some reg) c = [] \<longleftrightarrow> bound reg (sales True c)"
  using seed_or_missing [where b = "sales True c" and reg = reg and v = "viol_at (vendas_code c) c SeedMissing"
      and f = "\<lambda>e. binding_check e (fe_of e \<noteq> c) (FECodeNot c) SAFTLayerInvoice c ''SalesInvoices'' ''vendas'' True"]
  by (simp add: cdoc005_seed_def seed_simps sales_def)

lemma inventory_bound: "inventory_seed (Some reg) c = [] \<longleftrightarrow> bound reg (working c)"
  using seed_or_missing [where b = "working c" and reg = reg and v = "viol_at (conferencia_code c) [] SeedMissing"
      and f = "\<lambda>e. binding_check e (fe_of e \<noteq> []) FECodeNotEmpty SAFTLayerWork c ''WorkingDocuments'' ''conferencia'' True"]
  by (simp add: inventory_seed_def seed_simps working_def)

lemma seeds008:
  assumes "registry_ok reg"
  shows "cdoc008_seeds (Some reg) c = [] \<longleftrightarrow> bound reg (sales False c) \<and> bound reg (purchase [[]] c)"
  unfolding cdoc008_seeds_def
proof (rule dual_bound [OF assms codes_differ(6)])
  show "seed_missing (Some reg) (vendas_code c) c = [] \<and> seed_check (Some reg) (vendas_code c) (cdoc008_vendas c) = []
      \<longleftrightarrow> bound reg (sales False c)"
    using seed_bound [of "cdoc008_vendas c" "sales False c" reg c] by (simp add: seed_simps sales_def)
  show "seed_missing (Some reg) (compras_code c) [] = [] \<and> seed_check (Some reg) (compras_code c) (cdoc008_compras c) = []
      \<longleftrightarrow> bound reg (purchase [[]] c)"
    using seed_bound [of "cdoc008_compras c" "purchase [[]] c" reg "[]"] by (simp add: seed_simps purchase_def)
qed

lemma seeds010:
  assumes "registry_ok reg"
  shows "cdoc010_seeds (Some reg) c = [] \<longleftrightarrow> bound reg (sales True c) \<and> bound reg (purchase [[]] c)"
  unfolding cdoc010_seeds_def
proof (rule dual_bound [OF assms codes_differ(6)])
  show "seed_missing (Some reg) (vendas_code c) c = [] \<and> seed_check (Some reg) (vendas_code c) (cdoc010_vendas c) = []
      \<longleftrightarrow> bound reg (sales True c)"
    using seed_bound [of "cdoc010_vendas c" "sales True c" reg c] by (simp add: seed_simps sales_def)
  show "seed_missing (Some reg) (compras_code c) [] = [] \<and> seed_check (Some reg) (compras_code c) (cdoc010_compras c) = []
      \<longleftrightarrow> bound reg (purchase [[]] c)"
    using seed_bound [of "cdoc010_compras c" "purchase [[]] c" reg "[]"] by (simp add: seed_simps purchase_def)
qed

lemma check005: "CheckCDOC005Invariants (Some reg) = [] \<longleftrightarrow>
    (\<forall>c \<in> set cdoc005InsurerFECodes. bound reg (sales True c)) \<and> (\<forall>e \<in> snd ` set reg. cdoc005_guard e = [])"
  by (simp add: CheckCDOC005Invariants_def concat_map_Nil seed005)

lemma check006:
  assumes "registry_ok reg"
  shows "CheckCDOC006Invariants (Some reg) = [] \<longleftrightarrow>
    bound reg (payment ''RC'') \<and> bound reg (purchase [[], empty_sign] ''RC'') \<and> (\<forall>e \<in> snd ` set reg. cdoc006_guard e = [])"
proof -
  have 1: "seed_missing (Some reg) canonicalPagamentosRC [] = [] \<and>
      seed_check (Some reg) canonicalPagamentosRC cdoc006_pagamentos = [] \<longleftrightarrow> bound reg (payment ''RC'')"
    using seed_bound [of cdoc006_pagamentos "payment ''RC''" reg "[]"] by (simp only: seed_simps payment_def codes_lower) simp
  have 2: "seed_missing (Some reg) canonicalComprasRC [] = [] \<and>
      seed_check (Some reg) canonicalComprasRC cdoc006_compras = [] \<longleftrightarrow> bound reg (purchase [[], empty_sign] ''RC'')"
    using seed_bound [of cdoc006_compras "purchase [[], empty_sign] ''RC''" reg "[]"]
    by (simp only: seed_simps purchase_def codes_lower) simp
  show ?thesis
    by (simp add: CheckCDOC006Invariants_def concat_map_Nil seeds_collapsed_Nil assms codes_differ flip: 1 2) blast
qed

lemma check007:
  assumes "registry_ok reg"
  shows "CheckCDOC007Invariants (Some reg) = [] \<longleftrightarrow>
    bound reg (movement ''GR'') \<and> bound reg (working ''GR'') \<and> (\<forall>e \<in> snd ` set reg. cdoc007_guard e = [])"
proof -
  have 1: "seed_missing (Some reg) canonicalMovimentacaoGR [] = [] \<and>
      seed_check (Some reg) canonicalMovimentacaoGR (\<lambda>e. checkGRHomonym e SAFTLayerMovement ''MovementOfGoods'' ''movimentacao'') = []
      \<longleftrightarrow> bound reg (movement ''GR'')"
    using seed_bound [of "\<lambda>e. checkGRHomonym e SAFTLayerMovement ''MovementOfGoods'' ''movimentacao''" "movement ''GR''" reg "[]"]
    by (simp only: seed_simps movement_def codes_lower) simp
  have 2: "seed_missing (Some reg) canonicalConferenciaGR [] = [] \<and>
      seed_check (Some reg) canonicalConferenciaGR (\<lambda>e. checkGRHomonym e SAFTLayerWork ''WorkingDocuments'' ''conferencia'') = []
      \<longleftrightarrow> bound reg (working ''GR'')"
    using seed_bound [of "\<lambda>e. checkGRHomonym e SAFTLayerWork ''WorkingDocuments'' ''conferencia''" "working ''GR''" reg "[]"]
    by (simp only: seed_simps working_def codes_lower) simp
  show ?thesis
    by (simp add: CheckCDOC007Invariants_def concat_map_Nil seeds_collapsed_Nil assms codes_differ flip: 1 2) blast
qed

lemma check008:
  assumes "registry_ok reg"
  shows "CheckCDOC008Invariants (Some reg) = [] \<longleftrightarrow>
    (\<forall>c \<in> set cdoc008DualCodes. bound reg (sales False c) \<and> bound reg (purchase [[]] c))
    \<and> (\<forall>e \<in> snd ` set reg. cdoc008_guard e = [])"
  by (simp add: CheckCDOC008Invariants_def concat_map_Nil seeds008 assms)

lemma bound_present: "bound reg b \<Longrightarrow> doctype_Lookup (Some reg) (bd_canonical b) \<noteq> None"
  by (auto simp: bound_def doctype_Lookup_def split: option.splits)

lemma homonym_codes:
  "bd_canonical (sales True ''AR'') = canonicalVendasAR" "bd_canonical (payment ''AR'') = canonicalPagamentosAR"
  by (simp_all only: sales_def payment_def binding.select_convs codes_lower)

lemma check009:
  assumes "registry_ok reg" "bound reg (sales True ''AR'')" "bound reg (payment ''AR'')"
  shows "CheckCDOC009Invariants (Some reg) = [] \<longleftrightarrow>
    bound reg (purchase [[]] ''AR'') \<and> (\<forall>e \<in> snd ` set reg. cdoc009_guard e = [])"
proof -
  have 1: "seed_missing (Some reg) canonicalComprasAR [] = [] \<and>
      seed_check (Some reg) canonicalComprasAR cdoc009_compras = [] \<longleftrightarrow> bound reg (purchase [[]] ''AR'')"
    using seed_bound [of cdoc009_compras "purchase [[]] ''AR''" reg "[]"] by (simp only: seed_simps purchase_def codes_lower) simp
  have "seed_missing (Some reg) canonicalVendasAR [] = []" "seed_missing (Some reg) canonicalPagamentosAR [] = []"
    using bound_present [OF assms(2)] bound_present [OF assms(3)] by (simp_all add: homonym_codes seed_missing_def)
  then show ?thesis
    by (simp add: CheckCDOC009Invariants_def concat_map_Nil seeds_collapsed_Nil assms codes_differ flip: 1)
qed

lemma check010:
  assumes "registry_ok reg"
  shows "CheckCDOC010Invariants (Some reg) = [] \<longleftrightarrow>
    (\<forall>c \<in> set cdoc010DualCodes. bound reg (sales True c) \<and> bound reg (purchase [[]] c))
    \<and> (\<forall>e \<in> snd ` set reg. cdoc010_guard e = [])"
  by (simp add: CheckCDOC010Invariants_def concat_map_Nil seeds010 assms)

lemma check_inventory: "CheckWorkTypeInventoryInvariants (Some reg) = [] \<longleftrightarrow>
    (\<forall>c \<in> set workTypeInventoryCodes. bound reg (working c))
    \<and> (\<forall>c \<in> set cdoc005InsurerFECodes. map_of reg (conferencia_code c) = None)"
  by (simp add: CheckWorkTypeInventoryInvariants_def concat_map_Nil inventory_bound insurer_work_seed_def doctype_Lookup_def
      cdoc005InsurerFECodes_def)

section \<open>The guards, one by one\<close>

definition fixed :: "(saft_layer \<times> string) list \<Rightarrow> entry \<Rightarrow> bool" where
  "fixed as e \<longleftrightarrow> (adapter_of e \<in> set as \<longrightarrow> l3_of e = structure_of (fst (adapter_of e)))"

lemma guard003: "cdoc003_entry e = [] \<longleftrightarrow>
    (fst (adapter_of e) = SAFTLayerInvoice \<longrightarrow> snd (adapter_of e) \<notin> {''FA'', ''RC'', ''RG''})
    \<and> (fe_of e = ''FA'' \<longrightarrow> fst (adapter_of e) = SAFTLayerNone
         \<and> strings_TrimSpace (ad_Eligibility (en_ChannelAdapters e)) \<in> {[], ''FE''})
    \<and> (fe_of e \<in> {''RC'', ''RG''} \<longrightarrow> fst (adapter_of e) \<noteq> SAFTLayerInvoice
         \<and> (fst (adapter_of e) = SAFTLayerPayment \<longrightarrow> snd (adapter_of e) = fe_of e))"
  by (cases "adapter_of e") (auto simp: cdoc003_entry_def Let_def)

lemma guard004: "cdoc004_guard e = [] \<longleftrightarrow>
    (en_CodigoCanonico e \<noteq> canonicalVendasAR \<and> en_CodigoCanonico e \<noteq> canonicalPagamentosAR \<and> fe_of e = ''AR'' \<longrightarrow>
       fst (adapter_of e) \<in> {SAFTLayerInvoice, SAFTLayerPayment}
       \<and> (snd (adapter_of e) = ''AR'' \<longrightarrow> l3_of e = structure_of (fst (adapter_of e))))"
  by (cases "adapter_of e") (auto simp: cdoc004_guard_def)

lemma guard005: "cdoc005_guard e = [] \<longleftrightarrow>
    fixed (concat (map (\<lambda>c. [(SAFTLayerInvoice, c), (SAFTLayerWork, c)]) cdoc005InsurerFECodes)) e
    \<and> (fst (adapter_of e) = SAFTLayerWork \<and> snd (adapter_of e) \<in> set cdoc005InsurerFECodes \<longrightarrow> fe_of e \<in> {[], empty_sign})
    \<and> (fe_of e \<in> set cdoc005InsurerFECodes \<longrightarrow> fst (adapter_of e) \<noteq> SAFTLayerWork)"
proof (cases "adapter_of e")
  case (Pair layer code)
  then show ?thesis
    by (cases "code \<in> set cdoc005InsurerFECodes"; cases "fe_of e \<in> set cdoc005InsurerFECodes"; cases layer)
      (auto simp: cdoc005_guard_def fixed_def Let_def)
qed

lemma structure_guard_Nil: "structure_guard e l3 = [] \<longleftrightarrow> l3_of e = l3"
  by (simp add: structure_guard_def)

lemma guard006: "cdoc006_guard e = [] \<longleftrightarrow>
    fixed [(SAFTLayerPayment, ''RC''), (SAFTLayerPurchase, ''RC'')] e \<and> adapter_of e \<noteq> (SAFTLayerInvoice, ''RC'')"
  by (cases "adapter_of e") (auto simp: cdoc006_guard_def fixed_def structure_guard_Nil)

lemma guard007: "cdoc007_guard e = [] \<longleftrightarrow>
    fixed [(SAFTLayerMovement, ''GR''), (SAFTLayerWork, ''GR'')] e \<and> (snd (adapter_of e) = ''GR'' \<longrightarrow> fe_of e = [])"
  by (cases "adapter_of e") (auto simp: cdoc007_guard_def fixed_def)

lemma guard008: "cdoc008_guard e = [] \<longleftrightarrow>
    fixed (concat (map (\<lambda>c. [(SAFTLayerInvoice, c), (SAFTLayerPurchase, c)]) cdoc008DualCodes)) e"
  by (cases "adapter_of e") (auto simp: cdoc008_guard_def fixed_def structure_guard_Nil cdoc008DualCodes_def)

lemma guard009: "cdoc009_guard e = [] \<longleftrightarrow> fixed [(SAFTLayerPurchase, ''AR'')] e"
  by (cases "adapter_of e") (auto simp: cdoc009_guard_def fixed_def structure_guard_Nil)

lemma guard010: "cdoc010_guard e = [] \<longleftrightarrow>
    fixed (concat (map (\<lambda>c. [(SAFTLayerInvoice, c), (SAFTLayerPurchase, c)]) cdoc010DualCodes)) e"
  by (cases "adapter_of e") (auto simp: cdoc010_guard_def fixed_def structure_guard_Nil)

lemma fixed_append: "fixed (as @ bs) e \<longleftrightarrow> fixed as e \<and> fixed bs e"
  by (auto simp: fixed_def)

lemma fixed_Cons: "fixed (a # b # bs) e \<longleftrightarrow> fixed [a] e \<and> fixed (b # bs) e"
  by (auto simp: fixed_def)

lemma fixed_adapters_split: "fixed fixed_adapters e \<longleftrightarrow>
    fixed [(SAFTLayerPayment, ''RC''), (SAFTLayerPurchase, ''RC'')] e
    \<and> fixed [(SAFTLayerMovement, ''GR''), (SAFTLayerWork, ''GR'')] e \<and> fixed [(SAFTLayerPurchase, ''AR'')] e
    \<and> fixed (concat (map (\<lambda>c. [(SAFTLayerInvoice, c), (SAFTLayerPurchase, c)]) cdoc008DualCodes)) e
    \<and> fixed (concat (map (\<lambda>c. [(SAFTLayerInvoice, c), (SAFTLayerPurchase, c)]) cdoc010DualCodes)) e
    \<and> fixed (concat (map (\<lambda>c. [(SAFTLayerInvoice, c), (SAFTLayerWork, c)]) cdoc005InsurerFECodes)) e"
  unfolding fixed_adapters_def fixed_append map_append concat_append fixed_Cons by blast

lemma routed_guards:
  assumes "en_CodigoCanonico e = canonicalVendasAR \<Longrightarrow> adapter_of e = (SAFTLayerInvoice, ''AR'') \<and> l3_of e = ''SalesInvoices''"
    and "en_CodigoCanonico e = canonicalPagamentosAR \<Longrightarrow> adapter_of e = (SAFTLayerPayment, ''AR'') \<and> l3_of e = ''Payments''"
  shows "routed e \<longleftrightarrow> cdoc003_entry e = [] \<and> cdoc004_guard e = [] \<and> cdoc005_guard e = [] \<and> cdoc006_guard e = []
    \<and> cdoc007_guard e = [] \<and> cdoc008_guard e = [] \<and> cdoc009_guard e = [] \<and> cdoc010_guard e = []"
proof -
  have ar: "cdoc004_guard e = [] \<longleftrightarrow> (fe_of e = ''AR'' \<longrightarrow>
       fst (adapter_of e) \<in> {SAFTLayerInvoice, SAFTLayerPayment}
       \<and> (snd (adapter_of e) = ''AR'' \<longrightarrow> l3_of e = structure_of (fst (adapter_of e))))"
    using assms by (auto simp: guard004)
  have rc: "adapter_of e \<noteq> (SAFTLayerInvoice, ''RC'')"
    if "fst (adapter_of e) = SAFTLayerInvoice \<longrightarrow> snd (adapter_of e) \<notin> {''FA'', ''RC'', ''RG''}"
    using that by auto
  show ?thesis
    unfolding routed_def routed_fields_def prod.collapse fixed_def [symmetric] fixed_adapters_split guard003 ar guard005 guard006 guard007 guard008 guard009 guard010
    using rc by blast
qed

lemma bound_codes:
  assumes "registry_ok reg" "bound reg b" "e \<in> snd ` set reg" "en_CodigoCanonico e = bd_canonical b"
  shows "adapter_of e = (bd_layer b, bd_code b) \<and> l3_of e = structure_of (bd_layer b)"
  using assms(2) registry_ok_member [OF assms(1,3)] assms(4) by (simp add: bound_def)

lemma checks_iff:
  assumes "registry_ok reg"
  shows "checks_pass (Some reg) \<longleftrightarrow> catalog_ok reg"
proof (cases "bound reg (sales True ''AR'') \<and> bound reg (payment ''AR'')")
  case False
  then show ?thesis
    by (auto simp: checks_pass_def catalog_ok_def check004 [OF assms] required_bindings_def)
next
  case True
  let ?E = "snd ` set reg"
  have guards: "routed e \<longleftrightarrow> cdoc003_entry e = [] \<and> cdoc004_guard e = [] \<and> cdoc005_guard e = [] \<and> cdoc006_guard e = []
    \<and> cdoc007_guard e = [] \<and> cdoc008_guard e = [] \<and> cdoc009_guard e = [] \<and> cdoc010_guard e = []" if "e \<in> ?E" for e
    using bound_codes [OF assms _ that, of "sales True ''AR''"] bound_codes [OF assms _ that, of "payment ''AR''"] True
    by (intro routed_guards) (simp_all add: homonym_codes, simp_all add: sales_def payment_def)
  have "list_all (\<lambda>(k, e). routed e) reg \<longleftrightarrow> (\<forall>e \<in> ?E. routed e)" by (auto simp: list_all_iff)
  also have "\<dots> \<longleftrightarrow> (\<forall>e \<in> ?E. cdoc003_entry e = []) \<and> (\<forall>e \<in> ?E. cdoc004_guard e = []) \<and> (\<forall>e \<in> ?E. cdoc005_guard e = [])
    \<and> (\<forall>e \<in> ?E. cdoc006_guard e = []) \<and> (\<forall>e \<in> ?E. cdoc007_guard e = []) \<and> (\<forall>e \<in> ?E. cdoc008_guard e = [])
    \<and> (\<forall>e \<in> ?E. cdoc009_guard e = []) \<and> (\<forall>e \<in> ?E. cdoc010_guard e = [])"
    using guards by blast
  finally have routed: "list_all (\<lambda>(k, e). routed e) reg \<longleftrightarrow> \<dots>" .
  have required: "list_all (bound reg) required_bindings \<longleftrightarrow>
      bound reg (purchase [[]] ''AR'') \<and> bound reg (payment ''RC'') \<and> bound reg (purchase [[], empty_sign] ''RC'')
      \<and> bound reg (movement ''GR'') \<and> bound reg (working ''GR'')
      \<and> (\<forall>c \<in> set cdoc008DualCodes. bound reg (sales False c) \<and> bound reg (purchase [[]] c))
      \<and> (\<forall>c \<in> set cdoc010DualCodes. bound reg (sales True c) \<and> bound reg (purchase [[]] c))
      \<and> (\<forall>c \<in> set cdoc005InsurerFECodes. bound reg (sales True c)) \<and> (\<forall>c \<in> set workTypeInventoryCodes. bound reg (working c))"
    using True unfolding required_bindings_def list_all_iff by (simp add: ball_Un) blast
  show ?thesis
    unfolding checks_pass_def catalog_ok_def required routed check003 check004 [OF assms] check005 check006 [OF assms]
      check007 [OF assms] check008 [OF assms] check009 [OF assms True [THEN conjunct1] True [THEN conjunct2]] check010 [OF assms] check_inventory
    using True unfolding list_all_iff by argo
qed

text \<open>
  C24: the nine hand-written checks of the channel routing accept a registry exactly when it
  satisfies one table: each required document type is present, bound to its e-invoice code, SAF-T
  adapter, structure and group and off where it must be; no working-document seed exists for an
  insurer's code; and every entry is routed, that is, its adapter determines its structure and its
  e-invoice code is not bound to a conflicting adapter.
\<close>

theorem checks_pass_iff:
  assumes "registry_ok reg"
  shows "checks_pass (Some reg) \<longleftrightarrow> catalog_ok reg"
  using assms by (rule checks_iff)
section \<open>What may be issued\<close>

text \<open>
  A type of the availability report is available exactly when its group has not been
  switched off, it is on (the establishment's override first, else the seed), its norm is settled,
  and the channel in force carries it: an e-invoice code once enrolment is active, a SAF-T
  adapter or structure before. In a catalogue that passes the checks no type that must be off is
  available without an override, and an available type's fixed adapter names its structure.
\<close>

theorem available_types:
  assumes ok: "registry_ok reg" "checks_pass (Some reg)"
    and ta: "ta \<in> set (ar_Types (ComputeAvailability (Some reg) inp))"
    and override: "ov = ac_TypeActiveOverride (ai_Config inp) (ta_CodigoCanonico ta)"
  shows "\<exists>e. map_of reg (ta_CodigoCanonico ta) = Some e
    \<and> (ta_Available ta \<longleftrightarrow>
         ac_GroupActive (ai_Config inp) (en_Grupo e) \<noteq> Some False
         \<and> (ov = Some True \<or> ov = None \<and> en_Activo e = ActiveOn)
         \<and> strings_TrimSpace (en_EstadoNormativo e) \<notin> {''pending_validation'', ''conflito''}
         \<and> (if strings_TrimSpace (ai_FEEnrollmentStatus inp) = ''active'' then ad_FECode (en_ChannelAdapters e) \<noteq> []
            else (ad_SAFTType (en_ChannelAdapters e) \<noteq> [] \<or> ad_SAFTStructure (en_ChannelAdapters e) \<noteq> [])
              \<and> strings_TrimSpace (ad_Eligibility (en_ChannelAdapters e)) \<noteq> ''FE''))
    \<and> (ta_Available ta \<and> ov = None \<longrightarrow>
         (\<forall>b \<in> set required_bindings. bd_canonical b = ta_CodigoCanonico ta \<longrightarrow> \<not> bd_off b))
    \<and> (ta_Available ta \<and> adapter_of e \<in> set fixed_adapters \<longrightarrow> l3_of e = structure_of (fst (adapter_of e)))"
proof -
  let ?fe = "strings_TrimSpace (ai_FEEnrollmentStatus inp) = ''active''"
  obtain e where e: "e \<in> snd ` set reg" "ta = evaluateType e (ai_Config inp) ?fe"
    using ta by (auto simp: ComputeAvailability_def Let_def split: if_splits)
  have code: "ta_CodigoCanonico ta = en_CodigoCanonico e" by (simp add: e(2) evaluateType_def Let_def)
  then have e': "map_of reg (ta_CodigoCanonico ta) = Some e" using registry_ok_member [OF ok(1) e(1)] by simp
  have avail: "ta_Available ta \<longleftrightarrow>
         ac_GroupActive (ai_Config inp) (en_Grupo e) \<noteq> Some False
         \<and> (ov = Some True \<or> ov = None \<and> en_Activo e = ActiveOn)
         \<and> strings_TrimSpace (en_EstadoNormativo e) \<notin> {''pending_validation'', ''conflito''}
         \<and> (if ?fe then ad_FECode (en_ChannelAdapters e) \<noteq> []
            else (ad_SAFTType (en_ChannelAdapters e) \<noteq> [] \<or> ad_SAFTStructure (en_ChannelAdapters e) \<noteq> [])
              \<and> strings_TrimSpace (ad_Eligibility (en_ChannelAdapters e)) \<noteq> ''FE'')"
    unfolding override code unfolding e(2)
    by (auto simp: evaluateType_def Let_def groupIsActive_def typeIsActive_def IsAGTPending_def split: option.splits)
  have cat: "catalog_ok reg" using ok checks_iff [OF ok(1)] by simp
  have "\<not> bd_off b" if "ta_Available ta" "ov = None" "b \<in> set required_bindings" "bd_canonical b = ta_CodigoCanonico ta" for b
  proof -
    have "bound reg b" using cat that(3) by (auto simp: catalog_ok_def list_all_iff)
    moreover have "en_Activo e = ActiveOn" using that(1,2) avail by simp
    ultimately show ?thesis using e' that(4) by (auto simp: bound_def ActiveOn_def ActiveOff_def)
  qed
  moreover have "routed e" using cat e(1) by (auto simp: catalog_ok_def list_all_iff)
  then have "l3_of e = structure_of (fst (adapter_of e))" if "adapter_of e \<in> set fixed_adapters"
    using that unfolding routed_def routed_fields_def prod.collapse by blast
  ultimately show ?thesis using e' avail by blast
qed

end
