(* ===== verification/CatalogExamples.thy ===== *)
theory CatalogExamples
  imports ChannelRoutingProperties
begin

text \<open>
  The catalogue the binary embeds, as the parsed registry: it passes every check, and it instantiates
  the properties of the catalogue.
\<close>

definition seed where
  "seed grupo canon designacao activo estado fe saft estrutura elig =
     (canon, \<lparr>en_Grupo = grupo, en_CodigoCanonico = canon, en_Designacao = designacao, en_Activo = activo,
       en_EstadoNormativo = estado,
       en_ChannelAdapters = \<lparr>ad_FECode = fe, ad_SAFTType = saft, ad_SAFTStructure = estrutura, ad_Eligibility = elig\<rparr>\<rparr>)"

text \<open>The table of \<^verbatim>\<open>document_catalog.md\<close>, row by row.\<close>

definition embedded_catalog :: registry where
  "embedded_catalog = [
     seed ''vendas'' ''bwb.ao.vendas.ft'' (''Factura'') ''on'' ''hipotese''
       ''FT'' ''InvoiceType=FT'' ''SalesInvoices'' ''ambos'',
     seed ''vendas'' ''bwb.ao.vendas.fr'' (''Factura-Recibo'') ''off'' ''hipotese''
       ''FR'' ''InvoiceType=FR'' ''SalesInvoices'' ''ambos'',
     seed ''vendas'' ''bwb.ao.vendas.fg'' (''Factura Global'') ''off'' ''hipotese''
       ''FG'' ''InvoiceType=FG'' ''SalesInvoices'' ''ambos'',
     seed ''vendas'' ''bwb.ao.vendas.gf''
       (''Factura Gen'' @ [CHR 0xC3, CHR 0xA9] @ ''rica'') ''off'' ''conflito''
       ''GF'' ''InvoiceType=GF'' ''SalesInvoices'' ''ambos'',
     seed ''vendas'' ''bwb.ao.vendas.fa'' (''Factura Adiantamento'') ''off'' ''conflito''
       ''FA'' [] [] ''FE'',
     seed ''vendas'' ''bwb.ao.vendas.ac''
       (''Aviso de Cobran'' @ [CHR 0xC3, CHR 0xA7] @ ''a'') ''off'' ''hipotese''
       ''AC'' ''InvoiceType=AC'' ''SalesInvoices'' ''ambos'',
     seed ''vendas'' ''bwb.ao.vendas.ar''
       (''Aviso Cobran'' @ [CHR 0xC3, CHR 0xA7] @ ''a/Recibo (vendas)'') ''off'' ''hipotese''
       ''AR'' ''InvoiceType=AR'' ''SalesInvoices'' ''ambos'',
     seed ''vendas'' ''bwb.ao.vendas.tv''
       (''Tal'' @ [CHR 0xC3, CHR 0xA3] @ ''o de Venda'') ''off'' ''hipotese''
       ''TV'' ''InvoiceType=TV'' ''SalesInvoices'' ''ambos'',
     seed ''vendas'' ''bwb.ao.vendas.nc''
       (''Nota de Cr'' @ [CHR 0xC3, CHR 0xA9] @ ''dito'') ''on'' ''hipotese''
       ''NC'' ''InvoiceType=NC'' ''SalesInvoices'' ''ambos'',
     seed ''vendas'' ''bwb.ao.vendas.nd''
       (''Nota de D'' @ [CHR 0xC3, CHR 0xA9] @ ''bito'') ''off'' ''hipotese''
       ''ND'' ''InvoiceType=ND'' ''SalesInvoices'' ''ambos'',
     seed ''vendas'' ''bwb.ao.vendas.af''
       (''Autofactura'' @ [CHR 0xC3, CHR 0xA7, CHR 0xC3, CHR 0xA3] @ ''o'') ''off'' ''hipotese''
       ''AF'' ''InvoiceType=AF'' ''SalesInvoices'' ''ambos'',
     seed ''vendas'' ''bwb.ao.vendas.rp''
       (''Pr'' @ [CHR 0xC3, CHR 0xA9] @ ''mio / Recibo de Pr'' @ [CHR 0xC3, CHR 0xA9] @ ''mio'') ''off'' ''hipotese''
       ''RP'' ''InvoiceType=RP'' ''SalesInvoices'' ''ambos'',
     seed ''vendas'' ''bwb.ao.vendas.re'' (''Estorno / Recibo de Estorno'') ''off'' ''hipotese''
       ''RE'' ''InvoiceType=RE'' ''SalesInvoices'' ''ambos'',
     seed ''vendas'' ''bwb.ao.vendas.cs''
       (''Imputa'' @ [CHR 0xC3, CHR 0xA7, CHR 0xC3, CHR 0xA3] @ ''o Co-seguradoras'') ''off'' ''hipotese''
       ''CS'' ''InvoiceType=CS'' ''SalesInvoices'' ''ambos'',
     seed ''vendas'' ''bwb.ao.vendas.ld''
       (''Imputa'' @ [CHR 0xC3, CHR 0xA7, CHR 0xC3, CHR 0xA3] @ ''o Co-seguradora L'' @ [CHR 0xC3, CHR 0xAD] @ ''der'') ''off'' ''hipotese''
       ''LD'' ''InvoiceType=LD'' ''SalesInvoices'' ''ambos'',
     seed ''vendas'' ''bwb.ao.vendas.ra'' (''Resseguro Aceite'') ''off'' ''hipotese''
       ''RA'' ''InvoiceType=RA'' ''SalesInvoices'' ''ambos'',
     seed ''pagamentos'' ''bwb.ao.pagamentos.rc'' (''Recibo Emitido'') ''off'' ''conflito''
       ''RC'' ''PaymentType=RC'' ''Payments'' ''ambos'',
     seed ''pagamentos'' ''bwb.ao.pagamentos.rg'' (''Outros Recibos Emitidos'') ''off'' ''conflito''
       ''RG'' ''PaymentType=RG'' ''Payments'' ''ambos'',
     seed ''pagamentos'' ''bwb.ao.pagamentos.ar''
       (''Aviso Cobran'' @ [CHR 0xC3, CHR 0xA7] @ ''a/Recibo (pagamentos)'') ''off'' ''hipotese''
       ''AR'' ''PaymentType=AR'' ''Payments'' ''ambos'',
     seed ''movimentacao'' ''bwb.ao.movimentacao.gr'' (''Guia de Remessa'') ''off'' ''pending_validation''
       [] ''MovementType=GR'' ''MovementOfGoods'' ''SAF-T'',
     seed ''movimentacao'' ''bwb.ao.movimentacao.gt'' (''Guia de Transporte'') ''off'' ''pending_validation''
       [] ''MovementType=GT'' ''MovementOfGoods'' ''SAF-T'',
     seed ''movimentacao'' ''bwb.ao.movimentacao.ga'' (''Guia Activos Fixos'') ''off'' ''pending_validation''
       [] ''MovementType=GA'' ''MovementOfGoods'' ''SAF-T'',
     seed ''movimentacao'' ''bwb.ao.movimentacao.gd''
       (''Guia/Nota Devolu'' @ [CHR 0xC3, CHR 0xA7, CHR 0xC3, CHR 0xA3] @ ''o'') ''off'' ''pending_validation''
       [] ''MovementType=GD'' ''MovementOfGoods'' ''SAF-T'',
     seed ''conferencia'' ''bwb.ao.conferencia.gr''
       (''Guia de Remessa (confer'' @ [CHR 0xC3, CHR 0xAA] @ ''ncia)'') ''off'' ''pending_validation''
       [] ''WorkType=GR'' ''WorkingDocuments'' ''SAF-T'',
     seed ''conferencia'' ''bwb.ao.conferencia.cm'' (''Consultas de Mesa'') ''off'' ''pending_validation''
       [] ''WorkType=CM'' ''WorkingDocuments'' ''SAF-T'',
     seed ''conferencia'' ''bwb.ao.conferencia.cc''
       (''Cr'' @ [CHR 0xC3, CHR 0xA9] @ ''dito de Consigna'' @ [CHR 0xC3, CHR 0xA7, CHR 0xC3, CHR 0xA3] @ ''o'') ''off'' ''pending_validation''
       [] ''WorkType=CC'' ''WorkingDocuments'' ''SAF-T'',
     seed ''conferencia'' ''bwb.ao.conferencia.nr'' (''Nota de Remessa'') ''off'' ''pending_validation''
       [] ''WorkType=NR'' ''WorkingDocuments'' ''SAF-T'',
     seed ''conferencia'' ''bwb.ao.conferencia.fo'' (''Folhas de Obra'') ''off'' ''pending_validation''
       [] ''WorkType=FO'' ''WorkingDocuments'' ''SAF-T'',
     seed ''conferencia'' ''bwb.ao.conferencia.ne'' (''Nota de Encomenda'') ''off'' ''pending_validation''
       [] ''WorkType=NE'' ''WorkingDocuments'' ''SAF-T'',
     seed ''conferencia'' ''bwb.ao.conferencia.ou''
       (''Outros (confer'' @ [CHR 0xC3, CHR 0xAA] @ ''ncia)'') ''off'' ''pending_validation''
       [] ''WorkType=OU'' ''WorkingDocuments'' ''SAF-T'',
     seed ''conferencia'' ''bwb.ao.conferencia.or''
       (''Or'' @ [CHR 0xC3, CHR 0xA7] @ ''amento'') ''off'' ''pending_validation''
       [] ''WorkType=OR'' ''WorkingDocuments'' ''SAF-T'',
     seed ''conferencia'' ''bwb.ao.conferencia.pf''
       (''Pr'' @ [CHR 0xC3, CHR 0xB3] @ ''-forma'') ''off'' ''pending_validation''
       [] ''WorkType=PF'' ''WorkingDocuments'' ''SAF-T'',
     seed ''conferencia'' ''bwb.ao.conferencia.dc''
       (''Documento de Confer'' @ [CHR 0xC3, CHR 0xAA] @ ''ncia'') ''off'' ''pending_validation''
       [] ''WorkType=DC'' ''WorkingDocuments'' ''SAF-T'',
     seed ''conferencia'' ''bwb.ao.conferencia.pp''
       (''PP (WorkType XSD; r'' @ [CHR 0xC3, CHR 0xB3] @ ''tulo OCR pendente)'') ''off'' ''pending_validation''
       [] ''WorkType=PP'' ''WorkingDocuments'' ''SAF-T'',
     seed ''conferencia'' ''bwb.ao.conferencia.gc''
       (''Guia de Consigna'' @ [CHR 0xC3, CHR 0xA7, CHR 0xC3, CHR 0xA3] @ ''o'') ''off'' ''pending_validation''
       [] ''WorkType=GC'' ''WorkingDocuments'' ''SAF-T'',
     seed ''compras'' ''bwb.ao.compras.ft'' (''Factura (compras)'') ''off'' ''pending_validation''
       [] ''PurchaseType=FT'' ''PurchaseInvoices'' ''SAF-T'',
     seed ''compras'' ''bwb.ao.compras.fr'' (''Factura-Recibo (compras)'') ''off'' ''pending_validation''
       [] ''PurchaseType=FR'' ''PurchaseInvoices'' ''SAF-T'',
     seed ''compras'' ''bwb.ao.compras.fg'' (''Factura Global (compras)'') ''off'' ''pending_validation''
       [] ''PurchaseType=FG'' ''PurchaseInvoices'' ''SAF-T'',
     seed ''compras'' ''bwb.ao.compras.gf''
       (''Factura Gen'' @ [CHR 0xC3, CHR 0xA9] @ ''rica (compras)'') ''off'' ''pending_validation''
       [] ''PurchaseType=GF'' ''PurchaseInvoices'' ''SAF-T'',
     seed ''compras'' ''bwb.ao.compras.ac''
       (''Aviso de Cobran'' @ [CHR 0xC3, CHR 0xA7] @ ''a (compras)'') ''off'' ''pending_validation''
       [] ''PurchaseType=AC'' ''PurchaseInvoices'' ''SAF-T'',
     seed ''compras'' ''bwb.ao.compras.af''
       (''Autofactura'' @ [CHR 0xC3, CHR 0xA7, CHR 0xC3, CHR 0xA3] @ ''o (compras)'') ''off'' ''pending_validation''
       [] ''PurchaseType=AF'' ''PurchaseInvoices'' ''SAF-T'',
     seed ''compras'' ''bwb.ao.compras.tv''
       (''Tal'' @ [CHR 0xC3, CHR 0xA3] @ ''o de Venda (compras)'') ''off'' ''pending_validation''
       [] ''PurchaseType=TV'' ''PurchaseInvoices'' ''SAF-T'',
     seed ''compras'' ''bwb.ao.compras.nc''
       (''Nota de Cr'' @ [CHR 0xC3, CHR 0xA9] @ ''dito (compras)'') ''off'' ''pending_validation''
       [] ''PurchaseType=NC'' ''PurchaseInvoices'' ''SAF-T'',
     seed ''compras'' ''bwb.ao.compras.ar''
       (''Aviso Cobran'' @ [CHR 0xC3, CHR 0xA7] @ ''a/Recibo (compras)'') ''off'' ''pending_validation''
       [] ''PurchaseType=AR'' ''PurchaseInvoices'' ''SAF-T'',
     seed ''compras'' ''bwb.ao.compras.nl''
       (''Nota de Liquida'' @ [CHR 0xC3, CHR 0xA7, CHR 0xC3, CHR 0xA3] @ ''o'') ''off'' ''pending_validation''
       [] ''PurchaseType=NL'' ''PurchaseInvoices'' ''SAF-T'',
     seed ''compras'' ''bwb.ao.compras.rc'' (''Recibo (regime caixa compras)'') ''off'' ''pending_validation''
       [] ''PurchaseType=RC'' ''PurchaseInvoices'' ''SAF-T'']"

section \<open>It passes\<close>

lemma embedded_registry_ok: "registry_ok embedded_catalog" by code_simp

lemma embedded_routed: "list_all (\<lambda>(k, e). routed e) embedded_catalog" by code_simp

lemma embedded_no_insurers: "list_all (\<lambda>c. map_of embedded_catalog (conferencia_code c) = None) cdoc005InsurerFECodes"
  by code_simp

lemma embedded_homonyms:
  "list_all (bound embedded_catalog)
     [sales True ''AR'', payment ''AR'', purchase [[]] ''AR'', payment ''RC'', purchase [[], empty_sign] ''RC'',
      movement ''GR'', working ''GR'']"
  by code_simp

lemma embedded_sales:
  "list_all (bound embedded_catalog)
     (map (sales False) cdoc008DualCodes @ map (sales True) cdoc010DualCodes @ map (sales True) cdoc005InsurerFECodes)"
  by code_simp

lemma embedded_purchases: "list_all (bound embedded_catalog) (map (purchase [[]]) (cdoc008DualCodes @ cdoc010DualCodes))"
  by code_simp

lemma embedded_working: "list_all (bound embedded_catalog) (map working workTypeInventoryCodes)"
  by code_simp

lemma embedded_catalog_ok: "catalog_ok embedded_catalog"
  using embedded_routed embedded_no_insurers embedded_homonyms embedded_sales embedded_purchases embedded_working
  by (simp add: catalog_ok_def required_bindings_def)

lemma checks_pass: "checks_pass (Some embedded_catalog)"
  using checks_iff [OF embedded_registry_ok] embedded_catalog_ok by simp

theorem checks_pass_iff_witness: "checks_pass (Some embedded_catalog) \<and> catalog_ok embedded_catalog"
  using checks_pass_iff [OF embedded_registry_ok] embedded_catalog_ok by simp

theorem available_types_witness:
  "\<not> ta_Available (evaluateType (snd (embedded_catalog ! 1)) \<lparr>ac_GroupActive = Map.empty, ac_TypeActiveOverride = Map.empty\<rparr> False)"
proof -
  let ?inp = "\<lparr>ai_FEEnrollmentStatus = [],
    ai_Config = \<lparr>ac_GroupActive = Map.empty, ac_TypeActiveOverride = Map.empty\<rparr>\<rparr>"
  let ?e = "snd (embedded_catalog ! 1)"
  let ?ta = "evaluateType ?e (ai_Config ?inp) False"
  have fr: "sales True ''FR'' \<in> set required_bindings" "bd_off (sales True ''FR'')"
    by (simp_all add: required_bindings_def cdoc010DualCodes_def sales_def)
  have code: "ta_CodigoCanonico ?ta = bd_canonical (sales True ''FR'')" by code_simp
  have "?e \<in> set (doctype_All (Some embedded_catalog))" by (simp add: embedded_catalog_def)
  then have "?ta \<in> set (ar_Types (ComputeAvailability (Some embedded_catalog) ?inp))"
    by (auto simp: ComputeAvailability_def)
  from available_types [OF embedded_registry_ok checks_pass this refl] fr code show ?thesis by auto
qed

section \<open>A catalogue text\<close>

definition sample_markdown :: string where
  "sample_markdown = concat (map (\<lambda>l. l @ [CHR 0x0A])
     [''# Seed'',
      ''| grupo | codigo_canonico | designacao | ... | activo |'',
      ''|---|---|---|'',
      ''| vendas | `bwb.ao.vendas.ft` | Factura | FE:`FT`; SAFT:`InvoiceType=FT` | `SalesInvoices` | ambos | a | b | c | d | e | hipotese | on |'',
      ''| vendas | `bwb.ao.vendas.nc` | Nota | FE:`NC`; SAFT:`InvoiceType=NC` | `SalesInvoices` | ambos | a | b | c | d | e | hipotese | on |'',
      ''| vendas | `bwb.ao.vendas.fa` | Adiantamento | FE:`FA` | `'' @ empty_sign @ ''` | FE | a | b | c | d | e | conflito | off |''])"

definition sample_registry :: registry where
  "sample_registry =
     [seed ''vendas'' ''bwb.ao.vendas.ft'' ''Factura'' ''on'' ''hipotese'' ''FT'' ''InvoiceType=FT'' ''SalesInvoices'' ''ambos'',
      seed ''vendas'' ''bwb.ao.vendas.nc'' ''Nota'' ''on'' ''hipotese'' ''NC'' ''InvoiceType=NC'' ''SalesInvoices'' ''ambos'',
      seed ''vendas'' ''bwb.ao.vendas.fa'' ''Adiantamento'' ''off'' ''conflito'' ''FA'' [] [] ''FE'']"

lemma sample_parsed: "ParseCatalog sample_markdown = Inr sample_registry"
  by code_simp

theorem catalog_resolves_witness:
  "doctype_ResolveAPI (ParseCatalog sample_markdown) ''credit_note'' =
     Inr \<lparr>rv_APIType = ''credit_note'', rv_Canonical = CanonicalNC, rv_Entry = snd (sample_registry ! 1)\<rparr>"
proof -
  have "the (map_of sample_registry CanonicalNC) = snd (sample_registry ! 1)" by code_simp
  then show ?thesis
    using catalog_resolves [OF sample_parsed] by (simp add: APIInvoice_def APICreditNote_def)
qed

end
