(* ===== verification/CredentialRotation.thy ===== *)
theory CredentialRotation
  imports CredentialProperties
begin

text \<open>
  Rotation as a total operation: under the invariant of the tables and fresh draws it succeeds, and
  its effect on every credential is written out. Then the concrete runs that instantiate the
  properties of the credential store.
\<close>

section \<open>Constraints of rewritten tables\<close>

lemma distinct_with_status:
  assumes "distinct rows"
  shows "distinct (with_status st rows) \<longleftrightarrow>
    (\<forall>c \<in> set rows. \<forall>d \<in> set rows. cr_status c = st \<and> cr_status d = st \<and> cr_scope c = cr_scope d \<longrightarrow> c = d)"
  using assms by (auto simp: with_status_def distinct_map inj_on_def)

lemma distinct_rows: "credential_unique rows \<Longrightarrow> distinct rows"
  by (auto simp: credential_unique_def distinct_map)

lemma one_of_status:
  assumes "credential_unique rows" "c \<in> set rows" "d \<in> set rows" "cr_status c = st" "cr_status d = st"
    "cr_scope c = cr_scope d" "st \<noteq> CredRevoked"
  shows "c = d"
  using assms distinct_with_status [OF distinct_rows [OF assms(1)], of st]
  by (cases st) (auto simp: credential_unique_def)

text \<open>A rewrite that keeps identifiers, scopes and hashes and makes at most one row of a scope active or in grace.\<close>

lemma unique_map:
  assumes u: "credential_unique rows"
    and keep: "\<And>c. cr_id (f c) = cr_id c \<and> cr_scope (f c) = cr_scope c \<and> cr_token_hash (f c) = cr_token_hash c"
    and one: "\<And>st c d. c \<in> set rows \<Longrightarrow> d \<in> set rows \<Longrightarrow> st \<noteq> CredRevoked \<Longrightarrow> cr_status (f c) = st \<Longrightarrow> cr_status (f d) = st
      \<Longrightarrow> cr_scope c = cr_scope d \<Longrightarrow> c = d"
  shows "credential_unique (map f rows)"
proof -
  have ids: "map cr_id (map f rows) = map cr_id rows" "map cr_token_hash (map f rows) = map cr_token_hash rows"
    using keep by simp_all
  have d: "distinct (map cr_id (map f rows))" unfolding ids using u by (simp add: credential_unique_def)
  then have "distinct (map f rows)" unfolding distinct_map [of cr_id "map f rows"] by blast
  moreover have "distinct (with_status st (map f rows))" if "st \<noteq> CredRevoked" for st
    unfolding distinct_with_status [OF \<open>distinct (map f rows)\<close>] using keep one [OF _ _ that] by auto
  moreover have "distinct (map cr_token_hash (map f rows))" unfolding ids using u by (simp add: credential_unique_def)
  ultimately show ?thesis using d by (simp add: credential_unique_def del: map_map)
qed

lemma update_map:
  assumes "\<And>c. c \<in> set (api_credentials db) \<Longrightarrow> (if P c then f c else c) = g c"
    and "\<And>c. c \<in> set (api_credentials db) \<Longrightarrow> credential_check (g c)" "credential_unique (map g (api_credentials db))"
  shows "update_credentials P f db = Inr (db\<lparr>api_credentials := map g (api_credentials db)\<rparr>)"
proof -
  have "update_where P f (api_credentials db) = map g (api_credentials db)"
    using assms(1) by (simp add: update_where_def)
  then show ?thesis using assms(2,3) by (simp add: update_credentials_def Let_def list_all_iff)
qed

section \<open>What a rotation does\<close>

definition revoked_grace :: "string \<Rightarrow> sql_time \<Rightarrow> credential_row \<Rightarrow> credential_row" where
  "revoked_grace scope now c =
     (if cr_scope c = scope \<and> cr_status c = CredGrace
      then c\<lparr>cr_status := CredRevoked, cr_revoked_at := Some now, cr_grace_until := None\<rparr> else c)"

definition demoted :: "string \<Rightarrow> sql_time \<Rightarrow> credential_row \<Rightarrow> credential_row" where
  "demoted scope grace c =
     (if cr_scope c = scope \<and> cr_status c = CredActive
      then c\<lparr>cr_status := CredGrace, cr_grace_until := Some grace, cr_revoked_at := None\<rparr> else c)"

lemma rotation_keys [simp]:
  "cr_id (revoked_grace scope t c) = cr_id c" "cr_id (demoted scope t c) = cr_id c"
  "cr_token_hash (revoked_grace scope t c) = cr_token_hash c" "cr_token_hash (demoted scope t c) = cr_token_hash c"
  "cr_scope (revoked_grace scope t c) = cr_scope c" "cr_scope (demoted scope t c) = cr_scope c"
  by (simp_all add: revoked_grace_def demoted_def)

lemma findStatusID_some:
  assumes inv: "cred_inv db" and c: "c \<in> set (api_credentials db)" "cr_scope c = scope" "cr_status c = st" "st \<noteq> CredRevoked"
  shows "findStatusID scope st db = cr_id c"
proof (cases "find (\<lambda>c. cr_scope c = scope \<and> cr_status c = st) (api_credentials db)")
  case None
  then show ?thesis using c by (auto simp: find_None_iff)
next
  case (Some d)
  then have "d \<in> set (api_credentials db)" "cr_scope d = scope" "cr_status d = st" by (auto simp: find_Some_iff)
  then have "d = c" using one_of_status [OF cred_invD(1) [OF inv], of d c st] c by simp
  then show ?thesis using Some by (simp add: findStatusID_def)
qed

lemma findStatusID_none:
  assumes inv: "cred_inv db"
  shows "findStatusID scope st db = [] \<longleftrightarrow> (\<forall>c \<in> set (api_credentials db). \<not> (cr_scope c = scope \<and> cr_status c = st))"
proof (cases "find (\<lambda>c. cr_scope c = scope \<and> cr_status c = st) (api_credentials db)")
  case None
  then show ?thesis by (simp add: findStatusID_def) (simp add: find_None_iff)
next
  case (Some d)
  then have "d \<in> set (api_credentials db) \<and> cr_scope d = scope \<and> cr_status d = st" by (auto simp: find_Some_iff)
  then show ?thesis using Some cred_invD(3) [OF inv, of d] by (auto simp: findStatusID_def)
qed

text \<open>The first step revokes the previous grace credential, if there is one.\<close>

lemma revoke_previous:
  assumes inv: "cred_inv db"
  shows "(if findStatusID scope CredGrace db \<noteq> [] then markRevoked scope (findStatusID scope CredGrace db) now db else Inr db)
     = Inr (db\<lparr>api_credentials := map (revoked_grace scope now) (api_credentials db)\<rparr>)"
proof (cases "findStatusID scope CredGrace db = []")
  case True
  then have "map (revoked_grace scope now) (api_credentials db) = api_credentials db"
    unfolding findStatusID_none [OF inv] by (intro map_idI) (auto simp: revoked_grace_def)
  then show ?thesis using True by simp
next
  case False
  then obtain g where g: "g \<in> set (api_credentials db)" "cr_scope g = scope" "cr_status g = CredGrace"
    unfolding findStatusID_none [OF inv] by blast
  note u = cred_invD(1) [OF inv]
  have id: "findStatusID scope CredGrace db = cr_id g" by (rule findStatusID_some [OF inv g]) simp
  have same: "c = g" if "c \<in> set (api_credentials db)" "cr_id c = cr_id g" for c
    using u that g(1) by (auto simp: credential_unique_def distinct_map dest: inj_onD)
  have only: "c = g" if "c \<in> set (api_credentials db)" "cr_scope c = scope" "cr_status c = CredGrace" for c
    using one_of_status [OF u that(1) g(1) that(3) g(3)] that(2) g(2) by simp
  let ?hit = "\<lambda>c. cr_id c = cr_id g \<and> cr_scope c = scope \<and> cr_status c \<noteq> CredRevoked"
  have "update_credentials ?hit (\<lambda>c. c\<lparr>cr_status := CredRevoked, cr_revoked_at := Some now, cr_grace_until := None\<rparr>) db
      = Inr (db\<lparr>api_credentials := map (revoked_grace scope now) (api_credentials db)\<rparr>)"
  proof (rule update_map)
    show "(if ?hit c then c\<lparr>cr_status := CredRevoked, cr_revoked_at := Some now, cr_grace_until := None\<rparr> else c)
        = revoked_grace scope now c" if "c \<in> set (api_credentials db)" for c
      using same [OF that] only [OF that] g by (auto simp: revoked_grace_def)
    show "credential_check (revoked_grace scope now c)" if "c \<in> set (api_credentials db)" for c
      using cred_invD(3) [OF inv that] by (simp add: revoked_grace_def credential_check_def)
    show "credential_unique (map (revoked_grace scope now) (api_credentials db))"
    proof (rule unique_map [OF u])
      fix st c d
      assume cd: "c \<in> set (api_credentials db)" "d \<in> set (api_credentials db)" "st \<noteq> CredRevoked"
        "cr_status (revoked_grace scope now c) = st" "cr_status (revoked_grace scope now d) = st" "cr_scope c = cr_scope d"
      then have "cr_status c = st" "cr_status d = st" by (auto simp: revoked_grace_def split: if_splits)
      then show "c = d" using one_of_status [OF u cd(1,2)] cd(3,6) by blast
    qed (simp add: revoked_grace_def)
  qed
  moreover have "filter ?hit (api_credentials db) \<noteq> []" using g by (auto simp: filter_empty_conv)
  ultimately show ?thesis using False by (simp add: id markRevoked_def Let_def)
qed

text \<open>The second step demotes the active credential; no grace credential is left in its way.\<close>

lemma demote_previous:
  assumes inv: "cred_inv db" and a: "a \<in> set (api_credentials db)" "cr_scope a = scope" "cr_status a = CredActive"
    and none: "\<And>c. c \<in> set (api_credentials db) \<Longrightarrow> cr_scope c = scope \<Longrightarrow> cr_status c \<noteq> CredGrace"
  shows "demote_active scope (cr_id a) grace db = Inr (db\<lparr>api_credentials := map (demoted scope grace) (api_credentials db)\<rparr>)"
proof -
  note u = cred_invD(1) [OF inv]
  have only: "c = a" if "c \<in> set (api_credentials db)" "cr_scope c = scope" "cr_status c = CredActive" for c
    using one_of_status [OF u that(1) a(1) that(3) a(3)] that(2) a(2) by simp
  show ?thesis
    unfolding demote_active_def
  proof (rule update_map)
    show "(if cr_id c = cr_id a \<and> cr_scope c = scope \<and> cr_status c = CredActive
        then c\<lparr>cr_status := CredGrace, cr_grace_until := Some grace, cr_revoked_at := None\<rparr> else c) = demoted scope grace c"
      if "c \<in> set (api_credentials db)" for c
    proof (cases "cr_scope c = scope \<and> cr_status c = CredActive")
      case True
      then have "cr_id c = cr_id a" using only [OF that] by simp
      then show ?thesis using True by (simp add: demoted_def)
    next
      case False
      then show ?thesis unfolding demoted_def by (simp only: if_False conj_commute if_cancel) (simp add: False)
    qed
    show "credential_check (demoted scope grace c)" if "c \<in> set (api_credentials db)" for c
      using cred_invD(3) [OF inv that] by (simp add: demoted_def credential_check_def)
    show "credential_unique (map (demoted scope grace) (api_credentials db))"
    proof (rule unique_map [OF u])
      fix st c d
      assume cd: "c \<in> set (api_credentials db)" "d \<in> set (api_credentials db)" "st \<noteq> CredRevoked"
        "cr_status (demoted scope grace c) = st" "cr_status (demoted scope grace d) = st" "cr_scope c = cr_scope d"
      show "c = d"
      proof (cases "cr_scope c = scope")
        case True
        then show ?thesis
          using cd none only one_of_status [OF u cd(1,2)] by (auto simp: demoted_def split: if_splits)
      next
        case False
        then show ?thesis using cd one_of_status [OF u cd(1,2)] by (simp add: demoted_def)
      qed
    qed (simp add: demoted_def)
  qed
qed

text \<open>The third step inserts the new credential.\<close>

lemma insert_next:
  assumes inv: "cred_inv db" and c: "credential_check (credential_of_args dia a)" "credential_fk (credential_of_args dia a) db"
    and fresh: "ia_CredentialID a \<notin> cr_id ` set (api_credentials db)" "ia_TokenHash a \<notin> cr_token_hash ` set (api_credentials db)"
    and none: "\<And>c. c \<in> set (api_credentials db) \<Longrightarrow> cr_scope c = ia_ScopeID a \<Longrightarrow> cr_status c \<noteq> CredActive"
    and active: "ia_Status a = CredActive"
  shows "\<exists>rec. insertCredential dia a db = Inr (rec, db\<lparr>api_credentials := api_credentials db @ [credential_of_args dia a]\<rparr>)"
proof -
  have "credential_unique (api_credentials db @ [credential_of_args dia a])"
    using cred_invD(1) [OF inv] fresh none active
    by (auto simp: credential_unique_def with_status_def credential_of_args_def)
  then show ?thesis using c by (simp add: insertCredential_def Let_def)
qed

lemma TrimSpace_sql_nonempty:
  assumes "strings_TrimSpace s \<noteq> []"
  shows "sql_nonempty (strings_TrimSpace s)"
proof -
  let ?t = "strings_TrimSpace s" and ?l = "trim_with go_spaces (strings_TrimSpace s)"
  have "strings_TrimSpace ?t = ?t" by simp
  then have "length ?t \<le> length (trim_with (map rev go_spaces) (rev ?l))" by (simp add: strings_TrimSpace_def)
  also have "\<dots> \<le> length ?l" using suffix_length_le [OF trim_with_suffix] by (metis length_rev)
  finally have "?l = ?t" using trim_with_suffix [of go_spaces ?t] by (metis suffix_length_le suffix_order.order_antisym suffix_def
      append_self_conv2 le_antisym length_append add_le_same_cancel2 le_zero_eq length_0_conv)
  moreover have "[CHR '' ''] \<in> set go_spaces" by (simp add: go_spaces_def)
  ultimately have "\<not> prefix [CHR '' ''] ?t" using trim_with_clean [of "[CHR '' '']" go_spaces ?t] by simp
  then show ?thesis using assms by (cases ?t) (auto simp: sql_nonempty_def)
qed

definition rotated_args ::
  "(string \<Rightarrow> string) \<Rightarrow> cred_draw \<Rightarrow> rotate_params \<Rightarrow> string \<Rightarrow> gotime \<Rightarrow> insert_args" where
  "rotated_args sha256 dr p prev now =
     \<lparr>ia_CredentialID = dr_credID dr, ia_ScopeID = strings_TrimSpace (rt_ScopeID p),
      ia_TokenHash = sha256 (fst (generateCredentialToken sha256 (dr_raw dr))), ia_Status = CredActive,
      ia_ExpiresAt = rt_ExpiresAt p, ia_RotatedFrom = Some prev, ia_CreatedAt = now,
      ia_CreatedBy = strings_TrimSpace (rt_CreatedBy p)\<rparr>"

definition rotated_db ::
  "(string \<Rightarrow> string) \<Rightarrow> dialect \<Rightarrow> cred_draw \<Rightarrow> rotate_params \<Rightarrow> string \<Rightarrow> gotime \<Rightarrow> cred_db \<Rightarrow> cred_db" where
  "rotated_db sha256 dia dr p prev now db =
     db\<lparr>api_credentials :=
          map (\<lambda>c. demoted (strings_TrimSpace (rt_ScopeID p)) (stamp dia (trunc_us (rt_GraceUntil p)))
            (revoked_grace (strings_TrimSpace (rt_ScopeID p)) (stamp dia now) c)) (api_credentials db)
          @ [credential_of_args dia (rotated_args sha256 dr p prev now)],
        audit_events := audit_events db @
          [\<lparr>au_event_id = dr_eventID dr, au_occurred_at = stamp dia now, au_credential_id = nullStr (dr_credID dr),
            au_scope_id = nullStr (strings_TrimSpace (rt_ScopeID p)), au_action = ''credential.rotate'', au_result = ''success'',
            au_reason_code = None, au_request_id = nullStr (strings_TrimSpace (rt_RequestID p))\<rparr>]\<rparr>"

lemma writeAudit_fresh:
  assumes "dr_eventID dr \<notin> au_event_id ` set (audit_events db)"
  shows "writeAudit dia (dr_eventID dr) (audit_ok now ''credential.rotate'' i scope [] req) db =
    Inr (db\<lparr>audit_events := audit_events db @
          [\<lparr>au_event_id = dr_eventID dr, au_occurred_at = stamp dia now, au_credential_id = nullStr i,
            au_scope_id = nullStr scope, au_action = ''credential.rotate'', au_result = ''success'',
            au_reason_code = None, au_request_id = nullStr req\<rparr>]\<rparr>)"
proof -
  have "sql_nonempty ''credential.rotate''" "sql_nonempty ''success''" by (simp_all add: sql_nonempty_def)
  then show ?thesis
    using assms unfolding writeAudit_def Let_def list_ex_key
    by (simp add: audit_ok_def nullStrPtr_def nullStr_def)
qed

lemma rotate_tx_total:
  assumes inv: "cred_inv db" and a: "a \<in> set (api_credentials db)" "cr_scope a = strings_TrimSpace (rt_ScopeID p)" "cr_status a = CredActive"
    and created: "strings_TrimSpace (rt_CreatedBy p) \<noteq> []"
    and sink: "sink (fst (generateCredentialToken sha256 (dr_raw dr)))"
    and hash: "length (sha256 (fst (generateCredentialToken sha256 (dr_raw dr)))) = 32"
    and fresh: "dr_credID dr \<notin> cr_id ` set (api_credentials db)"
      "sha256 (fst (generateCredentialToken sha256 (dr_raw dr))) \<notin> cr_token_hash ` set (api_credentials db)"
      "dr_eventID dr \<notin> au_event_id ` set (audit_events db)"
  shows "\<exists>rec. rotate_tx sha256 dia dr (strings_TrimSpace (rt_ScopeID p)) (strings_TrimSpace (rt_CreatedBy p))
      (trunc_us (rt_GraceUntil p)) (rt_ExpiresAt p) (strings_TrimSpace (rt_RequestID p)) sink now db
    = Inr ((rec, cr_id a), rotated_db sha256 dia dr p (cr_id a) now db)"
proof -
  let ?scope = "strings_TrimSpace (rt_ScopeID p)" and ?g = "stamp dia (trunc_us (rt_GraceUntil p))"
  let ?db1 = "db\<lparr>api_credentials := map (revoked_grace ?scope (stamp dia now)) (api_credentials db)\<rparr>"
  let ?db2 = "?db1\<lparr>api_credentials := map (demoted ?scope ?g) (api_credentials ?db1)\<rparr>"
  let ?args = "rotated_args sha256 dr p (cr_id a) now"
  note step1 = revoke_previous [OF inv, of ?scope "stamp dia now"]
  have inv1: "cred_inv ?db1"
  proof (cases "findStatusID ?scope CredGrace db = []")
    case True
    then show ?thesis using step1 inv by simp
  next
    case False
    then have "markRevoked ?scope (findStatusID ?scope CredGrace db) (stamp dia now) db = Inr ?db1" using step1 by simp
    then show ?thesis by (rule step_okD [OF markRevoked_ok [OF inv]])
  qed
  have a1: "a \<in> set (api_credentials ?db1)"
    using a by (force simp: revoked_grace_def)
  have step2: "demote_active ?scope (cr_id a) ?g ?db1 = Inr ?db2"
    by (rule demote_previous [OF inv1 a1 a(2,3)]) (auto simp: revoked_grace_def split: if_splits)
  have inv2: "cred_inv ?db2" by (rule step_okD [OF demote_ok [OF inv1 step2]])
  have keys: "cr_id ` set (api_credentials ?db2) = cr_id ` set (api_credentials db)"
    "cr_token_hash ` set (api_credentials ?db2) = cr_token_hash ` set (api_credentials db)"
    by (simp_all add: image_image)
  have "cr_rotated_from (credential_of_args dia ?args) = Some (cr_id a)" "cr_scope (credential_of_args dia ?args) = ?scope"
    by (simp_all add: credential_of_args_def rotated_args_def)
  moreover have "has_scope ?scope ?db2"
    using cred_invD(3) [OF inv a(1)] a(2) by (simp add: credential_fk_def has_scope_def)
  moreover have "(cr_id a, ?scope) \<in> (\<lambda>x. (cr_id x, cr_scope x)) ` set (api_credentials ?db2)"
    using a by (force simp: image_image)
  ultimately have fk: "credential_fk (credential_of_args dia ?args) ?db2"
    unfolding credential_fk_def list_ex_key2 by simp
  have "cr_id a \<noteq> dr_credID dr" using fresh(1) a(1) by (metis image_eqI)
  then have check: "credential_check (credential_of_args dia ?args)"
    using hash TrimSpace_sql_nonempty [OF created] by (simp add: credential_check_def credential_of_args_def rotated_args_def)
  have "\<exists>rec. insertCredential dia ?args ?db2 = Inr (rec, ?db2\<lparr>api_credentials := api_credentials ?db2 @ [credential_of_args dia ?args]\<rparr>)"
  proof (rule insert_next [OF inv2 check fk])
    show "ia_CredentialID ?args \<notin> cr_id ` set (api_credentials ?db2)" "ia_TokenHash ?args \<notin> cr_token_hash ` set (api_credentials ?db2)"
      unfolding keys using fresh(1,2) by (simp_all add: rotated_args_def)
  qed (auto simp: rotated_args_def demoted_def split: if_splits)
  then obtain rec where ins: "insertCredential dia ?args ?db2 = Inr (rec, ?db2\<lparr>api_credentials := api_credentials ?db2 @ [credential_of_args dia ?args]\<rparr>)"
    by blast
  have act: "findStatusID ?scope CredActive db = cr_id a" by (rule findStatusID_some [OF inv a]) simp
  have ne: "cr_id a \<noteq> []" using cred_invD(3) [OF inv a(1)] by blast
  let ?tok = "fst (generateCredentialToken sha256 (dr_raw dr))"
  let ?db3 = "?db2\<lparr>api_credentials := api_credentials ?db2 @ [credential_of_args dia ?args]\<rparr>"
  have gen: "generateCredentialToken sha256 (dr_raw dr) = (?tok, sha256 ?tok)"
    by (simp add: generateCredentialToken_def Let_def)
  have audit: "writeAudit dia (dr_eventID dr) (audit_ok now ''credential.rotate'' (dr_credID dr) ?scope [] (strings_TrimSpace (rt_RequestID p))) ?db3
      = Inr (rotated_db sha256 dia dr p (cr_id a) now db)"
    by (subst writeAudit_fresh) (simp_all add: fresh(3) rotated_db_def o_def)
  have "rotate_tx sha256 dia dr ?scope (strings_TrimSpace (rt_CreatedBy p))
      (trunc_us (rt_GraceUntil p)) (rt_ExpiresAt p) (strings_TrimSpace (rt_RequestID p)) sink now db
    = Inr ((rec, cr_id a), rotated_db sha256 dia dr p (cr_id a) now db)"
    unfolding rotate_tx_def act Let_def if_not_P [OF ne] step1 bind_result_simps step2
    by (subst gen) (simp only: prod.case ins [unfolded rotated_args_def] bind_result_simps sink not_True_eq_False if_False
        audit [unfolded rotated_args_def])
  then show ?thesis by blast
qed

text \<open>
  C19: rotation always works and does exactly what it says: for an existing scope with an
  active credential, valid parameters and fresh draws it succeeds; the active credential enters
  grace until the deadline, the credential that was in grace is revoked, every other credential is
  untouched, the new one is active with the old one as its predecessor, and one audit event is added.
\<close>

theorem rotate_succeeds:
  assumes db: "db = fold (cred_step sha256) es empty_cred_db"
    and scope: "strings_TrimSpace (rt_ScopeID p) \<noteq> []"
    and a: "a \<in> set (api_credentials db)" "cr_scope a = strings_TrimSpace (rt_ScopeID p)" "cr_status a = CredActive"
    and created: "strings_TrimSpace (rt_CreatedBy p) \<noteq> []"
    and deliver: "rt_Deliver p = Some sink" "sink (fst (generateCredentialToken sha256 (dr_raw dr)))"
    and grace: "trunc_us (rt_GraceUntil p) \<noteq> zero_time" "trunc_us clock1 < trunc_us (rt_GraceUntil p)"
    and hash: "length (sha256 (fst (generateCredentialToken sha256 (dr_raw dr)))) = 32"
    and fresh: "dr_credID dr \<notin> cr_id ` set (api_credentials db)"
      "sha256 (fst (generateCredentialToken sha256 (dr_raw dr))) \<notin> cr_token_hash ` set (api_credentials db)"
      "dr_eventID dr \<notin> au_event_id ` set (audit_events db)"
  shows "\<exists>rec. Rotate sha256 dia clock1 clock2 dr p db
    = (Inr (rec, cr_id a), rotated_db sha256 dia dr p (cr_id a) (trunc_us clock2) db)"
proof -
  have inv: "cred_inv db" unfolding db by (rule creds.reach_inv [OF refl])
  have "has_scope (strings_TrimSpace (rt_ScopeID p)) db"
    using cred_invD(3) [OF inv a(1)] a(2) by (simp add: credential_fk_def)
  moreover have "\<exists>rec. rotate_tx sha256 dia dr (strings_TrimSpace (rt_ScopeID p)) (strings_TrimSpace (rt_CreatedBy p))
      (trunc_us (rt_GraceUntil p)) (rt_ExpiresAt p) (strings_TrimSpace (rt_RequestID p)) sink (trunc_us clock2) db
    = Inr ((rec, cr_id a), rotated_db sha256 dia dr p (cr_id a) (trunc_us clock2) db)"
    by (rule rotate_tx_total [OF inv a created]) (fact deliver(2) hash fresh)+
  ultimately show ?thesis
    using scope created deliver(1) grace by (auto simp: Rotate_def Let_def withScopeTx_def)
qed

section \<open>Witnesses\<close>

definition sample_sha :: "string \<Rightarrow> string" where
  "sample_sha s = take 32 (s @ replicate 32 CHR ''x'')"

definition sample_scope_params :: create_scope_params where
  "sample_scope_params = \<lparr>sc_ScopeID = ''s'', sc_TaxpayerNIF = ''1'', sc_IANATimezone = ''tz'', sc_SeriesEffectiveCode = ''A'',
     sc_Environment = ''development''\<rparr>"

definition sample_issue :: issue_params where
  "sample_issue = \<lparr>is_ScopeID = ''s'', is_CreatedBy = ''op'', is_ExpiresAt = None, is_RequestID = [], is_Deliver = Some (\<lambda>_. True)\<rparr>"

definition sample_rotate :: rotate_params where
  "sample_rotate = \<lparr>rt_ScopeID = ''s'', rt_CreatedBy = ''op'', rt_GraceUntil = 5000, rt_ExpiresAt = None, rt_RequestID = [],
     rt_Deliver = Some (\<lambda>_. True)\<rparr>"

definition sample_draw :: "string \<Rightarrow> string \<Rightarrow> cred_draw" where
  "sample_draw i raw = \<lparr>dr_credID = i, dr_eventID = i, dr_raw = raw\<rparr>"

definition issue_run :: "cred_event list" where
  "issue_run = [ScopeEv DialectPostgres 0 sample_scope_params, IssueEv DialectPostgres 0 (sample_draw ''c1'' []) sample_issue]"

definition sample_scope_row :: scope_row where
  "sample_scope_row = \<lparr>sp_scope_id = ''s'', sp_taxpayer_nif = ''1'', sp_iana_timezone = ''tz'', sp_series_effective_code = ''A'',
     sp_environment = ''development'', sp_status = ''active'', sp_created_at = StampTime 0\<rparr>"

definition first_credential :: credential_row where
  "first_credential = \<lparr>cr_id = ''c1'', cr_scope = ''s'', cr_token_hash = sample_sha CredentialTokenPrefix, cr_status = CredActive,
     cr_expires_at = None, cr_grace_until = None, cr_rotated_from = None, cr_revoked_at = None, cr_created_at = StampTime 0,
     cr_created_by = ''op''\<rparr>"

lemma issue_run_db:
  "api_credentials (fold (cred_step sample_sha) issue_run empty_cred_db) = [first_credential]"
  "map au_event_id (audit_events (fold (cred_step sample_sha) issue_run empty_cred_db)) = [''c1'']"
  by code_simp+

lemma rotate_succeeds_witness:
  "\<exists>rec. Rotate sample_sha DialectPostgres 0 0 (sample_draw ''c2'' ''a'') sample_rotate (fold (cred_step sample_sha) issue_run empty_cred_db)
     = (Inr (rec, ''c1''), rotated_db sample_sha DialectPostgres (sample_draw ''c2'' ''a'') sample_rotate ''c1'' (trunc_us 0)
          (fold (cred_step sample_sha) issue_run empty_cred_db))"
proof -
  let ?db = "fold (cred_step sample_sha) issue_run empty_cred_db"
  have trim: "strings_TrimSpace ''s'' = ''s''" "strings_TrimSpace ''op'' = ''op''"
    by code_simp+
  have "length (sample_sha (fst (generateCredentialToken sample_sha (dr_raw (sample_draw ''c2'' ''a''))))) = 32"
    by (simp add: sample_sha_def)
  moreover have "sample_sha (fst (generateCredentialToken sample_sha (dr_raw (sample_draw ''c2'' ''a'')))) \<noteq> cr_token_hash first_credential"
    by code_simp
  moreover have "au_event_id ` set (audit_events ?db) = {''c1''}"
    using issue_run_db(2) by (metis list.simps(15) list.set(1) set_map)
  moreover have "rt_Deliver sample_rotate = Some (\<lambda>_. True)" by (simp add: sample_rotate_def)
  ultimately show ?thesis
    using rotate_succeeds [OF refl, of sample_rotate first_credential sample_sha issue_run "\<lambda>_. True" "sample_draw ''c2'' ''a''" 0 DialectPostgres 0]
    by (simp add: issue_run_db(1) trim first_credential_def sample_rotate_def sample_draw_def zero_time_def trunc_us_def second_def)
qed

definition revoke_run :: "cred_event list" where
  "revoke_run = issue_run @ [RevokeEv DialectPostgres 0 ''e2''
     \<lparr>rv_ScopeID = ''s'', rv_CredentialID = ''c1'', rv_RequestID = [], rv_ReasonCode = []\<rparr>]"

definition revoked_credential :: credential_row where
  "revoked_credential = first_credential\<lparr>cr_status := CredRevoked, cr_revoked_at := Some (StampTime 0)\<rparr>"

lemma revoke_run_db: "api_credentials (fold (cred_step sample_sha) revoke_run empty_cred_db) = [revoked_credential]"
  by code_simp

definition sample_auth :: auth_env where
  "sample_auth = \<lparr>ax_sha256 = sample_sha, ax_dialect = DialectPostgres, ax_fiscalEnv = ''development'', ax_now = 0, ax_clock = 0,
     ax_eventID = ''e3'', ax_requestID = []\<rparr>"

lemma revoked_never_authenticates_witness:
  "revoked_credential \<in> set (api_credentials (fold (cred_step sample_sha) (revoke_run @ issue_run) empty_cred_db))
   \<and> (\<forall>b. fst (Authenticate sample_auth ''Bearer bwb_sbox_'' (fold (cred_step sample_sha) (revoke_run @ issue_run) empty_cred_db)) \<noteq> Inr b)"
proof -
  have 1: "extractBearer ''Bearer bwb_sbox_'' = Some ''bwb_sbox_''" by code_simp
  have 2: "ax_sha256 sample_auth ''bwb_sbox_'' = cr_token_hash revoked_credential"
    by (simp add: sample_auth_def revoked_credential_def first_credential_def CredentialTokenPrefix_def)
  have 3: "cr_status revoked_credential = CredRevoked" by (simp add: revoked_credential_def)
  have 4: "revoked_credential \<in> set (api_credentials (fold (cred_step sample_sha) revoke_run empty_cred_db))"
    by (simp add: revoke_run_db)
  show ?thesis using revoked_never_authenticates [OF 4 3 1 2] by blast
qed

definition const_sha :: "string \<Rightarrow> string" where "const_sha s = replicate 32 CHR ''h''"

definition scope_run :: "cred_event list" where
  "scope_run = [ScopeEv DialectPostgres 0 sample_scope_params]"

lemma scope_run_db: "fold (cred_step const_sha) scope_run empty_cred_db = \<lparr>scopes = [sample_scope_row], api_credentials = [], audit_events = []\<rparr>"
  by code_simp


section \<open>Sub-microsecond expiry\<close>

text \<open>
  The record \<open>Issue\<close> returns carries the expiry as it was requested, the table the expiry truncated
  to microseconds: reading the credential back gives another time.
\<close>

theorem issue_returns_untruncated_expiry:
  "\<exists>rec db' rec'. Issue const_sha DialectPostgres 0 (sample_draw ''c1'' []) (sample_issue\<lparr>is_ExpiresAt := Some 1500\<rparr>)
       (fold (cred_step const_sha) scope_run empty_cred_db) = (Inr rec, db')
     \<and> getCredential ''s'' ''c1'' db' = Inr rec' \<and> cd_ExpiresAt rec = Some 1500 \<and> cd_ExpiresAt rec' = Some 1000"
proof -
  have trim: "strings_TrimSpace ''s'' = ''s''" "strings_TrimSpace ''op'' = ''op''" by code_simp+
  have ok: "sql_nonempty ''credential.issue''" "sql_nonempty ''success''" "sql_nonempty ''op''" by code_simp+
  show ?thesis
    unfolding scope_run_db
    by (simp add: Issue_def sample_issue_def trim withScopeTx_def has_scope_def sample_scope_row_def issue_tx_def findStatusID_def
        generateCredentialToken_def insertCredential_def credential_of_args_def credential_check_def credential_unique_def
        with_status_def credential_fk_def writeAudit_def audit_ok_def const_sha_def ok sample_draw_def Let_def
        getCredential_def read_time_def read_null_time_def stamp_def trunc_us_def)
qed

end
