(* ===== verification/DocumentsExamples.thy ===== *)
theory DocumentsExamples
  imports DocumentsProperties CatalogExamples CredentialRotation
begin

text \<open>
  A request of a point of sale, byte for byte, through the whole handler: authenticated against an
  issued credential, decoded, sealed as number 1 of its series, and repeated.
\<close>

section \<open>The request\<close>

text \<open>JSON with a tilde for each quote.\<close>

definition with_quotes :: "string \<Rightarrow> string" where
  "with_quotes s = map (\<lambda>c. if c = CHR ''~'' then quote else c) s"

definition sample_json_body :: string where
  "sample_json_body = with_quotes
     (''{~external_id~:~e1~, ~document_type~:~invoice~, ~currency~:~AOA~, ~issued_at~:~2026-07-21T10:00:00+01:00~,''
      @ '' ~seller~:{~tax_id~:~500~, ~name~:~S~}, ~lines~:[{~line_id~:~1~, ~description~:~d~, ~quantity~:~1~,''
      @ '' ~unit_price~:~1.50~, ~tax_code~:~NOR~}]} '')"

definition sample_body :: intent_body where
  "sample_body =
     \<lparr>ib_ExternalID = ''e1'', ib_DocumentType = ''invoice'', ib_Currency = ''AOA'', ib_IssuedAt = ''2026-07-21T10:00:00+01:00'',
      ib_RequestedSeries = [], ib_Seller = Some \<lparr>pb_TaxID = ''500'', pb_Name = ''S''\<rparr>, ib_Customer = None,
      ib_Lines = [\<lparr>lb_LineID = ''1'', lb_Description = ''d'', lb_Quantity = ''1'', lb_UnitPrice = ''1.50'', lb_TaxCode = ''NOR''\<rparr>],
      ib_ScopeID = None\<rparr>"

definition decoded :: "string \<Rightarrow> (intent_body \<times> bool) option" where
  "decoded raw =
     (case json_read raw of
        Got v rest \<Rightarrow>
          (case dec_struct intent_names body_field v \<lparr>dz_body = empty_body, dz_spare = []\<rparr> of
             Some z \<Rightarrow> Some (dz_body z, dec_More rest) | None \<Rightarrow> None)
      | _ \<Rightarrow> None)"

lemma decode_small:
  assumes "length raw \<le> maxBodyBytes" "decoded raw = Some (b, False)" "ib_ScopeID b = None"
  shows "decodeDocumentIntent raw = Inr b"
  using assms by (auto simp: decodeDocumentIntent_def decoded_def Let_def split: scan.splits option.splits json.splits)

lemma sample_decoded: "decoded sample_json_body = Some (sample_body, False)"
  by code_simp

lemma sample_decodes: "decodeDocumentIntent sample_json_body = Inr sample_body"
  by (rule decode_small [OF _ sample_decoded])
    (simp_all add: sample_json_body_def with_quotes_def maxBodyBytes_def sample_body_def)

text \<open>A closing bracket after the value is not seen as trailing data.\<close>

lemma trailing_bracket_accepted: "decodeDocumentIntent (sample_json_body @ '']  [1, 2]'') = Inr sample_body"
proof (rule decode_small)
  show "decoded (sample_json_body @ '']  [1, 2]'') = Some (sample_body, False)" by code_simp
qed (simp_all add: sample_json_body_def with_quotes_def maxBodyBytes_def sample_body_def)

lemma trailing_value_refused: "decoded (sample_json_body @ ''[1, 2]'') = Some (sample_body, True)"
  by code_simp

lemma sample_mapped: "mapIntent (Inr sample_registry) ''s1'' sample_body sample_issued = Inr sample_intent"
  by code_simp

section \<open>The service\<close>

definition pos_params :: create_scope_params where
  "pos_params = \<lparr>sc_ScopeID = ''s1'', sc_TaxpayerNIF = ''500'', sc_IANATimezone = AfricaLuanda, sc_SeriesEffectiveCode = ''A'',
     sc_Environment = ''development''\<rparr>"

definition pos_scope :: scope_row where
  "pos_scope = \<lparr>sp_scope_id = ''s1'', sp_taxpayer_nif = ''500'', sp_iana_timezone = AfricaLuanda, sp_series_effective_code = ''A'',
     sp_environment = ''development'', sp_status = ''active'', sp_created_at = StampTime 0\<rparr>"

definition pos_credential :: credential_row where
  "pos_credential = \<lparr>cr_id = ''c1'', cr_scope = ''s1'', cr_token_hash = replicate 32 CHR ''h'', cr_status = CredActive,
     cr_expires_at = None, cr_grace_until = None, cr_rotated_from = None, cr_revoked_at = None, cr_created_at = StampTime 0,
     cr_created_by = ''op''\<rparr>"

definition pos_run :: "cred_event list" where
  "pos_run = [ScopeEv DialectPostgres 0 pos_params,
     IssueEv DialectPostgres 0 (sample_draw ''c1'' []) (sample_issue\<lparr>is_ScopeID := ''s1''\<rparr>)]"

lemma pos_scope_db: "fold (cred_step const_sha) [ScopeEv DialectPostgres 0 pos_params] empty_cred_db
    = \<lparr>scopes = [pos_scope], api_credentials = [], audit_events = []\<rparr>"
  by code_simp

lemma pos_run_db:
  "scopes (fold (cred_step const_sha) pos_run empty_cred_db) = [pos_scope]"
  "api_credentials (fold (cred_step const_sha) pos_run empty_cred_db) = [pos_credential]"
proof -
  have trim: "strings_TrimSpace ''s1'' = ''s1''" "strings_TrimSpace ''op'' = ''op''" by code_simp+
  have ok: "sql_nonempty ''credential.issue''" "sql_nonempty ''success''" "sql_nonempty ''op''" by code_simp+
  have "fold (cred_step const_sha) pos_run empty_cred_db =
      cred_step const_sha (IssueEv DialectPostgres 0 (sample_draw ''c1'' []) (sample_issue\<lparr>is_ScopeID := ''s1''\<rparr>))
        \<lparr>scopes = [pos_scope], api_credentials = [], audit_events = []\<rparr>"
    using pos_scope_db by (simp add: pos_run_def)
  also have "scopes \<dots> = [pos_scope] \<and> api_credentials \<dots> = [pos_credential]"
    by (simp add: Issue_def sample_issue_def trim withScopeTx_def has_scope_def pos_scope_def issue_tx_def findStatusID_def
        generateCredentialToken_def insertCredential_def credential_of_args_def credential_check_def credential_unique_def
        with_status_def credential_fk_def writeAudit_def audit_ok_def const_sha_def ok sample_draw_def Let_def
        pos_credential_def stamp_def trunc_us_def)
  finally show "scopes (fold (cred_step const_sha) pos_run empty_cred_db) = [pos_scope]"
    "api_credentials (fold (cred_step const_sha) pos_run empty_cred_db) = [pos_credential]" by simp_all
qed

definition pos_auth :: auth_env where
  "pos_auth = \<lparr>ax_sha256 = const_sha, ax_dialect = DialectPostgres, ax_fiscalEnv = ''development'', ax_now = 0, ax_clock = 0,
     ax_eventID = ''e9'', ax_requestID = []\<rparr>"

definition pos_env :: api_env where
  "pos_env = \<lparr>ae_tzs = luanda_only, ae_sha256 = sha32, ae_dialect = DialectSQLite, ae_catalog = Inr sample_registry,
     ae_mediatype = (\<lambda>s. Some (s, Map.empty)), ae_uuid_ok = (\<lambda>s. s = ''k1''), ae_auditor = True, ae_auditClock = 0,
     ae_auditEventID = ''e8'', ae_sealClock = 1234, ae_sealIDs = sample_ids, ae_random = ''ab''\<rparr>"

definition pos_request :: http_request where
  "pos_request = \<lparr>rq_Method = ''POST'', rq_Authorization = ''Bearer bwb_sbox_'' @ replicate 43 CHR ''A'',
     rq_ContentType = ''Application/JSON'', rq_IdempotencyKey = '' k1 '', rq_CorrelationID = ''till-7'',
     rq_Body = sample_json_body\<rparr>"

definition pos_db :: api_db where
  "pos_db = \<lparr>ap_cred = fold (cred_step const_sha) pos_run empty_cred_db, ap_fiscal = reached luanda_only sha32 []\<rparr>"

definition pos_binding :: scope_binding where
  "pos_binding = binding_for pos_credential pos_scope"

lemma pos_authenticated:
  "fst (Authenticate (pos_auth\<lparr>ax_requestID := i\<rparr>) (rq_Authorization pos_request) (ap_cred pos_db)) = Inr pos_binding"
proof -
  have inv: "cred_inv (ap_cred pos_db)" unfolding pos_db_def by simp (rule creds.reach_inv [OF refl])
  have tok: "extractBearer (rq_Authorization pos_request) = Some (''bwb_sbox_'' @ replicate 43 CHR ''A'')"
    by code_simp
  have fmt: "validSandboxTokenFormat (''bwb_sbox_'' @ replicate 43 CHR ''A'')"
    by code_simp
  have "lets_in (ax_fiscalEnv pos_auth) (ax_now pos_auth) pos_credential pos_scope"
    by (simp add: lets_in_def pos_auth_def pos_scope_def pos_credential_def read_null_time_def)
  then show ?thesis
    using tok fmt authenticate_iff_inv [OF inv, of "pos_auth\<lparr>ax_requestID := i\<rparr>" "rq_Authorization pos_request" pos_binding]
    by (auto simp: pos_db_def pos_run_db pos_binding_def pos_auth_def const_sha_def pos_credential_def pos_scope_def)
qed

lemma pos_reads: "readDocument pos_env reqID pos_request pos_binding = Inr (''k1'', sample_body, sample_intent)"
proof -
  have "requireJSONContentType (ae_mediatype pos_env) (rq_ContentType pos_request)" by code_simp
  moreover have "strings_TrimSpace (rq_IdempotencyKey pos_request) = ''k1''" by code_simp
  moreover have "strings_TrimSpace (ib_IssuedAt sample_body) \<noteq> []" by code_simp
  moreover have "NormalizeIssued luanda_only (ib_IssuedAt sample_body) AfricaLuanda = Inr sample_issued" by code_simp
  ultimately show ?thesis
    using sample_decodes sample_mapped
    by (simp add: readDocument_def pos_env_def pos_request_def pos_binding_def binding_for_def pos_scope_def pos_credential_def)
qed

lemma pos_sealed: "\<exists>fdb. SealInTx luanda_only sha32 DialectSQLite 1234 sample_ids
    \<lparr>sq_IdempotencyKey = ''k1'', sq_SeriesCode = ''A'', sq_Intent = sample_intent\<rparr> (reached luanda_only sha32 []) = (Inr sample_result, fdb)"
proof -
  have "fst (SealInTx luanda_only sha32 DialectSQLite 1234 sample_ids
      \<lparr>sq_IdempotencyKey = ''k1'', sq_SeriesCode = ''A'', sq_Intent = sample_intent\<rparr> empty_db) = Inr sample_result"
    by code_simp
  then show ?thesis by (simp add: reached_def) (metis prod.collapse)
qed

text \<open>The whole request.\<close>

lemma pos_created:
  obtains a db' where "post_document (store_authenticator pos_auth) pos_env pos_request pos_db = (a, db')" "an_Status a = 201"
    "an_Body a = CreatedBody \<lparr>cn_ID = ''d1'', cn_ExternalID = ''e1'', cn_Status = ''sealed_locally'', cn_SubmissionID = ''s1'',
       cn_CreatedAt = ''1970-01-01T00:00:00.000001Z''\<rparr>"
proof -
  let ?id = "newRequestID (ae_random pos_env)"
  obtain fdb where s: "SealInTx luanda_only sha32 DialectSQLite 1234 sample_ids
    \<lparr>sq_IdempotencyKey = ''k1'', sq_SeriesCode = ''A'', sq_Intent = sample_intent\<rparr> (reached luanda_only sha32 []) = (Inr sample_result, fdb)"
    using pos_sealed by blast
  obtain cdb where au: "store_authenticator pos_auth ?id (rq_Authorization pos_request) (ap_cred pos_db) = (Inr pos_binding, cdb)"
    using pos_authenticated [of ?id] by (simp add: store_authenticator_def) (metis prod.collapse)
  have nif: "seller_nif sample_body = sn_TaxpayerNIF pos_binding" by code_simp
  have b: "sn_SeriesEffectiveCode pos_binding = ''A''" by code_simp
  have sb: "serve_bound pos_env ?id pos_request pos_binding (pos_db\<lparr>ap_cred := cdb\<rparr>) =
      (created_answer sample_result, pos_db\<lparr>ap_cred := cdb, ap_fiscal := fdb\<rparr>)"
    unfolding serve_bound_def pos_reads using nif s by (simp add: b pos_db_def) (simp add: pos_env_def)
  define a where "a = created_answer sample_result\<lparr>an_Headers := [(''X-Request-Id'', ?id)]
      @ correlation_header (rq_CorrelationID pos_request) @ an_Headers (created_answer sample_result)\<rparr>"
  have "ServeHTTP_documents (store_authenticator pos_auth) pos_env ?id pos_request pos_db =
      (created_answer sample_result, pos_db\<lparr>ap_cred := cdb, ap_fiscal := fdb\<rparr>)"
    using au sb by (simp add: ServeHTTP_documents_def) (simp add: pos_request_def)
  moreover have "an_Status (created_answer sample_result) = 201" by (simp add: created_answer_def)
  moreover have "an_Body (created_answer sample_result) = CreatedBody \<lparr>cn_ID = ''d1'', cn_ExternalID = ''e1'',
      cn_Status = ''sealed_locally'', cn_SubmissionID = ''s1'', cn_CreatedAt = ''1970-01-01T00:00:00.000001Z''\<rparr>"
    by code_simp
  moreover note a_def
  ultimately have "post_document (store_authenticator pos_auth) pos_env pos_request pos_db = (a, pos_db\<lparr>ap_cred := cdb, ap_fiscal := fdb\<rparr>)"
    "an_Status a = 201" "an_Body a = CreatedBody \<lparr>cn_ID = ''d1'', cn_ExternalID = ''e1'',
      cn_Status = ''sealed_locally'', cn_SubmissionID = ''s1'', cn_CreatedAt = ''1970-01-01T00:00:00.000001Z''\<rparr>"
    by (simp_all add: post_document_def WithRequestID_def Let_def)
  then show thesis by (rule that)
qed


theorem retry_same_answer_witness:
  "\<exists>a db' a' db3. post_document (store_authenticator pos_auth) pos_env pos_request pos_db = (a, db')
     \<and> post_document (store_authenticator pos_auth) (pos_env\<lparr>ae_dialect := DialectPostgres, ae_sealClock := 99, ae_sealIDs := sample_ids,
           ae_random := ''cd''\<rparr>)
         (pos_request\<lparr>rq_CorrelationID := []\<rparr>) (pos_db\<lparr>ap_fiscal := ap_fiscal db'\<rparr>) = (a', db3)
     \<and> an_Status a' = 201 \<and> an_Body a' = an_Body a \<and> ap_fiscal db3 = ap_fiscal db'"
proof -
  obtain a db' where post: "post_document (store_authenticator pos_auth) pos_env pos_request pos_db = (a, db')" "an_Status a = 201"
    by (rule pos_created)
  let ?db2 = "pos_db\<lparr>ap_fiscal := ap_fiscal db'\<rparr>" let ?h = "rq_Authorization pos_request"
  have fiscal: "ap_fiscal pos_db = reached (ae_tzs pos_env) (ae_sha256 pos_env) []" by (simp add: pos_db_def pos_env_def)
  have first: "fst (store_authenticator pos_auth (newRequestID (ae_random pos_env)) ?h (ap_cred pos_db)) = Inr pos_binding"
    by (simp add: store_authenticator_def pos_authenticated)
  have later: "ap_fiscal ?db2 = fold (fiscal_step (ae_tzs pos_env) (ae_sha256 pos_env)) [] (ap_fiscal db')" by simp
  have second: "fst (store_authenticator pos_auth (newRequestID ''cd'') ?h (ap_cred ?db2)) =
      Inr (pos_binding\<lparr>sn_CredentialID := sn_CredentialID pos_binding\<rparr>)"
    using pos_authenticated by (simp add: store_authenticator_def)
  have same: "pos_request\<lparr>rq_CorrelationID := []\<rparr> = pos_request\<lparr>rq_Authorization := ?h, rq_CorrelationID := []\<rparr>"
    by simp
  from retry_same_answer [OF fiscal post first later refl _ same second, where dia = DialectPostgres and t = 99 and ids = sample_ids] post(1)
  show ?thesis by (simp add: pos_db_def)
qed

text \<open>A malformed token: no document, a 401.\<close>

theorem refusal_changes_nothing_witness:
  "ap_fiscal (snd (post_document (store_authenticator pos_auth) pos_env (pos_request\<lparr>rq_Authorization := ''Bearer x''\<rparr>) pos_db))
     = ap_fiscal pos_db"
proof -
  let ?rq = "pos_request\<lparr>rq_Authorization := ''Bearer x''\<rparr>"
  obtain a db' where p: "post_document (store_authenticator pos_auth) pos_env ?rq pos_db = (a, db')" by fastforce
  have x: "extractBearer ''Bearer x'' = Some ''x''" "\<not> validSandboxTokenFormat ''x''" by code_simp+
  have "fst (store_authenticator pos_auth i ''Bearer x'' c) = Inl ErrUnauthorized" for i c
    by (simp add: store_authenticator_def Authenticate_def x Let_def)
  then have "an_Status (fst (post_document (store_authenticator pos_auth) pos_env ?rq pos_db)) = 401"
    by (auto simp: post_document_def WithRequestID_def Let_def ServeHTTP_documents_def pos_request_def writeProblem_def
        split: prod.splits sum.splits auth_error.splits) (metis fst_conv Inr_Inl_False auth_error.distinct sum.inject(1))+
  then show ?thesis using refusal_changes_nothing [OF p] p by simp
qed

end
