(* ===== verification/AdminRegistry.thy ===== *)
theory AdminRegistry
  imports Credentials DocType
begin

text \<open>
  The administration registry (\<^verbatim>\<open>internal/adminregistry/registry.go\<close>, migration 0005): taxpayers,
  establishments and the bindings of POS scopes to them. An operation is a function of the tables; a
  failed operation has written nothing, so its result is the error alone. Clock readings and the
  random bytes of identifiers are arguments. A struct and the row that stores it are one record
  over the type of its times: \<open>sql_time\<close> in the table, \<open>gotime\<close> in the program. Failures of the
  connection are not modelled.
\<close>

section \<open>Data\<close>

datatype reg_error =
  RegValidation string | RegConflict string | RegNotFound | RegDatabase | RegTime | RegCatalog doctype_error

record 't taxpayer =
  tx_ID :: string
  tx_NIF :: string
  tx_LegalName :: string
  tx_Status :: string
  tx_CreatedAt :: 't

record 't establishment =
  es_ID :: string
  es_TaxpayerID :: string
  es_Code :: string
  es_Name :: string
  es_Status :: string
  es_CreatedAt :: 't

record 't scope_binding =
  sb_ScopeID :: string
  sb_TaxpayerID :: string
  sb_EstablishmentID :: string
  sb_Environment :: string
  sb_IANATimezone :: string
  sb_SeriesEffectiveCode :: string
  sb_Status :: string
  sb_CreatedAt :: 't

text \<open>Document series, activation overrides and enrolments, whose operations are in \<open>EstablishmentPolicy\<close>.\<close>

record 't series =
  se_ID :: string
  se_EstablishmentID :: string
  se_Environment :: string
  se_CodigoCanonico :: string
  se_Code :: string
  se_Status :: string
  se_ValidFrom :: 't
  se_ValidTo :: "'t option"
  se_Version :: int
  se_CreatedAt :: 't
  se_UpdatedAt :: 't

text \<open>What a driver hands to \<^verbatim>\<open>Scan(&any)\<close> for a boolean column.\<close>

datatype sql_any = AnyBool bool | AnyInt int | AnyBytes string | AnyText string | AnyNil

record doc_flag =
  df_EstablishmentID :: string
  df_Environment :: string
  df_Key :: string
  df_Active :: sql_any
  df_UpdatedAt :: sql_time

record 't enrollment =
  fe_TaxpayerID :: string
  fe_Environment :: string
  fe_Status :: string
  fe_UpdatedAt :: 't

record registry_db =
  rg_taxpayers :: "sql_time taxpayer list"
  rg_establishments :: "sql_time establishment list"
  rg_scope_bindings :: "sql_time scope_binding list"
  rg_series :: "sql_time series list"
  rg_doc_groups :: "doc_flag list"
  rg_doc_types :: "doc_flag list"
  rg_enrollments :: "sql_time enrollment list"

definition empty_registry :: registry_db where
  "empty_registry = \<lparr>rg_taxpayers = [], rg_establishments = [], rg_scope_bindings = [], rg_series = [],
     rg_doc_groups = [], rg_doc_types = [], rg_enrollments = []\<rparr>"

definition StatusActive :: string where "StatusActive = ''active''"
definition StatusInactive :: string where "StatusInactive = ''inactive''"
definition EnvHomologation :: string where "EnvHomologation = ''homologation''"
definition EnvProduction :: string where "EnvProduction = ''production''"
definition EnvDevelopment :: string where "EnvDevelopment = ''development''"

section \<open>Constraints of migration 0005\<close>

definition taxpayer_check :: "sql_time taxpayer \<Rightarrow> bool" where
  "taxpayer_check r \<longleftrightarrow>
     sql_nonempty (tx_ID r) \<and> sql_nonempty (tx_NIF r) \<and> sql_nonempty (tx_LegalName r)
     \<and> tx_Status r \<in> {''active'', ''inactive''}"

definition establishment_check :: "sql_time establishment \<Rightarrow> bool" where
  "establishment_check r \<longleftrightarrow>
     sql_nonempty (es_ID r) \<and> sql_nonempty (es_Code r) \<and> sql_nonempty (es_Name r)
     \<and> es_Status r \<in> {''active'', ''inactive''}"

definition scope_binding_check :: "sql_time scope_binding \<Rightarrow> bool" where
  "scope_binding_check r \<longleftrightarrow>
     sql_nonempty (sb_ScopeID r) \<and> sb_Environment r \<in> {''homologation'', ''production'', ''development''}
     \<and> sql_nonempty (sb_IANATimezone r) \<and> sql_nonempty (sb_SeriesEffectiveCode r)
     \<and> sb_Status r \<in> {''active'', ''inactive''}"

definition has_taxpayer :: "string \<Rightarrow> registry_db \<Rightarrow> bool" where
  "has_taxpayer i db \<longleftrightarrow> list_ex (\<lambda>r. tx_ID r = i) (rg_taxpayers db)"

definition has_establishment :: "string \<Rightarrow> registry_db \<Rightarrow> bool" where
  "has_establishment i db \<longleftrightarrow> list_ex (\<lambda>r. es_ID r = i) (rg_establishments db)"

text \<open>
  \<^verbatim>\<open>isUniqueViolation\<close> looks for the words unique, duplicate or constraint in the message,
  and every failed constraint of both databases says constraint: all of them are conflicts.
\<close>

definition insert_taxpayer :: "sql_time taxpayer \<Rightarrow> registry_db \<Rightarrow> reg_error + registry_db" where
  "insert_taxpayer r db =
     (if taxpayer_check r \<and> \<not> has_taxpayer (tx_ID r) db
         \<and> \<not> list_ex (\<lambda>x. tx_NIF x = tx_NIF r) (rg_taxpayers db)
      then Inr (db\<lparr>rg_taxpayers := rg_taxpayers db @ [r]\<rparr>) else Inl (RegConflict ''nif''))"

definition insert_establishment :: "sql_time establishment \<Rightarrow> registry_db \<Rightarrow> reg_error + registry_db" where
  "insert_establishment r db =
     (if establishment_check r \<and> has_taxpayer (es_TaxpayerID r) db \<and> \<not> has_establishment (es_ID r) db
         \<and> \<not> list_ex (\<lambda>x. es_TaxpayerID x = es_TaxpayerID r \<and> es_Code x = es_Code r) (rg_establishments db)
      then Inr (db\<lparr>rg_establishments := rg_establishments db @ [r]\<rparr>) else Inl (RegConflict ''code''))"

definition insert_scope_binding :: "sql_time scope_binding \<Rightarrow> registry_db \<Rightarrow> reg_error + registry_db" where
  "insert_scope_binding r db =
     (if scope_binding_check r \<and> has_taxpayer (sb_TaxpayerID r) db \<and> has_establishment (sb_EstablishmentID r) db
         \<and> \<not> list_ex (\<lambda>x. sb_ScopeID x = sb_ScopeID r) (rg_scope_bindings db)
      then Inr (db\<lparr>rg_scope_bindings := rg_scope_bindings db @ [r]\<rparr>) else Inl (RegConflict ''scope_id''))"

section \<open>Values\<close>

definition validateEnvironment :: "string \<Rightarrow> reg_error + unit" where
  "validateEnvironment env =
     ensure (env = EnvHomologation \<or> env = EnvProduction \<or> env = EnvDevelopment) (RegValidation ''environment'')"

definition validateStatus :: "string \<Rightarrow> reg_error + unit" where
  "validateStatus status = ensure (status = StatusActive \<or> status = StatusInactive) (RegValidation ''status'')"

definition validateIANATimezone :: "tzdb \<Rightarrow> string \<Rightarrow> reg_error + unit" where
  "validateIANATimezone LoadLocation tz = ensure (LoadLocation tz \<noteq> None) (RegValidation ''iana_timezone'')"

text \<open>The default of the create operations.\<close>

definition default_status :: "string \<Rightarrow> string" where
  "default_status s = (let status = strings_TrimSpace s in if status = [] then StatusActive else status)"

definition reg_parseTime :: "sql_time \<Rightarrow> reg_error + gotime" where
  "reg_parseTime v =
     (case v of
        StampTime t \<Rightarrow> Inr t
      | TextTime s \<Rightarrow> (case parse_rfc3339 s of Some (t, _) \<Rightarrow> Inr t | None \<Rightarrow> Inl RegTime))"

definition clampList :: "int \<Rightarrow> nat" where
  "clampList limit = (if limit \<le> 0 then 50 else if limit > 200 then 200 else nat limit)"

text \<open>Version 4 identifiers from sixteen random bytes, in lower-case hexadecimal.\<close>

definition hex_byte :: "char \<Rightarrow> string" where
  "hex_byte c =
     (let h = (\<lambda>n. if n < 10 then digit_char n else char_of (87 + n)) in [h (of_char c div 16), h (of_char c mod 16)])"

definition newID :: "string \<Rightarrow> string" where
  "newID b =
     (let b = b[6 := char_of (of_char (b ! 6) mod 16 + 64 :: nat)];
          b = b[8 := char_of (of_char (b ! 8) mod 64 + 128 :: nat)];
          h = concat (map hex_byte b)
      in take 8 h @ ''-'' @ take 4 (drop 8 h) @ ''-'' @ take 4 (drop 12 h) @ ''-'' @ take 4 (drop 16 h) @ ''-''
         @ take 12 (drop 20 h))"

text \<open>\<^verbatim>\<open>ph(n)\<close>: the list of \<open>n\<close> placeholders of a statement.\<close>

fun strings_Join :: "string list \<Rightarrow> string \<Rightarrow> string" where
  "strings_Join [] sep = []"
| "strings_Join [x] sep = x"
| "strings_Join (x # y # r) sep = x @ sep @ strings_Join (y # r) sep"

definition ph :: "dialect \<Rightarrow> nat \<Rightarrow> string" where
  "ph dia n =
     strings_Join (if dia = DialectPostgres then map (\<lambda>i. CHR ''$'' # nat_digits (i + 1)) [0..<n] else replicate n ''?'') '', ''"

section \<open>Reading\<close>

definition read_taxpayer :: "sql_time taxpayer \<Rightarrow> reg_error + gotime taxpayer" where
  "read_taxpayer r =
     bind_result (reg_parseTime (tx_CreatedAt r)) (\<lambda>t.
       Inr \<lparr>tx_ID = tx_ID r, tx_NIF = tx_NIF r, tx_LegalName = tx_LegalName r, tx_Status = tx_Status r, tx_CreatedAt = t\<rparr>)"

definition read_establishment :: "sql_time establishment \<Rightarrow> reg_error + gotime establishment" where
  "read_establishment r =
     bind_result (reg_parseTime (es_CreatedAt r)) (\<lambda>t.
       Inr \<lparr>es_ID = es_ID r, es_TaxpayerID = es_TaxpayerID r, es_Code = es_Code r, es_Name = es_Name r,
            es_Status = es_Status r, es_CreatedAt = t\<rparr>)"

definition read_scope_binding :: "sql_time scope_binding \<Rightarrow> reg_error + gotime scope_binding" where
  "read_scope_binding r =
     bind_result (reg_parseTime (sb_CreatedAt r)) (\<lambda>t.
       Inr \<lparr>sb_ScopeID = sb_ScopeID r, sb_TaxpayerID = sb_TaxpayerID r, sb_EstablishmentID = sb_EstablishmentID r,
            sb_Environment = sb_Environment r, sb_IANATimezone = sb_IANATimezone r,
            sb_SeriesEffectiveCode = sb_SeriesEffectiveCode r, sb_Status = sb_Status r, sb_CreatedAt = t\<rparr>)"

text \<open>\<^verbatim>\<open>QueryRow(...).Scan(...)\<close>: the first row, or \<open>ErrNotFound\<close>.\<close>

definition one_row :: "('r \<Rightarrow> bool) \<Rightarrow> 'r list \<Rightarrow> reg_error + 'r" where
  "one_row P rows = (case find P rows of None \<Rightarrow> Inl RegNotFound | Some r \<Rightarrow> Inr r)"

definition GetTaxpayer :: "string \<Rightarrow> registry_db \<Rightarrow> reg_error + gotime taxpayer" where
  "GetTaxpayer i db =
     (let i = strings_TrimSpace i in bind_result (one_row (\<lambda>r. tx_ID r = i) (rg_taxpayers db)) read_taxpayer)"

definition GetEstablishment :: "string \<Rightarrow> registry_db \<Rightarrow> reg_error + gotime establishment" where
  "GetEstablishment i db =
     (let i = strings_TrimSpace i in bind_result (one_row (\<lambda>r. es_ID r = i) (rg_establishments db)) read_establishment)"

definition GetScopeBinding :: "string \<Rightarrow> registry_db \<Rightarrow> reg_error + gotime scope_binding" where
  "GetScopeBinding scopeID db =
     (let i = strings_TrimSpace scopeID
      in bind_result (one_row (\<lambda>r. sb_ScopeID r = i) (rg_scope_bindings db)) read_scope_binding)"

definition requireTaxpayer :: "string \<Rightarrow> registry_db \<Rightarrow> reg_error + unit" where
  "requireTaxpayer i db = bind_result (GetTaxpayer i db) (\<lambda>_. Inr ())"

definition establishmentTaxpayer :: "string \<Rightarrow> registry_db \<Rightarrow> reg_error + string" where
  "establishmentTaxpayer i db =
     bind_result (one_row (\<lambda>r. es_ID r = i) (rg_establishments db)) (\<lambda>r. Inr (es_TaxpayerID r))"

definition ListTaxpayers :: "int \<Rightarrow> registry_db \<Rightarrow> reg_error + gotime taxpayer list" where
  "ListTaxpayers limit db = map_result read_taxpayer (take (clampList limit) (newest_first tx_CreatedAt (rg_taxpayers db)))"

definition ListEstablishments :: "string \<Rightarrow> int \<Rightarrow> registry_db \<Rightarrow> reg_error + gotime establishment list" where
  "ListEstablishments taxpayerID limit db =
     (let tp = strings_TrimSpace taxpayerID;
          rows = (if tp = [] then rg_establishments db else filter (\<lambda>r. es_TaxpayerID r = tp) (rg_establishments db))
      in map_result read_establishment (take (clampList limit) (newest_first es_CreatedAt rows)))"

definition ListScopeBindings :: "int \<Rightarrow> registry_db \<Rightarrow> reg_error + gotime scope_binding list" where
  "ListScopeBindings limit db =
     map_result read_scope_binding (take (clampList limit) (newest_first sb_CreatedAt (rg_scope_bindings db)))"

section \<open>Creating\<close>

record create_taxpayer_input =
  ct_NIF :: string
  ct_LegalName :: string
  ct_Status :: string

definition CreateTaxpayer ::
  "dialect \<Rightarrow> gotime \<Rightarrow> string \<Rightarrow> create_taxpayer_input \<Rightarrow> registry_db \<Rightarrow> reg_error + gotime taxpayer \<times> registry_db" where
  "CreateTaxpayer dia clock raw inp db =
     (let nif = strings_TrimSpace (ct_NIF inp); name = strings_TrimSpace (ct_LegalName inp);
          status = default_status (ct_Status inp)
      in if nif = [] \<or> name = [] then Inl (RegValidation ''nif/legal_name'')
         else bind_result (validateStatus status) (\<lambda>_.
           let now = trunc_us clock; i = newID raw
           in bind_result (insert_taxpayer \<lparr>tx_ID = i, tx_NIF = nif, tx_LegalName = name, tx_Status = status,
                                            tx_CreatedAt = stamp dia now\<rparr> db) (\<lambda>db'.
              Inr (\<lparr>tx_ID = i, tx_NIF = nif, tx_LegalName = name, tx_Status = status, tx_CreatedAt = now\<rparr>, db'))))"

record create_establishment_input =
  ce_TaxpayerID :: string
  ce_Code :: string
  ce_Name :: string
  ce_Status :: string

definition CreateEstablishment ::
  "dialect \<Rightarrow> gotime \<Rightarrow> string \<Rightarrow> create_establishment_input \<Rightarrow> registry_db
   \<Rightarrow> reg_error + gotime establishment \<times> registry_db" where
  "CreateEstablishment dia clock raw inp db =
     (let tp = strings_TrimSpace (ce_TaxpayerID inp); code = strings_TrimSpace (ce_Code inp);
          name = strings_TrimSpace (ce_Name inp); status = default_status (ce_Status inp)
      in if tp = [] \<or> code = [] \<or> name = [] then Inl (RegValidation ''taxpayer_id/code/name'')
         else bind_result (validateStatus status) (\<lambda>_.
           bind_result (requireTaxpayer tp db) (\<lambda>_.
           let now = trunc_us clock; i = newID raw
           in bind_result (insert_establishment \<lparr>es_ID = i, es_TaxpayerID = tp, es_Code = code, es_Name = name,
                             es_Status = status, es_CreatedAt = stamp dia now\<rparr> db) (\<lambda>db'.
              Inr (\<lparr>es_ID = i, es_TaxpayerID = tp, es_Code = code, es_Name = name, es_Status = status,
                    es_CreatedAt = now\<rparr>, db')))))"

record create_scope_binding_input =
  cs_ScopeID :: string
  cs_TaxpayerID :: string
  cs_EstablishmentID :: string
  cs_Environment :: string
  cs_IANATimezone :: string
  cs_SeriesEffectiveCode :: string
  cs_Status :: string

definition CreateScopeBinding ::
  "tzdb \<Rightarrow> dialect \<Rightarrow> gotime \<Rightarrow> create_scope_binding_input \<Rightarrow> registry_db
   \<Rightarrow> reg_error + gotime scope_binding \<times> registry_db" where
  "CreateScopeBinding LoadLocation dia clock inp db =
     (let scopeID = strings_TrimSpace (cs_ScopeID inp); tp = strings_TrimSpace (cs_TaxpayerID inp);
          est = strings_TrimSpace (cs_EstablishmentID inp); env = strings_TrimSpace (cs_Environment inp);
          tz = strings_TrimSpace (cs_IANATimezone inp); series = strings_TrimSpace (cs_SeriesEffectiveCode inp);
          status = default_status (cs_Status inp)
      in if scopeID = [] \<or> tp = [] \<or> est = [] \<or> env = [] \<or> tz = [] \<or> series = []
         then Inl (RegValidation ''required'')
         else bind_result (validateEnvironment env) (\<lambda>_.
           bind_result (validateStatus status) (\<lambda>_.
           bind_result (validateIANATimezone LoadLocation tz) (\<lambda>_.
           bind_result (establishmentTaxpayer est db) (\<lambda>owner.
           if owner \<noteq> tp then Inl (RegValidation ''owner'')
           else
             let now = trunc_us clock
             in bind_result (insert_scope_binding \<lparr>sb_ScopeID = scopeID, sb_TaxpayerID = tp, sb_EstablishmentID = est,
                               sb_Environment = env, sb_IANATimezone = tz, sb_SeriesEffectiveCode = series,
                               sb_Status = status, sb_CreatedAt = stamp dia now\<rparr> db) (\<lambda>db'.
                Inr (\<lparr>sb_ScopeID = scopeID, sb_TaxpayerID = tp, sb_EstablishmentID = est, sb_Environment = env,
                      sb_IANATimezone = tz, sb_SeriesEffectiveCode = series, sb_Status = status,
                      sb_CreatedAt = now\<rparr>, db')))))))"

section \<open>Updating\<close>

text \<open>A statement that would leave a row violating a constraint fails.\<close>

definition update_taxpayers ::
  "(sql_time taxpayer \<Rightarrow> bool) \<Rightarrow> (sql_time taxpayer \<Rightarrow> sql_time taxpayer) \<Rightarrow> registry_db \<Rightarrow> reg_error + registry_db" where
  "update_taxpayers P f db =
     (let rows = update_where P f (rg_taxpayers db)
      in if list_all taxpayer_check rows then Inr (db\<lparr>rg_taxpayers := rows\<rparr>) else Inl RegDatabase)"

definition update_establishments ::
  "(sql_time establishment \<Rightarrow> bool) \<Rightarrow> (sql_time establishment \<Rightarrow> sql_time establishment) \<Rightarrow> registry_db
   \<Rightarrow> reg_error + registry_db" where
  "update_establishments P f db =
     (let rows = update_where P f (rg_establishments db)
      in if list_all establishment_check rows then Inr (db\<lparr>rg_establishments := rows\<rparr>) else Inl RegDatabase)"

definition update_scope_bindings ::
  "(sql_time scope_binding \<Rightarrow> bool) \<Rightarrow> (sql_time scope_binding \<Rightarrow> sql_time scope_binding) \<Rightarrow> registry_db
   \<Rightarrow> reg_error + registry_db" where
  "update_scope_bindings P f db =
     (let rows = update_where P f (rg_scope_bindings db)
      in if list_all scope_binding_check rows then Inr (db\<lparr>rg_scope_bindings := rows\<rparr>) else Inl RegDatabase)"

record update_scope_config_input =
  us_ScopeID :: string
  us_Environment :: string
  us_IANATimezone :: string
  us_SeriesEffectiveCode :: string
  us_Status :: string

definition UpdateScopeConfig ::
  "tzdb \<Rightarrow> update_scope_config_input \<Rightarrow> registry_db \<Rightarrow> reg_error + gotime scope_binding \<times> registry_db" where
  "UpdateScopeConfig LoadLocation inp db =
     (let scopeID = strings_TrimSpace (us_ScopeID inp); env = strings_TrimSpace (us_Environment inp);
          tz = strings_TrimSpace (us_IANATimezone inp); series = strings_TrimSpace (us_SeriesEffectiveCode inp);
          status = strings_TrimSpace (us_Status inp)
      in if scopeID = [] \<or> env = [] \<or> tz = [] \<or> series = [] \<or> status = [] then Inl (RegValidation ''required'')
         else bind_result (validateEnvironment env) (\<lambda>_.
           bind_result (validateStatus status) (\<lambda>_.
           bind_result (validateIANATimezone LoadLocation tz) (\<lambda>_.
           bind_result (GetScopeBinding scopeID db) (\<lambda>cur.
           bind_result (update_scope_bindings (\<lambda>r. sb_ScopeID r = scopeID)
               (\<lambda>r. r\<lparr>sb_Environment := env, sb_IANATimezone := tz, sb_SeriesEffectiveCode := series, sb_Status := status\<rparr>) db)
             (\<lambda>db'. if filter (\<lambda>r. sb_ScopeID r = scopeID) (rg_scope_bindings db) = [] then Inl RegNotFound
                   else Inr (cur\<lparr>sb_Environment := env, sb_IANATimezone := tz, sb_SeriesEffectiveCode := series,
                                 sb_Status := status\<rparr>, db')))))))"

definition UpdateTaxpayerStatus :: "string \<Rightarrow> string \<Rightarrow> registry_db \<Rightarrow> reg_error + gotime taxpayer \<times> registry_db" where
  "UpdateTaxpayerStatus i0 status0 db =
     (let i = strings_TrimSpace i0; status = strings_TrimSpace status0
      in if i = [] then Inl (RegValidation ''taxpayer_id'')
         else bind_result (validateStatus status) (\<lambda>_.
           bind_result (GetTaxpayer i db) (\<lambda>cur.
           bind_result (update_taxpayers (\<lambda>r. tx_ID r = i) (\<lambda>r. r\<lparr>tx_Status := status\<rparr>) db) (\<lambda>db'.
             Inr (cur\<lparr>tx_Status := status\<rparr>, db')))))"

definition UpdateEstablishmentStatus ::
  "string \<Rightarrow> string \<Rightarrow> registry_db \<Rightarrow> reg_error + gotime establishment \<times> registry_db" where
  "UpdateEstablishmentStatus i0 status0 db =
     (let i = strings_TrimSpace i0; status = strings_TrimSpace status0
      in if i = [] then Inl (RegValidation ''establishment_id'')
         else bind_result (validateStatus status) (\<lambda>_.
           bind_result (GetEstablishment i db) (\<lambda>cur.
           bind_result (update_establishments (\<lambda>r. es_ID r = i) (\<lambda>r. r\<lparr>es_Status := status\<rparr>) db) (\<lambda>db'.
             Inr (cur\<lparr>es_Status := status\<rparr>, db')))))"

end
