(* ===== verification/EstablishmentPolicy.thy ===== *)
theory EstablishmentPolicy
  imports AdminRegistry GoText
begin

text \<open>
  What an establishment may issue and how its series live: the series of an establishment
  (\<^verbatim>\<open>series.go\<close>, migration 0011), the activation of document groups and types
  (\<^verbatim>\<open>doc_policy.go\<close>, migration 0010) and the enrolment of a taxpayer in electronic invoicing
  (\<^verbatim>\<open>fe_enrollment.go\<close>, migration 0009). The catalogue that \<^verbatim>\<open>doctype.Default()\<close> loads is an
  argument.
\<close>

section \<open>Series\<close>

definition SeriesDraft :: string where "SeriesDraft = ''draft''"
definition SeriesActive :: string where "SeriesActive = ''active''"
definition SeriesClosed :: string where "SeriesClosed = ''closed''"

definition series_check :: "sql_time series \<Rightarrow> bool" where
  "series_check r \<longleftrightarrow>
     sql_nonempty (se_ID r) \<and> sql_nonempty (se_Code r) \<and> sql_nonempty (se_CodigoCanonico r)
     \<and> se_Environment r \<in> {''homologation'', ''production'', ''development''}
     \<and> se_Status r \<in> {''draft'', ''active'', ''closed''} \<and> 1 \<le> se_Version r"

text \<open>The primary key, the unique index over codes and the partial one over active series.\<close>

definition series_code :: "'t series \<Rightarrow> string \<times> string \<times> string" where
  "series_code r = (se_EstablishmentID r, se_Environment r, se_Code r)"

definition series_kind :: "'t series \<Rightarrow> string \<times> string \<times> string" where
  "series_kind r = (se_EstablishmentID r, se_Environment r, se_CodigoCanonico r)"

definition series_unique :: "'t series list \<Rightarrow> bool" where
  "series_unique rows \<longleftrightarrow>
     distinct (map se_ID rows) \<and> distinct (map series_code rows)
     \<and> distinct (map series_kind (filter (\<lambda>r. se_Status r = ''active'') rows))"

definition insert_series :: "sql_time series \<Rightarrow> registry_db \<Rightarrow> reg_error + registry_db" where
  "insert_series r db =
     (let rows = rg_series db @ [r]
      in if series_check r \<and> has_establishment (se_EstablishmentID r) db \<and> series_unique rows
         then Inr (db\<lparr>rg_series := rows\<rparr>) else Inl (RegConflict ''code''))"

definition update_series ::
  "(sql_time series \<Rightarrow> bool) \<Rightarrow> (sql_time series \<Rightarrow> sql_time series) \<Rightarrow> registry_db \<Rightarrow> reg_error + registry_db" where
  "update_series P f db =
     (let rows = update_where P f (rg_series db)
      in if list_all series_check rows \<and> series_unique rows then Inr (db\<lparr>rg_series := rows\<rparr>)
         else Inl (RegConflict ''active''))"

text \<open>An end that does not parse, or is the zero time, is no end.\<close>

definition read_series :: "sql_time series \<Rightarrow> reg_error + gotime series" where
  "read_series r =
     bind_result (reg_parseTime (se_ValidFrom r)) (\<lambda>from.
     let to = (case se_ValidTo r of
           None \<Rightarrow> None
         | Some v \<Rightarrow> (case reg_parseTime v of Inl _ \<Rightarrow> None | Inr t \<Rightarrow> if t = zero_time then None else Some t))
     in bind_result (reg_parseTime (se_CreatedAt r)) (\<lambda>created.
        bind_result (reg_parseTime (se_UpdatedAt r)) (\<lambda>updated.
          Inr \<lparr>se_ID = se_ID r, se_EstablishmentID = se_EstablishmentID r, se_Environment = se_Environment r,
               se_CodigoCanonico = se_CodigoCanonico r, se_Code = se_Code r, se_Status = se_Status r,
               se_ValidFrom = from, se_ValidTo = to, se_Version = se_Version r, se_CreatedAt = created,
               se_UpdatedAt = updated\<rparr>)))"

definition getSeriesTx :: "string \<Rightarrow> registry_db \<Rightarrow> reg_error + gotime series" where
  "getSeriesTx i db =
     (if i = [] then Inl (RegValidation ''series_id'')
      else bind_result (one_row (\<lambda>r. se_ID r = i) (rg_series db)) read_series)"

definition GetSeries :: "string \<Rightarrow> registry_db \<Rightarrow> reg_error + gotime series" where
  "GetSeries seriesID db = getSeriesTx (strings_TrimSpace seriesID) db"

definition ListSeries :: "string \<Rightarrow> string \<Rightarrow> int \<Rightarrow> registry_db \<Rightarrow> reg_error + gotime series list" where
  "ListSeries establishmentID environment limit db =
     (let est = strings_TrimSpace establishmentID; env = strings_TrimSpace environment
      in if est = [] then Inl (RegValidation ''establishment_id'')
         else bind_result (if env \<noteq> [] then validateEnvironment env else Inr ()) (\<lambda>_.
           map_result read_series (take (clampList limit) (newest_first se_CreatedAt
             (filter (\<lambda>r. se_EstablishmentID r = est \<and> (env = [] \<or> se_Environment r = env)) (rg_series db))))))"

record create_series_input =
  ci_EstablishmentID :: string
  ci_Environment :: string
  ci_CodigoCanonico :: string
  ci_Code :: string
  ci_ValidFrom :: gotime

definition CreateSeries ::
  "doctype_error + registry \<Rightarrow> dialect \<Rightarrow> gotime \<Rightarrow> string \<Rightarrow> create_series_input \<Rightarrow> registry_db
   \<Rightarrow> reg_error + gotime series \<times> registry_db" where
  "CreateSeries catalog dia clock raw inp db =
     (let est = strings_TrimSpace (ci_EstablishmentID inp); env = strings_TrimSpace (ci_Environment inp);
          canon = strings_TrimSpace (ci_CodigoCanonico inp); code = strings_TrimSpace (ci_Code inp)
      in if est = [] \<or> env = [] \<or> canon = [] \<or> code = [] then Inl (RegValidation ''required'')
         else bind_result (validateEnvironment env) (\<lambda>_.
           case catalog of
             Inl e \<Rightarrow> Inl (RegCatalog e)
           | Inr reg \<Rightarrow>
               if doctype_Lookup (Some reg) canon = None then Inl (RegValidation ''codigo_canonico'')
               else bind_result (GetEstablishment est db) (\<lambda>_.
                 let i = newID raw; now = trunc_us clock; given = trunc_us (ci_ValidFrom inp);
                     from = (if given = zero_time then now else given)
                 in bind_result (insert_series
                      \<lparr>se_ID = i, se_EstablishmentID = est, se_Environment = env, se_CodigoCanonico = canon,
                       se_Code = code, se_Status = SeriesDraft, se_ValidFrom = stamp dia from, se_ValidTo = None,
                       se_Version = 1, se_CreatedAt = stamp dia now, se_UpdatedAt = stamp dia now\<rparr> db) (\<lambda>db'.
                    Inr (\<lparr>se_ID = i, se_EstablishmentID = est, se_Environment = env, se_CodigoCanonico = canon,
                          se_Code = code, se_Status = SeriesDraft, se_ValidFrom = from, se_ValidTo = None,
                          se_Version = 1, se_CreatedAt = now, se_UpdatedAt = now\<rparr>, db')))))"

definition validateSeriesTransition :: "string \<Rightarrow> string \<Rightarrow> reg_error + unit" where
  "validateSeriesTransition from to =
     (if from = SeriesDraft \<and> to = SeriesActive then Inr ()
      else if from = SeriesActive \<and> to = SeriesClosed then Inr ()
      else if from = SeriesClosed then Inl (RegValidation ''closed'')
      else if from = SeriesActive \<and> to = SeriesDraft then Inl (RegValidation ''active to draft'')
      else if from = SeriesDraft \<and> to = SeriesClosed then Inr ()
      else Inl (RegValidation ''transition''))"

record transition_series_input =
  ts_SeriesID :: string
  ts_ExpectedVersion :: int
  ts_ToStatus :: string

text \<open>
  The transaction reads the row, decides, and then writes under \<^verbatim>\<open>WHERE version = expected\<close>. Its
  two halves are separate, so that other transactions can come between them.
\<close>

definition transition_read :: "transition_series_input \<Rightarrow> registry_db \<Rightarrow> reg_error + gotime series" where
  "transition_read inp db =
     (let i = strings_TrimSpace (ts_SeriesID inp); to = strings_TrimSpace (ts_ToStatus inp)
      in if i = [] \<or> ts_ExpectedVersion inp < 1 then Inl (RegValidation ''series_id/expected_version'')
         else if to \<noteq> SeriesActive \<and> to \<noteq> SeriesClosed then Inl (RegValidation ''transition'')
         else bind_result (getSeriesTx i db) (\<lambda>cur.
           if se_Version cur \<noteq> ts_ExpectedVersion inp then Inl (RegConflict ''version'')
           else bind_result (validateSeriesTransition (se_Status cur) to) (\<lambda>_. Inr cur)))"

definition transition_write ::
  "dialect \<Rightarrow> gotime \<Rightarrow> transition_series_input \<Rightarrow> gotime series \<Rightarrow> registry_db
   \<Rightarrow> reg_error + gotime series \<times> registry_db" where
  "transition_write dia clock inp cur db =
     (let i = strings_TrimSpace (ts_SeriesID inp); to = strings_TrimSpace (ts_ToStatus inp);
          now = trunc_us clock; newVersion = se_Version cur + 1;
          hit = (\<lambda>r. se_ID r = i \<and> se_Version r = ts_ExpectedVersion inp);
          cur' = (if to = SeriesClosed then cur\<lparr>se_ValidTo := Some now\<rparr> else cur)
      in bind_result (update_series hit
             (\<lambda>r. r\<lparr>se_Status := to, se_ValidTo := (if to = SeriesClosed then Some (stamp dia now) else None),
                    se_Version := newVersion, se_UpdatedAt := stamp dia now\<rparr>) db)
           (\<lambda>db'. if length (filter hit (rg_series db)) \<noteq> 1 then Inl (RegConflict ''version'')
                 else Inr (cur'\<lparr>se_Status := to, se_Version := newVersion, se_UpdatedAt := now\<rparr>, db')))"

definition TransitionSeries ::
  "dialect \<Rightarrow> gotime \<Rightarrow> transition_series_input \<Rightarrow> registry_db \<Rightarrow> reg_error + gotime series \<times> registry_db" where
  "TransitionSeries dia clock inp db =
     bind_result (transition_read inp db) (\<lambda>cur. transition_write dia clock inp cur db)"

section \<open>Activation of document groups and types\<close>

definition encodeBool :: "dialect \<Rightarrow> bool \<Rightarrow> sql_any" where
  "encodeBool dia b = (if dia = DialectSQLite then AnyInt (if b then 1 else 0) else AnyBool b)"

definition decodeBool :: "sql_any \<Rightarrow> bool" where
  "decodeBool v =
     (case v of
        AnyBool t \<Rightarrow> t
      | AnyInt t \<Rightarrow> t \<noteq> 0
      | AnyBytes t \<Rightarrow> t = ''1'' \<or> strings_EqualFold t ''true''
      | AnyText t \<Rightarrow> t = ''1'' \<or> strings_EqualFold t ''true''
      | AnyNil \<Rightarrow> False)"

definition flag_key :: "doc_flag \<Rightarrow> string \<times> string \<times> string" where
  "flag_key r = (df_EstablishmentID r, df_Environment r, df_Key r)"

definition flag_check :: "doc_flag \<Rightarrow> bool" where
  "flag_check r \<longleftrightarrow>
     df_Environment r \<in> {''homologation'', ''production'', ''development''}
     \<and> (case df_Active r of AnyInt n \<Rightarrow> n \<in> {0, 1} | AnyBool _ \<Rightarrow> True | _ \<Rightarrow> False)"

definition group_check :: "doc_flag \<Rightarrow> bool" where
  "group_check r \<longleftrightarrow>
     flag_check r \<and> df_Key r \<in> {''vendas'', ''movimentacao'', ''conferencia'', ''pagamentos'', ''compras''}"

definition type_check :: "doc_flag \<Rightarrow> bool" where
  "type_check r \<longleftrightarrow> flag_check r \<and> sql_nonempty (df_Key r)"

record doc_policy_config =
  pc_EstablishmentID :: string
  pc_Environment :: string
  pc_GroupActive :: "string \<rightharpoonup> bool"
  pc_TypeActive :: "string \<rightharpoonup> bool"

text \<open>The loop over the rows of the establishment in the environment: a later row of the same key wins.\<close>

definition load_flags :: "string \<Rightarrow> string \<Rightarrow> doc_flag list \<Rightarrow> (string \<rightharpoonup> bool)" where
  "load_flags est env rows =
     fold (\<lambda>r m. m(df_Key r \<mapsto> decodeBool (df_Active r)))
       (filter (\<lambda>r. df_EstablishmentID r = est \<and> df_Environment r = env) rows) Map.empty"

definition LoadDocPolicyConfig :: "string \<Rightarrow> string \<Rightarrow> registry_db \<Rightarrow> reg_error + doc_policy_config" where
  "LoadDocPolicyConfig establishmentID environment db =
     (let est = strings_TrimSpace establishmentID; env = strings_TrimSpace environment
      in if est = [] \<or> env = [] then Inl (RegValidation ''establishment_id/environment'')
         else bind_result (validateEnvironment env) (\<lambda>_.
           bind_result (GetEstablishment est db) (\<lambda>_.
             Inr \<lparr>pc_EstablishmentID = est, pc_Environment = env,
                  pc_GroupActive = load_flags est env (rg_doc_groups db),
                  pc_TypeActive = load_flags est env (rg_doc_types db)\<rparr>)))"

text \<open>Both upsert inputs have one shape: the key is the group or the canonical code.\<close>

record upsert_flag_input =
  uf_EstablishmentID :: string
  uf_Environment :: string
  uf_Key :: string
  uf_Active :: bool

definition flag_row :: "dialect \<Rightarrow> gotime \<Rightarrow> upsert_flag_input \<Rightarrow> doc_flag" where
  "flag_row dia clock inp =
     \<lparr>df_EstablishmentID = strings_TrimSpace (uf_EstablishmentID inp),
      df_Environment = strings_TrimSpace (uf_Environment inp), df_Key = strings_TrimSpace (uf_Key inp),
      df_Active = encodeBool dia (uf_Active inp), df_UpdatedAt = stamp dia (trunc_us clock)\<rparr>"

definition UpsertDocGroupConfig ::
  "dialect \<Rightarrow> gotime \<Rightarrow> upsert_flag_input \<Rightarrow> registry_db \<Rightarrow> reg_error + unit \<times> registry_db" where
  "UpsertDocGroupConfig dia clock inp db =
     (let est = strings_TrimSpace (uf_EstablishmentID inp); env = strings_TrimSpace (uf_Environment inp);
          grupo = strings_TrimSpace (uf_Key inp)
      in if est = [] \<or> env = [] \<or> grupo = [] then Inl (RegValidation ''required'')
         else bind_result (validateEnvironment env) (\<lambda>_.
           if \<not> ValidGroup grupo then Inl (RegValidation ''grupo'')
           else bind_result (GetEstablishment est db) (\<lambda>_.
             let row = flag_row dia clock inp
             in if group_check row \<and> has_establishment est db
                then Inr ((), db\<lparr>rg_doc_groups := upsert_row flag_key row (rg_doc_groups db)\<rparr>)
                else Inl RegDatabase)))"

definition UpsertDocTypeConfig ::
  "doctype_error + registry \<Rightarrow> dialect \<Rightarrow> gotime \<Rightarrow> upsert_flag_input \<Rightarrow> registry_db
   \<Rightarrow> reg_error + unit \<times> registry_db" where
  "UpsertDocTypeConfig catalog dia clock inp db =
     (let est = strings_TrimSpace (uf_EstablishmentID inp); env = strings_TrimSpace (uf_Environment inp);
          canon = strings_TrimSpace (uf_Key inp)
      in if est = [] \<or> env = [] \<or> canon = [] then Inl (RegValidation ''required'')
         else bind_result (validateEnvironment env) (\<lambda>_.
           case catalog of
             Inl e \<Rightarrow> Inl (RegCatalog e)
           | Inr reg \<Rightarrow>
               if doctype_Lookup (Some reg) canon = None then Inl (RegValidation ''codigo_canonico'')
               else bind_result (GetEstablishment est db) (\<lambda>_.
                 let row = flag_row dia clock inp
                 in if type_check row \<and> has_establishment est db
                    then Inr ((), db\<lparr>rg_doc_types := upsert_row flag_key row (rg_doc_types db)\<rparr>)
                    else Inl RegDatabase)))"

text \<open>\<^verbatim>\<open>DocPolicyConfig.AvailabilityConfig\<close>\<close>

definition policy_availability :: "doc_policy_config \<Rightarrow> availability_config" where
  "policy_availability c = \<lparr>ac_GroupActive = pc_GroupActive c, ac_TypeActiveOverride = pc_TypeActive c\<rparr>"

section \<open>Enrolment in electronic invoicing\<close>

definition FEEnrollmentNotEnrolled :: string where "FEEnrollmentNotEnrolled = ''not_enrolled''"
definition FEEnrollmentPending :: string where "FEEnrollmentPending = ''pending''"
definition FEEnrollmentActive :: string where "FEEnrollmentActive = ''active''"
definition FEEnrollmentSuspended :: string where "FEEnrollmentSuspended = ''suspended''"

definition FEAderiu :: "string \<Rightarrow> bool" where
  "FEAderiu status \<longleftrightarrow> strings_TrimSpace status = FEEnrollmentActive"

definition EffectiveFEStatus :: "'t enrollment list \<Rightarrow> string \<Rightarrow> string" where
  "EffectiveFEStatus enrollments environment =
     (let env = strings_TrimSpace environment
      in case find (\<lambda>e. fe_Environment e = env) enrollments of
           Some e \<Rightarrow> fe_Status e
         | None \<Rightarrow> FEEnrollmentNotEnrolled)"

definition validateFEEnrollmentStatus :: "string \<Rightarrow> reg_error + unit" where
  "validateFEEnrollmentStatus status =
     ensure (status = FEEnrollmentNotEnrolled \<or> status = FEEnrollmentPending \<or> status = FEEnrollmentActive
             \<or> status = FEEnrollmentSuspended) (RegValidation ''fe_enrollment_status'')"

definition enrollment_check :: "'t enrollment \<Rightarrow> bool" where
  "enrollment_check r \<longleftrightarrow>
     fe_Environment r \<in> {''homologation'', ''production'', ''development''}
     \<and> fe_Status r \<in> {''not_enrolled'', ''pending'', ''active'', ''suspended''}"

definition enrollment_key :: "'t enrollment \<Rightarrow> string \<times> string" where
  "enrollment_key r = (fe_TaxpayerID r, fe_Environment r)"

record upsert_enrollment_input =
  ue_TaxpayerID :: string
  ue_Environment :: string
  ue_Status :: string

definition UpsertFEEnrollment ::
  "dialect \<Rightarrow> gotime \<Rightarrow> upsert_enrollment_input \<Rightarrow> registry_db \<Rightarrow> reg_error + gotime enrollment \<times> registry_db" where
  "UpsertFEEnrollment dia clock inp db =
     (let tp = strings_TrimSpace (ue_TaxpayerID inp); env = strings_TrimSpace (ue_Environment inp);
          status = strings_TrimSpace (ue_Status inp)
      in if tp = [] \<or> env = [] \<or> status = [] then Inl (RegValidation ''taxpayer_id/environment/status'')
         else bind_result (validateEnvironment env) (\<lambda>_.
           bind_result (validateFEEnrollmentStatus status) (\<lambda>_.
           bind_result (requireTaxpayer tp db) (\<lambda>_.
             let now = trunc_us clock;
                 row = \<lparr>fe_TaxpayerID = tp, fe_Environment = env, fe_Status = status, fe_UpdatedAt = stamp dia now\<rparr>
             in if enrollment_check row \<and> has_taxpayer tp db
                then Inr (\<lparr>fe_TaxpayerID = tp, fe_Environment = env, fe_Status = status, fe_UpdatedAt = now\<rparr>,
                          db\<lparr>rg_enrollments := upsert_row enrollment_key row (rg_enrollments db)\<rparr>)
                else Inl RegDatabase))))"

definition read_enrollment :: "sql_time enrollment \<Rightarrow> reg_error + gotime enrollment" where
  "read_enrollment r =
     bind_result (reg_parseTime (fe_UpdatedAt r)) (\<lambda>t.
       Inr \<lparr>fe_TaxpayerID = fe_TaxpayerID r, fe_Environment = fe_Environment r, fe_Status = fe_Status r, fe_UpdatedAt = t\<rparr>)"

definition ListFEEnrollments :: "string \<Rightarrow> registry_db \<Rightarrow> reg_error + gotime enrollment list" where
  "ListFEEnrollments taxpayerID db =
     (let tp = strings_TrimSpace taxpayerID
      in if tp = [] then Inl (RegValidation ''taxpayer_id'')
         else map_result read_enrollment (sort_key fe_Environment (filter (\<lambda>r. fe_TaxpayerID r = tp) (rg_enrollments db))))"

text \<open>
  \<^verbatim>\<open>GetFEEnrollment\<close> compares each column with the text \<^verbatim>\<open>r.ph(n)\<close>. Where that text holds
  a comma the statement is not SQL, and both databases refuse it.
\<close>

definition GetFEEnrollment :: "dialect \<Rightarrow> string \<Rightarrow> string \<Rightarrow> registry_db \<Rightarrow> reg_error + gotime enrollment" where
  "GetFEEnrollment dia taxpayerID environment db =
     (let tp = strings_TrimSpace taxpayerID; env = strings_TrimSpace environment
      in if CHR '','' \<in> set (ph dia 1 @ ph dia 2) then Inl RegDatabase
         else bind_result (one_row (\<lambda>r. fe_TaxpayerID r = tp \<and> fe_Environment r = env) (rg_enrollments db))
                read_enrollment)"

end
