(* ===== verification/RegistryInvariants.thy ===== *)
theory RegistryInvariants
  imports EstablishmentPolicy
begin

text \<open>
  The administration registry as a transition system: every operation of \<open>AdminRegistry\<close> and
  \<open>EstablishmentPolicy\<close> is an event, and the two halves of a series transition are separate
  events, so that transactions interleave. The invariant of the tables and the relation between
  a table before and after hold of every step.
\<close>

section \<open>The machine\<close>

record registry_world =
  rw_db :: registry_db
  rw_open :: "(transition_series_input \<times> gotime series) list"

record registry_env =
  re_LoadLocation :: tzdb
  re_catalog :: "doctype_error + registry"
  re_dialect :: dialect

datatype registry_event =
  EvCreateTaxpayer gotime string create_taxpayer_input
| EvCreateEstablishment gotime string create_establishment_input
| EvCreateScopeBinding gotime create_scope_binding_input
| EvUpdateScopeConfig update_scope_config_input
| EvTaxpayerStatus string string
| EvEstablishmentStatus string string
| EvCreateSeries gotime string create_series_input
| EvTransitionRead transition_series_input
| EvTransitionWrite nat gotime
| EvDocGroup gotime upsert_flag_input
| EvDocType gotime upsert_flag_input
| EvEnrollment gotime upsert_enrollment_input

definition written :: "'e + 'a \<times> 'd \<Rightarrow> 'd \<Rightarrow> 'd" where
  "written r db = (case r of Inl _ \<Rightarrow> db | Inr (_, db') \<Rightarrow> db')"

fun registry_event_db :: "registry_env \<Rightarrow> registry_event \<Rightarrow> registry_world \<Rightarrow> registry_db" where
  "registry_event_db env (EvCreateTaxpayer c raw i) w = written (CreateTaxpayer (re_dialect env) c raw i (rw_db w)) (rw_db w)"
| "registry_event_db env (EvCreateEstablishment c raw i) w =
     written (CreateEstablishment (re_dialect env) c raw i (rw_db w)) (rw_db w)"
| "registry_event_db env (EvCreateScopeBinding c i) w =
     written (CreateScopeBinding (re_LoadLocation env) (re_dialect env) c i (rw_db w)) (rw_db w)"
| "registry_event_db env (EvUpdateScopeConfig i) w = written (UpdateScopeConfig (re_LoadLocation env) i (rw_db w)) (rw_db w)"
| "registry_event_db env (EvTaxpayerStatus i s) w = written (UpdateTaxpayerStatus i s (rw_db w)) (rw_db w)"
| "registry_event_db env (EvEstablishmentStatus i s) w = written (UpdateEstablishmentStatus i s (rw_db w)) (rw_db w)"
| "registry_event_db env (EvCreateSeries c raw i) w =
     written (CreateSeries (re_catalog env) (re_dialect env) c raw i (rw_db w)) (rw_db w)"
| "registry_event_db env (EvTransitionRead i) w = rw_db w"
| "registry_event_db env (EvTransitionWrite n c) w =
     (if n < length (rw_open w)
      then written (case rw_open w ! n of (i, cur) \<Rightarrow> transition_write (re_dialect env) c i cur (rw_db w)) (rw_db w)
      else rw_db w)"
| "registry_event_db env (EvDocGroup c i) w = written (UpsertDocGroupConfig (re_dialect env) c i (rw_db w)) (rw_db w)"
| "registry_event_db env (EvDocType c i) w =
     written (UpsertDocTypeConfig (re_catalog env) (re_dialect env) c i (rw_db w)) (rw_db w)"
| "registry_event_db env (EvEnrollment c i) w = written (UpsertFEEnrollment (re_dialect env) c i (rw_db w)) (rw_db w)"

fun registry_event_open :: "registry_event \<Rightarrow> registry_world \<Rightarrow> (transition_series_input \<times> gotime series) list" where
  "registry_event_open (EvTransitionRead i) w =
     (case transition_read i (rw_db w) of Inl _ \<Rightarrow> rw_open w | Inr cur \<Rightarrow> rw_open w @ [(i, cur)])"
| "registry_event_open (EvTransitionWrite n c) w = take n (rw_open w) @ drop (Suc n) (rw_open w)"
| "registry_event_open _ w = rw_open w"

definition registry_step :: "registry_env \<Rightarrow> registry_event \<Rightarrow> registry_world \<Rightarrow> registry_world" where
  "registry_step env e w = \<lparr>rw_db = registry_event_db env e w, rw_open = registry_event_open e w\<rparr>"

definition registry_start :: "registry_world \<Rightarrow> bool" where
  "registry_start w \<longleftrightarrow> w = \<lparr>rw_db = empty_registry, rw_open = []\<rparr>"

section \<open>The invariant\<close>

text \<open>One predicate per table, over the keys of the tables it refers to.\<close>

definition taxpayers_inv :: "sql_time taxpayer list \<Rightarrow> bool" where
  "taxpayers_inv rows \<longleftrightarrow>
     distinct (map tx_ID rows) \<and> distinct (map tx_NIF rows) \<and> list_all taxpayer_check rows"

definition establishments_inv :: "string set \<Rightarrow> sql_time establishment list \<Rightarrow> bool" where
  "establishments_inv txs rows \<longleftrightarrow>
     distinct (map es_ID rows) \<and> distinct (map (\<lambda>e. (es_TaxpayerID e, es_Code e)) rows)
     \<and> list_all establishment_check rows \<and> es_TaxpayerID ` set rows \<subseteq> txs"

definition bindings_inv :: "(string \<times> string) set \<Rightarrow> sql_time scope_binding list \<Rightarrow> bool" where
  "bindings_inv owners rows \<longleftrightarrow>
     distinct (map sb_ScopeID rows) \<and> list_all scope_binding_check rows
     \<and> (\<lambda>b. (sb_EstablishmentID b, sb_TaxpayerID b)) ` set rows \<subseteq> owners"

text \<open>Where a series stands in its life, by status, version and end.\<close>

definition series_stage :: "'t series \<Rightarrow> bool" where
  "series_stage r \<longleftrightarrow>
     (se_Status r = ''draft'' \<and> se_Version r = 1 \<and> se_ValidTo r = None)
     \<or> (se_Status r = ''active'' \<and> se_Version r = 2 \<and> se_ValidTo r = None)
     \<or> (se_Status r = ''closed'' \<and> se_Version r \<in> {2, 3} \<and> se_ValidTo r \<noteq> None)"

definition series_inv :: "string set \<Rightarrow> sql_time series list \<Rightarrow> bool" where
  "series_inv ests rows \<longleftrightarrow>
     list_all series_check rows \<and> series_unique rows \<and> list_all series_stage rows
     \<and> se_EstablishmentID ` set rows \<subseteq> ests"

definition flags_inv :: "(doc_flag \<Rightarrow> bool) \<Rightarrow> string set \<Rightarrow> doc_flag list \<Rightarrow> bool" where
  "flags_inv chk ests rows \<longleftrightarrow>
     distinct (map flag_key rows) \<and> list_all chk rows \<and> df_EstablishmentID ` set rows \<subseteq> ests"

definition enrollments_inv :: "string set \<Rightarrow> sql_time enrollment list \<Rightarrow> bool" where
  "enrollments_inv txs rows \<longleftrightarrow>
     distinct (map enrollment_key rows) \<and> list_all enrollment_check rows \<and> fe_TaxpayerID ` set rows \<subseteq> txs"

definition taxpayer_ids :: "registry_db \<Rightarrow> string set" where
  "taxpayer_ids db = tx_ID ` set (rg_taxpayers db)"

definition establishment_ids :: "registry_db \<Rightarrow> string set" where
  "establishment_ids db = es_ID ` set (rg_establishments db)"

definition owners :: "registry_db \<Rightarrow> (string \<times> string) set" where
  "owners db = (\<lambda>e. (es_ID e, es_TaxpayerID e)) ` set (rg_establishments db)"

definition registry_inv :: "registry_db \<Rightarrow> bool" where
  "registry_inv db \<longleftrightarrow>
     taxpayers_inv (rg_taxpayers db) \<and> establishments_inv (taxpayer_ids db) (rg_establishments db)
     \<and> bindings_inv (owners db) (rg_scope_bindings db) \<and> series_inv (establishment_ids db) (rg_series db)
     \<and> flags_inv group_check (establishment_ids db) (rg_doc_groups db)
     \<and> flags_inv type_check (establishment_ids db) (rg_doc_types db)
     \<and> enrollments_inv (taxpayer_ids db) (rg_enrollments db)"

lemma registry_inv_empty: "registry_inv empty_registry"
  by (simp add: registry_inv_def empty_registry_def taxpayers_inv_def establishments_inv_def bindings_inv_def
      series_inv_def series_unique_def flags_inv_def enrollments_inv_def)

text \<open>Keys are only ever added, and each predicate is monotone in the keys it refers to.\<close>

lemma inv_mono:
  "establishments_inv A es \<Longrightarrow> A \<subseteq> B \<Longrightarrow> establishments_inv B es"
  "bindings_inv O1 bs \<Longrightarrow> O1 \<subseteq> O2 \<Longrightarrow> bindings_inv O2 bs"
  "series_inv A ss \<Longrightarrow> A \<subseteq> B \<Longrightarrow> series_inv B ss"
  "flags_inv chk A fs \<Longrightarrow> A \<subseteq> B \<Longrightarrow> flags_inv chk B fs"
  "enrollments_inv A ns \<Longrightarrow> A \<subseteq> B \<Longrightarrow> enrollments_inv B ns"
  by (auto simp: establishments_inv_def bindings_inv_def series_inv_def flags_inv_def enrollments_inv_def)

lemma keys_simps [simp]:
  "taxpayer_ids (db\<lparr>rg_taxpayers := ts\<rparr>) = tx_ID ` set ts"
  "taxpayer_ids (db\<lparr>rg_establishments := es\<rparr>) = taxpayer_ids db"
  "taxpayer_ids (db\<lparr>rg_scope_bindings := bs\<rparr>) = taxpayer_ids db"
  "taxpayer_ids (db\<lparr>rg_series := ss\<rparr>) = taxpayer_ids db"
  "taxpayer_ids (db\<lparr>rg_doc_groups := fs\<rparr>) = taxpayer_ids db"
  "taxpayer_ids (db\<lparr>rg_doc_types := fs\<rparr>) = taxpayer_ids db"
  "taxpayer_ids (db\<lparr>rg_enrollments := ns\<rparr>) = taxpayer_ids db"
  "establishment_ids (db\<lparr>rg_taxpayers := ts\<rparr>) = establishment_ids db"
  "establishment_ids (db\<lparr>rg_establishments := es\<rparr>) = es_ID ` set es"
  "establishment_ids (db\<lparr>rg_scope_bindings := bs\<rparr>) = establishment_ids db"
  "establishment_ids (db\<lparr>rg_series := ss\<rparr>) = establishment_ids db"
  "establishment_ids (db\<lparr>rg_doc_groups := fs\<rparr>) = establishment_ids db"
  "establishment_ids (db\<lparr>rg_doc_types := fs\<rparr>) = establishment_ids db"
  "establishment_ids (db\<lparr>rg_enrollments := ns\<rparr>) = establishment_ids db"
  "owners (db\<lparr>rg_taxpayers := ts\<rparr>) = owners db"
  "owners (db\<lparr>rg_establishments := es\<rparr>) = (\<lambda>e. (es_ID e, es_TaxpayerID e)) ` set es"
  "owners (db\<lparr>rg_scope_bindings := bs\<rparr>) = owners db"
  "owners (db\<lparr>rg_series := ss\<rparr>) = owners db"
  "owners (db\<lparr>rg_doc_groups := fs\<rparr>) = owners db"
  "owners (db\<lparr>rg_doc_types := fs\<rparr>) = owners db"
  "owners (db\<lparr>rg_enrollments := ns\<rparr>) = owners db"
  by (simp_all add: taxpayer_ids_def establishment_ids_def owners_def)

lemma has_keys [simp]:
  "has_taxpayer i db \<longleftrightarrow> i \<in> taxpayer_ids db"
  "has_establishment i db \<longleftrightarrow> i \<in> establishment_ids db"
  by (simp_all add: has_taxpayer_def has_establishment_def taxpayer_ids_def establishment_ids_def list_ex_key)

section \<open>What a step may change\<close>

definition taxpayer_le :: "sql_time taxpayer \<Rightarrow> sql_time taxpayer \<Rightarrow> bool" where
  "taxpayer_le r r' \<longleftrightarrow>
     tx_ID r' = tx_ID r \<and> tx_NIF r' = tx_NIF r \<and> tx_LegalName r' = tx_LegalName r \<and> tx_CreatedAt r' = tx_CreatedAt r"

definition establishment_le :: "sql_time establishment \<Rightarrow> sql_time establishment \<Rightarrow> bool" where
  "establishment_le r r' \<longleftrightarrow>
     es_ID r' = es_ID r \<and> es_TaxpayerID r' = es_TaxpayerID r \<and> es_Code r' = es_Code r \<and> es_Name r' = es_Name r
     \<and> es_CreatedAt r' = es_CreatedAt r"

definition scope_binding_le :: "sql_time scope_binding \<Rightarrow> sql_time scope_binding \<Rightarrow> bool" where
  "scope_binding_le r r' \<longleftrightarrow>
     sb_ScopeID r' = sb_ScopeID r \<and> sb_TaxpayerID r' = sb_TaxpayerID r
     \<and> sb_EstablishmentID r' = sb_EstablishmentID r \<and> sb_CreatedAt r' = sb_CreatedAt r"

definition series_rank :: "string \<Rightarrow> nat" where
  "series_rank s = (if s = ''draft'' then 0 else if s = ''active'' then 1 else 2)"

definition series_le :: "sql_time series \<Rightarrow> sql_time series \<Rightarrow> bool" where
  "series_le r r' \<longleftrightarrow>
     se_ID r' = se_ID r \<and> series_code r' = series_code r \<and> series_kind r' = series_kind r
     \<and> se_ValidFrom r' = se_ValidFrom r \<and> se_CreatedAt r' = se_CreatedAt r
     \<and> se_Version r \<le> se_Version r' \<and> (se_Version r' = se_Version r \<longrightarrow> r' = r)
     \<and> series_rank (se_Status r) \<le> series_rank (se_Status r')
     \<and> (se_Status r = ''closed'' \<longrightarrow> r' = r)"

definition registry_le :: "registry_db \<Rightarrow> registry_db \<Rightarrow> bool" where
  "registry_le db db' \<longleftrightarrow>
     rows_le taxpayer_le (rg_taxpayers db) (rg_taxpayers db')
     \<and> rows_le establishment_le (rg_establishments db) (rg_establishments db')
     \<and> rows_le scope_binding_le (rg_scope_bindings db) (rg_scope_bindings db')
     \<and> rows_le series_le (rg_series db) (rg_series db')"

lemma taxpayer_le_refl [simp]: "taxpayer_le r r" by (simp add: taxpayer_le_def)
lemma establishment_le_refl [simp]: "establishment_le r r" by (simp add: establishment_le_def)
lemma scope_binding_le_refl [simp]: "scope_binding_le r r" by (simp add: scope_binding_le_def)
lemma series_le_refl [simp]: "series_le r r" by (simp add: series_le_def)

lemma taxpayer_le_trans: "taxpayer_le r s \<Longrightarrow> taxpayer_le s t \<Longrightarrow> taxpayer_le r t"
  by (simp add: taxpayer_le_def)

lemma establishment_le_trans: "establishment_le r s \<Longrightarrow> establishment_le s t \<Longrightarrow> establishment_le r t"
  by (simp add: establishment_le_def)

lemma scope_binding_le_trans: "scope_binding_le r s \<Longrightarrow> scope_binding_le s t \<Longrightarrow> scope_binding_le r t"
  by (simp add: scope_binding_le_def)

lemma series_leD:
  assumes "series_le r r'"
  shows "se_Version r \<le> se_Version r'" "se_Version r' = se_Version r \<Longrightarrow> r' = r" "se_Status r = ''closed'' \<Longrightarrow> r' = r"
    "series_rank (se_Status r) \<le> series_rank (se_Status r')" "se_ID r' = se_ID r" "series_code r' = series_code r"
    "series_kind r' = series_kind r" "se_ValidFrom r' = se_ValidFrom r" "se_CreatedAt r' = se_CreatedAt r"
  using assms unfolding series_le_def by blast+

lemma series_le_trans:
  assumes rs: "series_le r s" and st: "series_le s t"
  shows "series_le r t"
proof -
  note d = series_leD [OF rs] series_leD [OF st]
  have "t = r" if "se_Version t = se_Version r"
    using that d(1,2) d(10,11) by simp
  moreover have "t = r" if "se_Status r = ''closed''"
    using that d(3) d(12) by simp
  moreover have "se_Version r \<le> se_Version t" "series_rank (se_Status r) \<le> series_rank (se_Status t)"
    using d(1,4,10,13) by linarith+
  ultimately show ?thesis unfolding series_le_def using d(5-9) d(14-18) by simp
qed

lemma registry_le_refl [simp]: "registry_le db db"
  by (simp add: registry_le_def rows_le_refl)

lemma registry_le_trans: "registry_le a b \<Longrightarrow> registry_le b c \<Longrightarrow> registry_le a c"
  unfolding registry_le_def
  by (meson rows_le_trans taxpayer_le_trans establishment_le_trans scope_binding_le_trans series_le_trans)

text \<open>A step keeps the invariant and only moves forward.\<close>

definition reg_step_ok :: "registry_db \<Rightarrow> registry_db \<Rightarrow> bool" where
  "reg_step_ok db db' \<longleftrightarrow> registry_inv db' \<and> registry_le db db'"

lemma reg_step_ok_written:
  "registry_inv db \<Longrightarrow> (\<And>v db'. r = Inr (v, db') \<Longrightarrow> reg_step_ok db db') \<Longrightarrow> reg_step_ok db (written r db)"
  by (auto simp: written_def reg_step_ok_def split: sum.splits)

section \<open>Every operation\<close>

lemma image_update_where [simp]:
  "(\<And>r. c (f r) = c r) \<Longrightarrow> c ` set (update_where P f rows) = c ` set rows"
  by (metis list.set_map map_update_where)

lemma taxpayers_inv_append:
  "taxpayers_inv rows \<Longrightarrow> taxpayer_check r \<Longrightarrow> tx_ID r \<notin> tx_ID ` set rows \<Longrightarrow> \<not> list_ex (\<lambda>x. tx_NIF x = tx_NIF r) rows
   \<Longrightarrow> taxpayers_inv (rows @ [r])"
  by (auto simp: taxpayers_inv_def list_ex_key)

lemma establishments_inv_append:
  "establishments_inv A rows \<Longrightarrow> establishment_check r \<Longrightarrow> es_TaxpayerID r \<in> A \<Longrightarrow> es_ID r \<notin> es_ID ` set rows
   \<Longrightarrow> \<not> list_ex (\<lambda>x. es_TaxpayerID x = es_TaxpayerID r \<and> es_Code x = es_Code r) rows
   \<Longrightarrow> establishments_inv A (rows @ [r])"
  by (auto simp: establishments_inv_def list_ex_key2)

lemma bindings_inv_append:
  "bindings_inv A rows \<Longrightarrow> scope_binding_check r \<Longrightarrow> (sb_EstablishmentID r, sb_TaxpayerID r) \<in> A
   \<Longrightarrow> \<not> list_ex (\<lambda>x. sb_ScopeID x = sb_ScopeID r) rows \<Longrightarrow> bindings_inv A (rows @ [r])"
  by (auto simp: bindings_inv_def list_ex_key)

lemma series_inv_append:
  "series_inv A rows \<Longrightarrow> series_check r \<Longrightarrow> series_stage r \<Longrightarrow> se_EstablishmentID r \<in> A \<Longrightarrow> series_unique (rows @ [r])
   \<Longrightarrow> series_inv A (rows @ [r])"
  by (auto simp: series_inv_def)

lemma flags_inv_upsert:
  "flags_inv chk A rows \<Longrightarrow> chk r \<Longrightarrow> df_EstablishmentID r \<in> A \<Longrightarrow> flags_inv chk A (upsert_row flag_key r rows)"
  by (auto simp: flags_inv_def set_upsert_row list_all_iff)

lemma enrollments_inv_upsert:
  "enrollments_inv A rows \<Longrightarrow> enrollment_check r \<Longrightarrow> fe_TaxpayerID r \<in> A
   \<Longrightarrow> enrollments_inv A (upsert_row enrollment_key r rows)"
  by (auto simp: enrollments_inv_def set_upsert_row list_all_iff)

lemma insert_taxpayer_ok:
  assumes "insert_taxpayer r db = Inr db'" and inv: "registry_inv db"
  shows "reg_step_ok db db'"
proof -
  have r: "taxpayer_check r" "tx_ID r \<notin> taxpayer_ids db" "\<not> list_ex (\<lambda>x. tx_NIF x = tx_NIF r) (rg_taxpayers db)"
    and db': "db' = db\<lparr>rg_taxpayers := rg_taxpayers db @ [r]\<rparr>"
    using assms(1) by (auto simp: insert_taxpayer_def split: if_splits)
  have "taxpayer_ids db \<subseteq> insert (tx_ID r) (tx_ID ` set (rg_taxpayers db))" by (auto simp: taxpayer_ids_def)
  note grow = inv_mono(1,5) [OF _ this]
  have "taxpayers_inv (rg_taxpayers db @ [r])"
    using inv r by (intro taxpayers_inv_append) (simp_all add: registry_inv_def taxpayer_ids_def)
  then show ?thesis
    using inv by (simp add: db' reg_step_ok_def registry_inv_def registry_le_def rows_le_refl rows_le_append grow)
qed

lemma insert_establishment_ok:
  assumes "insert_establishment r db = Inr db'" and inv: "registry_inv db"
  shows "reg_step_ok db db'"
proof -
  have r: "establishment_check r" "es_TaxpayerID r \<in> taxpayer_ids db" "es_ID r \<notin> establishment_ids db"
      "\<not> list_ex (\<lambda>x. es_TaxpayerID x = es_TaxpayerID r \<and> es_Code x = es_Code r) (rg_establishments db)"
    and db': "db' = db\<lparr>rg_establishments := rg_establishments db @ [r]\<rparr>"
    using assms(1) by (auto simp: insert_establishment_def split: if_splits)
  have "establishment_ids db \<subseteq> insert (es_ID r) (es_ID ` set (rg_establishments db))"
    "owners db \<subseteq> insert (es_ID r, es_TaxpayerID r) ((\<lambda>x. (es_ID x, es_TaxpayerID x)) ` set (rg_establishments db))"
    by (auto simp: establishment_ids_def owners_def)
  note grow = inv_mono(3,4) [OF _ this(1)] inv_mono(2) [OF _ this(2)]
  have "establishments_inv (taxpayer_ids db) (rg_establishments db @ [r])"
    using inv r by (intro establishments_inv_append) (simp_all add: registry_inv_def establishment_ids_def)
  then show ?thesis
    using inv by (simp add: db' reg_step_ok_def registry_inv_def registry_le_def rows_le_refl rows_le_append grow)
qed

text \<open>The foreign keys do not tie the binding's taxpayer to its establishment; the caller's check does.\<close>

lemma insert_scope_binding_ok:
  assumes "insert_scope_binding r db = Inr db'" "registry_inv db" "(sb_EstablishmentID r, sb_TaxpayerID r) \<in> owners db"
  shows "reg_step_ok db db'"
  using assms
  by (auto simp: insert_scope_binding_def reg_step_ok_def registry_inv_def registry_le_def rows_le_refl rows_le_append
      intro: bindings_inv_append split: if_splits)

lemma insert_series_ok:
  assumes "insert_series r db = Inr db'" "series_stage r" "registry_inv db"
  shows "reg_step_ok db db'"
  using assms
  by (auto simp: insert_series_def Let_def reg_step_ok_def registry_inv_def registry_le_def rows_le_refl rows_le_append
      intro: series_inv_append split: if_splits)

lemma one_row_Inr: "one_row P rows = Inr r \<Longrightarrow> r \<in> set rows \<and> P r"
  by (auto simp: one_row_def find_Some_iff split: option.splits)

lemma CreateTaxpayer_ok: "CreateTaxpayer dia c raw i db = Inr (v, db') \<Longrightarrow> registry_inv db \<Longrightarrow> reg_step_ok db db'"
  by (auto simp: CreateTaxpayer_def Let_def bind_result_Inr split: if_splits intro: insert_taxpayer_ok)

lemma CreateEstablishment_ok:
  "CreateEstablishment dia c raw i db = Inr (v, db') \<Longrightarrow> registry_inv db \<Longrightarrow> reg_step_ok db db'"
  by (auto simp: CreateEstablishment_def Let_def bind_result_Inr split: if_splits intro: insert_establishment_ok)

lemma establishmentTaxpayer_owner: "establishmentTaxpayer est db = Inr tp \<Longrightarrow> (est, tp) \<in> owners db"
  by (auto simp: establishmentTaxpayer_def bind_result_Inr owners_def dest!: one_row_Inr)

lemma CreateScopeBinding_ok:
  assumes "CreateScopeBinding loc dia c i db = Inr (v, db')" and inv: "registry_inv db"
  shows "reg_step_ok db db'"
proof -
  obtain r where r: "insert_scope_binding r db = Inr db'" "establishmentTaxpayer (sb_EstablishmentID r) db = Inr (sb_TaxpayerID r)"
    using assms(1) by (auto simp: CreateScopeBinding_def Let_def bind_result_Inr split: if_splits)
  then show ?thesis by (blast intro: insert_scope_binding_ok inv dest: establishmentTaxpayer_owner)
qed

lemma UpdateTaxpayerStatus_ok:
  assumes "UpdateTaxpayerStatus i s db = Inr (v, db')" and inv: "registry_inv db"
  shows "reg_step_ok db db'"
proof -
  obtain P st where chk: "list_all taxpayer_check (update_where P (\<lambda>r. r\<lparr>tx_Status := st\<rparr>) (rg_taxpayers db))"
    and db': "db' = db\<lparr>rg_taxpayers := update_where P (\<lambda>r. r\<lparr>tx_Status := st\<rparr>) (rg_taxpayers db)\<rparr>"
    using assms(1) by (auto simp: UpdateTaxpayerStatus_def update_taxpayers_def Let_def bind_result_Inr split: if_splits)
  have "rows_le taxpayer_le (rg_taxpayers db) (rg_taxpayers db')"
    unfolding db' by (simp, rule rows_le_update) (simp add: taxpayer_le_def)
  then show ?thesis
    using inv chk
    by (simp add: db' reg_step_ok_def registry_inv_def registry_le_def rows_le_refl taxpayers_inv_def
        taxpayer_ids_def [symmetric])
qed

lemma UpdateEstablishmentStatus_ok:
  assumes "UpdateEstablishmentStatus i s db = Inr (v, db')" and inv: "registry_inv db"
  shows "reg_step_ok db db'"
proof -
  obtain P st where chk: "list_all establishment_check (update_where P (\<lambda>r. r\<lparr>es_Status := st\<rparr>) (rg_establishments db))"
    and db': "db' = db\<lparr>rg_establishments := update_where P (\<lambda>r. r\<lparr>es_Status := st\<rparr>) (rg_establishments db)\<rparr>"
    using assms(1)
    by (auto simp: UpdateEstablishmentStatus_def update_establishments_def Let_def bind_result_Inr split: if_splits)
  have "rows_le establishment_le (rg_establishments db) (rg_establishments db')"
    unfolding db' by (simp, rule rows_le_update) (simp add: establishment_le_def)
  then show ?thesis
    using inv chk
    by (simp add: db' reg_step_ok_def registry_inv_def registry_le_def rows_le_refl establishments_inv_def
        establishment_ids_def [symmetric] owners_def [symmetric])
qed

lemma UpdateScopeConfig_ok:
  assumes "UpdateScopeConfig loc i db = Inr (v, db')" and inv: "registry_inv db"
  shows "reg_step_ok db db'"
proof -
  define f where "f r = r\<lparr>sb_Environment := strings_TrimSpace (us_Environment i),
      sb_IANATimezone := strings_TrimSpace (us_IANATimezone i),
      sb_SeriesEffectiveCode := strings_TrimSpace (us_SeriesEffectiveCode i),
      sb_Status := strings_TrimSpace (us_Status i)\<rparr>" for r :: "sql_time scope_binding"
  obtain P where chk: "list_all scope_binding_check (update_where P f (rg_scope_bindings db))"
    and db': "db' = db\<lparr>rg_scope_bindings := update_where P f (rg_scope_bindings db)\<rparr>"
    using assms(1)
    by (auto simp: UpdateScopeConfig_def update_scope_bindings_def Let_def bind_result_Inr f_def [abs_def] split: if_splits)
  have keep: "sb_ScopeID (f r) = sb_ScopeID r" "sb_TaxpayerID (f r) = sb_TaxpayerID r"
    "sb_EstablishmentID (f r) = sb_EstablishmentID r" "sb_CreatedAt (f r) = sb_CreatedAt r" for r
    by (simp_all add: f_def)
  have "rows_le scope_binding_le (rg_scope_bindings db) (rg_scope_bindings db')"
    unfolding db' by (simp, rule rows_le_update) (simp add: keep scope_binding_le_def)
  then show ?thesis
    using inv chk
    by (simp add: db' reg_step_ok_def registry_inv_def registry_le_def rows_le_refl bindings_inv_def keep)
qed

lemma CreateSeries_ok:
  assumes "CreateSeries cat dia c raw i db = Inr (v, db')" and inv: "registry_inv db"
  shows "reg_step_ok db db'"
proof -
  obtain r where "insert_series r db = Inr db'" "series_stage r"
    using assms(1)
    by (auto simp: CreateSeries_def Let_def bind_result_Inr series_stage_def SeriesDraft_def split: if_splits sum.splits)
  then show ?thesis using inv by (rule insert_series_ok)
qed

lemma UpsertDocGroup_ok:
  assumes "UpsertDocGroupConfig dia c i db = Inr (v, db')" and inv: "registry_inv db"
  shows "reg_step_ok db db'"
  using assms
  by (auto simp: UpsertDocGroupConfig_def Let_def bind_result_Inr reg_step_ok_def registry_inv_def registry_le_def
      rows_le_refl flag_row_def intro!: flags_inv_upsert split: if_splits)

lemma UpsertDocType_ok:
  assumes "UpsertDocTypeConfig cat dia c i db = Inr (v, db')" and inv: "registry_inv db"
  shows "reg_step_ok db db'"
  using assms
  by (auto simp: UpsertDocTypeConfig_def Let_def bind_result_Inr reg_step_ok_def registry_inv_def registry_le_def
      rows_le_refl flag_row_def intro!: flags_inv_upsert split: if_splits sum.splits)

lemma UpsertFEEnrollment_ok:
  assumes "UpsertFEEnrollment dia c i db = Inr (v, db')" and inv: "registry_inv db"
  shows "reg_step_ok db db'"
  using assms
  by (auto simp: UpsertFEEnrollment_def Let_def bind_result_Inr reg_step_ok_def registry_inv_def registry_le_def
      rows_le_refl intro!: enrollments_inv_upsert split: if_splits)

end
