(* ===== verification/RegistryProperties.thy ===== *)
theory RegistryProperties
  imports RegistryInvariants
begin

text \<open>
  Properties of the administration registry: what every reachable set of tables satisfies, the life of
  a series under interleaved transactions, and what the activation of document types and the
  enrolment do to what an establishment may issue.
\<close>

section \<open>Series transitions\<close>

lemmas series_states = SeriesDraft_def SeriesActive_def SeriesClosed_def

lemma validateSeriesTransition_Inr:
  "validateSeriesTransition from to = Inr u \<longleftrightarrow>
     (from = ''draft'' \<and> to = ''active'') \<or> (from = ''active'' \<and> to = ''closed'') \<or> (from = ''draft'' \<and> to = ''closed'')"
  by (auto simp: validateSeriesTransition_def series_states)

lemma read_series_Inr:
  "read_series r = Inr s \<Longrightarrow> se_ID s = se_ID r \<and> se_Status s = se_Status r \<and> se_Version s = se_Version r
     \<and> series_code s = series_code r \<and> series_kind s = series_kind r"
  by (auto simp: read_series_def Let_def bind_result_Inr series_code_def series_kind_def)

text \<open>What a transaction between its read and its write knows of the table.\<close>

definition open_inv :: "registry_db \<Rightarrow> transition_series_input \<times> gotime series \<Rightarrow> bool" where
  "open_inv db x \<longleftrightarrow>
     (case x of (inp, cur) \<Rightarrow>
        se_Version cur = ts_ExpectedVersion inp
        \<and> validateSeriesTransition (se_Status cur) (strings_TrimSpace (ts_ToStatus inp)) = Inr ()
        \<and> (\<exists>r \<in> set (rg_series db). se_ID r = strings_TrimSpace (ts_SeriesID inp) \<and> se_Version cur \<le> se_Version r
             \<and> (se_Version r = se_Version cur \<longrightarrow> se_Status r = se_Status cur)))"

lemma transition_read_open: "transition_read inp db = Inr cur \<Longrightarrow> open_inv db (inp, cur)"
  by (auto simp: transition_read_def getSeriesTx_def Let_def bind_result_Inr open_inv_def
      dest!: one_row_Inr read_series_Inr split: if_splits)

lemma open_inv_le:
  assumes "registry_le db db'" "open_inv db x"
  shows "open_inv db' x"
proof -
  obtain inp cur where x: "x = (inp, cur)" by fastforce
  obtain r where r: "r \<in> set (rg_series db)" "se_ID r = strings_TrimSpace (ts_SeriesID inp)" "se_Version cur \<le> se_Version r"
      "se_Version r = se_Version cur \<longrightarrow> se_Status r = se_Status cur"
    using assms(2) by (auto simp: open_inv_def x)
  obtain r' where r': "r' \<in> set (rg_series db')" "series_le r r'"
    using assms(1) r(1) rows_le_member by (metis registry_le_def)
  note le = series_leD [OF r'(2)]
  have "se_Status r' = se_Status cur" if "se_Version r' = se_Version cur"
    using that le(1,2) r(3,4) by simp
  then show ?thesis
    using assms(2) r' le(1,5) r(2,3) by (auto simp: open_inv_def x intro!: bexI [of _ r'])
qed

lemma unique_key: "distinct (map k rows) \<Longrightarrow> x \<in> set rows \<Longrightarrow> y \<in> set rows \<Longrightarrow> k x = k y \<Longrightarrow> x = y"
  by (metis distinct_map inj_on_def)

definition transition_row :: "dialect \<Rightarrow> gotime \<Rightarrow> transition_series_input \<Rightarrow> sql_time series \<Rightarrow> sql_time series" where
  "transition_row dia clock inp r =
     (let to = strings_TrimSpace (ts_ToStatus inp); now = stamp dia (trunc_us clock)
      in r\<lparr>se_Status := to, se_ValidTo := (if to = ''closed'' then Some now else None),
           se_Version := ts_ExpectedVersion inp + 1, se_UpdatedAt := now\<rparr>)"

lemma transition_row_simps [simp]:
  "se_ID (transition_row dia c i r) = se_ID r" "series_code (transition_row dia c i r) = series_code r"
  "series_kind (transition_row dia c i r) = series_kind r" "se_ValidFrom (transition_row dia c i r) = se_ValidFrom r"
  "se_CreatedAt (transition_row dia c i r) = se_CreatedAt r" "se_EstablishmentID (transition_row dia c i r) = se_EstablishmentID r"
  "se_Status (transition_row dia c i r) = strings_TrimSpace (ts_ToStatus i)"
  "se_Version (transition_row dia c i r) = ts_ExpectedVersion i + 1"
  by (simp_all add: transition_row_def Let_def series_code_def series_kind_def)

definition transition_hit :: "transition_series_input \<Rightarrow> sql_time series \<Rightarrow> bool" where
  "transition_hit inp r \<longleftrightarrow> se_ID r = strings_TrimSpace (ts_SeriesID inp) \<and> se_Version r = ts_ExpectedVersion inp"

text \<open>The write, for the reader of the version it expects.\<close>

lemma transition_write_Inr:
  assumes "transition_write dia c inp cur db = Inr (v, db')" "se_Version cur = ts_ExpectedVersion inp"
  shows "db' = db\<lparr>rg_series := update_where (transition_hit inp) (transition_row dia c inp) (rg_series db)\<rparr>"
    and "list_all series_check (rg_series db')" "series_unique (rg_series db')"
    and "length (filter (transition_hit inp) (rg_series db)) = 1"
  using assms
  by (auto simp: transition_write_def Let_def bind_result_Inr update_series_def transition_row_def [abs_def]
      transition_hit_def [abs_def] series_states split: if_splits)

lemma transition_write_ok:
  assumes w: "transition_write dia c inp cur db = Inr (v, db')" and opn: "open_inv db (inp, cur)" and inv: "registry_inv db"
  shows "reg_step_ok db db'"
proof -
  let ?to = "strings_TrimSpace (ts_ToStatus inp)"
  have ver: "se_Version cur = ts_ExpectedVersion inp" and to: "validateSeriesTransition (se_Status cur) ?to = Inr ()"
    using opn by (auto simp: open_inv_def)
  note wr = transition_write_Inr [OF w ver]
  have sinv: "series_inv (establishment_ids db) (rg_series db)" using inv by (simp add: registry_inv_def)
  have hit: "se_Status r = se_Status cur \<and> series_stage r" if "r \<in> set (rg_series db)" "transition_hit inp r" for r
  proof -
    obtain r0 where r0: "r0 \<in> set (rg_series db)" "se_ID r0 = strings_TrimSpace (ts_SeriesID inp)"
        "se_Version r0 = se_Version cur \<longrightarrow> se_Status r0 = se_Status cur"
      using opn by (auto simp: open_inv_def)
    have "r0 = r" using that r0 sinv by (auto simp: series_inv_def series_unique_def transition_hit_def intro: unique_key)
    then show ?thesis using that r0 sinv ver by (auto simp: transition_hit_def series_inv_def list_all_iff)
  qed
  have step: "series_stage (transition_row dia c inp r) \<and> series_le r (transition_row dia c inp r)"
    if "r \<in> set (rg_series db)" "transition_hit inp r" for r
    using hit [OF that] that(2) to
    by (auto simp: validateSeriesTransition_Inr series_stage_def series_le_def series_rank_def transition_hit_def)
      (auto simp: transition_row_def Let_def)
  have "rows_le series_le (rg_series db) (rg_series db')"
    unfolding wr(1) by (simp, rule rows_le_update) (simp add: step)
  moreover have "list_all series_stage (rg_series db')"
    using sinv step by (auto simp: wr(1) series_inv_def list_all_iff set_update_where)
  moreover have "se_EstablishmentID ` set (rg_series db') \<subseteq> establishment_ids db"
    using sinv by (simp add: wr(1) series_inv_def)
  ultimately show ?thesis
    using inv wr(2,3)
    by (simp add: wr(1) reg_step_ok_def registry_inv_def registry_le_def rows_le_refl series_inv_def)
qed

section \<open>The machine keeps its invariant\<close>

definition registry_world_inv :: "registry_world \<Rightarrow> bool" where
  "registry_world_inv w \<longleftrightarrow> registry_inv (rw_db w) \<and> (\<forall>x \<in> set (rw_open w). open_inv (rw_db w) x)"

abbreviation world_le :: "registry_world \<Rightarrow> registry_world \<Rightarrow> bool" where
  "world_le w w' \<equiv> registry_le (rw_db w) (rw_db w')"

lemmas operations_ok = CreateTaxpayer_ok CreateEstablishment_ok CreateScopeBinding_ok UpdateScopeConfig_ok
  UpdateTaxpayerStatus_ok UpdateEstablishmentStatus_ok CreateSeries_ok UpsertDocGroup_ok UpsertDocType_ok
  UpsertFEEnrollment_ok

lemma registry_event_db_ok:
  assumes inv: "registry_world_inv w"
  shows "reg_step_ok (rw_db w) (registry_event_db env e w)"
proof -
  have refl: "reg_step_ok (rw_db w) (rw_db w)" and db: "registry_inv (rw_db w)"
    using inv by (simp_all add: reg_step_ok_def registry_world_inv_def)
  show ?thesis
  proof (cases e)
    case (EvTransitionWrite n c)
    show ?thesis
    proof (cases "n < length (rw_open w)")
      case True
      obtain i cur where x: "rw_open w ! n = (i, cur)" by fastforce
      then have "open_inv (rw_db w) (i, cur)" using inv True nth_mem by (metis registry_world_inv_def)
      then show ?thesis
        using db by (auto simp: EvTransitionWrite True x intro!: reg_step_ok_written intro: transition_write_ok)
    qed (use refl in \<open>simp add: EvTransitionWrite\<close>)
  qed (use db refl in \<open>auto intro!: reg_step_ok_written intro: operations_ok\<close>)
qed

lemma registry_step_ok:
  assumes inv: "registry_world_inv w"
  shows "registry_world_inv (registry_step env e w)" "world_le w (registry_step env e w)"
proof -
  note ok = registry_event_db_ok [OF inv, of env e]
  have old: "open_inv (registry_event_db env e w) x" if "x \<in> set (rw_open w)" for x
    using that inv ok by (auto simp: registry_world_inv_def reg_step_ok_def intro: open_inv_le)
  have "x \<in> set (rw_open w) \<or> (\<exists>i cur. e = EvTransitionRead i \<and> x = (i, cur) \<and> transition_read i (rw_db w) = Inr cur)"
    if "x \<in> set (registry_event_open e w)" for x
    using that by (cases e) (auto dest: in_set_takeD in_set_dropD split: sum.splits)
  moreover have "open_inv (registry_event_db env e w) (i, cur)" if "e = EvTransitionRead i" "transition_read i (rw_db w) = Inr cur" for i cur
    using that by (simp add: transition_read_open)
  ultimately have "open_inv (registry_event_db env e w) x" if "x \<in> set (registry_event_open e w)" for x
    using that old by blast
  then show "registry_world_inv (registry_step env e w)"
    using ok by (simp add: registry_world_inv_def registry_step_def reg_step_ok_def)
  show "world_le w (registry_step env e w)"
    using ok by (simp add: registry_step_def reg_step_ok_def)
qed

interpretation registry: monotone_machine registry_start "registry_step env" registry_world_inv world_le for env
proof (unfold_locales)
  fix w assume "registry_start w"
  then show "registry_world_inv w" by (simp add: registry_start_def registry_world_inv_def registry_inv_empty)
qed (auto intro: registry_step_ok registry_le_trans)

section \<open>Consistency of the tables\<close>

lemma reachable_inv:
  assumes "registry_start w" "w' = fold (registry_step env) es w"
  shows "registry_world_inv w'"
  using registry.reach_inv assms by blast

lemma reachable_le:
  assumes "registry_world_inv w" "w' = fold (registry_step env) es w"
  shows "world_le w w'" "registry_world_inv w'"
  using registry.run_le registry.run_inv assms by blast+

text \<open>
  C28: whatever the operations and however their transactions interleave, no two taxpayers share a NIF, no two
  establishments of a taxpayer a code, every establishment has its taxpayer, and every scope is bound to an
  establishment of the very taxpayer it names, which no foreign key states. No two series of an establishment in one
  environment share a code, at most one per document type is active, and status, version and end of a series agree.
\<close>

theorem registry_consistent:
  assumes "registry_start w" "db = rw_db (fold (registry_step env) es w)"
  shows "distinct (map tx_NIF (rg_taxpayers db))
    \<and> distinct (map (\<lambda>e. (es_TaxpayerID e, es_Code e)) (rg_establishments db))
    \<and> (\<forall>e \<in> set (rg_establishments db). \<exists>t \<in> set (rg_taxpayers db). tx_ID t = es_TaxpayerID e)
    \<and> (\<forall>b \<in> set (rg_scope_bindings db). \<exists>e \<in> set (rg_establishments db).
         es_ID e = sb_EstablishmentID b \<and> es_TaxpayerID e = sb_TaxpayerID b)
    \<and> distinct (map series_code (rg_series db))
    \<and> distinct (map series_kind (filter (\<lambda>r. se_Status r = ''active'') (rg_series db)))
    \<and> (\<forall>r \<in> set (rg_series db). (se_Status r, se_Version r, se_ValidTo r \<noteq> None)
         \<in> {(''draft'', 1, False), (''active'', 2, False), (''closed'', 2, True), (''closed'', 3, True)})"
proof -
  have inv: "registry_inv db"
    using reachable_inv [OF assms(1) refl] by (simp add: assms(2) registry_world_inv_def)
  have "\<exists>t \<in> set (rg_taxpayers db). tx_ID t = es_TaxpayerID e" if "e \<in> set (rg_establishments db)" for e
  proof -
    have "es_TaxpayerID e \<in> taxpayer_ids db"
      using inv that by (auto simp: registry_inv_def establishments_inv_def)
    then show ?thesis by (auto simp: taxpayer_ids_def)
  qed
  moreover have "\<exists>e \<in> set (rg_establishments db). es_ID e = sb_EstablishmentID b \<and> es_TaxpayerID e = sb_TaxpayerID b"
    if "b \<in> set (rg_scope_bindings db)" for b
  proof -
    have "(sb_EstablishmentID b, sb_TaxpayerID b) \<in> owners db"
      using inv that by (auto simp: registry_inv_def bindings_inv_def)
    then show ?thesis by (auto simp: owners_def)
  qed
  moreover have "(se_Status r, se_Version r, se_ValidTo r \<noteq> None)
         \<in> {(''draft'', 1, False), (''active'', 2, False), (''closed'', 2, True), (''closed'', 3, True)}"
    if "r \<in> set (rg_series db)" for r
  proof -
    have "series_stage r" using inv that by (simp add: registry_inv_def series_inv_def list_all_iff)
    then show ?thesis by (auto simp: series_stage_def)
  qed
  moreover have "distinct (map tx_NIF (rg_taxpayers db))" "distinct (map (\<lambda>e. (es_TaxpayerID e, es_Code e)) (rg_establishments db))"
    "distinct (map series_code (rg_series db))"
    "distinct (map series_kind (filter (\<lambda>r. se_Status r = ''active'') (rg_series db)))"
    using inv by (simp_all add: registry_inv_def taxpayers_inv_def establishments_inv_def series_inv_def series_unique_def)
  ultimately show ?thesis by (intro conjI ballI)
qed

section \<open>The life of a series\<close>

text \<open>
  C29: a series row is never deleted and keeps its identity, establishment, environment, type, code and start.
  Its version only grows, its status only moves from draft over active to closed, a row with the same version is the
  same row, and a closed one never changes again, whatever transactions run in between.
\<close>

theorem series_moves_forward:
  assumes "registry_start w" "w1 = fold (registry_step env) es w" "w2 = fold (registry_step env) es' w1"
    and "r \<in> set (rg_series (rw_db w1))"
  shows "\<exists>r' \<in> set (rg_series (rw_db w2)).
      se_ID r' = se_ID r \<and> series_code r' = series_code r \<and> series_kind r' = series_kind r
      \<and> se_ValidFrom r' = se_ValidFrom r \<and> se_Version r \<le> se_Version r'
      \<and> series_rank (se_Status r) \<le> series_rank (se_Status r')
      \<and> (se_Version r' = se_Version r \<longrightarrow> r' = r) \<and> (se_Status r = ''closed'' \<longrightarrow> r' = r)"
proof -
  have "world_le w1 w2" using reachable_le(1) [OF reachable_inv [OF assms(1,2)] assms(3)] .
  then obtain r' where "r' \<in> set (rg_series (rw_db w2))" "series_le r r'"
    using rows_le_member [OF _ assms(4)] by (auto simp: registry_le_def)
  then show ?thesis by (intro bexI [of _ r'] conjI impI series_leD [of r r'])
qed

lemma CreateSeries_fresh:
  assumes "CreateSeries cat dia c raw inp db = Inr (v, db')"
  shows "(strings_TrimSpace (ci_EstablishmentID inp), strings_TrimSpace (ci_Environment inp), strings_TrimSpace (ci_Code inp))
    \<notin> series_code ` set (rg_series db)"
  using assms
  by (auto simp: CreateSeries_def insert_series_def series_unique_def series_code_def Let_def bind_result_Inr
      split: if_splits sum.splits)

text \<open>
  The code of a series is used once: after a series with that establishment, environment and code exists, no
  later attempt to create one with the same three succeeds, closed or not.
\<close>

theorem series_code_never_reused:
  assumes "registry_start w" "w1 = fold (registry_step env) es w" "w2 = fold (registry_step env) es' w1"
    and "r \<in> set (rg_series (rw_db w1))"
    and "series_code r = (strings_TrimSpace (ci_EstablishmentID inp), strings_TrimSpace (ci_Environment inp),
           strings_TrimSpace (ci_Code inp))"
  shows "CreateSeries cat dia c raw inp (rw_db w2) \<noteq> Inr (v, db')"
proof -
  have "world_le w1 w2" using reachable_le(1) [OF reachable_inv [OF assms(1,2)] assms(3)] .
  then obtain r' where "r' \<in> set (rg_series (rw_db w2))" "series_le r r'"
    using rows_le_member [OF _ assms(4)] by (auto simp: registry_le_def)
  then have "series_code r \<in> series_code ` set (rg_series (rw_db w2))" using series_leD(6) by (metis image_eqI)
  then show ?thesis using CreateSeries_fresh assms(5) by metis
qed

lemma no_hit_conflict:
  assumes inv: "registry_inv db" and none: "\<And>r. r \<in> set (rg_series db) \<Longrightarrow> \<not> transition_hit inp r"
  shows "transition_write dia c inp cur db = Inl (RegConflict ''version'')"
    "transition_read inp db \<noteq> Inr cur'"
proof -
  have "filter (transition_hit inp) (rg_series db) = []" using none by (simp add: filter_empty_conv)
  moreover have "update_where (transition_hit inp) f (rg_series db) = rg_series db" for f
    using none by (rule update_where_id)
  ultimately show "transition_write dia c inp cur db = Inl (RegConflict ''version'')"
    using inv
    by (simp add: transition_write_def update_series_def transition_hit_def [abs_def] Let_def registry_inv_def series_inv_def)
  show "transition_read inp db \<noteq> Inr cur'"
  proof
    assume "transition_read inp db = Inr cur'"
    then obtain r where "r \<in> set (rg_series db)" "transition_hit inp r"
      by (auto simp: transition_read_def getSeriesTx_def Let_def bind_result_Inr transition_hit_def
          dest!: one_row_Inr read_series_Inr split: if_splits)
    then show False using none by blast
  qed
qed

text \<open>
  C30: a version is spent once. When a transition of a series has committed, no transition that expects the same
  version commits after it: neither one that had already read the row, nor one that reads it later.
\<close>

theorem version_spent_once:
  assumes "registry_start w" "w1 = fold (registry_step env) es w"
    and "n < length (rw_open w1)" "rw_open w1 ! n = (inp, cur)"
    and "transition_write (re_dialect env) c inp cur (rw_db w1) = Inr (s, db')"
    and "w2 = fold (registry_step env) es' (registry_step env (EvTransitionWrite n c) w1)"
    and "strings_TrimSpace (ts_SeriesID inp') = strings_TrimSpace (ts_SeriesID inp)"
    and "ts_ExpectedVersion inp' = ts_ExpectedVersion inp"
  shows "transition_write dia c' inp' cur' (rw_db w2) = Inl (RegConflict ''version'')
    \<and> transition_read inp' (rw_db w2) \<noteq> Inr cur''"
proof -
  have inv1: "registry_world_inv w1" by (rule reachable_inv [OF assms(1,2)])
  have "(inp, cur) \<in> set (rw_open w1)" using assms(3,4) nth_mem by metis
  then have opn: "open_inv (rw_db w1) (inp, cur)" using inv1 by (auto simp: registry_world_inv_def)
  let ?w = "registry_step env (EvTransitionWrite n c) w1"
  have db: "rw_db ?w = db'" using assms(3-5) by (simp add: registry_step_def written_def)
  have le: "world_le ?w w2" and inv2: "registry_inv (rw_db w2)"
    using reachable_le [OF registry_step_ok(1) [OF inv1] assms(6)] by (simp_all add: registry_world_inv_def)
  have ver: "se_Version cur = ts_ExpectedVersion inp" using opn by (simp add: open_inv_def)
  note wr = transition_write_Inr [OF assms(5) ver]
  obtain r where r: "r \<in> set (rg_series (rw_db w1))" "transition_hit inp r"
    using wr(4) by (metis filter_empty_conv length_0_conv zero_neq_one)
  then have "transition_row (re_dialect env) c inp r \<in> set (rg_series (rw_db ?w))"
    by (auto simp: db wr(1) set_update_where)
  then obtain r' where r': "r' \<in> set (rg_series (rw_db w2))" "series_le (transition_row (re_dialect env) c inp r) r'"
    using le rows_le_member by (metis registry_le_def)
  have "\<not> transition_hit inp' x" if "x \<in> set (rg_series (rw_db w2))" for x
  proof
    assume "transition_hit inp' x"
    then have "se_ID x = se_ID r'" "se_Version x < se_Version r'"
      using r(2) series_leD(1,5) [OF r'(2)] assms(7,8) by (simp_all add: transition_hit_def)
    moreover have "x = r'"
      using inv2 that r'(1) calculation(1) by (auto simp: registry_inv_def series_inv_def series_unique_def intro: unique_key)
    ultimately show False by simp
  qed
  then show ?thesis using no_hit_conflict [OF inv2] by blast
qed

end
