(* ===== verification/RegistryEffects.thy ===== *)
theory RegistryEffects
  imports RegistryProperties
begin

text \<open>
  When a series transition succeeds, and what the activation of document types and the enrolment in
  electronic invoicing do to what an establishment may issue.
\<close>

section \<open>A transition, exactly\<close>

lemma one_row_unique:
  "distinct (map k rows) \<Longrightarrow> r \<in> set rows \<Longrightarrow> one_row (\<lambda>x. k x = k r) rows = Inr r"
  by (simp add: one_row_def find_distinct_key)

lemma series_unique_update:
  fixes rows :: "sql_time series list"
  assumes uniq: "series_unique rows" and r: "r \<in> set rows"
    and keep: "\<And>x. se_ID (f x) = se_ID x" "\<And>x. series_code (f x) = series_code x" "\<And>x. series_kind (f x) = series_kind x"
    and only: "\<And>x. x \<in> set rows \<Longrightarrow> P x \<Longrightarrow> x = r"
    and free: "se_Status (f r) = ''active'' \<Longrightarrow>
      \<forall>x \<in> set rows. se_Status x = ''active'' \<longrightarrow> series_kind x \<noteq> series_kind r"
  shows "series_unique (update_where P f rows)"
proof -
  let ?rows = "update_where P f rows" and ?on = "\<lambda>x :: sql_time series. se_Status x = ''active''"
  have ids: "distinct (map se_ID ?rows)" and codes: "distinct (map series_code ?rows)"
    using uniq by (simp_all add: keep series_unique_def)
  have old: "x = y" if "x \<in> set rows" "y \<in> set rows" "?on x" "?on y" "series_kind x = series_kind y" for x y
  proof -
    have "distinct (map series_kind (filter ?on rows))" using uniq by (simp add: series_unique_def)
    then show ?thesis using that by (intro unique_key [of series_kind "filter ?on rows"]) auto
  qed
  have clash: False
    if "a \<in> set rows" "P a" "b \<in> set rows" "\<not> P b" "?on (f a)" "?on b" "series_kind a = series_kind b" for a b
    using only [OF that(1,2)] free that by auto
  have "inj_on series_kind {x \<in> set ?rows. ?on x}"
  proof (rule inj_onI)
    fix x y assume x: "x \<in> {x \<in> set ?rows. ?on x}" and y: "y \<in> {x \<in> set ?rows. ?on x}" and eq: "series_kind x = series_kind y"
    obtain x0 where x0: "x0 \<in> set rows" "x = (if P x0 then f x0 else x0)" using x by (auto simp: set_update_where)
    obtain y0 where y0: "y0 \<in> set rows" "y = (if P y0 then f y0 else y0)" using y by (auto simp: set_update_where)
    have k: "series_kind x0 = series_kind y0" using x0(2) y0(2) eq keep(3) by (auto split: if_splits)
    have on: "?on (if P x0 then f x0 else x0)" "?on (if P y0 then f y0 else y0)" using x y x0(2) y0(2) by simp_all
    consider "P x0" "P y0" | "P x0" "\<not> P y0" | "\<not> P x0" "P y0" | "\<not> P x0" "\<not> P y0" by blast
    then show "x = y"
    proof cases
      case 1
      then have "x0 = r" "y0 = r" using only x0(1) y0(1) by blast+
      then show ?thesis using 1 x0(2) y0(2) by simp
    next
      case 2
      then show ?thesis using clash [OF x0(1) 2(1) y0(1) 2(2)] on k by simp
    next
      case 3
      then show ?thesis using clash [OF y0(1) 3(2) x0(1) 3(1)] on k by simp
    next
      case 4
      then show ?thesis using old [OF x0(1) y0(1)] on k x0(2) y0(2) by simp
    qed
  qed
  then have "distinct (map series_kind (filter ?on ?rows))"
    using ids by (simp add: distinct_map inj_on_def)
  then show ?thesis using ids codes by (simp add: series_unique_def)
qed

lemma series_check_transition:
  "series_check r \<Longrightarrow> strings_TrimSpace (ts_ToStatus inp) \<in> {''active'', ''closed''} \<Longrightarrow> 1 \<le> ts_ExpectedVersion inp
   \<Longrightarrow> series_check (transition_row dia c inp r)"
  by (auto simp: series_check_def transition_row_def Let_def)

lemma transition_write_unfold:
  assumes "se_Version cur = ts_ExpectedVersion inp"
  shows "\<exists>v. transition_write dia c inp cur db =
    bind_result (update_series (transition_hit inp) (transition_row dia c inp) db) (\<lambda>db'.
      if length (filter (transition_hit inp) (rg_series db)) \<noteq> 1 then Inl (RegConflict ''version'') else Inr (v, db'))"
  unfolding transition_write_def Let_def transition_row_def [abs_def] transition_hit_def [abs_def] assms series_states
  by blast

lemma transition_iff:
  assumes inv: "registry_inv db"
  shows "(\<exists>s db'. TransitionSeries dia c inp db = Inr (s, db')) \<longleftrightarrow>
    (\<exists>r \<in> set (rg_series db).
       se_ID r = strings_TrimSpace (ts_SeriesID inp) \<and> se_Version r = ts_ExpectedVersion inp
       \<and> (se_Status r, strings_TrimSpace (ts_ToStatus inp))
           \<in> {(''draft'', ''active''), (''draft'', ''closed''), (''active'', ''closed'')}
       \<and> (\<exists>s. read_series r = Inr s)
       \<and> (strings_TrimSpace (ts_ToStatus inp) = ''active'' \<longrightarrow>
            (\<forall>x \<in> set (rg_series db). se_Status x = ''active'' \<longrightarrow> series_kind x \<noteq> series_kind r)))"
    (is "?L \<longleftrightarrow> (\<exists>r \<in> _. ?R r)")
proof
  let ?to = "strings_TrimSpace (ts_ToStatus inp)"
  assume ?L
  then obtain s cur db' where rd: "transition_read inp db = Inr cur" and w: "transition_write dia c inp cur db = Inr (s, db')"
    by (auto simp: TransitionSeries_def bind_result_Inr)
  obtain r where r0: "r \<in> set (rg_series db)" "se_ID r = strings_TrimSpace (ts_SeriesID inp)" "read_series r = Inr cur"
    and cur: "se_Version cur = ts_ExpectedVersion inp" "validateSeriesTransition (se_Status cur) ?to = Inr ()"
    using rd by (auto simp: transition_read_def getSeriesTx_def Let_def bind_result_Inr dest!: one_row_Inr split: if_splits)
  note r = r0 cur [unfolded conjunct1 [OF conjunct2 [OF read_series_Inr [OF r0(3)]]]
      conjunct1 [OF conjunct2 [OF conjunct2 [OF read_series_Inr [OF r0(3)]]]]]
  have ver: "se_Version cur = ts_ExpectedVersion inp" using r(3,4) read_series_Inr by metis
  note wr = transition_write_Inr [OF w ver]
  have "series_kind x \<noteq> series_kind r"
    if to: "?to = ''active''" and x: "x \<in> set (rg_series db)" "se_Status x = ''active''" for x
  proof
    assume k: "series_kind x = series_kind r"
    let ?new = "transition_row dia c inp r"
    have draft: "se_Status r = ''draft''" using r(5) to by (auto simp: validateSeriesTransition_Inr)
    then have ne: "se_ID x \<noteq> se_ID r"
      using inv x r(1) unique_key [of se_ID "rg_series db" x r] by (auto simp: registry_inv_def series_inv_def series_unique_def)
    have hit: "transition_hit inp r" "\<not> transition_hit inp x" using r(2,4) ne by (auto simp: transition_hit_def)
    have "?new \<in> set (rg_series db')" "x \<in> set (rg_series db')"
      using hit r(1) x(1) by (auto simp: wr(1) set_update_where image_iff intro: bexI [of _ x] bexI [of _ r])
    then have "?new = x"
      using wr(3) to x(2) k unique_key [of series_kind "filter (\<lambda>y. se_Status y = ''active'') (rg_series db')" ?new x]
      by (simp add: series_unique_def)
    then show False using ne by (metis transition_row_simps(1))
  qed
  then have "?R r" using r by (auto simp: validateSeriesTransition_Inr)
  then show "\<exists>r \<in> set (rg_series db). ?R r" using r(1) by blast
next
  let ?to = "strings_TrimSpace (ts_ToStatus inp)"
  assume "\<exists>r \<in> set (rg_series db). ?R r"
  then obtain r s where r: "r \<in> set (rg_series db)" "?R r" and s: "read_series r = Inr s" by blast
  have sinv: "series_check r" "series_unique (rg_series db)" "list_all series_check (rg_series db)"
    using inv r(1) by (simp_all add: registry_inv_def series_inv_def list_all_iff)
  have id: "se_ID r \<noteq> []" "1 \<le> ts_ExpectedVersion inp" using sinv(1) r(2) by (auto simp: series_check_def sql_nonempty_def)
  note same = read_series_Inr [OF s]
  have "one_row (\<lambda>x. se_ID x = strings_TrimSpace (ts_SeriesID inp)) (rg_series db) = Inr r"
    using one_row_unique [of se_ID, OF _ r(1)] sinv(2) r(2) by (simp add: series_unique_def)
  then have rd: "transition_read inp db = Inr s"
    using r(2) s id same
    by (auto simp: transition_read_def getSeriesTx_def Let_def validateSeriesTransition_def series_states)
  have only: "x = r" if "x \<in> set (rg_series db)" "transition_hit inp x" for x
    using that r sinv(2) unique_key [of se_ID "rg_series db" x r] by (auto simp: series_unique_def transition_hit_def)
  let ?rows = "update_where (transition_hit inp) (transition_row dia c inp) (rg_series db)"
  have uniq: "series_unique ?rows"
    using r(2) by (intro series_unique_update [OF sinv(2) r(1)] only) auto
  have chk: "list_all series_check ?rows"
    using sinv(3) r(2) id(2) by (auto simp: list_all_iff set_update_where intro!: series_check_transition)
  have len: "length (filter (transition_hit inp) (rg_series db)) = 1"
  proof -
    have "distinct (rg_series db)" using sinv(2) by (simp add: series_unique_def distinct_map)
    moreover have "transition_hit inp r" using r(2) by (simp add: transition_hit_def)
    then have "set (filter (transition_hit inp) (rg_series db)) = {r}" unfolding set_filter using only r(1) by blast
    ultimately have "length (filter (transition_hit inp) (rg_series db)) = card {r}" by (metis distinct_card distinct_filter)
    then show ?thesis by simp
  qed
  have upd: "update_series (transition_hit inp) (transition_row dia c inp) db = Inr (db\<lparr>rg_series := ?rows\<rparr>)"
    using uniq chk by (simp add: update_series_def Let_def)
  have ver: "se_Version s = ts_ExpectedVersion inp" using r(2) same by simp
  obtain v where "transition_write dia c inp s db = Inr (v, db\<lparr>rg_series := ?rows\<rparr>)"
    using transition_write_unfold [OF ver, of dia c db] upd len by auto
  then show ?L using rd by (auto simp: TransitionSeries_def)
qed

text \<open>
  In every reachable registry a transition succeeds exactly when the series exists with the version the caller
  expects, its times are readable, the move is draft to active, draft to closed or active to closed, and, towards
  active, no series of the same establishment, environment and document type is active.
\<close>

theorem transition_succeeds_iff:
  assumes "registry_start w" "db = rw_db (fold (registry_step env) es w)"
  shows "(\<exists>s db'. TransitionSeries dia c inp db = Inr (s, db')) \<longleftrightarrow>
    (\<exists>r \<in> set (rg_series db).
       se_ID r = strings_TrimSpace (ts_SeriesID inp) \<and> se_Version r = ts_ExpectedVersion inp
       \<and> (se_Status r, strings_TrimSpace (ts_ToStatus inp))
           \<in> {(''draft'', ''active''), (''draft'', ''closed''), (''active'', ''closed'')}
       \<and> (\<exists>s. read_series r = Inr s)
       \<and> (strings_TrimSpace (ts_ToStatus inp) = ''active'' \<longrightarrow>
            (\<forall>x \<in> set (rg_series db). se_Status x = ''active'' \<longrightarrow> series_kind x \<noteq> series_kind r)))"
  by (rule transition_iff) (use reachable_inv [OF assms(1) refl] assms(2) in \<open>simp add: registry_world_inv_def\<close>)

section \<open>Activation of groups and types\<close>

lemma fold_upd_notin: "x \<notin> k ` set rs \<Longrightarrow> fold (\<lambda>r m. m(k r \<mapsto> v r)) rs m x = m x"
  by (induction rs arbitrary: m) auto

lemma fold_upd_in: "distinct (map k rs) \<Longrightarrow> r \<in> set rs \<Longrightarrow> fold (\<lambda>r m. m(k r \<mapsto> v r)) rs m (k r) = Some (v r)"
proof (induction rs arbitrary: m)
  case (Cons a rs)
  show ?case
  proof (cases "r = a")
    case True
    then show ?thesis using Cons.prems(1) fold_upd_notin [of "k a" k rs v "m(k a \<mapsto> v a)"] by (simp del: fun_upd_apply) simp
  next
    case False
    then show ?thesis using Cons by simp
  qed
qed simp

lemma load_flags_Some:
  assumes "distinct (map flag_key rows)" "r \<in> set rows" "flag_key r = (est, env, key)"
  shows "load_flags est env rows key = Some (decodeBool (df_Active r))"
proof -
  let ?rs = "filter (\<lambda>r. df_EstablishmentID r = est \<and> df_Environment r = env) rows"
  have "inj_on df_Key (set ?rs)"
    by (rule inj_onI) (use assms(1) in \<open>auto simp: flag_key_def intro: unique_key\<close>)
  then have "distinct (map df_Key ?rs)" using assms(1) by (simp add: distinct_map)
  moreover have "r \<in> set ?rs" "df_Key r = key" using assms(2,3) by (auto simp: flag_key_def)
  ultimately show ?thesis 
    using fold_upd_in [of df_Key ?rs r "\<lambda>r. decodeBool (df_Active r)" Map.empty] by (simp only: load_flags_def)
qed

lemma load_flags_None:
  assumes "\<And>r. r \<in> set rows \<Longrightarrow> flag_key r \<noteq> (est, env, key)"
  shows "load_flags est env rows key = None"
  unfolding load_flags_def by (subst fold_upd_notin) (use assms in \<open>auto simp: flag_key_def\<close>)

lemma load_flags_upsert:
  assumes "distinct (map flag_key rows)"
  shows "load_flags est env (upsert_row flag_key row rows) =
    (if df_EstablishmentID row = est \<and> df_Environment row = env
     then (load_flags est env rows)(df_Key row \<mapsto> decodeBool (df_Active row)) else load_flags est env rows)"
proof
  fix key :: string
  let ?rows = "upsert_row flag_key row rows" and ?k = "(est, env, key)"
  have d: "distinct (map flag_key ?rows)" using assms by simp
  have "load_flags est env ?rows key =
    (if flag_key row = ?k then Some (decodeBool (df_Active row)) else load_flags est env rows key)"
  proof (cases "flag_key row = ?k")
    case True
    then show ?thesis using load_flags_Some [OF d _ True] by (simp add: set_upsert_row)
  next
    case False
    show ?thesis
    proof (cases "\<exists>r \<in> set rows. flag_key r = ?k")
      case True
      then obtain r where r: "r \<in> set rows" "flag_key r = ?k" by blast
      then have "r \<in> set ?rows" using False by (auto simp: set_upsert_row)
      then show ?thesis using load_flags_Some [OF d _ r(2)] load_flags_Some [OF assms r] False by simp
    next
      case none: False
      then have "flag_key r \<noteq> ?k" if "r \<in> set ?rows" for r using that False by (auto simp: set_upsert_row)
      then show ?thesis using load_flags_None [of ?rows] load_flags_None [of rows] none False by metis
    qed
  qed
  then show "load_flags est env ?rows key =
    (if df_EstablishmentID row = est \<and> df_Environment row = env
     then (load_flags est env rows)(df_Key row \<mapsto> decodeBool (df_Active row)) else load_flags est env rows) key"
    by (auto simp: flag_key_def)
qed

lemma decode_encodeBool [simp]: "decodeBool (encodeBool dia b) = b"
  by (simp add: encodeBool_def decodeBool_def)

lemma GetEstablishment_tables [simp]:
  "GetEstablishment i (db\<lparr>rg_doc_groups := fs\<rparr>) = GetEstablishment i db"
  "GetEstablishment i (db\<lparr>rg_doc_types := fs\<rparr>) = GetEstablishment i db"
  by (simp_all add: GetEstablishment_def)

lemma UpsertDocGroup_Inr:
  assumes "UpsertDocGroupConfig dia c inp db = Inr (u, db')"
  shows "db' = db\<lparr>rg_doc_groups := upsert_row flag_key (flag_row dia c inp) (rg_doc_groups db)\<rparr>"
    "\<exists>cfg. LoadDocPolicyConfig (uf_EstablishmentID inp) (uf_Environment inp) db = Inr cfg"
  using assms
  by (auto simp: UpsertDocGroupConfig_def LoadDocPolicyConfig_def Let_def bind_result_Inr split: if_splits)

lemma Load_after_group:
  assumes "distinct (map flag_key (rg_doc_groups db))"
    and "db' = db\<lparr>rg_doc_groups := upsert_row flag_key (flag_row dia c inp) (rg_doc_groups db)\<rparr>"
  shows "LoadDocPolicyConfig est env db' =
    (case LoadDocPolicyConfig est env db of
       Inl e \<Rightarrow> Inl e
     | Inr cfg \<Rightarrow> Inr (if strings_TrimSpace est = strings_TrimSpace (uf_EstablishmentID inp)
           \<and> strings_TrimSpace env = strings_TrimSpace (uf_Environment inp)
         then cfg\<lparr>pc_GroupActive := (pc_GroupActive cfg)(strings_TrimSpace (uf_Key inp) \<mapsto> uf_Active inp)\<rparr> else cfg))"
  using load_flags_upsert [OF assms(1), of _ _ "flag_row dia c inp"]
  by (auto simp: assms(2) LoadDocPolicyConfig_def Let_def bind_result_def flag_row_def split: sum.splits)

lemma inactive_group:
  assumes "ac_GroupActive (ai_Config inp) g = Some False" "ta \<in> set (ar_Types (ComputeAvailability reg inp))" "ta_Grupo ta = g"
  shows "\<not> ta_Available ta \<and> ReasonGroupInactive \<in> set (ta_Reasons ta)"
  using assms by (auto simp: ComputeAvailability_def evaluateType_def Let_def groupIsActive_def)

text \<open>
  Switching a group of an establishment in an environment on or off changes that one answer of the policy that
  is loaded next and nothing else, there or in any other establishment or environment. While the group is off no
  document type of it is available, whatever the catalogue, the enrolment and the overrides of single types.
\<close>

theorem group_switch_takes_effect:
  assumes "registry_start w" "db = rw_db (fold (registry_step env) es w)"
    and "UpsertDocGroupConfig dia c inp db = Inr (u, db')"
  shows "\<exists>cfg cfg'. LoadDocPolicyConfig (uf_EstablishmentID inp) (uf_Environment inp) db = Inr cfg
    \<and> LoadDocPolicyConfig (uf_EstablishmentID inp) (uf_Environment inp) db' = Inr cfg'
    \<and> cfg' = cfg\<lparr>pc_GroupActive := (pc_GroupActive cfg)(strings_TrimSpace (uf_Key inp) \<mapsto> uf_Active inp)\<rparr>
    \<and> (\<forall>est e. (strings_TrimSpace est, strings_TrimSpace e)
           \<noteq> (strings_TrimSpace (uf_EstablishmentID inp), strings_TrimSpace (uf_Environment inp))
         \<longrightarrow> LoadDocPolicyConfig est e db' = LoadDocPolicyConfig est e db)
    \<and> (\<not> uf_Active inp \<longrightarrow> (\<forall>reg fe.
         \<forall>ta \<in> set (ar_Types (ComputeAvailability reg \<lparr>ai_FEEnrollmentStatus = fe, ai_Config = policy_availability cfg'\<rparr>)).
           ta_Grupo ta = strings_TrimSpace (uf_Key inp)
           \<longrightarrow> \<not> ta_Available ta \<and> ReasonGroupInactive \<in> set (ta_Reasons ta)))"
proof -
  have d: "distinct (map flag_key (rg_doc_groups db))"
    using reachable_inv [OF assms(1) refl] by (simp add: assms(2) registry_world_inv_def registry_inv_def flags_inv_def)
  note up = UpsertDocGroup_Inr [OF assms(3)]
  note load = Load_after_group [OF d up(1)]
  obtain cfg where cfg: "LoadDocPolicyConfig (uf_EstablishmentID inp) (uf_Environment inp) db = Inr cfg" using up(2) by blast
  let ?cfg = "cfg\<lparr>pc_GroupActive := (pc_GroupActive cfg)(strings_TrimSpace (uf_Key inp) \<mapsto> uf_Active inp)\<rparr>"
  have "LoadDocPolicyConfig (uf_EstablishmentID inp) (uf_Environment inp) db' = Inr ?cfg" by (simp add: load cfg)
  moreover have "LoadDocPolicyConfig est e db' = LoadDocPolicyConfig est e db"
    if "(strings_TrimSpace est, strings_TrimSpace e)
      \<noteq> (strings_TrimSpace (uf_EstablishmentID inp), strings_TrimSpace (uf_Environment inp))" for est e
    using that by (auto simp: load split: sum.splits)
  moreover have "\<not> ta_Available ta \<and> ReasonGroupInactive \<in> set (ta_Reasons ta)"
    if "\<not> uf_Active inp" "ta_Grupo ta = strings_TrimSpace (uf_Key inp)"
      "ta \<in> set (ar_Types (ComputeAvailability reg \<lparr>ai_FEEnrollmentStatus = fe, ai_Config = policy_availability ?cfg\<rparr>))" for ta reg fe
    by (rule inactive_group [OF _ that(3,2)]) (simp add: policy_availability_def that(1))
  ultimately show ?thesis using cfg by blast
qed

section \<open>Enrolment\<close>

lemma effective_Some:
  "distinct (map fe_Environment rows) \<Longrightarrow> r \<in> set rows \<Longrightarrow> fe_Environment r = strings_TrimSpace e
   \<Longrightarrow> EffectiveFEStatus rows e = fe_Status r"
  using find_distinct_key [of fe_Environment rows r] by (simp add: EffectiveFEStatus_def)

lemma effective_None:
  "(\<And>r. r \<in> set rows \<Longrightarrow> fe_Environment r \<noteq> strings_TrimSpace e) \<Longrightarrow> EffectiveFEStatus rows e = ''not_enrolled''"
proof -
  assume "\<And>r. r \<in> set rows \<Longrightarrow> fe_Environment r \<noteq> strings_TrimSpace e"
  then have "find (\<lambda>r. fe_Environment r = strings_TrimSpace e) rows = None" by (auto simp: find_None_iff)
  then show ?thesis by (simp add: EffectiveFEStatus_def FEEnrollmentNotEnrolled_def)
qed

lemma effective_read: "map_result read_enrollment rows = Inr es \<Longrightarrow> EffectiveFEStatus es e = EffectiveFEStatus rows e"
  by (induction rows arbitrary: es) (auto simp: EffectiveFEStatus_def Let_def bind_result_Inr read_enrollment_def)

lemma effective_same:
  assumes "distinct (map fe_Environment xs)" "set xs = set ys" "distinct (map fe_Environment ys)"
  shows "EffectiveFEStatus xs e = EffectiveFEStatus ys e"
proof (cases "\<exists>r \<in> set xs. fe_Environment r = strings_TrimSpace e")
  case True
  then show ?thesis using effective_Some assms by metis
next
  case False
  then show ?thesis using effective_None [of xs e] effective_None [of ys e] assms(2) by auto
qed

text \<open>A stored time reads back.\<close>

lemma parse_frac9_pad:
  assumes "n < 1000000"
  shows "parse_frac9 (CHR ''.'' # pad_digits 6 n @ ''Z'') = (int n * 1000, ''Z'')"
proof -
  have "takeWhile is_digit (pad_digits 6 n @ ''Z'') = pad_digits 6 n"
    using pad_digits_all [of 6 n] by (simp add: takeWhile_append2 list_all_iff is_digit_def)
  moreover have "pad_digits 6 n \<noteq> []" using length_pad_digits [of 6 n] by (metis length_0_conv zero_neq_numeral)
  ultimately show ?thesis using assms by (simp add: parse_frac9_def Let_def)
qed

lemma parse_rfc3339_format:
  assumes "year_in_range t"
  shows "parse_rfc3339 (format_utc_micro t) = Some (trunc_us t, 0)"
proof -
  let ?c = "civil_of_time t"
  have year: "0 \<le> cv_year ?c" "cv_year ?c \<le> 9999" using assms by (simp_all add: year_in_range_def)
  define n where "n = nat (cv_nano ?c div 1000)"
  have "0 \<le> cv_nano ?c" "cv_nano ?c < 1000000000" using civil_of_time_ok [of t] by (simp_all add: civil_ok_def second_def)
  then have n: "n < 1000000" by (simp add: n_def nat_less_iff pos_imp_zdiv_nonneg_iff)
  have fmt: "format_utc_micro t = format_seconds ?c @ CHR ''.'' # pad_digits 6 n @ ''Z''"
    by (simp add: format_utc_micro_def Let_def n_def)
  have frac: "parse_frac6 (CHR ''.'' # pad_digits 6 n @ ''Z'') = Some (int n * 1000, ''Z'')" using n by (rule parse_frac6_pad)
  have secs: "parse_seconds (format_utc_micro t) = Some (?c\<lparr>cv_nano := 0\<rparr>, CHR ''.'' # pad_digits 6 n @ ''Z'')"
    unfolding fmt by (rule parse_format_seconds [OF civil_of_time_ok year])
  have "parse_utc_micro (format_utc_micro t) = Some (trunc_us t)" using year by (rule parse_utc_micro_format)
  then have "day_ok (?c\<lparr>cv_nano := 0\<rparr>)" "time_of_civil (?c\<lparr>cv_nano := 0, cv_nano := int n * 1000\<rparr>) = trunc_us t"
    using secs frac by (auto simp: parse_utc_micro_def split: if_splits)
  then show ?thesis using secs parse_frac9_pad [OF n] by (simp add: parse_rfc3339_def parse_zone_def)
qed

lemma reg_parseTime_stamp: "year_in_range t \<Longrightarrow> \<exists>t'. reg_parseTime (stamp dia t) = Inr t'"
  by (simp add: reg_parseTime_def stamp_def parse_rfc3339_format)

lemma UpsertFEEnrollment_Inr:
  assumes "UpsertFEEnrollment dia c inp db = Inr (e, db')"
  shows "strings_TrimSpace (ue_TaxpayerID inp) \<noteq> []"
    "db' = db\<lparr>rg_enrollments := upsert_row enrollment_key
       \<lparr>fe_TaxpayerID = strings_TrimSpace (ue_TaxpayerID inp), fe_Environment = strings_TrimSpace (ue_Environment inp),
        fe_Status = strings_TrimSpace (ue_Status inp), fe_UpdatedAt = stamp dia (trunc_us c)\<rparr> (rg_enrollments db)\<rparr>"
  using assms by (auto simp: UpsertFEEnrollment_def Let_def bind_result_Inr split: if_splits)

lemma filter_upsert_row:
  assumes "\<not> Q row" "\<And>r. k r = k row \<Longrightarrow> \<not> Q r"
  shows "filter Q (upsert_row k row rows) = filter Q rows"
proof -
  have "filter Q (update_where (\<lambda>r. k r = k row) (\<lambda>_. row) rs) = filter Q rs" for rs
    using assms by (induction rs) auto
  then show ?thesis using assms(1) by (simp add: upsert_row_def)
qed

lemma enrollment_envs:
  assumes "distinct (map enrollment_key rows)"
  shows "distinct (map fe_Environment (filter (\<lambda>r. fe_TaxpayerID r = tp) rows))"
proof -
  have "inj_on fe_Environment (set (filter (\<lambda>r. fe_TaxpayerID r = tp) rows))"
    by (rule inj_onI) (use assms in \<open>auto simp: enrollment_key_def intro: unique_key\<close>)
  then show ?thesis using assms by (simp add: distinct_map)
qed

lemma list_enrollments:
  assumes "distinct (map enrollment_key (rg_enrollments db))" "ListFEEnrollments tp db = Inr es"
  shows "EffectiveFEStatus es e = EffectiveFEStatus (filter (\<lambda>r. fe_TaxpayerID r = strings_TrimSpace tp) (rg_enrollments db)) e"
proof -
  let ?rows = "filter (\<lambda>r. fe_TaxpayerID r = strings_TrimSpace tp) (rg_enrollments db)"
  have d: "distinct (map fe_Environment ?rows)" by (rule enrollment_envs [OF assms(1)])
  then have "distinct (map fe_Environment (sort_key fe_Environment ?rows))"
    by (metis distinct_map distinct_sort set_sort)
  moreover have "map_result read_enrollment (sort_key fe_Environment ?rows) = Inr es"
    using assms(2) by (simp add: ListFEEnrollments_def Let_def split: if_splits)
  ultimately show ?thesis using d effective_read effective_same [of "sort_key fe_Environment ?rows" ?rows e] by simp
qed

lemma readable_list:
  assumes "strings_TrimSpace tp \<noteq> []"
  shows "(\<exists>es. ListFEEnrollments tp db = Inr es) \<longleftrightarrow>
    (\<forall>r \<in> set (rg_enrollments db). fe_TaxpayerID r = strings_TrimSpace tp \<longrightarrow> (\<exists>e. read_enrollment r = Inr e))"
proof -
  have "(\<exists>es. map_result read_enrollment rows = Inr es) \<longleftrightarrow> (\<forall>r \<in> set rows. \<exists>e. read_enrollment r = Inr e)" for rows
    by (induction rows) (auto simp: bind_result_Inr)
  from this [of "sort_key fe_Environment (filter (\<lambda>r. fe_TaxpayerID r = strings_TrimSpace tp) (rg_enrollments db))"]
  show ?thesis using assms by (simp add: ListFEEnrollments_def Let_def) blast
qed

text \<open>
  After an enrolment has been recorded the taxpayer's list still reads, the recorded environment has the
  recorded status, every other environment the status it had (not enrolled when there was none), and no other taxpayer's
  list changes.
\<close>

theorem enrollment_recorded:
  assumes "registry_start w" "db = rw_db (fold (registry_step env) es w)"
    and up: "UpsertFEEnrollment dia c inp db = Inr (e, db')" and clock: "year_in_range (trunc_us c)"
    and before: "ListFEEnrollments (ue_TaxpayerID inp) db = Inr old"
  shows "\<exists>new. ListFEEnrollments (ue_TaxpayerID inp) db' = Inr new
    \<and> (\<forall>x. EffectiveFEStatus new x =
         (if strings_TrimSpace x = strings_TrimSpace (ue_Environment inp) then strings_TrimSpace (ue_Status inp)
          else EffectiveFEStatus old x))
    \<and> (\<forall>tp. strings_TrimSpace tp \<noteq> strings_TrimSpace (ue_TaxpayerID inp)
         \<longrightarrow> ListFEEnrollments tp db' = ListFEEnrollments tp db)"
proof -
  let ?tp = "strings_TrimSpace (ue_TaxpayerID inp)" and ?env = "strings_TrimSpace (ue_Environment inp)"
  let ?row = "\<lparr>fe_TaxpayerID = ?tp, fe_Environment = ?env, fe_Status = strings_TrimSpace (ue_Status inp),
    fe_UpdatedAt = stamp dia (trunc_us c)\<rparr>"
  let ?of = "\<lambda>d. filter (\<lambda>r. fe_TaxpayerID r = ?tp) (rg_enrollments d)"
  have d: "distinct (map enrollment_key (rg_enrollments db))"
    using reachable_inv [OF assms(1) refl] by (simp add: assms(2) registry_world_inv_def registry_inv_def enrollments_inv_def)
  note ins = UpsertFEEnrollment_Inr [OF up]
  have rows: "rg_enrollments db' = upsert_row enrollment_key ?row (rg_enrollments db)" by (simp add: ins(2))
  have d': "distinct (map enrollment_key (rg_enrollments db'))" using d by (simp add: rows)
  have mem: "set (?of db') = insert ?row {r \<in> set (?of db). fe_Environment r \<noteq> ?env}"
    by (auto simp: rows set_upsert_row enrollment_key_def)
  have row: "\<exists>e. read_enrollment ?row = Inr e" using reg_parseTime_stamp [OF clock, of dia] by (auto simp: read_enrollment_def)
  have others: "\<exists>e. read_enrollment r = Inr e" if "r \<in> set (?of db)" for r
    using that before readable_list [OF ins(1), of db] by auto
  have "\<exists>e. read_enrollment r = Inr e" if "r \<in> set (?of db')" for r
    using that row others unfolding mem by blast
  then obtain new where new: "ListFEEnrollments (ue_TaxpayerID inp) db' = Inr new"
    using readable_list [OF ins(1), of db'] by auto
  have "EffectiveFEStatus new x = (if strings_TrimSpace x = ?env then strings_TrimSpace (ue_Status inp) else EffectiveFEStatus old x)" for x
  proof (cases "strings_TrimSpace x = ?env")
    case True
    moreover have "?row \<in> set (?of db')" unfolding mem by simp
    ultimately have "EffectiveFEStatus (?of db') x = fe_Status ?row"
      by (intro effective_Some [OF enrollment_envs [OF d']]) simp_all
    then show ?thesis using True list_enrollments [OF d' new] by simp
  next
    case False
    have "EffectiveFEStatus (?of db') x = EffectiveFEStatus (?of db) x"
    proof (cases "\<exists>r \<in> set (?of db). fe_Environment r = strings_TrimSpace x")
      case True
      then obtain r where r: "r \<in> set (?of db)" "fe_Environment r = strings_TrimSpace x" by blast
      then have "r \<in> set (?of db')" using False unfolding mem by simp
      then show ?thesis using effective_Some [OF enrollment_envs [OF d'] _ r(2)] effective_Some [OF enrollment_envs [OF d] r] by simp
    next
      case none: False
      then have "fe_Environment r \<noteq> strings_TrimSpace x" if "r \<in> set (?of db')" for r
        using that False unfolding mem by auto
      then show ?thesis using none effective_None [of "?of db" x] effective_None [of "?of db'" x] by metis
    qed
    then show ?thesis using False list_enrollments [OF d' new] list_enrollments [OF d before] by simp
  qed
  moreover have "ListFEEnrollments tp db' = ListFEEnrollments tp db" if "strings_TrimSpace tp \<noteq> ?tp" for tp
  proof -
    have "filter (\<lambda>r. fe_TaxpayerID r = strings_TrimSpace tp) (rg_enrollments db')
      = filter (\<lambda>r. fe_TaxpayerID r = strings_TrimSpace tp) (rg_enrollments db)"
      unfolding rows by (rule filter_upsert_row) (use that in \<open>auto simp: enrollment_key_def\<close>)
    then show ?thesis by (simp add: ListFEEnrollments_def Let_def)
  qed
  ultimately show ?thesis using new by blast
qed

text \<open>
  \<^verbatim>\<open>GetFEEnrollment\<close> answers with a database error for every taxpayer and environment, enrolled or
  not: its statement compares the environment with two placeholders.
\<close>

theorem get_enrollment_always_fails: "GetFEEnrollment dia tp env db = Inl RegDatabase"
  by (simp add: GetFEEnrollment_def ph_def Let_def numeral_2_eq_2)

end
