(* ===== verification/RegistryExamples.thy ===== *)
theory RegistryExamples
  imports RegistryEffects
begin

text \<open>A registry with one taxpayer, establishment, scope and draft series, and the properties at it.\<close>

definition reg_env :: registry_env where
  "reg_env = \<lparr>re_LoadLocation = luanda_only,
     re_catalog = Inr [(CanonicalFT, \<lparr>en_Grupo = ''vendas'', en_CodigoCanonico = CanonicalFT, en_Designacao = ''Factura'',
       en_Activo = ActiveOn, en_EstadoNormativo = ''hipotese'',
       en_ChannelAdapters = \<lparr>ad_FECode = ''FT'', ad_SAFTType = ''InvoiceType=FT'', ad_SAFTStructure = ''SalesInvoices'',
         ad_Eligibility = ''ambos''\<rparr>\<rparr>)],
     re_dialect = DialectPostgres\<rparr>"

definition taxpayer_id :: string where "taxpayer_id = ''00000000-0000-4000-8000-000000000000''"
definition est_id :: string where "est_id = ''01010101-0101-4101-8101-010101010101''"
definition series_id :: string where "series_id = ''02020202-0202-4202-8202-020202020202''"

definition reg_events :: "registry_event list" where
  "reg_events =
    [EvCreateTaxpayer 1000 (replicate 16 CHR 0x00) \<lparr>ct_NIF = '' 5000 '', ct_LegalName = ''Loja'', ct_Status = []\<rparr>,
     EvCreateEstablishment 2000 (replicate 16 CHR 0x01)
       \<lparr>ce_TaxpayerID = taxpayer_id, ce_Code = ''E1'', ce_Name = ''Sede'', ce_Status = []\<rparr>,
     EvCreateScopeBinding 3000
       \<lparr>cs_ScopeID = ''s'', cs_TaxpayerID = taxpayer_id, cs_EstablishmentID = est_id, cs_Environment = ''homologation'',
        cs_IANATimezone = ''Africa/Luanda'', cs_SeriesEffectiveCode = ''A'', cs_Status = []\<rparr>,
     EvCreateSeries 4000 (replicate 16 CHR 0x02)
       \<lparr>ci_EstablishmentID = est_id, ci_Environment = ''homologation'', ci_CodigoCanonico = CanonicalFT, ci_Code = ''A'',
        ci_ValidFrom = 0\<rparr>]"

definition draft_series :: "sql_time series" where
  "draft_series =
     \<lparr>se_ID = series_id, se_EstablishmentID = est_id, se_Environment = ''homologation'', se_CodigoCanonico = CanonicalFT,
      se_Code = ''A'', se_Status = ''draft'', se_ValidFrom = StampTime 0, se_ValidTo = None, se_Version = 1,
      se_CreatedAt = StampTime 4000, se_UpdatedAt = StampTime 4000\<rparr>"

definition sample_registry :: registry_db where
  "sample_registry =
     \<lparr>rg_taxpayers = [\<lparr>tx_ID = taxpayer_id, tx_NIF = ''5000'', tx_LegalName = ''Loja'', tx_Status = ''active'',
        tx_CreatedAt = StampTime 1000\<rparr>],
      rg_establishments = [\<lparr>es_ID = est_id, es_TaxpayerID = taxpayer_id, es_Code = ''E1'', es_Name = ''Sede'',
        es_Status = ''active'', es_CreatedAt = StampTime 2000\<rparr>],
      rg_scope_bindings = [\<lparr>sb_ScopeID = ''s'', sb_TaxpayerID = taxpayer_id, sb_EstablishmentID = est_id,
        sb_Environment = ''homologation'', sb_IANATimezone = ''Africa/Luanda'', sb_SeriesEffectiveCode = ''A'',
        sb_Status = ''active'', sb_CreatedAt = StampTime 3000\<rparr>],
      rg_series = [draft_series], rg_doc_groups = [], rg_doc_types = [], rg_enrollments = []\<rparr>"

definition empty_world :: registry_world where
  "empty_world = \<lparr>rw_db = empty_registry, rw_open = []\<rparr>"

definition sample_world :: registry_world where
  "sample_world = \<lparr>rw_db = sample_registry, rw_open = []\<rparr>"

lemma empty_world_start: "registry_start empty_world"
  by (simp add: registry_start_def empty_world_def)

lemma reg_run: "sample_world = fold (registry_step reg_env) reg_events empty_world"
  by code_simp

lemma reg_run_db: "sample_registry = rw_db (fold (registry_step reg_env) reg_events empty_world)"
  by (simp add: reg_run [symmetric] sample_world_def)

theorem registry_consistent_witness:
  "\<exists>e \<in> set (rg_establishments sample_registry). es_ID e = est_id \<and> es_TaxpayerID e = taxpayer_id"
  using registry_consistent [OF empty_world_start reg_run_db] by (simp add: sample_registry_def)

section \<open>Two transactions on the draft\<close>

definition activate :: transition_series_input where
  "activate = \<lparr>ts_SeriesID = series_id, ts_ExpectedVersion = 1, ts_ToStatus = ''active''\<rparr>"

definition discard :: transition_series_input where
  "discard = \<lparr>ts_SeriesID = series_id, ts_ExpectedVersion = 1, ts_ToStatus = ''closed''\<rparr>"

definition draft_read :: "gotime series" where
  "draft_read =
     \<lparr>se_ID = series_id, se_EstablishmentID = est_id, se_Environment = ''homologation'', se_CodigoCanonico = CanonicalFT,
      se_Code = ''A'', se_Status = ''draft'', se_ValidFrom = 0, se_ValidTo = None, se_Version = 1,
      se_CreatedAt = 4000, se_UpdatedAt = 4000\<rparr>"

definition racing_world :: registry_world where
  "racing_world = \<lparr>rw_db = sample_registry, rw_open = [(activate, draft_read), (discard, draft_read)]\<rparr>"

lemma racing_run:
  "racing_world = fold (registry_step reg_env) (reg_events @ [EvTransitionRead activate, EvTransitionRead discard]) empty_world"
  by code_simp

definition active_series :: "sql_time series" where
  "active_series = draft_series\<lparr>se_Status := ''active'', se_Version := 2, se_UpdatedAt := StampTime 5000\<rparr>"

lemma activated:
  "transition_write (re_dialect reg_env) 5000 activate draft_read (rw_db racing_world)
   = Inr (draft_read\<lparr>se_Status := ''active'', se_Version := 2, se_UpdatedAt := 5000\<rparr>,
          sample_registry\<lparr>rg_series := [active_series]\<rparr>)"
  by code_simp

text \<open>The second transaction had read the same version; it is refused.\<close>

theorem version_spent_once_witness:
  "transition_write DialectPostgres 6000 discard draft_read
     (rw_db (registry_step reg_env (EvTransitionWrite 0 5000) racing_world)) = Inl (RegConflict ''version'')"
proof -
  have "0 < length (rw_open racing_world)" "rw_open racing_world ! 0 = (activate, draft_read)"
    by (simp_all add: racing_world_def)
  from version_spent_once [OF empty_world_start racing_run this activated fold_Nil [THEN fun_cong, unfolded id_apply, symmetric],
      of discard DialectPostgres 6000 draft_read]
  show ?thesis by (simp add: activate_def discard_def)
qed

theorem series_moves_forward_witness:
  "\<exists>r' \<in> set (rg_series (rw_db (fold (registry_step reg_env) [EvTransitionRead activate, EvTransitionWrite 0 5000] sample_world))).
     se_ID r' = series_id \<and> 1 \<le> se_Version r'"
proof -
  have "draft_series \<in> set (rg_series (rw_db sample_world))" by (simp add: sample_world_def sample_registry_def)
  from series_moves_forward [OF empty_world_start reg_run refl this, of "[EvTransitionRead activate, EvTransitionWrite 0 5000]"]
  show ?thesis by (auto simp: draft_series_def)
qed

theorem series_code_never_reused_witness:
  "CreateSeries (re_catalog reg_env) DialectPostgres 9000 (replicate 16 CHR 0x03)
     \<lparr>ci_EstablishmentID = est_id, ci_Environment = ''homologation'', ci_CodigoCanonico = CanonicalFT, ci_Code = '' A '',
      ci_ValidFrom = 0\<rparr> (rw_db (fold (registry_step reg_env) [] sample_world)) \<noteq> Inr (draft_read, sample_registry)"
proof (rule series_code_never_reused [OF empty_world_start reg_run refl])
  show "draft_series \<in> set (rg_series (rw_db sample_world))" by (simp add: sample_world_def sample_registry_def)
  have "strings_TrimSpace est_id = est_id" "strings_TrimSpace ''homologation'' = ''homologation''"
      "strings_TrimSpace '' A '' = ''A''" by code_simp+
  then show "series_code draft_series =
    (strings_TrimSpace (ci_EstablishmentID \<lparr>ci_EstablishmentID = est_id, ci_Environment = ''homologation'',
       ci_CodigoCanonico = CanonicalFT, ci_Code = '' A '', ci_ValidFrom = 0\<rparr>),
     strings_TrimSpace (ci_Environment \<lparr>ci_EstablishmentID = est_id, ci_Environment = ''homologation'',
       ci_CodigoCanonico = CanonicalFT, ci_Code = '' A '', ci_ValidFrom = 0\<rparr>),
     strings_TrimSpace (ci_Code \<lparr>ci_EstablishmentID = est_id, ci_Environment = ''homologation'',
       ci_CodigoCanonico = CanonicalFT, ci_Code = '' A '', ci_ValidFrom = 0\<rparr>))"
    by (simp add: draft_series_def series_code_def)
qed

theorem transition_succeeds_iff_witness:
  "\<exists>s db'. TransitionSeries DialectPostgres 5000 activate sample_registry = Inr (s, db')"
proof -
  have "strings_TrimSpace series_id = series_id" "strings_TrimSpace ''active'' = ''active''" by code_simp+
  moreover have "read_series draft_series = Inr draft_read" by code_simp
  ultimately show ?thesis
    unfolding transition_succeeds_iff [OF empty_world_start reg_run_db]
    by (simp add: sample_registry_def activate_def draft_series_def)
qed

section \<open>Policy\<close>

definition sales_off :: upsert_flag_input where
  "sales_off = \<lparr>uf_EstablishmentID = est_id, uf_Environment = ''homologation'', uf_Key = ''vendas'', uf_Active = False\<rparr>"

lemma sales_switched:
  "UpsertDocGroupConfig DialectPostgres 7000 sales_off sample_registry
   = Inr ((), sample_registry\<lparr>rg_doc_groups := [flag_row DialectPostgres 7000 sales_off]\<rparr>)"
  by code_simp

theorem group_switch_takes_effect_witness:
  "\<exists>cfg. LoadDocPolicyConfig est_id ''homologation'' (sample_registry\<lparr>rg_doc_groups := [flag_row DialectPostgres 7000 sales_off]\<rparr>)
     = Inr cfg \<and> pc_GroupActive cfg (strings_TrimSpace ''vendas'') = Some False"
  using group_switch_takes_effect [OF empty_world_start reg_run_db sales_switched]
  by (auto simp: sales_off_def)

definition enroll :: upsert_enrollment_input where
  "enroll = \<lparr>ue_TaxpayerID = taxpayer_id, ue_Environment = ''homologation'', ue_Status = ''pending''\<rparr>"

lemma enrolled:
  "UpsertFEEnrollment DialectPostgres 7000 enroll sample_registry
   = Inr (\<lparr>fe_TaxpayerID = taxpayer_id, fe_Environment = ''homologation'', fe_Status = ''pending'', fe_UpdatedAt = 7000\<rparr>,
          sample_registry\<lparr>rg_enrollments :=
            [\<lparr>fe_TaxpayerID = taxpayer_id, fe_Environment = ''homologation'', fe_Status = ''pending'',
              fe_UpdatedAt = StampTime 7000\<rparr>]\<rparr>)"
  by code_simp

theorem enrollment_recorded_witness:
  "\<exists>new. ListFEEnrollments taxpayer_id (sample_registry\<lparr>rg_enrollments :=
            [\<lparr>fe_TaxpayerID = taxpayer_id, fe_Environment = ''homologation'', fe_Status = ''pending'',
              fe_UpdatedAt = StampTime 7000\<rparr>]\<rparr>) = Inr new
     \<and> EffectiveFEStatus new '' homologation '' = strings_TrimSpace ''pending''"
proof -
  have clock: "year_in_range (trunc_us 7000)" by code_simp
  have old: "ListFEEnrollments (ue_TaxpayerID enroll) sample_registry = Inr []" by code_simp
  have env: "strings_TrimSpace '' homologation '' = strings_TrimSpace ''homologation''" by code_simp
  show ?thesis
    using enrollment_recorded [OF empty_world_start reg_run_db enrolled clock old] env by (auto simp: enroll_def)
qed

end
