(* ===== verification/FePath.thy ===== *)
theory FePath
  imports FiscalPrelude
begin

text \<open>
  Which addresses of the e-invoicing services may be built (\<^verbatim>\<open>internal/fepath/fepath.go\<close>) while the
  conflict C-FE-001 between the two snapshots of the paths is open. Messages are reduced to a kind.
\<close>

definition PrefixV1 :: string where "PrefixV1 = ''/sigt/fe/v1''"
definition PrefixWSV1 :: string where "PrefixWSV1 = ''/sigt/fe/ws/v1''"
definition HostHML :: string where "HostHML = ''https://sifphml.minfin.gov.ao''"
definition HostPRD :: string where "HostPRD = ''https://sifp.minfin.gov.ao''"
definition ConflictOpen :: bool where "ConflictOpen = True"
definition ServiceSolicitarSerie :: string where "ServiceSolicitarSerie = ''solicitarSerie''"
definition ServiceListarFacturas :: string where "ServiceListarFacturas = ''listarFacturas''"

definition alignedServices :: "string list" where
  "alignedServices = [''registarFactura'', ''listarSeries'', ''obterEstado'', ''consultarFactura'', ''validarDocumento'']"

datatype path_error = PathEmpty | PathMixed | PathConflictOpen | PathWs | PathNotAligned | PathHost

record path_violation =
  pv_Code :: string

definition fepath_CheckInvariants :: "path_violation list" where
  "fepath_CheckInvariants =
     (if PrefixV1 = PrefixWSV1 then [\<lparr>pv_Code = ''prefix_ids''\<rparr>] else [])
     @ (if \<not> strings_Contains PrefixWSV1 ''/ws/'' then [\<lparr>pv_Code = ''ws_marker''\<rparr>] else [])
     @ (if strings_Contains PrefixV1 ''/ws/'' then [\<lparr>pv_Code = ''v1_clean''\<rparr>] else [])
     @ (if HostHML = HostPRD then [\<lparr>pv_Code = ''hosts''\<rparr>] else [])
     @ (if \<not> ConflictOpen then [\<lparr>pv_Code = ''conflict_flag''\<rparr>] else [])"

definition ServiceHasPathConflict :: "string \<Rightarrow> bool" where
  "ServiceHasPathConflict service \<longleftrightarrow>
     (let s = strings_TrimSpace service in s = ServiceSolicitarSerie \<or> s = ServiceListarFacturas)"

definition ServiceIsAligned :: "string \<Rightarrow> bool" where
  "ServiceIsAligned service \<longleftrightarrow> strings_TrimSpace service \<in> set alignedServices"

definition RejectAmbiguousURL :: "string \<Rightarrow> string \<Rightarrow> path_error + unit" where
  "RejectAmbiguousURL rawURL service =
     (let u = strings_TrimSpace rawURL; svc = strings_TrimSpace service
      in if u = [] \<or> svc = [] then Inl PathEmpty
         else
           let hasV1 = strings_Contains u PrefixV1; hasWS = strings_Contains u PrefixWSV1
           in if hasV1 \<and> hasWS then Inl PathMixed
              else if ConflictOpen \<and> ServiceHasPathConflict svc then Inl PathConflictOpen
              else if ServiceHasPathConflict svc \<and> hasWS then Inl PathWs
              else Inr ())"

definition BuildAlignedURL :: "string \<Rightarrow> string \<Rightarrow> path_error + string" where
  "BuildAlignedURL host service =
     (let h = rev (dropWhile (\<lambda>c. c = CHR ''/'') (rev (strings_TrimSpace host))); svc = strings_TrimSpace service
      in if h = [] \<or> svc = [] then Inl PathEmpty
         else if ConflictOpen \<and> ServiceHasPathConflict svc then Inl PathConflictOpen
         else if \<not> ServiceIsAligned svc then Inl PathNotAligned
         else if h \<noteq> HostHML \<and> h \<noteq> HostPRD then Inl PathHost
         else Inr (h @ PrefixV1 @ ''/'' @ svc))"

lemma package_invariants: "fepath_CheckInvariants = []"
  by code_simp

text \<open>The ten addresses.\<close>

definition aligned_urls :: "string list" where
  "aligned_urls = concat (map (\<lambda>h. map (\<lambda>s. h @ PrefixV1 @ ''/'' @ s) alignedServices) [HostHML, HostPRD])"

lemma aligned_urls_ok: "list_all (\<lambda>u. \<not> strings_Contains u ''/ws/'' \<and> u \<noteq> []
    \<and> strings_TrimSpace u = u \<and> \<not> strings_Contains u PrefixWSV1) aligned_urls"
  by code_simp

lemma BuildAlignedURL_Inr:
  "BuildAlignedURL host service = Inr u \<Longrightarrow> u \<in> set aligned_urls \<and> strings_TrimSpace service \<in> set alignedServices
     \<and> \<not> ServiceHasPathConflict service \<and> strings_TrimSpace service \<noteq> []"
  by (auto simp: BuildAlignedURL_def ServiceIsAligned_def ServiceHasPathConflict_def aligned_urls_def Let_def ConflictOpen_def
      split: if_splits)

text \<open>
  C31: an address is built only for one of the five services on which the two snapshots agree, on one of the two
  hosts, and is one of ten; it never passes through \<^verbatim>\<open>/ws/\<close>, and the guard that rejects ambiguous
  addresses accepts it for that service. For the two services in conflict nothing is ever built or accepted.
\<close>

theorem built_urls_unambiguous:
  "(\<forall>u. BuildAlignedURL host service = Inr u \<longrightarrow>
      u \<in> set aligned_urls \<and> \<not> strings_Contains u ''/ws/'' \<and> RejectAmbiguousURL u service = Inr ())
   \<and> (ServiceHasPathConflict service \<longrightarrow>
        (\<forall>u. BuildAlignedURL host service \<noteq> Inr u) \<and> (\<forall>u. RejectAmbiguousURL u service \<noteq> Inr ()))"
proof (intro conjI allI impI)
  fix u assume b: "BuildAlignedURL host service = Inr u"
  note d = BuildAlignedURL_Inr [OF b]
  show "u \<in> set aligned_urls" using d by blast
  have ok: "\<not> strings_Contains u ''/ws/''" "u \<noteq> []" "strings_TrimSpace u = u" "\<not> strings_Contains u PrefixWSV1"
    using aligned_urls_ok d by (simp_all add: list_all_iff)
  show "\<not> strings_Contains u ''/ws/''" by (rule ok)
  show "RejectAmbiguousURL u service = Inr ()"
    using d ok by (simp add: RejectAmbiguousURL_def ServiceHasPathConflict_def Let_def)
next
  fix u assume "ServiceHasPathConflict service"
  then show "BuildAlignedURL host service \<noteq> Inr u" using BuildAlignedURL_Inr by blast
next
  fix u assume "ServiceHasPathConflict service"
  then show "RejectAmbiguousURL u service \<noteq> Inr ()"
    by (auto simp: RejectAmbiguousURL_def ServiceHasPathConflict_def Let_def ConflictOpen_def)
qed

theorem built_urls_unambiguous_witness:
  "RejectAmbiguousURL ''https://sifphml.minfin.gov.ao/sigt/fe/v1/obterEstado'' '' obterEstado'' = Inr ()"
proof -
  have "BuildAlignedURL ''https://sifphml.minfin.gov.ao/'' '' obterEstado''
      = Inr ''https://sifphml.minfin.gov.ao/sigt/fe/v1/obterEstado''" by code_simp
  then show ?thesis using built_urls_unambiguous by blast
qed

end
