(* ===== verification/GoJsonEncode.thy ===== *)
theory GoJsonEncode
  imports GoJson "HOL-Library.List_Lexorder" "HOL-Library.Char_ord" "HOL-Library.AList"
begin

text \<open>
  What the source uses of \<^verbatim>\<open>json.Marshal\<close>, slices and maps of strings, and \<^verbatim>\<open>json.Unmarshal\<close>
  of such a text. What is written reads back, except that invalid UTF-8 has become U+FFFD.
\<close>

section \<open>Writing\<close>

definition hex_digit :: "nat \<Rightarrow> char" where
  "hex_digit n = (if n < 10 then digit_char n else char_of (87 + n))"

text \<open>The bytes below 0x80: the set that is safe in HTML is written as it is.\<close>

definition escape_ascii :: "char \<Rightarrow> string" where
  "escape_ascii c =
     (if c = quote \<or> c = backslash then [backslash, c]
      else if c = CHR 0x08 then [backslash, CHR ''b''] else if c = CHR 0x0C then [backslash, CHR ''f'']
      else if c = CHR 0x0A then [backslash, CHR ''n''] else if c = CHR 0x0D then [backslash, CHR ''r'']
      else if c = CHR 0x09 then [backslash, CHR ''t'']
      else if byte_val c < 32 \<or> c = CHR ''<'' \<or> c = CHR ''>'' \<or> c = CHR ''&''
      then [backslash, CHR ''u'', CHR ''0'', CHR ''0'', hex_digit (byte_val c div 16), hex_digit (byte_val c mod 16)]
      else [c])"

definition escape_rune :: "nat \<Rightarrow> nat \<Rightarrow> string \<Rightarrow> string" where
  "escape_rune r w bytes =
     (if r = 65533 \<and> w = 1 then backslash # ''ufffd''
      else if r = 8232 then backslash # ''u2028'' else if r = 8233 then backslash # ''u2029''
      else bytes)"

function json_escape :: "string \<Rightarrow> string" where
  "json_escape [] = []"
| "json_escape (c # s) =
     (if byte_val c < 128 then escape_ascii c @ json_escape s
      else case decode_rune (c # s) of (r, w) \<Rightarrow> escape_rune r w (take w (c # s)) @ json_escape (drop (w - 1) s))"
  by pat_completeness auto
termination by (relation "measure length") auto

declare json_escape.simps [simp del]

definition json_quote :: "string \<Rightarrow> string" where
  "json_quote s = quote # json_escape s @ [quote]"

definition json_pair :: "string \<times> string \<Rightarrow> string" where
  "json_pair kv = json_quote (fst kv) @ CHR '':'' # json_quote (snd kv)"

definition json_join :: "string list \<Rightarrow> string" where
  "json_join xs = (case xs of [] \<Rightarrow> [] | x # r \<Rightarrow> x @ concat (map ((#) CHR '','') r))"

text \<open>A nil slice or map is written \<^verbatim>\<open>null\<close>; the members of a map are sorted by key.\<close>

definition marshal_strings :: "string list option \<Rightarrow> string" where
  "marshal_strings v =
     (case v of None \<Rightarrow> ''null'' | Some xs \<Rightarrow> CHR ''['' # json_join (map json_quote xs) @ '']'')"

definition marshal_string_map :: "(string \<times> string) list option \<Rightarrow> string" where
  "marshal_string_map v =
     (case v of None \<Rightarrow> ''null'' | Some kvs \<Rightarrow> CHR ''{'' # json_join (map json_pair (sort_key fst kvs)) @ ''}'')"

section \<open>Reading\<close>

text \<open>The whole text must be one value; nothing is stored otherwise.\<close>

definition json_whole :: "string \<Rightarrow> json option" where
  "json_whole s = (case json_read s of Got v r \<Rightarrow> if list_all json_space r then Some v else None | _ \<Rightarrow> None)"

definition string_or_zero :: "json \<Rightarrow> string" where
  "string_or_zero v = (case v of JStr s \<Rightarrow> s | _ \<Rightarrow> [])"

text \<open>
  \<^verbatim>\<open>_ = json.Unmarshal(text, &v)\<close> into a nil slice or map: the error is dropped, and what could be
  decoded stays.
\<close>

definition unmarshal_strings :: "string \<Rightarrow> string list option" where
  "unmarshal_strings s =
     (case json_whole s of Some (JArr vs) \<Rightarrow> Some (map string_or_zero vs) | _ \<Rightarrow> None)"

definition put_member :: "string \<Rightarrow> string \<Rightarrow> (string \<times> string) list \<Rightarrow> (string \<times> string) list" where
  "put_member k v kvs = AList.update k v kvs"

definition unmarshal_string_map :: "string \<Rightarrow> (string \<times> string) list option" where
  "unmarshal_string_map s =
     (case json_whole s of
        Some (JObj ms) \<Rightarrow> Some (fold (\<lambda>(k, v) kvs. put_member k (string_or_zero v) kvs) ms [])
      | _ \<Rightarrow> None)"

section \<open>What comes back\<close>

text \<open>A string with every invalid byte replaced.\<close>

function valid_utf8 :: "string \<Rightarrow> string" where
  "valid_utf8 [] = []"
| "valid_utf8 (c # s) =
     (case decode_rune (c # s) of
        (r, w) \<Rightarrow> (if r = 65533 \<and> w = 1 then replacement else take w (c # s)) @ valid_utf8 (drop (w - 1) s))"
  by pat_completeness auto
termination by (relation "measure length") auto

declare valid_utf8.simps [simp del]

lemma decode_rune_ascii: "byte_val c < 128 \<Longrightarrow> decode_rune (c # s) = (byte_val c, 1)"
  by (simp add: decode_rune_def Let_def)

lemma valid_utf8_ascii: "byte_val c < 128 \<Longrightarrow> valid_utf8 (c # s) = c # valid_utf8 s"
  by (simp add: valid_utf8.simps decode_rune_ascii)

lemma valid_utf8_plain: "list_all (\<lambda>c. byte_val c < 128) s \<Longrightarrow> valid_utf8 s = s"
  by (induction s) (simp_all add: valid_utf8.simps(1) valid_utf8_ascii)

lemma decode_rune_cases:
  assumes "decode_rune (a # s) = (r, w)" "\<not> (r = 65533 \<and> w = 1)"
  obtains (one) "byte_val a < 128" "w = 1"
    | (two) b t where "s = b # t" "w = 2" "194 \<le> byte_val a" "byte_val a < 224" "cont_byte b"
        "r = (byte_val a - 192) * 64 + (byte_val b - 128)"
    | (three) b c t where "s = b # c # t" "w = 3" "224 \<le> byte_val a" "byte_val a < 240" "cont_byte b" "cont_byte c"
        "r = (byte_val a - 224) * 4096 + (byte_val b - 128) * 64 + (byte_val c - 128)" "2048 \<le> r"
        "\<not> (55296 \<le> r \<and> r < 57344)"
    | (four) b c d t where "s = b # c # d # t" "w = 4" "240 \<le> byte_val a" "byte_val a < 245" "cont_byte b" "cont_byte c"
        "cont_byte d" "r = (byte_val a - 240) * 262144 + (byte_val b - 128) * 4096 + (byte_val c - 128) * 64 + (byte_val d - 128)"
        "65536 \<le> r" "r < 1114112"
  using assms unfolding decode_rune_def Let_def list.case
  by (auto split: list.splits if_splits)

lemma decode_rune_prefix:
  assumes "decode_rune (a # s) = (r, w)" "\<not> (r = 65533 \<and> w = 1)"
  shows "decode_rune (take w (a # s) @ t) = (r, w)"
  using assms
proof (cases rule: decode_rune_cases)
  case one
  then show ?thesis using assms by (simp add: decode_rune_ascii)
next
  case (two b u)
  then show ?thesis by (simp add: decode_rune_def Let_def)
next
  case (three b c u)
  then show ?thesis by (simp add: decode_rune_def Let_def)
next
  case (four b c d u)
  then show ?thesis by (simp add: decode_rune_def Let_def)
qed

lemma decode_rune_bytes:
  assumes "decode_rune (a # s) = (r, w)" "\<not> (r = 65533 \<and> w = 1)" "128 \<le> byte_val a"
  shows "list_all (\<lambda>c. 128 \<le> byte_val c) (take w (a # s))" "length (take w (a # s)) = w" "1 < w"
  using assms(3) by (cases rule: decode_rune_cases [OF assms(1,2)]; simp add: cont_byte_def)+

text \<open>The two separators that are escaped are three bytes long.\<close>

lemma three_bytes:
  assumes "decode_rune (a # s) = (r, w)" "r = 8232 \<or> r = 8233"
  shows "take w (a # s) = encode_rune r"
proof -
  have bad: "\<not> (r = 65533 \<and> w = 1)" using assms(2) by auto
  from assms(1) bad show ?thesis
  proof (cases rule: decode_rune_cases)
    case one
    then show ?thesis using assms by (auto simp: decode_rune_ascii)
  next
    case (two b t)
    then have "byte_val a - 192 < 32" "byte_val b - 128 < 64" by (auto simp: cont_byte_def)
    then have "r < 2048" using two(6) by linarith
    then show ?thesis using assms(2) by auto
  next
    case (three b c t)
    define x y z where "x = byte_val a - 224" and "y = byte_val b - 128" and "z = byte_val c - 128"
    have xyz: "x < 16" "y < 64" "z < 64" "r = x * 4096 + y * 64 + z"
      using three unfolding cont_byte_def x_def y_def z_def by linarith+
    have q: "r div 4096 = x" using xyz by (intro div_nat_eqI) auto
    have q2: "r div 64 = x * 64 + y" using xyz by (intro div_nat_eqI) auto
    then have "r mod 64 = z" using xyz q2 minus_div_mult_eq_mod [of r 64] by linarith
    moreover have "r div 64 mod 64 = y" using q2 xyz(2) by simp
    moreover have "r div 4096 = x" by (rule q)
    moreover have "byte_val a = 224 + x" "byte_val b = 128 + y" "byte_val c = 128 + z"
      using three by (auto simp: cont_byte_def x_def y_def z_def)
    ultimately have "map byte_val [a, b, c] = [224 + r div 4096, 128 + r div 64 mod 64, 128 + r mod 64]" by simp
    then have "[a, b, c] = map char_of [224 + r div 4096, 128 + r div 64 mod 64, 128 + r mod 64]"
      by (metis (no_types, lifting) char_of_char list.simps(8) list.simps(9))
    then show ?thesis using three(1,2) assms(2) by (auto simp: encode_rune_def)
  next
    case (four b c d t)
    then show ?thesis using assms(2) by auto
  qed
qed

section \<open>A written string is scanned whole\<close>

lemma special_bytes [simp]:
  "quote \<noteq> backslash" "backslash \<noteq> quote" "byte_val quote = 34" "byte_val backslash = 92" "\<not> json_space quote"
  "CHR ''u'' \<noteq> quote" "CHR ''u'' \<noteq> backslash" "quote \<noteq> CHR ''u''" "backslash \<noteq> CHR ''u''"
  by (simp_all add: quote_def backslash_def json_space_def)

lemma hex_val_digit [simp]: "n < 16 \<Longrightarrow> hex_val (hex_digit n) = Some n"
  by (simp add: hex_val_def hex_digit_def Let_def of_char_digit_char)

lemma hex_vals [simp]:
  "hex_val CHR ''0'' = Some 0" "hex_val CHR ''2'' = Some 2" "hex_val CHR ''8'' = Some 8" "hex_val CHR ''9'' = Some 9"
  "hex_val CHR ''d'' = Some 13" "hex_val CHR ''f'' = Some 15"
  by (simp_all add: hex_val_def Let_def)

text \<open>A piece of written text goes through when what follows it does.\<close>

lemma scan_simple:
  "scan_string InString t = Got a r \<Longrightarrow> e \<in> set ''bfnrt'' \<or> e = quote \<or> e = backslash \<Longrightarrow>
   scan_string InString (backslash # e # t) = Got (backslash # e # a) r"
  by auto

lemma scan_u:
  assumes "scan_string InString t = Got a r" "hex_val w = Some n1" "hex_val x = Some n2" "hex_val y = Some n3" "hex_val z = Some n4"
  shows "scan_string InString (backslash # CHR ''u'' # w # x # y # z # t) = Got (backslash # CHR ''u'' # w # x # y # z # a) r"
  using assms by simp

lemma scan_plain:
  "scan_string InString t = Got a r \<Longrightarrow> c \<noteq> quote \<Longrightarrow> c \<noteq> backslash \<Longrightarrow> \<not> byte_val c < 32 \<Longrightarrow>
   scan_string InString (c # t) = Got (c # a) r"
  by simp

lemma scan_escape_ascii:
  assumes "scan_string InString t = Got a r" "byte_val c < 128"
  shows "scan_string InString (escape_ascii c @ t) = Got (escape_ascii c @ a) r"
proof -
  have d: "byte_val c div 16 < 16" "byte_val c mod 16 < 16" using assms by auto
  show ?thesis
    unfolding escape_ascii_def
    by (simp add: scan_simple [OF assms(1)] scan_u [OF assms(1)] scan_plain [OF assms(1)] d del: scan_string.simps)
qed

lemma scan_high:
  "scan_string InString t = Got a r \<Longrightarrow> list_all (\<lambda>c. 128 \<le> byte_val c) b \<Longrightarrow> scan_string InString (b @ t) = Got (b @ a) r"
proof (induction b)
  case (Cons c b)
  then have "c \<noteq> quote" "c \<noteq> backslash" "\<not> byte_val c < 32" by auto
  then show ?case using Cons by (simp add: scan_plain del: scan_string.simps)
qed simp

lemma scan_escape_rune:
  assumes t: "scan_string InString t = Got a u" and d: "decode_rune (c # s) = (r, w)" "128 \<le> byte_val c"
  shows "scan_string InString (escape_rune r w (take w (c # s)) @ t) = Got (escape_rune r w (take w (c # s)) @ a) u"
  using scan_high [OF t decode_rune_bytes(1) [OF d(1) _ d(2)]]
  by (simp add: escape_rune_def scan_u [OF t] del: scan_string.simps take_Cons')

lemma scan_escaped: "scan_string InString (json_escape s @ quote # t) = Got (json_escape s) t"
proof (induction s rule: json_escape.induct)
  case 1
  then show ?case by (simp add: json_escape.simps)
next
  case (2 c s)
  show ?case
  proof (cases "byte_val c < 128")
    case True
    then show ?thesis using scan_escape_ascii [OF 2(1) [OF True] True] by (simp add: json_escape.simps(2))
  next
    case False
    obtain r w where d: "decode_rune (c # s) = (r, w)" by fastforce
    have "128 \<le> byte_val c" using False by simp
    from scan_escape_rune [OF 2(2) [OF False d [symmetric]] d this] False d
    show ?thesis by (simp add: json_escape.simps(2))
  qed
qed

section \<open>and reads back\<close>

lemma unquote_plain: "byte_val c < 128 \<Longrightarrow> c \<noteq> backslash \<Longrightarrow> unquote (c # s) = c # unquote s"
  by (simp add: unquote.simps)

lemma unquote_simple: "e \<noteq> CHR ''u'' \<Longrightarrow> unquote (backslash # e # s) = simple_escape e # unquote s"
  by (simp add: unquote.simps)

lemma unquote_u:
  assumes "hex_val w = Some n1" "hex_val x = Some n2" "hex_val y = Some n3" "hex_val z = Some n4"
    and "n = ((n1 * 16 + n2) * 16 + n3) * 16 + n4" "\<not> (55296 \<le> n \<and> n < 57344)"
  shows "unquote (backslash # CHR ''u'' # w # x # y # z # s) = encode_rune n @ unquote s"
  using assms by (simp add: unquote.simps unescape_u_def hex4_def Let_def)

lemma simple_escapes [simp]:
  "simple_escape quote = quote" "simple_escape backslash = backslash" "simple_escape CHR ''b'' = CHR 0x08"
  "simple_escape CHR ''f'' = CHR 0x0C" "simple_escape CHR ''n'' = CHR 0x0A" "simple_escape CHR ''r'' = CHR 0x0D"
  "simple_escape CHR ''t'' = CHR 0x09"
  by (simp_all add: simple_escape_def quote_def backslash_def)

lemma encode_replacement: "encode_rune 65533 = replacement"
proof -
  have "char_of (239 :: nat) = CHR 0xEF" "char_of (191 :: nat) = CHR 0xBF" "char_of (189 :: nat) = CHR 0xBD"
    using char_of_char [of "CHR 0xEF", where 'a = nat] char_of_char [of "CHR 0xBF", where 'a = nat]
      char_of_char [of "CHR 0xBD", where 'a = nat] by simp_all
  then show ?thesis by (simp add: encode_rune_def replacement_def)
qed

lemma unquote_escape_ascii:
  assumes "byte_val c < 128"
  shows "unquote (escape_ascii c @ t) = c # unquote t"
proof -
  have d: "byte_val c div 16 < 16" "byte_val c mod 16 < 16" "byte_val c div 16 * 16 + byte_val c mod 16 = byte_val c" using assms by auto
  have "unquote (backslash # CHR ''u'' # CHR ''0'' # CHR ''0'' # hex_digit (byte_val c div 16) # hex_digit (byte_val c mod 16) # t)
      = encode_rune (byte_val c) @ unquote t"
    by (rule unquote_u [of _ 0 _ 0 _ "byte_val c div 16" _ "byte_val c mod 16"]) (use d assms in simp_all)
  then show ?thesis
    using assms
    by (simp add: escape_ascii_def unquote_simple unquote_plain encode_rune_def)
qed

lemma unquote_escape_rune:
  assumes d: "decode_rune (c # s) = (r, w)" "128 \<le> byte_val c"
  shows "unquote (escape_rune r w (take w (c # s)) @ t)
    = (if r = 65533 \<and> w = 1 then replacement else take w (c # s)) @ unquote t"
proof -
  have bad: "unquote (backslash # ''ufffd'' @ t) = replacement @ unquote t"
    using unquote_u [of "CHR ''f''" 15 "CHR ''f''" 15 "CHR ''f''" 15 "CHR ''d''" 13 65533 t]
    by (simp add: encode_replacement)
  have seps: "unquote (backslash # ''u2028'' @ t) = encode_rune 8232 @ unquote t"
    "unquote (backslash # ''u2029'' @ t) = encode_rune 8233 @ unquote t"
    using unquote_u [of "CHR ''2''" 2 "CHR ''0''" 0 "CHR ''2''" 2 "CHR ''8''" 8 8232 t]
      unquote_u [of "CHR ''2''" 2 "CHR ''0''" 0 "CHR ''2''" 2 "CHR ''9''" 9 8233 t] by simp_all
  have plain: "unquote (take w (c # s) @ t) = take w (c # s) @ unquote t" if ok: "\<not> (r = 65533 \<and> w = 1)"
  proof -
    note b = decode_rune_bytes(2,3) [OF d(1) ok d(2)]
    obtain v where v: "w = Suc v" using b(2) by (cases w) auto
    have "decode_rune (c # (take v s @ t)) = (r, w)" using decode_rune_prefix [OF d(1) ok, of t] by (simp add: v)
    moreover have "c \<noteq> backslash" using d(2) by auto
    moreover have "length (take v s) = v" using b(1) by (simp add: v)
    ultimately show ?thesis using d(2) ok by (auto simp: v unquote.simps)
  qed
  show ?thesis
    using bad seps plain three_bytes [OF d(1)] by (auto simp: escape_rune_def)
qed

lemma unquote_escape: "unquote (json_escape s) = valid_utf8 s"
proof (induction s rule: json_escape.induct)
  case 1
  then show ?case by (simp add: json_escape.simps unquote.simps valid_utf8.simps)
next
  case (2 c s)
  show ?case
  proof (cases "byte_val c < 128")
    case True
    then show ?thesis using 2(1) by (simp add: json_escape.simps(2) unquote_escape_ascii valid_utf8_ascii)
  next
    case False
    obtain r w where d: "decode_rune (c # s) = (r, w)" by fastforce
    have "128 \<le> byte_val c" using False by simp
    from unquote_escape_rune [OF d this] 2(2) [OF False d [symmetric]] False d
    show ?thesis by (simp add: json_escape.simps(2) valid_utf8.simps(2))
  qed
qed

lemma run_step:
  "complete_value m fs = None \<Longrightarrow> \<not> json_space c \<Longrightarrow> json_step m fs c r = Step m' fs' r' \<Longrightarrow>
   json_run m fs (c # r) = json_run m' fs' r'"
  by (simp add: json_run.simps [of m fs])

lemma punctuation [simp]:
  "\<not> json_space CHR ''[''" "\<not> json_space CHR '']''" "\<not> json_space CHR ''{''" "\<not> json_space CHR ''}''"
  "\<not> json_space CHR '',''" "\<not> json_space CHR '':''" "quote \<noteq> CHR ''{''" "quote \<noteq> CHR ''[''" "quote \<noteq> CHR '']''" "quote \<noteq> CHR ''}''"
  by (simp_all add: json_space_def quote_def)

lemma scan_quoted: "after_scan (scan_string InString (json_escape s @ quote # r)) f fs = Step (f (json_escape s)) fs r"
  by (simp add: scan_escaped)

lemma run_string:
  "json_run BeginValue fs (json_quote s @ r) = json_run (EndValue (JStr (valid_utf8 s))) fs r"
  "json_run BeginValueOrEmpty (FArr vs # fs) (json_quote s @ r) = json_run (EndValue (JStr (valid_utf8 s))) (FArr vs # fs) r"
  by (simp_all add: json_quote_def run_step begin_value_def scan_quoted unquote_escape)

lemma run_key:
  "json_run BeginString fs (json_quote s @ r) = json_run (WantColon (valid_utf8 s)) fs r"
  "json_run BeginStringOrEmpty (FObj kvs k # fs) (json_quote s @ r) = json_run (WantColon (valid_utf8 s)) (FObj kvs k # fs) r"
  by (simp_all add: json_quote_def run_step scan_quoted unquote_escape)

lemma run_elements:
  "json_run (EndValue v) (FArr vs # fs) (concat (map ((#) CHR '','') (map json_quote xs)) @ CHR '']'' # r)
   = json_run (EndValue (JArr (rev vs @ v # map (\<lambda>s. JStr (valid_utf8 s)) xs))) fs r"
proof (induction xs arbitrary: v vs)
  case Nil
  then show ?case by (simp add: run_step)
next
  case (Cons x xs)
  then show ?case by (simp add: run_step run_string)
qed

lemma run_members:
  "json_run (EndValue v) (FObj kvs k # fs) (concat (map ((#) CHR '','') (map json_pair ms)) @ CHR ''}'' # r)
   = json_run (EndValue (JObj (rev kvs @ (k, v) # map (\<lambda>(a, b). (valid_utf8 a, JStr (valid_utf8 b))) ms))) fs r"
proof (induction ms arbitrary: v kvs k)
  case Nil
  then show ?case by (simp add: run_step)
next
  case (Cons m ms)
  then show ?case by (simp add: run_step run_string run_key json_pair_def case_prod_beta)
qed

lemma json_read_strings: "json_read (marshal_strings (Some xs) @ r) = Got (JArr (map (\<lambda>s. JStr (valid_utf8 s)) xs)) r"
proof (cases xs)
  case Nil
  then show ?thesis by (simp add: json_read_def marshal_strings_def json_join_def run_step begin_value_def push_frame_def
        maxNestingDepth_def json_run.simps [of "EndValue _"])
next
  case (Cons y ys)
  then show ?thesis
    by (simp add: json_read_def marshal_strings_def json_join_def run_step begin_value_def push_frame_def
        maxNestingDepth_def run_string run_elements [of _ "[]" "[]", simplified] json_run.simps [of "EndValue _" "[]"])
qed

lemma json_read_map:
  "json_read (marshal_string_map (Some kvs) @ r)
   = Got (JObj (map (\<lambda>(a, b). (valid_utf8 a, JStr (valid_utf8 b))) (sort_key fst kvs))) r"
proof (cases "sort_key fst kvs")
  case Nil
  then show ?thesis by (simp add: json_read_def marshal_string_map_def json_join_def run_step begin_value_def push_frame_def
        maxNestingDepth_def json_run.simps [of "EndValue _"])
next
  case (Cons y ys)
  then show ?thesis
    by (simp add: json_read_def marshal_string_map_def json_join_def run_step begin_value_def push_frame_def
        maxNestingDepth_def run_string run_key json_pair_def case_prod_beta
        run_members [of _ "[]" _ "[]", simplified json_pair_def case_prod_beta, simplified] json_run.simps [of "EndValue _" "[]"])
qed

lemma strings_roundtrip: "unmarshal_strings (marshal_strings v) = map_option (map valid_utf8) v"
proof (cases v)
  case None
  have "json_run BeginValue [] ''null'' = json_run (EndValue JNull) [] []"
    by (rule run_step) (simp_all add: begin_value_def json_space_def quote_def is_digit_def)
  then show ?thesis
    by (simp add: None marshal_strings_def unmarshal_strings_def json_whole_def json_read_def json_run.simps [of "EndValue _" "[]"])
next
  case (Some xs)
  then show ?thesis
    using json_read_strings [of xs "[]"] by (simp add: unmarshal_strings_def json_whole_def string_or_zero_def comp_def)
qed

lemma put_members_fresh:
  "distinct (map fst (acc @ kvs)) \<Longrightarrow> fold (\<lambda>(k, v) kvs. put_member k v kvs) kvs acc = acc @ kvs"
proof (induction kvs arbitrary: acc)
  case (Cons kv kvs)
  have "AList.update k v al = al @ [(k, v)]" if "k \<notin> fst ` set al" for k v and al :: "(string \<times> string) list"
    using that by (induction al) auto
  then show ?case using Cons by (auto simp: put_member_def case_prod_beta)
qed simp

text \<open>A map of valid strings comes back, sorted by key.\<close>

lemma map_roundtrip:
  assumes "distinct (map fst kvs)" "\<And>k v. (k, v) \<in> set kvs \<Longrightarrow> valid_utf8 k = k \<and> valid_utf8 v = v"
  shows "unmarshal_string_map (marshal_string_map (Some kvs)) = Some (sort_key fst kvs)"
proof -
  let ?s = "sort_key fst kvs"
  have plain: "map (\<lambda>(a, b). (valid_utf8 a, JStr (valid_utf8 b))) ?s = map (\<lambda>(a, b). (a, JStr b)) ?s"
    using assms(2) by (auto intro!: map_cong)
  have put: "fold (\<lambda>(k, v) kvs. put_member k (string_or_zero v) kvs) (map (\<lambda>(a, b). (a, JStr b)) xs) acc
      = fold (\<lambda>(k, v) kvs. put_member k v kvs) xs acc" for xs acc
    by (induction xs arbitrary: acc) (auto simp: string_or_zero_def)
  have "distinct (map fst ?s)" using assms(1) by (metis distinct_map distinct_sort set_sort)
  then have all: "fold (\<lambda>(k, v) kvs. put_member k v kvs) ?s [] = ?s" using put_members_fresh [of "[]" ?s] by simp
  have "json_read (marshal_string_map (Some kvs)) = Got (JObj (map (\<lambda>(a, b). (a, JStr b)) ?s)) []"
    using json_read_map [of kvs "[]"] unfolding plain by simp
  then show ?thesis by (simp add: unmarshal_string_map_def json_whole_def put all)
qed

end
