(* ===== verification/AuthorityProfile.thy ===== *)
theory AuthorityProfile
  imports EstablishmentPolicy FePath GoJsonEncode
begin

text \<open>
  The profiles that prepare the connection to the tax authority
  (\<^verbatim>\<open>internal/adminregistry/authority_profile.go\<close>, migration 0007). A profile names references to
  secrets, never secrets. The registry of taxpayers and scopes is read, the rows of profiles are the state. Slices
  and maps of strings are stored as JSON text, written and read by \<open>GoJsonEncode\<close>; a nil slice is \<open>None\<close>, a map the
  list of its entries in the order of the iteration. Both databases keep microseconds of a time.
\<close>

section \<open>Data\<close>

definition AuthorityStatusDraft :: string where "AuthorityStatusDraft = ''draft''"
definition AuthorityStatusValidated :: string where "AuthorityStatusValidated = ''validated''"
definition AuthorityStatusActive :: string where "AuthorityStatusActive = ''active''"
definition AuthorityStatusRevoked :: string where "AuthorityStatusRevoked = ''revoked''"

definition KnownAuthorityOperations :: "string list" where
  "KnownAuthorityOperations =
     [''registarFactura'', ''solicitarSerie'', ''listarSeries'', ''obterEstado'', ''listarFacturas'', ''consultarFactura'',
      ''validarDocumento'']"

record authority_profile =
  pf_ID :: string
  pf_Environment :: string
  pf_TaxpayerID :: string
  pf_ScopeID :: string
  pf_DisplayName :: string
  pf_Status :: string
  pf_AllowedOperations :: "string list option"
  pf_PendingExternal :: "(string \<times> string) list option"
  pf_ProducerCredentialRef :: string
  pf_ProducerKeyRef :: string
  pf_CertificateRef :: string
  pf_AlgorithmDeclared :: string
  pf_KeyIDSanitized :: string
  pf_FingerprintSanitized :: string
  pf_ExpiresAt :: "gotime option"
  pf_ConfigReady :: bool
  pf_SecretsReady :: bool
  pf_OfflineValidated :: bool
  pf_ExternalVerified :: bool
  pf_CreatedAt :: gotime
  pf_UpdatedAt :: gotime

record profile_row =
  pw_profile_id :: string
  pw_environment :: string
  pw_taxpayer_id :: "string option"
  pw_scope_id :: "string option"
  pw_display_name :: string
  pw_status :: string
  pw_allowed_operations :: string
  pw_pending_external :: string
  pw_producer_credential_ref :: string
  pw_producer_key_ref :: string
  pw_certificate_ref :: string
  pw_algorithm_declared :: string
  pw_key_id_sanitized :: string
  pw_fingerprint_sanitized :: string
  pw_expires_at :: "sql_time option"
  pw_config_ready :: sql_any
  pw_secrets_ready :: sql_any
  pw_offline_validated :: sql_any
  pw_external_verified :: sql_any
  pw_created_at :: sql_time
  pw_updated_at :: sql_time

definition profile_check :: "profile_row \<Rightarrow> bool" where
  "profile_check r \<longleftrightarrow>
     sql_nonempty (pw_profile_id r) \<and> pw_environment r \<in> {''homologation'', ''production''}
     \<and> sql_nonempty (pw_display_name r) \<and> pw_status r \<in> {''draft'', ''validated'', ''active'', ''revoked''}
     \<and> \<not> decodeBool (pw_external_verified r)"

section \<open>Validation\<close>

definition looksLikeSecret :: "string \<Rightarrow> bool" where
  "looksLikeSecret s \<longleftrightarrow>
     (let low = go_lower s
      in strings_Contains low ''begin '' \<or> strings_Contains low ''private'' \<or> strings_Contains low ''password''
         \<or> strings_Contains low ''-----'' \<or> strings_Contains low ''bearer '' \<or> strings_Contains low ''basic '')"

definition sanitizeRefName :: "string \<Rightarrow> string \<Rightarrow> string" where
  "sanitizeRefName inp fallback =
     (let s = strings_TrimSpace inp
      in if s = [] then fallback else if RuneCountInString s > 64 \<or> looksLikeSecret s then fallback else s)"

definition validAuthorityStatus :: "string \<Rightarrow> bool" where
  "validAuthorityStatus s \<longleftrightarrow>
     s = AuthorityStatusDraft \<or> s = AuthorityStatusValidated \<or> s = AuthorityStatusActive \<or> s = AuthorityStatusRevoked"

definition validateAlgorithmDeclared :: "string \<Rightarrow> reg_error + unit" where
  "validateAlgorithmDeclared ad = ensure (ad = ''RS256'' \<or> ad = ''pending_external'') (RegValidation ''algorithm_declared'')"

definition enforceActivationGate :: "authority_profile \<Rightarrow> reg_error + unit" where
  "enforceActivationGate p =
     (if pf_ExternalVerified p then Inl (RegValidation ''external_verified'')
      else if pf_Status p \<noteq> AuthorityStatusActive then Inr ()
      else if \<not> pf_ConfigReady p \<or> \<not> pf_SecretsReady p \<or> \<not> pf_OfflineValidated p then Inl (RegValidation ''activation'')
      else Inr ())"

definition go_append :: "'a list option \<Rightarrow> 'a \<Rightarrow> 'a list option" where
  "go_append xs x = (case xs of None \<Rightarrow> Some [x] | Some ys \<Rightarrow> Some (ys @ [x]))"

text \<open>The loop over the operations, with the set of those seen and the slice so far.\<close>

fun allowed_loop :: "string list \<Rightarrow> string list \<Rightarrow> string list option \<Rightarrow> reg_error + string list option" where
  "allowed_loop [] seen out = Inr out"
| "allowed_loop (o0 # os) seen out =
     (let op = strings_TrimSpace o0
      in if op = [] then allowed_loop os seen out
         else if op \<notin> set KnownAuthorityOperations then Inl (RegValidation ''operation'')
         else if ConflictOpen \<and> ServiceHasPathConflict op then Inl (RegValidation ''conflict_open'')
         else if op \<in> set seen then allowed_loop os seen out
         else allowed_loop os (op # seen) (go_append out op))"

definition validateAllowedOperations :: "string list option \<Rightarrow> reg_error + string list option" where
  "validateAllowedOperations ops =
     (case ops of
        None \<Rightarrow> Inr (Some [])
      | Some os \<Rightarrow> if length os > 32 then Inl (RegValidation ''allowed_operations'') else allowed_loop os [] None)"

fun pending_loop :: "(string \<times> string) list \<Rightarrow> (string \<times> string) list \<Rightarrow> reg_error + (string \<times> string) list" where
  "pending_loop [] out = Inr out"
| "pending_loop ((k0, v0) # m) out =
     (let k = strings_TrimSpace k0; v = strings_TrimSpace v0
      in if k = [] \<or> RuneCountInString k > 64 then Inl (RegValidation ''pending_external key'')
         else if RuneCountInString v > 256 \<or> looksLikeSecret v \<or> looksLikeSecret k
         then Inl (RegValidation ''pending_external value'')
         else pending_loop m (put_member k v out))"

definition validatePendingExternal :: "(string \<times> string) list option \<Rightarrow> reg_error + (string \<times> string) list option" where
  "validatePendingExternal m =
     (case m of
        None \<Rightarrow> Inr (Some [])
      | Some kvs \<Rightarrow> if length kvs > 32 then Inl (RegValidation ''pending_external'')
                    else bind_result (pending_loop kvs []) (\<lambda>out. Inr (Some out)))"

section \<open>Rows\<close>

definition time_or_zero :: "sql_time \<Rightarrow> gotime" where
  "time_or_zero v = (case reg_parseTime v of Inr t \<Rightarrow> t | Inl _ \<Rightarrow> zero_time)"

text \<open>An end that is blank or does not parse is no end.\<close>

definition scan_expiry :: "sql_time option \<Rightarrow> gotime option" where
  "scan_expiry v =
     (case v of
        None \<Rightarrow> None
      | Some (StampTime t) \<Rightarrow> Some t
      | Some (TextTime s) \<Rightarrow>
          if strings_TrimSpace s = [] then None
          else (case reg_parseTime (TextTime s) of Inr t \<Rightarrow> Some t | Inl _ \<Rightarrow> None))"

definition string_or_empty :: "string option \<Rightarrow> string" where
  "string_or_empty v = (case v of None \<Rightarrow> [] | Some s \<Rightarrow> s)"

definition scanAuthorityProfile :: "profile_row \<Rightarrow> authority_profile" where
  "scanAuthorityProfile r =
     \<lparr>pf_ID = pw_profile_id r, pf_Environment = pw_environment r, pf_TaxpayerID = string_or_empty (pw_taxpayer_id r),
      pf_ScopeID = string_or_empty (pw_scope_id r), pf_DisplayName = pw_display_name r, pf_Status = pw_status r,
      pf_AllowedOperations =
        (case unmarshal_strings (pw_allowed_operations r) of None \<Rightarrow> Some [] | Some xs \<Rightarrow> Some xs),
      pf_PendingExternal =
        (case unmarshal_string_map (pw_pending_external r) of None \<Rightarrow> Some [] | Some kvs \<Rightarrow> Some kvs),
      pf_ProducerCredentialRef = pw_producer_credential_ref r, pf_ProducerKeyRef = pw_producer_key_ref r,
      pf_CertificateRef = pw_certificate_ref r, pf_AlgorithmDeclared = pw_algorithm_declared r,
      pf_KeyIDSanitized = pw_key_id_sanitized r, pf_FingerprintSanitized = pw_fingerprint_sanitized r,
      pf_ExpiresAt = scan_expiry (pw_expires_at r), pf_ConfigReady = decodeBool (pw_config_ready r),
      pf_SecretsReady = decodeBool (pw_secrets_ready r), pf_OfflineValidated = decodeBool (pw_offline_validated r),
      pf_ExternalVerified = False, pf_CreatedAt = time_or_zero (pw_created_at r), pf_UpdatedAt = time_or_zero (pw_updated_at r)\<rparr>"

definition stamp_us :: "dialect \<Rightarrow> gotime \<Rightarrow> sql_time" where
  "stamp_us dia t = stamp dia (trunc_us t)"

definition profile_row_of :: "dialect \<Rightarrow> authority_profile \<Rightarrow> profile_row" where
  "profile_row_of dia p =
     \<lparr>pw_profile_id = pf_ID p, pw_environment = pf_Environment p, pw_taxpayer_id = nullStr (pf_TaxpayerID p),
      pw_scope_id = nullStr (pf_ScopeID p), pw_display_name = pf_DisplayName p, pw_status = pf_Status p,
      pw_allowed_operations = marshal_strings (pf_AllowedOperations p),
      pw_pending_external = marshal_string_map (pf_PendingExternal p),
      pw_producer_credential_ref = pf_ProducerCredentialRef p, pw_producer_key_ref = pf_ProducerKeyRef p,
      pw_certificate_ref = pf_CertificateRef p, pw_algorithm_declared = pf_AlgorithmDeclared p,
      pw_key_id_sanitized = pf_KeyIDSanitized p, pw_fingerprint_sanitized = pf_FingerprintSanitized p,
      pw_expires_at = map_option (stamp_us dia) (pf_ExpiresAt p), pw_config_ready = encodeBool dia (pf_ConfigReady p),
      pw_secrets_ready = encodeBool dia (pf_SecretsReady p), pw_offline_validated = encodeBool dia (pf_OfflineValidated p),
      pw_external_verified = encodeBool dia False, pw_created_at = stamp_us dia (pf_CreatedAt p),
      pw_updated_at = stamp_us dia (pf_UpdatedAt p)\<rparr>"

definition GetAuthorityProfile :: "string \<Rightarrow> profile_row list \<Rightarrow> reg_error + authority_profile" where
  "GetAuthorityProfile i0 rows =
     (let i = strings_TrimSpace i0
      in if i = [] then Inl (RegValidation ''profile_id'')
         else bind_result (one_row (\<lambda>r. pw_profile_id r = i) rows) (\<lambda>r. Inr (scanAuthorityProfile r)))"

definition ListAuthorityProfiles :: "profile_row list \<Rightarrow> authority_profile list" where
  "ListAuthorityProfiles rows = map scanAuthorityProfile (sort_key (\<lambda>r. (pw_environment r, pw_created_at r)) rows)"

section \<open>Creating\<close>

record create_profile_input =
  cp_Environment :: string
  cp_TaxpayerID :: string
  cp_ScopeID :: string
  cp_DisplayName :: string
  cp_Status :: string
  cp_AllowedOperations :: "string list option"
  cp_PendingExternal :: "(string \<times> string) list option"
  cp_ProducerCredentialRef :: string
  cp_ProducerKeyRef :: string
  cp_CertificateRef :: string
  cp_AlgorithmDeclared :: string
  cp_KeyIDSanitized :: string
  cp_FingerprintSanitized :: string
  cp_ExpiresAt :: "gotime option"

definition validate_sanitized :: "nat \<Rightarrow> string \<Rightarrow> string \<Rightarrow> reg_error + unit" where
  "validate_sanitized n s field = ensure (s = [] \<or> \<not> (RuneCountInString s > n \<or> looksLikeSecret s)) (RegValidation field)"

definition normalizeCreateAuthority :: "create_profile_input \<Rightarrow> reg_error + authority_profile" where
  "normalizeCreateAuthority inp =
     (let env = strings_TrimSpace (cp_Environment inp); dn = strings_TrimSpace (cp_DisplayName inp);
          st0 = strings_TrimSpace (cp_Status inp); st = (if st0 = [] then AuthorityStatusDraft else st0);
          ad = strings_TrimSpace (cp_AlgorithmDeclared inp); kid = strings_TrimSpace (cp_KeyIDSanitized inp);
          fp = strings_TrimSpace (cp_FingerprintSanitized inp)
      in if env \<noteq> EnvHomologation \<and> env \<noteq> EnvProduction then Inl (RegValidation ''environment'')
         else if dn = [] \<or> RuneCountInString dn > 120 then Inl (RegValidation ''display_name'')
         else if \<not> validAuthorityStatus st then Inl (RegValidation ''status'')
         else
           bind_result (validateAllowedOperations (cp_AllowedOperations inp)) (\<lambda>ops.
           bind_result (validatePendingExternal (cp_PendingExternal inp)) (\<lambda>pe.
           bind_result (if ad = [] then Inr () else validateAlgorithmDeclared ad) (\<lambda>_.
           bind_result (validate_sanitized 64 kid ''key_id_sanitized'') (\<lambda>_.
           bind_result (validate_sanitized 128 fp ''fingerprint_sanitized'') (\<lambda>_.
             Inr \<lparr>pf_ID = [], pf_Environment = env, pf_TaxpayerID = strings_TrimSpace (cp_TaxpayerID inp),
                  pf_ScopeID = strings_TrimSpace (cp_ScopeID inp), pf_DisplayName = dn, pf_Status = st,
                  pf_AllowedOperations = ops, pf_PendingExternal = pe,
                  pf_ProducerCredentialRef = sanitizeRefName (cp_ProducerCredentialRef inp) [],
                  pf_ProducerKeyRef = sanitizeRefName (cp_ProducerKeyRef inp) [],
                  pf_CertificateRef = sanitizeRefName (cp_CertificateRef inp) [], pf_AlgorithmDeclared = ad,
                  pf_KeyIDSanitized = kid, pf_FingerprintSanitized = fp, pf_ExpiresAt = cp_ExpiresAt inp,
                  pf_ConfigReady = False, pf_SecretsReady = False, pf_OfflineValidated = False,
                  pf_ExternalVerified = False, pf_CreatedAt = zero_time, pf_UpdatedAt = zero_time\<rparr>))))))"

definition CreateAuthorityProfile ::
  "dialect \<Rightarrow> gotime \<Rightarrow> string \<Rightarrow> create_profile_input \<Rightarrow> registry_db \<Rightarrow> profile_row list
   \<Rightarrow> reg_error + authority_profile \<times> profile_row list" where
  "CreateAuthorityProfile dia now raw inp db rows =
     bind_result (normalizeCreateAuthority inp) (\<lambda>p.
     bind_result (if cp_TaxpayerID inp \<noteq> [] then requireTaxpayer (cp_TaxpayerID inp) db else Inr ()) (\<lambda>_.
     bind_result (if cp_ScopeID inp \<noteq> [] then bind_result (GetScopeBinding (cp_ScopeID inp) db) (\<lambda>_. Inr ()) else Inr ()) (\<lambda>_.
     let p = p\<lparr>pf_ID := newID raw, pf_CreatedAt := now, pf_UpdatedAt := now, pf_ExternalVerified := False\<rparr>
     in bind_result (enforceActivationGate p) (\<lambda>_.
        let row = profile_row_of dia p
        in if profile_check row \<and> \<not> list_ex (\<lambda>r. pw_profile_id r = pf_ID p) rows then Inr (p, rows @ [row])
           else Inl RegDatabase))))"

section \<open>Updating\<close>

record update_profile_input =
  up_ProfileID :: string
  up_DisplayName :: string
  up_Status :: string
  up_AllowedOperations :: "string list option"
  up_PendingExternal :: "(string \<times> string) list option"
  up_ProducerCredentialRef :: string
  up_ProducerKeyRef :: string
  up_CertificateRef :: string
  up_AlgorithmDeclared :: string
  up_KeyIDSanitized :: string
  up_FingerprintSanitized :: string
  up_ExpiresAt :: "gotime option"
  up_ConfigReady :: "bool option"
  up_SecretsReady :: "bool option"
  up_OfflineValidated :: "bool option"

definition patch_names :: "update_profile_input \<Rightarrow> authority_profile \<Rightarrow> reg_error + authority_profile" where
  "patch_names inp cur =
     (let dn = strings_TrimSpace (up_DisplayName inp); st = strings_TrimSpace (up_Status inp)
      in if dn \<noteq> [] \<and> RuneCountInString dn > 120 then Inl (RegValidation ''display_name'')
         else
           let cur = (if dn \<noteq> [] then cur\<lparr>pf_DisplayName := dn\<rparr> else cur)
           in if st \<noteq> [] \<and> \<not> validAuthorityStatus st then Inl (RegValidation ''status'')
              else Inr (if st \<noteq> [] then cur\<lparr>pf_Status := st\<rparr> else cur))"

definition patch_collections :: "update_profile_input \<Rightarrow> authority_profile \<Rightarrow> reg_error + authority_profile" where
  "patch_collections inp cur =
     bind_result (case up_AllowedOperations inp of
         None \<Rightarrow> Inr cur
       | Some os \<Rightarrow> bind_result (validateAllowedOperations (Some os)) (\<lambda>ops. Inr (cur\<lparr>pf_AllowedOperations := ops\<rparr>))) (\<lambda>cur.
     case up_PendingExternal inp of
         None \<Rightarrow> Inr cur
       | Some m \<Rightarrow> bind_result (validatePendingExternal (Some m)) (\<lambda>pe. Inr (cur\<lparr>pf_PendingExternal := pe\<rparr>)))"

definition patch_references :: "update_profile_input \<Rightarrow> authority_profile \<Rightarrow> reg_error + authority_profile" where
  "patch_references inp cur =
     (if up_ProducerCredentialRef inp = [] \<and> up_ProducerKeyRef inp = [] \<and> up_CertificateRef inp = []
         \<and> up_AlgorithmDeclared inp = [] \<and> up_KeyIDSanitized inp = [] \<and> up_FingerprintSanitized inp = []
      then Inr cur
      else
        let cur = cur\<lparr>pf_ProducerCredentialRef := sanitizeRefName (up_ProducerCredentialRef inp) (pf_ProducerCredentialRef cur),
                      pf_ProducerKeyRef := sanitizeRefName (up_ProducerKeyRef inp) (pf_ProducerKeyRef cur),
                      pf_CertificateRef := sanitizeRefName (up_CertificateRef inp) (pf_CertificateRef cur)\<rparr>;
            ad = strings_TrimSpace (up_AlgorithmDeclared inp); k = strings_TrimSpace (up_KeyIDSanitized inp);
            f = strings_TrimSpace (up_FingerprintSanitized inp)
        in bind_result (if ad = [] then Inr () else validateAlgorithmDeclared ad) (\<lambda>_.
           bind_result (validate_sanitized 64 k ''key_id_sanitized'') (\<lambda>_.
           bind_result (validate_sanitized 128 f ''fingerprint_sanitized'') (\<lambda>_.
             Inr (cur\<lparr>pf_AlgorithmDeclared := (if ad = [] then pf_AlgorithmDeclared cur else ad),
                      pf_KeyIDSanitized := (if k = [] then pf_KeyIDSanitized cur else k),
                      pf_FingerprintSanitized := (if f = [] then pf_FingerprintSanitized cur else f)\<rparr>)))))"

definition given :: "'a option \<Rightarrow> 'a \<Rightarrow> 'a" where
  "given v old = (case v of None \<Rightarrow> old | Some x \<Rightarrow> x)"

definition patch_flags :: "update_profile_input \<Rightarrow> authority_profile \<Rightarrow> authority_profile" where
  "patch_flags inp cur =
     cur\<lparr>pf_ExpiresAt := (case up_ExpiresAt inp of None \<Rightarrow> pf_ExpiresAt cur | Some t \<Rightarrow> Some t),
         pf_ConfigReady := given (up_ConfigReady inp) (pf_ConfigReady cur),
         pf_SecretsReady := given (up_SecretsReady inp) (pf_SecretsReady cur),
         pf_OfflineValidated := given (up_OfflineValidated inp) (pf_OfflineValidated cur),
         pf_ExternalVerified := False\<rparr>"

text \<open>The statement writes every column but the identifier, the environment, the owner, the scope and the creation.\<close>

definition profile_set :: "profile_row \<Rightarrow> profile_row \<Rightarrow> profile_row" where
  "profile_set new r =
     new\<lparr>pw_profile_id := pw_profile_id r, pw_environment := pw_environment r, pw_taxpayer_id := pw_taxpayer_id r,
         pw_scope_id := pw_scope_id r, pw_created_at := pw_created_at r\<rparr>"

definition UpdateAuthorityProfile ::
  "dialect \<Rightarrow> gotime \<Rightarrow> update_profile_input \<Rightarrow> profile_row list \<Rightarrow> reg_error + authority_profile \<times> profile_row list" where
  "UpdateAuthorityProfile dia now inp rows =
     bind_result (GetAuthorityProfile (up_ProfileID inp) rows) (\<lambda>cur.
     bind_result (patch_names inp cur) (\<lambda>cur.
     bind_result (patch_collections inp cur) (\<lambda>cur.
     bind_result (patch_references inp cur) (\<lambda>cur.
     let cur = patch_flags inp cur
     in bind_result (enforceActivationGate cur) (\<lambda>_.
        let cur = cur\<lparr>pf_UpdatedAt := now\<rparr>; hit = (\<lambda>r. pw_profile_id r = pf_ID cur);
            rows' = update_where hit (profile_set (profile_row_of dia cur)) rows
        in if \<not> list_all profile_check rows' then Inl RegDatabase
           else if filter hit rows = [] then Inl RegNotFound
           else Inr (cur, rows'))))))"

end
