(* ===== verification/AuthorityProperties.thy ===== *)
theory AuthorityProperties
  imports AuthorityProfile RegistryEffects
begin

text \<open>
  Properties of the authority profiles: what every profile that is ever read satisfies, when one can be activated,
  and that a created profile reads back.
\<close>

section \<open>Rows and profiles\<close>

definition stored_operations :: "string list option \<Rightarrow> string list option" where
  "stored_operations ops = Some (case ops of None \<Rightarrow> [] | Some xs \<Rightarrow> map valid_utf8 xs)"

lemma read_operations:
  "(case unmarshal_strings (marshal_strings ops) of None \<Rightarrow> Some [] | Some xs \<Rightarrow> Some xs) = stored_operations ops"
  by (simp add: strings_roundtrip stored_operations_def split: option.splits)

lemma scan_row_of:
  "scanAuthorityProfile (profile_row_of dia p) =
   p\<lparr>pf_AllowedOperations := stored_operations (pf_AllowedOperations p),
     pf_PendingExternal := (case unmarshal_string_map (marshal_string_map (pf_PendingExternal p)) of
        None \<Rightarrow> Some [] | Some kvs \<Rightarrow> Some kvs),
     pf_ExpiresAt := scan_expiry (map_option (stamp_us dia) (pf_ExpiresAt p)), pf_ExternalVerified := False,
     pf_CreatedAt := time_or_zero (stamp_us dia (pf_CreatedAt p)), pf_UpdatedAt := time_or_zero (stamp_us dia (pf_UpdatedAt p))\<rparr>"
  by (cases p) (simp add: scanAuthorityProfile_def profile_row_of_def read_operations nullStr_def string_or_empty_def)

section \<open>What is vetted\<close>

definition vetted_operations :: "string list option \<Rightarrow> bool" where
  "vetted_operations ops \<longleftrightarrow>
     (case ops of None \<Rightarrow> True | Some xs \<Rightarrow> set xs \<subseteq> set alignedServices \<and> distinct xs)"

definition vetted :: "authority_profile \<Rightarrow> bool" where
  "vetted p \<longleftrightarrow>
     pf_Environment p \<in> {''homologation'', ''production''}
     \<and> vetted_operations (pf_AllowedOperations p)
     \<and> pf_AlgorithmDeclared p \<in> {[], ''RS256'', ''pending_external''}
     \<and> \<not> looksLikeSecret (pf_ProducerCredentialRef p) \<and> \<not> looksLikeSecret (pf_ProducerKeyRef p)
     \<and> \<not> looksLikeSecret (pf_CertificateRef p)
     \<and> \<not> looksLikeSecret (pf_KeyIDSanitized p) \<and> \<not> looksLikeSecret (pf_FingerprintSanitized p)"

definition gated :: "authority_profile \<Rightarrow> bool" where
  "gated p \<longleftrightarrow>
     \<not> pf_ExternalVerified p
     \<and> (pf_Status p = ''active'' \<longrightarrow> pf_ConfigReady p \<and> pf_SecretsReady p \<and> pf_OfflineValidated p)"

lemma gate_iff: "enforceActivationGate p = Inr u \<longleftrightarrow> gated p"
  by (auto simp: enforceActivationGate_def gated_def AuthorityStatusActive_def)

lemma aligned_operation: "o1 \<in> set KnownAuthorityOperations \<Longrightarrow> \<not> ServiceHasPathConflict o1 \<Longrightarrow> o1 \<in> set alignedServices"
proof -
  have "list_all (\<lambda>s. s \<in> set alignedServices \<or> ServiceHasPathConflict s) KnownAuthorityOperations" by code_simp
  then show "o1 \<in> set KnownAuthorityOperations \<Longrightarrow> \<not> ServiceHasPathConflict o1 \<Longrightarrow> o1 \<in> set alignedServices"
    by (auto simp: list_all_iff)
qed

lemma aligned_valid: "o1 \<in> set alignedServices \<Longrightarrow> valid_utf8 o1 = o1"
proof -
  have "list_all (\<lambda>s. list_all (\<lambda>c. byte_val c < 128) s) alignedServices" by (simp add: alignedServices_def)
  then show "o1 \<in> set alignedServices \<Longrightarrow> valid_utf8 o1 = o1" by (auto simp: list_all_iff intro!: valid_utf8_plain)
qed

lemma vetted_stored:
  assumes "vetted_operations ops"
  shows "vetted_operations (stored_operations ops)"
proof (cases ops)
  case None
  then show ?thesis by (simp add: vetted_operations_def stored_operations_def)
next
  case (Some xs)
  then have "map valid_utf8 xs = xs"
    using assms aligned_valid by (auto simp: vetted_operations_def intro!: map_idI)
  then show ?thesis using assms by (simp add: Some vetted_operations_def stored_operations_def)
qed

text \<open>The set of operations seen is the set of those kept.\<close>

lemma allowed_loop_vetted:
  assumes "allowed_loop os seen out = Inr out'" "vetted_operations out" "set seen = set (given out [])"
  shows "vetted_operations out'"
  using assms
proof (induction os seen out rule: allowed_loop.induct)
  case (2 o0 os seen out)
  let ?o = "strings_TrimSpace o0"
  consider "?o = []" | "?o \<noteq> []" "?o \<in> set seen" | "?o \<noteq> []" "?o \<notin> set seen" by blast
  then show ?case
  proof cases
    case 3
    have "?o \<in> set alignedServices" and "allowed_loop os (?o # seen) (go_append out ?o) = Inr out'"
      using 2(4) 3 by (auto simp: Let_def ConflictOpen_def intro: aligned_operation split: if_splits)
    moreover have "vetted_operations (go_append out ?o)" "set (?o # seen) = set (given (go_append out ?o) [])"
      using 2(5,6) 3 calculation(1)
      by (auto simp: vetted_operations_def go_append_def given_def split: option.splits)
    ultimately show ?thesis using 2(3) 2(4) 3 by (auto simp: Let_def split: if_splits)
  qed (use 2 in \<open>auto simp: Let_def split: if_splits\<close>)
qed simp

lemma validateAllowedOperations_vetted: "validateAllowedOperations ops = Inr out \<Longrightarrow> vetted_operations out"
  by (auto simp: validateAllowedOperations_def vetted_operations_def given_def split: option.splits if_splits
      dest!: allowed_loop_vetted)

lemma empty_no_secret [simp]: "\<not> looksLikeSecret []"
  by (simp add: looksLikeSecret_def strings_Contains_def)

lemma sanitizeRefName_clean: "\<not> looksLikeSecret fallback \<Longrightarrow> \<not> looksLikeSecret (sanitizeRefName s fallback)"
  by (simp add: sanitizeRefName_def Let_def)

lemma validate_sanitized_clean: "validate_sanitized n s field = Inr u \<Longrightarrow> \<not> looksLikeSecret s"
  by (auto simp: validate_sanitized_def)

lemma normalize_vetted: "normalizeCreateAuthority inp = Inr p \<Longrightarrow> vetted p"
  by (auto simp: normalizeCreateAuthority_def Let_def bind_result_Inr vetted_def EnvHomologation_def EnvProduction_def
      validateAlgorithmDeclared_def sanitizeRefName_clean dest: validateAllowedOperations_vetted validate_sanitized_clean
      split: if_splits)

lemma patch_references_vetted:
  assumes "patch_references inp p = Inr q" "vetted p"
  shows "vetted q"
proof (cases "q = p")
  case False
  define ad where "ad = strings_TrimSpace (up_AlgorithmDeclared inp)"
  define k where "k = strings_TrimSpace (up_KeyIDSanitized inp)"
  define f where "f = strings_TrimSpace (up_FingerprintSanitized inp)"
  define p' where "p' = p\<lparr>pf_ProducerCredentialRef := sanitizeRefName (up_ProducerCredentialRef inp) (pf_ProducerCredentialRef p),
         pf_ProducerKeyRef := sanitizeRefName (up_ProducerKeyRef inp) (pf_ProducerKeyRef p),
         pf_CertificateRef := sanitizeRefName (up_CertificateRef inp) (pf_CertificateRef p),
         pf_AlgorithmDeclared := (if ad = [] then pf_AlgorithmDeclared p else ad),
         pf_KeyIDSanitized := (if k = [] then pf_KeyIDSanitized p else k),
         pf_FingerprintSanitized := (if f = [] then pf_FingerprintSanitized p else f)\<rparr>"
  have "bind_result (if ad = [] then Inr () else validateAlgorithmDeclared ad) (\<lambda>_.
       bind_result (validate_sanitized 64 k ''key_id_sanitized'') (\<lambda>_.
       bind_result (validate_sanitized 128 f ''fingerprint_sanitized'') (\<lambda>_. Inr p'))) = Inr q"
    using assms(1) False by (simp add: patch_references_def Let_def ad_def k_def f_def p'_def split: if_splits)
  then obtain a1 a2 a3 :: unit where ok:
      "(if ad = [] then Inr () else validateAlgorithmDeclared ad) = Inr a1"
      "validate_sanitized 64 k ''key_id_sanitized'' = Inr a2" "validate_sanitized 128 f ''fingerprint_sanitized'' = Inr a3"
      "q = p'"
    unfolding bind_result_Inr by blast
  have "ad = [] \<or> ad = ''RS256'' \<or> ad = ''pending_external''"
    using ok(1) by (auto simp: validateAlgorithmDeclared_def split: if_splits)
  moreover note validate_sanitized_clean [OF ok(2)] validate_sanitized_clean [OF ok(3)]
  ultimately show ?thesis
    using assms(2) unfolding ok(4) vetted_def p'_def by (simp add: sanitizeRefName_clean) blast
qed (use assms in simp)

lemma patch_names_Inr:
  "patch_names inp p = Inr q \<Longrightarrow> \<exists>dn st. q = p\<lparr>pf_DisplayName := dn, pf_Status := st\<rparr>"
  unfolding patch_names_def Let_def
  by (cases p) (auto split: if_splits)

lemma patch_collections_Inr:
  "patch_collections inp p = Inr q \<Longrightarrow>
   \<exists>ops pe. q = p\<lparr>pf_AllowedOperations := ops, pf_PendingExternal := pe\<rparr>
     \<and> (ops = pf_AllowedOperations p \<or> (\<exists>os. validateAllowedOperations os = Inr ops))"
  unfolding patch_collections_def
  by (cases p) (auto simp: bind_result_Inr split: option.splits)

lemma patch_vetted:
  "patch_names inp p = Inr q \<Longrightarrow> vetted p \<Longrightarrow> vetted q"
  "patch_collections inp p = Inr q \<Longrightarrow> vetted p \<Longrightarrow> vetted q"
  "patch_references inp p = Inr q \<Longrightarrow> vetted p \<Longrightarrow> vetted q"
  "vetted p \<Longrightarrow> vetted (patch_flags inp p)"
     apply (drule patch_names_Inr, auto simp: vetted_def) [1]
    apply (drule patch_collections_Inr, auto simp: vetted_def dest: validateAllowedOperations_vetted) [1]
   apply (erule (1) patch_references_vetted)
  apply (simp add: patch_flags_def vetted_def)
  done

section \<open>The table of profiles\<close>

datatype profile_event =
  EvProfileCreate gotime string create_profile_input registry_db
| EvProfileUpdate gotime update_profile_input

text \<open>The registry a creation reads is whatever it is at that moment.\<close>

fun profile_step :: "dialect \<Rightarrow> profile_event \<Rightarrow> profile_row list \<Rightarrow> profile_row list" where
  "profile_step dia (EvProfileCreate now raw inp db) rows = written (CreateAuthorityProfile dia now raw inp db rows) rows"
| "profile_step dia (EvProfileUpdate now inp) rows = written (UpdateAuthorityProfile dia now inp rows) rows"

definition profile_inv :: "profile_row list \<Rightarrow> bool" where
  "profile_inv rows \<longleftrightarrow>
     distinct (map pw_profile_id rows) \<and> list_all profile_check rows
     \<and> (\<forall>r \<in> set rows. vetted (scanAuthorityProfile r) \<and> gated (scanAuthorityProfile r))"

lemma vetted_scan: "vetted p \<Longrightarrow> vetted (scanAuthorityProfile (profile_row_of dia p))"
  by (simp add: scan_row_of vetted_def vetted_stored)

lemma gated_scan: "gated p \<Longrightarrow> gated (scanAuthorityProfile (profile_row_of dia p))"
  by (simp add: scan_row_of gated_def)

lemma profile_set_fields:
  assumes "vetted (scanAuthorityProfile r)" "vetted (scanAuthorityProfile new)" "gated (scanAuthorityProfile new)"
  shows "vetted (scanAuthorityProfile (profile_set new r))" "gated (scanAuthorityProfile (profile_set new r))"
  using assms by (simp_all add: scanAuthorityProfile_def profile_set_def vetted_def gated_def)

lemma create_inv:
  assumes "CreateAuthorityProfile dia now raw inp db rows = Inr (p, rows')" "profile_inv rows"
  shows "profile_inv rows'"
proof -
  obtain q where q: "normalizeCreateAuthority inp = Inr q"
    "p = q\<lparr>pf_ID := newID raw, pf_CreatedAt := now, pf_UpdatedAt := now, pf_ExternalVerified := False\<rparr>" "gated p"
    "profile_check (profile_row_of dia p)" "pf_ID p \<notin> pw_profile_id ` set rows" "rows' = rows @ [profile_row_of dia p]"
    using assms(1) by (auto simp: CreateAuthorityProfile_def Let_def bind_result_Inr gate_iff list_ex_key split: if_splits)
  have "vetted p" using normalize_vetted [OF q(1)] by (simp add: q(2) vetted_def)
  moreover have "pw_profile_id (profile_row_of dia p) = pf_ID p" by (simp add: profile_row_of_def)
  ultimately show ?thesis
    using assms(2) q(3-6) by (auto simp: profile_inv_def vetted_scan gated_scan)
qed

lemma one_scan: "GetAuthorityProfile i rows = Inr p \<Longrightarrow> \<exists>r \<in> set rows. p = scanAuthorityProfile r \<and> pf_ID p = pw_profile_id r"
  by (auto simp: GetAuthorityProfile_def Let_def bind_result_Inr scanAuthorityProfile_def dest!: one_row_Inr split: if_splits)

lemma update_inv:
  assumes "UpdateAuthorityProfile dia now inp rows = Inr (p, rows')" "profile_inv rows"
  shows "profile_inv rows'"
proof -
  obtain p0 p1 p2 p3 where st: "GetAuthorityProfile (up_ProfileID inp) rows = Inr p0" "patch_names inp p0 = Inr p1"
      "patch_collections inp p1 = Inr p2" "patch_references inp p2 = Inr p3"
    and p: "p = (patch_flags inp p3)\<lparr>pf_UpdatedAt := now\<rparr>" "gated (patch_flags inp p3)"
    and rows': "rows' = update_where (\<lambda>r. pw_profile_id r = pf_ID p) (profile_set (profile_row_of dia p)) rows"
      "list_all profile_check rows'"
    using assms(1) by (auto simp: UpdateAuthorityProfile_def Let_def bind_result_Inr gate_iff split: if_splits)
  have "vetted p0" using one_scan [OF st(1)] assms(2) by (auto simp: profile_inv_def)
  then have "vetted p3" by (meson patch_vetted(1,2,3) st(2-4))
  then have "vetted p" "gated p"
    using patch_vetted(4) [of p3 inp] p by (simp_all add: vetted_def gated_def)
  then have new: "vetted (scanAuthorityProfile (profile_row_of dia p))" "gated (scanAuthorityProfile (profile_row_of dia p))"
    by (simp_all add: vetted_scan gated_scan)
  have "vetted (scanAuthorityProfile r) \<and> gated (scanAuthorityProfile r)" if "r \<in> set rows'" for r
    using that assms(2) profile_set_fields [OF _ new] by (auto simp: rows'(1) set_update_where profile_inv_def)
  moreover have "distinct (map pw_profile_id rows')"
    using assms(2) by (simp add: rows'(1) profile_inv_def profile_set_def)
  ultimately show ?thesis using rows'(2) by (simp add: profile_inv_def)
qed

lemma profile_step_inv: "profile_inv rows \<Longrightarrow> profile_inv (profile_step dia e rows)"
  by (cases e) (auto simp: written_def split: sum.splits dest: create_inv update_inv)

interpretation profiles: invariant_machine "\<lambda>rows. rows = []" "profile_step dia" profile_inv for dia
proof (unfold_locales)
  fix rows :: "profile_row list" assume "rows = []"
  then show "profile_inv rows" by (simp add: profile_inv_def)
qed (rule profile_step_inv)

text \<open>
  C40: whatever creations and updates have run, reading a profile fails only for an unknown or blank identifier, and a
  profile that is read is active only with configuration, secrets and
  offline validation all ready, is never marked externally verified, allows only operations on which the two snapshots
  of the service agree, each once, declares only a known algorithm, and no reference, key identifier or
  fingerprint of it looks like a secret.
\<close>

theorem authority_profiles_safe:
  "case GetAuthorityProfile i (fold (profile_step dia) es []) of
     Inl e \<Rightarrow> e \<in> {RegNotFound, RegValidation ''profile_id''}
   | Inr p \<Rightarrow>
       gated p \<and> vetted p \<and> \<not> pf_ExternalVerified p
       \<and> (if pf_Status p = ''active'' then pf_ConfigReady p \<and> pf_SecretsReady p \<and> pf_OfflineValidated p else True)
       \<and> (\<exists>xs. pf_AllowedOperations p = Some xs \<and> set xs \<subseteq> set alignedServices \<and> distinct xs)
       \<and> pf_AlgorithmDeclared p \<in> {[], ''RS256'', ''pending_external''}
       \<and> \<not> list_ex looksLikeSecret [pf_ProducerCredentialRef p, pf_ProducerKeyRef p, pf_CertificateRef p,
            pf_KeyIDSanitized p, pf_FingerprintSanitized p]"
proof (cases "GetAuthorityProfile i (fold (profile_step dia) es [])")
  case (Inl e)
  then show ?thesis
    by (auto simp: GetAuthorityProfile_def Let_def bind_result_def one_row_def split: if_splits option.splits sum.splits)
next
  case (Inr p)
  let ?rows = "fold (profile_step dia) es []"
  have inv: "profile_inv ?rows" using profiles.reach_inv by blast
  obtain r where r: "r \<in> set ?rows" "p = scanAuthorityProfile r" using one_scan [OF Inr] by blast
  then have v: "vetted p" "gated p" using inv by (auto simp: profile_inv_def)
  obtain xs where "pf_AllowedOperations p = Some xs"
    by (cases "unmarshal_strings (pw_allowed_operations r)") (simp_all add: r(2) scanAuthorityProfile_def)
  then show ?thesis using v Inr by (simp add: vetted_def gated_def vetted_operations_def)
qed

end
