(* ===== verification/SecretStore.thy ===== *)
theory SecretStore
  imports AdminRegistry
begin

text \<open>
  The write-only store of secrets (\<^verbatim>\<open>internal/secretstore/secretstore.go\<close>, \<^verbatim>\<open>sqlstore.go\<close>, migration
  0013): the interface \<^verbatim>\<open>Vault\<close>, its implementation in memory and its implementation in SQL. AES-GCM and SHA-256
  are parameters. Every operation is one critical section or one transaction. The nonce that is drawn, the clock
  and the error of the context, if it is done, are arguments.
\<close>

section \<open>References and metadata\<close>

definition vault_EnvHomologation :: string where "vault_EnvHomologation = ''homologation''"
definition vault_EnvProduction :: string where "vault_EnvProduction = ''production''"
definition StatusAbsent :: string where "StatusAbsent = ''absent''"
definition StatusPresent :: string where "StatusPresent = ''present''"
definition StatusRotating :: string where "StatusRotating = ''rotating''"
definition StatusRevoked :: string where "StatusRevoked = ''revoked''"

definition KindProducerCredential :: string where "KindProducerCredential = ''producer_credential''"
definition KindProducerKey :: string where "KindProducerKey = ''producer_key''"
definition KindTaxpayerKey :: string where "KindTaxpayerKey = ''taxpayer_key''"
definition KindCertificate :: string where "KindCertificate = ''certificate''"

datatype vault_error =
  VaultValidation string | VaultWriteOnly | VaultNotFound | VaultEnvIsolation | VaultRevoked
| VaultContext string | VaultCipher | VaultTime | VaultDatabase

record ref =
  rf_Kind :: string
  rf_Environment :: string
  rf_SubjectID :: string
  rf_Name :: string

definition ref_Key :: "ref \<Rightarrow> string" where
  "ref_Key r =
     strings_Join (map strings_TrimSpace [rf_Kind r, rf_Environment r, rf_SubjectID r, rf_Name r]) ''/''"

record metadata =
  md_Ref :: ref
  md_Status :: string
  md_Fingerprint :: string
  md_ExpiresAt :: "gotime option"
  md_LastVerifiedAt :: "gotime option"
  md_Version :: int
  md_Environment :: string

definition ValidKind :: "string \<Rightarrow> bool" where
  "ValidKind kind \<longleftrightarrow>
     strings_TrimSpace kind \<in> {KindProducerCredential, KindProducerKey, KindTaxpayerKey, KindCertificate}"

definition MaxCredentialBytes :: int where "MaxCredentialBytes = 8192"
definition MaxPEMBytes :: int where "MaxPEMBytes = 65536"

definition MaxBytesForKind :: "string \<Rightarrow> int" where
  "MaxBytesForKind kind =
     (let k = strings_TrimSpace kind
      in if k = KindProducerCredential then MaxCredentialBytes
         else if k \<in> {KindProducerKey, KindTaxpayerKey, KindCertificate} then MaxPEMBytes else MaxCredentialBytes)"

definition validateRef :: "ref \<Rightarrow> vault_error + unit" where
  "validateRef r =
     (let kind = strings_TrimSpace (rf_Kind r); env = strings_TrimSpace (rf_Environment r)
      in if kind = [] \<or> strings_TrimSpace (rf_SubjectID r) = [] \<or> strings_TrimSpace (rf_Name r) = []
         then Inl (VaultValidation ''kind/subject/name'')
         else if \<not> ValidKind kind then Inl (VaultValidation ''kind'')
         else ensure (env = vault_EnvHomologation \<or> env = vault_EnvProduction) (VaultValidation ''environment''))"

definition validatePlaintext :: "ref \<Rightarrow> string \<Rightarrow> vault_error + unit" where
  "validatePlaintext r plaintext =
     (if plaintext = [] then Inl (VaultValidation ''empty'')
      else ensure (\<not> int (length plaintext) > MaxBytesForKind (rf_Kind r)) (VaultValidation ''large''))"

definition validate_environment :: "string \<Rightarrow> vault_error + string" where
  "validate_environment environment =
     (let env = strings_TrimSpace environment
      in if env = vault_EnvHomologation \<or> env = vault_EnvProduction then Inr env else Inl (VaultValidation ''environment''))"

text \<open>Rows are ordered by kind, subject and name.\<close>

definition sortMetadata :: "metadata list \<Rightarrow> metadata list" where
  "sortMetadata = sort_key (\<lambda>m. (rf_Kind (md_Ref m), rf_SubjectID (md_Ref m), rf_Name (md_Ref m)))"

definition CopyAcrossEnvironments :: "ref \<Rightarrow> ref \<Rightarrow> vault_error + unit" where
  "CopyAcrossEnvironments from to =
     bind_result (validateRef from) (\<lambda>_. bind_result (validateRef to) (\<lambda>_.
       if rf_Environment from = rf_Environment to then Inl (VaultValidation ''same environment'')
       else Inl VaultEnvIsolation))"

definition AdminRevealDenied :: "ref \<Rightarrow> vault_error + string" where
  "AdminRevealDenied r = Inl VaultWriteOnly"

section \<open>The interface\<close>

record draw =
  vd_ctx :: "string option"
  vd_nonce :: string
  vd_now :: gotime

record aead =
  ae_Seal :: "string \<Rightarrow> string \<Rightarrow> string \<Rightarrow> string"
  ae_Open :: "string \<Rightarrow> string \<Rightarrow> string \<Rightarrow> string option"

record 's vault_ops =
  op_Put :: "draw \<Rightarrow> ref \<Rightarrow> string \<Rightarrow> gotime option \<Rightarrow> 's \<Rightarrow> vault_error + metadata \<times> 's"
  op_Rotate :: "draw \<Rightarrow> ref \<Rightarrow> string \<Rightarrow> gotime option \<Rightarrow> 's \<Rightarrow> vault_error + metadata \<times> 's"
  op_Revoke :: "draw \<Rightarrow> ref \<Rightarrow> 's \<Rightarrow> vault_error + metadata \<times> 's"
  op_Metadata :: "draw \<Rightarrow> ref \<Rightarrow> 's \<Rightarrow> vault_error + metadata"
  op_ListMetadata :: "draw \<Rightarrow> string \<Rightarrow> 's \<Rightarrow> vault_error + metadata list"
  op_Reveal :: "draw \<Rightarrow> ref \<Rightarrow> 's \<Rightarrow> vault_error + string \<times> 's"
  op_StorageMode :: string

definition ctx_alive :: "draw \<Rightarrow> vault_error + unit" where
  "ctx_alive d = (case vd_ctx d of None \<Rightarrow> Inr () | Some c \<Rightarrow> Inl (VaultContext c))"

definition StorageModeEphemeralMemory :: string where "StorageModeEphemeralMemory = ''ephemeral_memory''"
definition StorageModeDurableEncrypted :: string where "StorageModeDurableEncrypted = ''durable_encrypted''"

definition hex_EncodeToString :: "string \<Rightarrow> string" where
  "hex_EncodeToString s = concat (map hex_byte s)"

text \<open>The metadata of material that has just been written.\<close>

definition fresh_metadata :: "(string \<Rightarrow> string) \<Rightarrow> ref \<Rightarrow> string \<Rightarrow> gotime option \<Rightarrow> int \<Rightarrow> string \<Rightarrow> metadata" where
  "fresh_metadata sha256 r plaintext expiresAt version status =
     \<lparr>md_Ref = r, md_Status = status, md_Fingerprint = hex_EncodeToString (sha256 plaintext), md_ExpiresAt = expiresAt,
      md_LastVerifiedAt = None, md_Version = version, md_Environment = rf_Environment r\<rparr>"

definition absent_metadata :: "ref \<Rightarrow> metadata" where
  "absent_metadata r =
     \<lparr>md_Ref = r, md_Status = StatusAbsent, md_Fingerprint = [], md_ExpiresAt = None, md_LastVerifiedAt = None,
      md_Version = 0, md_Environment = rf_Environment r\<rparr>"

definition next_version :: "int \<Rightarrow> int" where
  "next_version v = (if v > 0 then wrap64 (v + 1) else 1)"

section \<open>In memory\<close>

text \<open>The map of entries as the list of its bindings; the key is part of the entry.\<close>

record mem_entry =
  me_key :: string
  me_nonce :: string
  me_ciphertext :: string
  me_meta :: metadata

type_synonym memory = "mem_entry list"

definition mem_find :: "string \<Rightarrow> memory \<Rightarrow> mem_entry option" where
  "mem_find key m = find (\<lambda>e. me_key e = key) m"

definition mem_store :: "mem_entry \<Rightarrow> memory \<Rightarrow> memory" where
  "mem_store e m = upsert_row me_key e m"

definition writeLocked ::
  "(string \<Rightarrow> string) \<Rightarrow> aead \<Rightarrow> string \<Rightarrow> ref \<Rightarrow> string \<Rightarrow> gotime option \<Rightarrow> int \<Rightarrow> string \<Rightarrow> memory \<Rightarrow> metadata \<times> memory" where
  "writeLocked sha256 ae nonce r plaintext expiresAt version status m =
     (let ct = ae_Seal ae nonce plaintext (ref_Key r);
          meta = fresh_metadata sha256 r plaintext expiresAt version status
      in (meta, mem_store \<lparr>me_key = ref_Key r, me_nonce = nonce, me_ciphertext = ct, me_meta = meta\<rparr> m))"

definition mem_Put ::
  "(string \<Rightarrow> string) \<Rightarrow> aead \<Rightarrow> draw \<Rightarrow> ref \<Rightarrow> string \<Rightarrow> gotime option \<Rightarrow> memory \<Rightarrow> vault_error + metadata \<times> memory" where
  "mem_Put sha256 ae d r plaintext expiresAt m =
     bind_result (ctx_alive d) (\<lambda>_. bind_result (validateRef r) (\<lambda>_. bind_result (validatePlaintext r plaintext) (\<lambda>_.
       case mem_find (ref_Key r) m of
         Some e \<Rightarrow> if md_Status (me_meta e) = StatusPresent then Inl (VaultValidation ''present'')
                   else Inr (writeLocked sha256 ae (vd_nonce d) r plaintext expiresAt 1 StatusPresent m)
       | None \<Rightarrow> Inr (writeLocked sha256 ae (vd_nonce d) r plaintext expiresAt 1 StatusPresent m))))"

definition mem_Rotate ::
  "(string \<Rightarrow> string) \<Rightarrow> aead \<Rightarrow> draw \<Rightarrow> ref \<Rightarrow> string \<Rightarrow> gotime option \<Rightarrow> memory \<Rightarrow> vault_error + metadata \<times> memory" where
  "mem_Rotate sha256 ae d r plaintext expiresAt m =
     bind_result (ctx_alive d) (\<lambda>_. bind_result (validateRef r) (\<lambda>_. bind_result (validatePlaintext r plaintext) (\<lambda>_.
       let ver = (case mem_find (ref_Key r) m of None \<Rightarrow> 1 | Some e \<Rightarrow> next_version (md_Version (me_meta e)))
       in Inr (writeLocked sha256 ae (vd_nonce d) r plaintext expiresAt ver StatusPresent m))))"

definition mem_Revoke :: "draw \<Rightarrow> ref \<Rightarrow> memory \<Rightarrow> vault_error + metadata \<times> memory" where
  "mem_Revoke d r m =
     bind_result (ctx_alive d) (\<lambda>_. bind_result (validateRef r) (\<lambda>_.
       case mem_find (ref_Key r) m of
         None \<Rightarrow> Inl VaultNotFound
       | Some e \<Rightarrow>
           let meta = (me_meta e)\<lparr>md_Status := StatusRevoked, md_Fingerprint := []\<rparr>
           in Inr (meta, mem_store (e\<lparr>me_key := ref_Key r, me_nonce := [], me_ciphertext := [], me_meta := meta\<rparr>) m)))"

definition mem_Metadata :: "draw \<Rightarrow> ref \<Rightarrow> memory \<Rightarrow> vault_error + metadata" where
  "mem_Metadata d r m =
     bind_result (ctx_alive d) (\<lambda>_. bind_result (validateRef r) (\<lambda>_.
       Inr (case mem_find (ref_Key r) m of None \<Rightarrow> absent_metadata r | Some e \<Rightarrow> me_meta e)))"

definition mem_ListMetadata :: "draw \<Rightarrow> string \<Rightarrow> memory \<Rightarrow> vault_error + metadata list" where
  "mem_ListMetadata d environment m =
     bind_result (ctx_alive d) (\<lambda>_. bind_result (validate_environment environment) (\<lambda>env.
       Inr (sortMetadata (filter (\<lambda>x. md_Environment x = env \<or> rf_Environment (md_Ref x) = env) (map me_meta m)))))"

definition mem_Reveal :: "aead \<Rightarrow> draw \<Rightarrow> ref \<Rightarrow> memory \<Rightarrow> vault_error + string \<times> memory" where
  "mem_Reveal ae d r m =
     bind_result (ctx_alive d) (\<lambda>_. bind_result (validateRef r) (\<lambda>_.
       case mem_find (ref_Key r) m of
         None \<Rightarrow> Inl VaultNotFound
       | Some e \<Rightarrow>
           if md_Status (me_meta e) = StatusRevoked \<or> me_ciphertext e = [] then Inl VaultRevoked
           else (case ae_Open ae (me_nonce e) (me_ciphertext e) (ref_Key r) of
                   None \<Rightarrow> Inl VaultCipher
                 | Some plain \<Rightarrow>
                     Inr (plain, mem_store (e\<lparr>me_key := ref_Key r, me_meta := (me_meta e)\<lparr>md_LastVerifiedAt := Some (vd_now d)\<rparr>\<rparr>) m))))"

definition mem_ops :: "(string \<Rightarrow> string) \<Rightarrow> aead \<Rightarrow> memory vault_ops" where
  "mem_ops sha256 ae =
     \<lparr>op_Put = mem_Put sha256 ae, op_Rotate = mem_Rotate sha256 ae, op_Revoke = mem_Revoke, op_Metadata = mem_Metadata,
      op_ListMetadata = mem_ListMetadata, op_Reveal = mem_Reveal ae, op_StorageMode = StorageModeEphemeralMemory\<rparr>"

section \<open>In the database\<close>

record secret_row =
  sr_ref_key :: string
  sr_kind :: string
  sr_environment :: string
  sr_subject_id :: string
  sr_name :: string
  sr_status :: string
  sr_fingerprint :: string
  sr_cipher_alg :: string
  sr_nonce :: string
  sr_ciphertext :: string
  sr_version :: int
  sr_expires_at :: "sql_time option"
  sr_last_verified_at :: "sql_time option"
  sr_created_at :: sql_time
  sr_updated_at :: sql_time

definition CipherAlgAES256GCM :: string where "CipherAlgAES256GCM = ''AES-256-GCM''"

text \<open>In Postgres the version is a column of 32 bits.\<close>

definition secret_check :: "dialect \<Rightarrow> secret_row \<Rightarrow> bool" where
  "secret_check dia r \<longleftrightarrow>
     sql_nonempty (sr_ref_key r)
     \<and> sr_kind r \<in> {''producer_credential'', ''producer_key'', ''taxpayer_key'', ''certificate''}
     \<and> sr_environment r \<in> {''homologation'', ''production''}
     \<and> sql_nonempty (sr_subject_id r) \<and> sql_nonempty (sr_name r)
     \<and> sr_status r \<in> {''present'', ''rotating'', ''revoked''}
     \<and> sr_cipher_alg r = ''AES-256-GCM'' \<and> sr_version r \<ge> 1
     \<and> (dia = DialectPostgres \<longrightarrow> sr_version r < 2147483648)
     \<and> (sr_status r = ''revoked'' \<and> sr_nonce r = [] \<and> sr_ciphertext r = [] \<and> sr_fingerprint r = []
        \<or> sr_status r \<in> {''present'', ''rotating''} \<and> sr_nonce r \<noteq> [] \<and> sr_ciphertext r \<noteq> []
           \<and> sql_nonempty (sr_fingerprint r))"

definition vault_timeArg :: "dialect \<Rightarrow> gotime \<Rightarrow> sql_time" where
  "vault_timeArg dia t = stamp dia (trunc_us t)"

definition parseNullableTime :: "sql_time option \<Rightarrow> vault_error + gotime option" where
  "parseNullableTime v =
     (case v of
        None \<Rightarrow> Inr None
      | Some (StampTime t) \<Rightarrow> Inr (Some t)
      | Some (TextTime s) \<Rightarrow>
          if strings_TrimSpace s = [] then Inr None
          else (case parse_rfc3339 s of Some (t, _) \<Rightarrow> Inr (Some t) | None \<Rightarrow> Inl VaultTime))"

definition read_metadata :: "secret_row \<Rightarrow> vault_error + metadata" where
  "read_metadata r =
     bind_result (parseNullableTime (sr_expires_at r)) (\<lambda>ex.
     bind_result (parseNullableTime (sr_last_verified_at r)) (\<lambda>ver.
       Inr \<lparr>md_Ref = \<lparr>rf_Kind = sr_kind r, rf_Environment = sr_environment r, rf_SubjectID = sr_subject_id r, rf_Name = sr_name r\<rparr>,
            md_Status = sr_status r, md_Fingerprint = sr_fingerprint r, md_ExpiresAt = ex, md_LastVerifiedAt = ver,
            md_Version = sr_version r, md_Environment = sr_environment r\<rparr>))"

definition loadTx :: "ref \<Rightarrow> secret_row list \<Rightarrow> vault_error + (secret_row \<times> metadata) option" where
  "loadTx r rows =
     (case find (\<lambda>x. sr_ref_key x = ref_Key r) rows of
        None \<Rightarrow> Inr None
      | Some x \<Rightarrow> bind_result (read_metadata x) (\<lambda>meta. Inr (Some (x, meta))))"

text \<open>A statement that leaves a row violating a constraint fails; so does a second row with a key.\<close>

definition insert_secret :: "dialect \<Rightarrow> secret_row \<Rightarrow> secret_row list \<Rightarrow> vault_error + secret_row list" where
  "insert_secret dia x rows =
     (if secret_check dia x \<and> \<not> list_ex (\<lambda>y. sr_ref_key y = sr_ref_key x) rows then Inr (rows @ [x])
      else Inl VaultDatabase)"

definition update_secret ::
  "dialect \<Rightarrow> string \<Rightarrow> (secret_row \<Rightarrow> secret_row) \<Rightarrow> secret_row list \<Rightarrow> vault_error + secret_row list" where
  "update_secret dia key f rows =
     (let rows' = update_where (\<lambda>x. sr_ref_key x = key) f rows
      in if list_all (secret_check dia) rows' then Inr rows' else Inl VaultDatabase)"

definition writeTx ::
  "(string \<Rightarrow> string) \<Rightarrow> aead \<Rightarrow> dialect \<Rightarrow> draw \<Rightarrow> ref \<Rightarrow> string \<Rightarrow> gotime option \<Rightarrow> int \<Rightarrow> string \<Rightarrow> bool \<Rightarrow> secret_row list
   \<Rightarrow> vault_error + metadata \<times> secret_row list" where
  "writeTx sha256 ae dia d r plaintext expiresAt version status ins rows =
     (let ct = ae_Seal ae (vd_nonce d) plaintext (ref_Key r);
          meta = fresh_metadata sha256 r plaintext expiresAt version status; fp = md_Fingerprint meta;
          now = vault_timeArg dia (vd_now d); ex = map_option (vault_timeArg dia) expiresAt
      in bind_result
           (if ins then
              insert_secret dia
                \<lparr>sr_ref_key = ref_Key r, sr_kind = rf_Kind r, sr_environment = rf_Environment r, sr_subject_id = rf_SubjectID r,
                 sr_name = rf_Name r, sr_status = status, sr_fingerprint = fp, sr_cipher_alg = CipherAlgAES256GCM,
                 sr_nonce = vd_nonce d, sr_ciphertext = ct, sr_version = version, sr_expires_at = ex,
                 sr_last_verified_at = None, sr_created_at = now, sr_updated_at = now\<rparr> rows
            else
              update_secret dia (ref_Key r)
                (\<lambda>x. x\<lparr>sr_status := status, sr_fingerprint := fp, sr_cipher_alg := CipherAlgAES256GCM, sr_nonce := vd_nonce d,
                       sr_ciphertext := ct, sr_version := version, sr_expires_at := ex, sr_last_verified_at := None,
                       sr_updated_at := now\<rparr>) rows)
           (\<lambda>rows'. Inr (meta, rows')))"

definition sql_Put ::
  "(string \<Rightarrow> string) \<Rightarrow> aead \<Rightarrow> dialect \<Rightarrow> draw \<Rightarrow> ref \<Rightarrow> string \<Rightarrow> gotime option \<Rightarrow> secret_row list
   \<Rightarrow> vault_error + metadata \<times> secret_row list" where
  "sql_Put sha256 ae dia d r plaintext expiresAt rows =
     bind_result (ctx_alive d) (\<lambda>_. bind_result (validateRef r) (\<lambda>_. bind_result (validatePlaintext r plaintext) (\<lambda>_.
     bind_result (loadTx r rows) (\<lambda>cur.
       case cur of
         Some (_, meta) \<Rightarrow>
           if md_Status meta = StatusPresent then Inl (VaultValidation ''present'')
           else writeTx sha256 ae dia d r plaintext expiresAt 1 StatusPresent False rows
       | None \<Rightarrow> writeTx sha256 ae dia d r plaintext expiresAt 1 StatusPresent True rows))))"

definition sql_Rotate ::
  "(string \<Rightarrow> string) \<Rightarrow> aead \<Rightarrow> dialect \<Rightarrow> draw \<Rightarrow> ref \<Rightarrow> string \<Rightarrow> gotime option \<Rightarrow> secret_row list
   \<Rightarrow> vault_error + metadata \<times> secret_row list" where
  "sql_Rotate sha256 ae dia d r plaintext expiresAt rows =
     bind_result (ctx_alive d) (\<lambda>_. bind_result (validateRef r) (\<lambda>_. bind_result (validatePlaintext r plaintext) (\<lambda>_.
     bind_result (loadTx r rows) (\<lambda>cur.
       case cur of
         None \<Rightarrow> writeTx sha256 ae dia d r plaintext expiresAt 1 StatusPresent True rows
       | Some (_, meta) \<Rightarrow>
           writeTx sha256 ae dia d r plaintext expiresAt (next_version (md_Version meta)) StatusPresent False rows))))"

definition sql_Revoke ::
  "dialect \<Rightarrow> draw \<Rightarrow> ref \<Rightarrow> secret_row list \<Rightarrow> vault_error + metadata \<times> secret_row list" where
  "sql_Revoke dia d r rows =
     bind_result (ctx_alive d) (\<lambda>_. bind_result (validateRef r) (\<lambda>_.
     bind_result (loadTx r rows) (\<lambda>cur.
       case cur of
         None \<Rightarrow> Inl VaultNotFound
       | Some (_, meta) \<Rightarrow>
           bind_result (update_secret dia (ref_Key r)
               (\<lambda>x. x\<lparr>sr_status := StatusRevoked, sr_fingerprint := [], sr_nonce := [], sr_ciphertext := [],
                      sr_updated_at := vault_timeArg dia (vd_now d)\<rparr>) rows)
             (\<lambda>rows'. Inr (meta\<lparr>md_Status := StatusRevoked, md_Fingerprint := []\<rparr>, rows')))))"

definition sql_Metadata :: "draw \<Rightarrow> ref \<Rightarrow> secret_row list \<Rightarrow> vault_error + metadata" where
  "sql_Metadata d r rows =
     bind_result (ctx_alive d) (\<lambda>_. bind_result (validateRef r) (\<lambda>_.
     bind_result (loadTx r rows) (\<lambda>cur.
       Inr (case cur of None \<Rightarrow> absent_metadata r | Some (_, meta) \<Rightarrow> meta))))"

definition sql_ListMetadata :: "draw \<Rightarrow> string \<Rightarrow> secret_row list \<Rightarrow> vault_error + metadata list" where
  "sql_ListMetadata d environment rows =
     bind_result (ctx_alive d) (\<lambda>_. bind_result (validate_environment environment) (\<lambda>env.
     bind_result (map_result read_metadata (filter (\<lambda>x. sr_environment x = env) rows)) (\<lambda>out.
       Inr (sortMetadata out))))"

definition sql_Reveal ::
  "aead \<Rightarrow> dialect \<Rightarrow> draw \<Rightarrow> ref \<Rightarrow> secret_row list \<Rightarrow> vault_error + string \<times> secret_row list" where
  "sql_Reveal ae dia d r rows =
     bind_result (ctx_alive d) (\<lambda>_. bind_result (validateRef r) (\<lambda>_.
     bind_result (loadTx r rows) (\<lambda>cur.
       case cur of
         None \<Rightarrow> Inl VaultNotFound
       | Some (x, meta) \<Rightarrow>
           if md_Status meta = StatusRevoked \<or> sr_ciphertext x = [] then Inl VaultRevoked
           else (case ae_Open ae (sr_nonce x) (sr_ciphertext x) (ref_Key r) of
                   None \<Rightarrow> Inl (VaultValidation ''decrypt'')
                 | Some plain \<Rightarrow>
                     bind_result (update_secret dia (ref_Key r)
                         (\<lambda>x. x\<lparr>sr_last_verified_at := Some (vault_timeArg dia (vd_now d)),
                                sr_updated_at := vault_timeArg dia (vd_now d)\<rparr>) rows)
                       (\<lambda>rows'. Inr (plain, rows'))))))"

definition sql_ops :: "(string \<Rightarrow> string) \<Rightarrow> aead \<Rightarrow> dialect \<Rightarrow> secret_row list vault_ops" where
  "sql_ops sha256 ae dia =
     \<lparr>op_Put = sql_Put sha256 ae dia, op_Rotate = sql_Rotate sha256 ae dia, op_Revoke = sql_Revoke dia,
      op_Metadata = sql_Metadata, op_ListMetadata = sql_ListMetadata, op_Reveal = sql_Reveal ae dia,
      op_StorageMode = StorageModeDurableEncrypted\<rparr>"

end
