(* ===== verification/SecretVault.thy ===== *)
theory SecretVault
  imports SecretStore
begin

text \<open>
  What a vault promises, as a map from keys to slots, and the contract that an implementation of the interface
  satisfies it, a locale over the operations.
\<close>

section \<open>The abstract vault\<close>

datatype slot = Held string int | Wiped int

type_synonym vault_state = "string \<Rightarrow> slot option"

fun slot_version :: "slot \<Rightarrow> int" where
  "slot_version (Held p v) = v"
| "slot_version (Wiped v) = v"

text \<open>What metadata show of a slot: status, fingerprint and version.\<close>

type_synonym slot_card = "string \<times> string \<times> int"

fun slot_card :: "(string \<Rightarrow> string) \<Rightarrow> slot option \<Rightarrow> slot_card" where
  "slot_card sha256 None = (StatusAbsent, [], 0)"
| "slot_card sha256 (Some (Held p v)) = (StatusPresent, hex_EncodeToString (sha256 p), v)"
| "slot_card sha256 (Some (Wiped v)) = (StatusRevoked, [], v)"

definition card_from :: "metadata \<Rightarrow> slot_card" where
  "card_from m = (md_Status m, md_Fingerprint m, md_Version m)"

datatype vault_call =
  CallPut ref string "gotime option"
| CallRotate ref string "gotime option"
| CallRevoke ref
| CallMetadata ref
| CallReveal ref

datatype vault_answer = AnsCard slot_card | AnsPlain string | AnsError vault_error

fun call_ref :: "vault_call \<Rightarrow> ref" where
  "call_ref (CallPut r _ _) = r"
| "call_ref (CallRotate r _ _) = r"
| "call_ref (CallRevoke r) = r"
| "call_ref (CallMetadata r) = r"
| "call_ref (CallReveal r) = r"

definition answered :: "('a \<Rightarrow> vault_answer) \<Rightarrow> vault_error + 'a \<times> 's \<Rightarrow> 's \<Rightarrow> vault_answer \<times> 's" where
  "answered f res s = (case res of Inl e \<Rightarrow> (AnsError e, s) | Inr (x, s') \<Rightarrow> (f x, s'))"

text \<open>One call to an implementation.\<close>

fun call_vault :: "'s vault_ops \<Rightarrow> draw \<Rightarrow> vault_call \<Rightarrow> 's \<Rightarrow> vault_answer \<times> 's" where
  "call_vault ops d (CallPut r p ex) s = answered (AnsCard \<circ> card_from) (op_Put ops d r p ex s) s"
| "call_vault ops d (CallRotate r p ex) s = answered (AnsCard \<circ> card_from) (op_Rotate ops d r p ex s) s"
| "call_vault ops d (CallRevoke r) s = answered (AnsCard \<circ> card_from) (op_Revoke ops d r s) s"
| "call_vault ops d (CallMetadata r) s =
     (case op_Metadata ops d r s of Inl e \<Rightarrow> AnsError e | Inr m \<Rightarrow> AnsCard (card_from m), s)"
| "call_vault ops d (CallReveal r) s = answered AnsPlain (op_Reveal ops d r s) s"

text \<open>The same call to the abstract vault.\<close>

definition spec_write :: "(string \<Rightarrow> string) \<Rightarrow> string \<Rightarrow> string \<Rightarrow> int \<Rightarrow> vault_state \<Rightarrow> vault_answer \<times> vault_state" where
  "spec_write sha256 k p v S = (AnsCard (slot_card sha256 (Some (Held p v))), S(k \<mapsto> Held p v))"

definition checked :: "vault_error + unit \<Rightarrow> vault_answer \<times> 's \<Rightarrow> 's \<Rightarrow> vault_answer \<times> 's" where
  "checked c res s = (case c of Inl e \<Rightarrow> (AnsError e, s) | Inr _ \<Rightarrow> res)"

fun spec_call :: "(string \<Rightarrow> string) \<Rightarrow> vault_call \<Rightarrow> vault_state \<Rightarrow> vault_answer \<times> vault_state" where
  "spec_call sha256 (CallPut r p ex) S =
     checked (validateRef r) (checked (validatePlaintext r p)
       (case S (ref_Key r) of
          Some (Held _ _) \<Rightarrow> (AnsError (VaultValidation ''present''), S)
        | _ \<Rightarrow> spec_write sha256 (ref_Key r) p 1 S) S) S"
| "spec_call sha256 (CallRotate r p ex) S =
     checked (validateRef r) (checked (validatePlaintext r p)
       (spec_write sha256 (ref_Key r) p
          (case S (ref_Key r) of None \<Rightarrow> 1 | Some sl \<Rightarrow> slot_version sl + 1) S) S) S"
| "spec_call sha256 (CallRevoke r) S =
     checked (validateRef r)
       (case S (ref_Key r) of
          None \<Rightarrow> (AnsError VaultNotFound, S)
        | Some sl \<Rightarrow> (AnsCard (slot_card sha256 (Some (Wiped (slot_version sl)))), S(ref_Key r \<mapsto> Wiped (slot_version sl)))) S"
| "spec_call sha256 (CallMetadata r) S = checked (validateRef r) (AnsCard (slot_card sha256 (S (ref_Key r))), S) S"
| "spec_call sha256 (CallReveal r) S =
     checked (validateRef r)
       (case S (ref_Key r) of
          None \<Rightarrow> (AnsError VaultNotFound, S)
        | Some (Held p _) \<Rightarrow> (AnsPlain p, S)
        | Some (Wiped _) \<Rightarrow> (AnsError VaultRevoked, S)) S"

text \<open>A sequence of calls with the answers in order.\<close>

fun vault_run :: "(draw \<times> vault_call \<Rightarrow> 's \<Rightarrow> vault_answer \<times> 's) \<Rightarrow> (draw \<times> vault_call) list \<Rightarrow> 's \<Rightarrow> vault_answer list \<times> 's" where
  "vault_run step [] s = ([], s)"
| "vault_run step (c # cs) s =
     (case step c s of (a, s') \<Rightarrow> case vault_run step cs s' of (as, s'') \<Rightarrow> (a # as, s''))"

abbreviation run_calls :: "'s vault_ops \<Rightarrow> (draw \<times> vault_call) list \<Rightarrow> 's \<Rightarrow> vault_answer list \<times> 's" where
  "run_calls ops \<equiv> vault_run (\<lambda>(d, c). call_vault ops d c)"

abbreviation run_spec :: "(string \<Rightarrow> string) \<Rightarrow> (draw \<times> vault_call) list \<Rightarrow> vault_state \<Rightarrow> vault_answer list \<times> vault_state" where
  "run_spec sha256 \<equiv> vault_run (\<lambda>(d, c). spec_call sha256 c)"

section \<open>The contract\<close>

text \<open>
  Calls the contract speaks of: the context is alive, a nonce has been drawn, the times can be printed, and kind
  and environment carry no blanks around them.
\<close>

fun call_expiry :: "vault_call \<Rightarrow> gotime option" where
  "call_expiry (CallPut _ _ ex) = ex"
| "call_expiry (CallRotate _ _ ex) = ex"
| "call_expiry _ = None"

definition clean_call :: "draw \<times> vault_call \<Rightarrow> bool" where
  "clean_call = (\<lambda>(d, c).
     vd_ctx d = None \<and> vd_nonce d \<noteq> [] \<and> year_in_range (vd_now d)
     \<and> (case call_expiry c of None \<Rightarrow> True | Some t \<Rightarrow> year_in_range t)
     \<and> strings_TrimSpace (rf_Kind (call_ref c)) = rf_Kind (call_ref c)
     \<and> strings_TrimSpace (rf_Environment (call_ref c)) = rf_Environment (call_ref c))"

definition max_version :: nat where
  "max_version = 2147483646"

locale vault =
  fixes sha256 :: "string \<Rightarrow> string"
    and ops :: "'s vault_ops"
    and inv :: "nat \<Rightarrow> 's \<Rightarrow> bool"
    and abs :: "'s \<Rightarrow> vault_state"
  assumes refines: "inv n s \<Longrightarrow> n < max_version \<Longrightarrow> clean_call (d, c) \<Longrightarrow>
      map_prod id abs (call_vault ops d c s) = spec_call sha256 c (abs s)"
    and kept: "inv n s \<Longrightarrow> n < max_version \<Longrightarrow> clean_call (d, c) \<Longrightarrow> inv (Suc n) (snd (call_vault ops d c s))"
begin

lemma run_refines:
  "inv n s \<Longrightarrow> n + length cs \<le> max_version \<Longrightarrow> list_all clean_call cs \<Longrightarrow>
   map_prod id abs (run_calls ops cs s) = run_spec sha256 cs (abs s) \<and> inv (n + length cs) (snd (run_calls ops cs s))"
proof (induction cs arbitrary: n s)
  case (Cons dc cs)
  obtain d c where dc: "dc = (d, c)" by (cases dc)
  obtain a s' where step: "call_vault ops d c s = (a, s')" by (cases "call_vault ops d c s")
  have "spec_call sha256 c (abs s) = (a, abs s')" "inv (Suc n) s'"
    using refines [of n s d c] kept [of n s d c] Cons.prems by (simp_all add: dc step)
  moreover obtain as s'' where "run_calls ops cs s' = (as, s'')" by (cases "run_calls ops cs s'")
  ultimately show ?case using Cons.IH [of "Suc n" s'] Cons.prems by (auto simp: dc step split: prod.splits)
qed simp

lemma run_answers:
  "inv n s \<Longrightarrow> n + length cs \<le> max_version \<Longrightarrow> list_all clean_call cs \<Longrightarrow>
   fst (run_calls ops cs s) = fst (run_spec sha256 cs (abs s)) \<and> abs (snd (run_calls ops cs s)) = snd (run_spec sha256 cs (abs s))"
  using run_refines [of n s cs] by (metis fst_map_prod id_apply snd_map_prod)

end

end
