(* ===== verification/SecretVaultProperties.thy ===== *)
theory SecretVaultProperties
  imports SecretVault SealProperties RegistryEffects
begin

text \<open>
  Both implementations of the vault refine the abstract one.
\<close>

section \<open>Keys\<close>

lemma kinds_no_slash: "ValidKind k \<Longrightarrow> CHR ''/'' \<notin> set (strings_TrimSpace k)"
  by (auto simp: ValidKind_def KindProducerCredential_def KindProducerKey_def KindTaxpayerKey_def KindCertificate_def)

lemma validateRef_Inr:
  "validateRef r = Inr u \<longleftrightarrow>
   strings_TrimSpace (rf_SubjectID r) \<noteq> [] \<and> strings_TrimSpace (rf_Name r) \<noteq> [] \<and> ValidKind (rf_Kind r)
   \<and> strings_TrimSpace (rf_Environment r) \<in> {''homologation'', ''production''}"
  by (auto simp: validateRef_def Let_def ensure_def ValidKind_def KindProducerCredential_def KindProducerKey_def
      KindTaxpayerKey_def KindCertificate_def vault_EnvHomologation_def vault_EnvProduction_def)

lemma key_parts:
  "ref_Key r = strings_TrimSpace (rf_Kind r) @ CHR ''/'' # strings_TrimSpace (rf_Environment r) @ CHR ''/''
     # strings_TrimSpace (rf_SubjectID r) @ CHR ''/'' # strings_TrimSpace (rf_Name r)"
  by (simp add: ref_Key_def)

lemma same_key:
  assumes "ref_Key r = ref_Key r'" "validateRef r = Inr u" "validateRef r' = Inr u'"
  shows "strings_TrimSpace (rf_Kind r) = strings_TrimSpace (rf_Kind r')"
    "strings_TrimSpace (rf_Environment r) = strings_TrimSpace (rf_Environment r')"
proof -
  have env: "CHR ''/'' \<notin> set (strings_TrimSpace (rf_Environment x))" if "validateRef x = Inr v" for x v
    using that by (auto simp: validateRef_Inr)
  have cut: "cut_at CHR ''/'' (ref_Key x) = (strings_TrimSpace (rf_Kind x), Some (strings_TrimSpace (rf_Environment x)
      @ CHR ''/'' # strings_TrimSpace (rf_SubjectID x) @ CHR ''/'' # strings_TrimSpace (rf_Name x)))" if "validateRef x = Inr v" for x v
    using that kinds_no_slash [of "rf_Kind x"] by (simp add: key_parts cut_at_append validateRef_Inr)
  have eq: "strings_TrimSpace (rf_Kind r) = strings_TrimSpace (rf_Kind r') \<and>
     strings_TrimSpace (rf_Environment r) @ CHR ''/'' # strings_TrimSpace (rf_SubjectID r) @ CHR ''/'' # strings_TrimSpace (rf_Name r)
     = strings_TrimSpace (rf_Environment r') @ CHR ''/'' # strings_TrimSpace (rf_SubjectID r') @ CHR ''/'' # strings_TrimSpace (rf_Name r')"
    using cut [OF assms(2)] cut [OF assms(3)] assms(1) by simp
  then show "strings_TrimSpace (rf_Kind r) = strings_TrimSpace (rf_Kind r')" by simp
  show "strings_TrimSpace (rf_Environment r) = strings_TrimSpace (rf_Environment r')"
    using arg_cong [OF conjunct2 [OF eq], of "cut_at CHR ''/''"] env [OF assms(2)] env [OF assms(3)] by (simp add: cut_at_append)
qed

section \<open>The ciphers\<close>

text \<open>Sealed material opens under its nonce and additional data; the ciphertext carries a tag.\<close>

definition aead_ok :: "aead \<Rightarrow> bool" where
  "aead_ok ae \<longleftrightarrow> (\<forall>n p a. ae_Open ae n (ae_Seal ae n p a) a = Some p \<and> ae_Seal ae n p a \<noteq> [])"

definition digest_ok :: "(string \<Rightarrow> string) \<Rightarrow> bool" where
  "digest_ok sha256 \<longleftrightarrow> (\<forall>s. length (sha256 s) = 32)"

section \<open>In memory\<close>

definition mem_slot :: "aead \<Rightarrow> mem_entry \<Rightarrow> slot" where
  "mem_slot ae e =
     (if md_Status (me_meta e) = StatusRevoked then Wiped (md_Version (me_meta e))
      else Held (case ae_Open ae (me_nonce e) (me_ciphertext e) (me_key e) of None \<Rightarrow> [] | Some p \<Rightarrow> p) (md_Version (me_meta e)))"

definition mem_abs :: "aead \<Rightarrow> memory \<Rightarrow> vault_state" where
  "mem_abs ae m k = map_option (mem_slot ae) (mem_find k m)"

definition mem_entry_ok :: "(string \<Rightarrow> string) \<Rightarrow> aead \<Rightarrow> nat \<Rightarrow> mem_entry \<Rightarrow> bool" where
  "mem_entry_ok sha256 ae n e \<longleftrightarrow>
     1 \<le> md_Version (me_meta e) \<and> md_Version (me_meta e) \<le> int n
     \<and> (md_Status (me_meta e) = StatusRevoked \<and> md_Fingerprint (me_meta e) = []
        \<or> md_Status (me_meta e) = StatusPresent \<and> me_ciphertext e \<noteq> []
          \<and> (\<exists>p. ae_Open ae (me_nonce e) (me_ciphertext e) (me_key e) = Some p
               \<and> md_Fingerprint (me_meta e) = hex_EncodeToString (sha256 p)))"

definition mem_inv :: "(string \<Rightarrow> string) \<Rightarrow> aead \<Rightarrow> nat \<Rightarrow> memory \<Rightarrow> bool" where
  "mem_inv sha256 ae n m \<longleftrightarrow> (\<forall>e \<in> set m. mem_entry_ok sha256 ae n e)"

lemma mem_find_Some: "mem_find k m = Some e \<Longrightarrow> e \<in> set m \<and> me_key e = k"
  by (auto simp: mem_find_def find_Some_iff)

lemma mem_find_store: "mem_find k (mem_store e m) = (if me_key e = k then Some e else mem_find k m)"
proof -
  have upd: "find (\<lambda>x. me_key x = k) (update_where (\<lambda>x. me_key x = me_key e) (\<lambda>_. e) m) =
      (if me_key e = k then (if me_key e \<in> me_key ` set m then Some e else None) else find (\<lambda>x. me_key x = k) m)" for k
    by (induction m) auto
  have "find (\<lambda>x. me_key x = k) (m @ [e]) = (case find (\<lambda>x. me_key x = k) m of None \<Rightarrow> if me_key e = k then Some e else None | Some x \<Rightarrow> Some x)"
    by (induction m) auto
  moreover have "me_key e \<notin> me_key ` set m \<Longrightarrow> me_key e = k \<Longrightarrow> find (\<lambda>x. me_key x = k) m = None"
    by (auto simp: find_None_iff image_iff)
  ultimately show ?thesis
    unfolding mem_find_def mem_store_def upsert_row_def list_ex_key using upd by (auto split: option.splits)
qed

lemma mem_abs_store: "mem_abs ae (mem_store e m) = (mem_abs ae m)(me_key e \<mapsto> mem_slot ae e)"
  by (auto simp: mem_abs_def mem_find_store fun_eq_iff)

lemma mem_inv_store: "mem_inv sha256 ae n m \<Longrightarrow> mem_entry_ok sha256 ae n e \<Longrightarrow> mem_inv sha256 ae n (mem_store e m)"
  by (auto simp: mem_inv_def mem_store_def set_upsert_row)

lemma mem_entry_ok_Suc: "mem_entry_ok sha256 ae n e \<Longrightarrow> mem_entry_ok sha256 ae (Suc n) e"
  by (auto simp: mem_entry_ok_def)

lemma mem_inv_Suc: "mem_inv sha256 ae n m \<Longrightarrow> mem_inv sha256 ae (Suc n) m"
  by (simp add: mem_inv_def mem_entry_ok_Suc)

text \<open>What the entry under a key says of its slot.\<close>

lemma mem_entry_cases:
  assumes "mem_inv sha256 ae n m" "mem_find k m = Some e"
  obtains (held) p where "mem_abs ae m k = Some (Held p (md_Version (me_meta e)))" "md_Status (me_meta e) = StatusPresent"
      "me_ciphertext e \<noteq> []" "ae_Open ae (me_nonce e) (me_ciphertext e) k = Some p"
      "md_Fingerprint (me_meta e) = hex_EncodeToString (sha256 p)" "1 \<le> md_Version (me_meta e)" "md_Version (me_meta e) \<le> int n" "me_key e = k"
    | (wiped) "mem_abs ae m k = Some (Wiped (md_Version (me_meta e)))" "md_Status (me_meta e) = StatusRevoked"
      "md_Fingerprint (me_meta e) = []" "1 \<le> md_Version (me_meta e)" "md_Version (me_meta e) \<le> int n" "me_key e = k"
proof -
  have e: "mem_entry_ok sha256 ae n e" "me_key e = k" using assms mem_find_Some by (auto simp: mem_inv_def)
  show ?thesis
  proof (cases "md_Status (me_meta e) = StatusRevoked")
    case True
    then show ?thesis using e assms(2) by (intro wiped) (auto simp: mem_entry_ok_def mem_abs_def mem_slot_def StatusRevoked_def StatusPresent_def)
  next
    case False
    then obtain p where "ae_Open ae (me_nonce e) (me_ciphertext e) k = Some p" "md_Fingerprint (me_meta e) = hex_EncodeToString (sha256 p)"
        "md_Status (me_meta e) = StatusPresent" "me_ciphertext e \<noteq> []" "1 \<le> md_Version (me_meta e)" "md_Version (me_meta e) \<le> int n"
      using e by (auto simp: mem_entry_ok_def)
    then show ?thesis using False e(2) assms(2) by (intro held [of p]) (auto simp: mem_abs_def mem_slot_def)
  qed
qed


lemma write_slot:
  assumes "aead_ok ae" "mem_inv sha256 ae n m" "1 \<le> v" "v \<le> int (Suc n)"
  obtains m' where "writeLocked sha256 ae nonce r p ex v StatusPresent m = (fresh_metadata sha256 r p ex v StatusPresent, m')"
    "mem_abs ae m' = (mem_abs ae m)(ref_Key r \<mapsto> Held p v)" "mem_inv sha256 ae (Suc n) m'"
proof -
  let ?e = "\<lparr>me_key = ref_Key r, me_nonce = nonce, me_ciphertext = ae_Seal ae nonce p (ref_Key r),
     me_meta = fresh_metadata sha256 r p ex v StatusPresent\<rparr>"
  have "mem_slot ae ?e = Held p v" "mem_entry_ok sha256 ae (Suc n) ?e"
    using assms by (auto simp: mem_slot_def mem_entry_ok_def fresh_metadata_def aead_ok_def StatusPresent_def StatusRevoked_def)
  then show ?thesis
    using assms(2) by (intro that [of "mem_store ?e m"])
      (auto simp: writeLocked_def Let_def mem_abs_store mem_inv_store mem_inv_Suc)
qed

lemma card_fresh [simp]: "card_from (fresh_metadata sha256 r p ex v StatusPresent) = slot_card sha256 (Some (Held p v))"
  by (simp add: card_from_def fresh_metadata_def)

lemma card_absent [simp]: "card_from (absent_metadata r) = (StatusAbsent, [], 0)"
  by (simp add: card_from_def absent_metadata_def)

lemma next_version_small: "1 \<le> v \<Longrightarrow> v \<le> int n \<Longrightarrow> n < max_version \<Longrightarrow> next_version v = v + 1"
  by (auto simp: next_version_def max_version_def max_int64_def intro!: wrap64_id)

text \<open>Checks come first on both sides.\<close>

lemma checked_simps [simp]: "checked (Inl e) res s = (AnsError e, s)" "checked (Inr u) res s = res"
  by (simp_all add: checked_def)

lemma answered_simps [simp]: "answered f (Inl e) s = (AnsError e, s)" "answered f (Inr (x, s')) s = (f x, s')"
  by (simp_all add: answered_def)

lemma not_present: "StatusRevoked \<noteq> StatusPresent"
  by (simp add: StatusRevoked_def StatusPresent_def)

lemma mem_call_refines:
  assumes "aead_ok ae" "mem_inv sha256 ae n m" "n < max_version" "vd_ctx d = None"
  shows "map_prod id (mem_abs ae) (call_vault (mem_ops sha256 ae) d c m) = spec_call sha256 c (mem_abs ae m)
    \<and> mem_inv sha256 ae (Suc n) (snd (call_vault (mem_ops sha256 ae) d c m))"
proof -
  note inv = assms(2) and later = mem_inv_Suc [OF assms(2)]
  have alive: "ctx_alive d = Inr ()" using assms(4) by (simp add: ctx_alive_def)
  have one: "1 \<le> (1 :: int)" "1 \<le> int (Suc n)" by simp_all
  show ?thesis
  proof (cases c)
    case (CallPut r p ex)
    obtain m' where w: "writeLocked sha256 ae (vd_nonce d) r p ex 1 StatusPresent m = (fresh_metadata sha256 r p ex 1 StatusPresent, m')"
        "mem_abs ae m' = (mem_abs ae m)(ref_Key r \<mapsto> Held p 1)" "mem_inv sha256 ae (Suc n) m'"
      by (rule write_slot [OF assms(1) inv one])
    show ?thesis
    proof (cases "mem_find (ref_Key r) m")
      case None
      then have "mem_abs ae m (ref_Key r) = None" by (simp add: mem_abs_def)
      then show ?thesis using None w later
        by (cases "validateRef r"; cases "validatePlaintext r p") (simp_all add: CallPut mem_ops_def mem_Put_def alive spec_write_def)
    next
      case (Some e)
      from inv Some show ?thesis
      proof (cases rule: mem_entry_cases)
        case (held q)
        then show ?thesis using Some w later
          by (cases "validateRef r"; cases "validatePlaintext r p") (simp_all add: CallPut mem_ops_def mem_Put_def alive spec_write_def)
      next
        case wiped
        then show ?thesis using Some w later not_present
          by (cases "validateRef r"; cases "validatePlaintext r p") (simp_all add: CallPut mem_ops_def mem_Put_def alive spec_write_def)
      qed
    qed
  next
    case (CallRotate r p ex)
    define v where "v = (case mem_find (ref_Key r) m of None \<Rightarrow> 1 | Some e \<Rightarrow> next_version (md_Version (me_meta e)))"
    have v: "1 \<le> v" "v \<le> int (Suc n)" "v = (case mem_abs ae m (ref_Key r) of None \<Rightarrow> 1 | Some sl \<Rightarrow> slot_version sl + 1)"
    proof -
      have "1 \<le> v \<and> v \<le> int (Suc n) \<and> v = (case mem_abs ae m (ref_Key r) of None \<Rightarrow> 1 | Some sl \<Rightarrow> slot_version sl + 1)"
      proof (cases "mem_find (ref_Key r) m")
        case None
        then show ?thesis by (simp add: v_def mem_abs_def)
      next
        case (Some e)
        from inv Some show ?thesis
          by (cases rule: mem_entry_cases) (simp_all add: v_def Some next_version_small [OF _ _ assms(3)])
      qed
      then show "1 \<le> v" "v \<le> int (Suc n)" "v = (case mem_abs ae m (ref_Key r) of None \<Rightarrow> 1 | Some sl \<Rightarrow> slot_version sl + 1)" by simp_all
    qed
    obtain m' where w: "writeLocked sha256 ae (vd_nonce d) r p ex v StatusPresent m = (fresh_metadata sha256 r p ex v StatusPresent, m')"
        "mem_abs ae m' = (mem_abs ae m)(ref_Key r \<mapsto> Held p v)" "mem_inv sha256 ae (Suc n) m'"
      by (rule write_slot [OF assms(1) inv v(1,2)])
    show ?thesis using w later
      by (cases "validateRef r"; cases "validatePlaintext r p")
        (simp_all add: CallRotate mem_ops_def mem_Rotate_def alive Let_def spec_write_def v_def [symmetric] v(3) [symmetric])
  next
    case (CallRevoke r)
    show ?thesis
    proof (cases "mem_find (ref_Key r) m")
      case None
      then have "mem_abs ae m (ref_Key r) = None" by (simp add: mem_abs_def)
      then show ?thesis using None later by (cases "validateRef r") (simp_all add: CallRevoke mem_ops_def mem_Revoke_def alive Let_def)
    next
      case (Some e)
      let ?e = "e\<lparr>me_key := ref_Key r, me_nonce := [], me_ciphertext := [], me_meta := (me_meta e)\<lparr>md_Status := StatusRevoked, md_Fingerprint := []\<rparr>\<rparr>"
      obtain sl where sl: "mem_abs ae m (ref_Key r) = Some sl" "slot_version sl = md_Version (me_meta e)"
          "1 \<le> md_Version (me_meta e)" "md_Version (me_meta e) \<le> int n"
        using inv Some by (cases rule: mem_entry_cases) auto
      have "mem_slot ae ?e = Wiped (slot_version sl)" "mem_entry_ok sha256 ae (Suc n) ?e"
        using sl by (simp_all add: mem_slot_def mem_entry_ok_def)
      then show ?thesis using Some later sl
        by (cases "validateRef r") (simp_all add: CallRevoke mem_ops_def mem_Revoke_def alive Let_def mem_abs_store mem_inv_store card_from_def)
    qed
  next
    case (CallMetadata r)
    show ?thesis
    proof (cases "mem_find (ref_Key r) m")
      case None
      then have "mem_abs ae m (ref_Key r) = None" by (simp add: mem_abs_def)
      then show ?thesis using None later
        by (cases "validateRef r") (simp_all add: CallMetadata mem_ops_def mem_Metadata_def alive)
    next
      case (Some e)
      from inv Some show ?thesis
        using later by (cases rule: mem_entry_cases; cases "validateRef r")
          (simp_all add: CallMetadata mem_ops_def mem_Metadata_def alive Some card_from_def)
    qed
  next
    case (CallReveal r)
    show ?thesis
    proof (cases "mem_find (ref_Key r) m")
      case None
      then have "mem_abs ae m (ref_Key r) = None" by (simp add: mem_abs_def)
      then show ?thesis using None later by (cases "validateRef r") (simp_all add: CallReveal mem_ops_def mem_Reveal_def alive)
    next
      case (Some e)
      let ?e = "e\<lparr>me_key := ref_Key r, me_meta := (me_meta e)\<lparr>md_LastVerifiedAt := Some (vd_now d)\<rparr>\<rparr>"
      from inv Some show ?thesis
      proof (cases rule: mem_entry_cases)
        case (held p)
        then have "mem_slot ae ?e = Held p (md_Version (me_meta e))" "mem_entry_ok sha256 ae (Suc n) ?e"
          using not_present by (auto simp: mem_slot_def mem_entry_ok_def)
        moreover from this held have "mem_abs ae (mem_store ?e m) = mem_abs ae m" by (auto simp: mem_abs_store fun_eq_iff)
        ultimately show ?thesis using Some later held not_present
          by (cases "validateRef r") (simp_all add: CallReveal mem_ops_def mem_Reveal_def alive mem_inv_store)
      next
        case wiped
        then show ?thesis using Some later
          by (cases "validateRef r") (simp_all add: CallReveal mem_ops_def mem_Reveal_def alive)
      qed
    qed
  qed
qed

end
