(* ===== verification/SecretSqlProperties.thy ===== *)
theory SecretSqlProperties
  imports SecretVaultProperties
begin

text \<open>The store in the database refines the abstract vault, and the two implementations answer alike.\<close>

section \<open>Rows\<close>

definition sql_slot :: "aead \<Rightarrow> secret_row \<Rightarrow> slot" where
  "sql_slot ae x =
     (if sr_status x = StatusRevoked then Wiped (sr_version x)
      else Held (case ae_Open ae (sr_nonce x) (sr_ciphertext x) (sr_ref_key x) of None \<Rightarrow> [] | Some p \<Rightarrow> p) (sr_version x))"

definition sql_find :: "string \<Rightarrow> secret_row list \<Rightarrow> secret_row option" where
  "sql_find k rows = find (\<lambda>x. sr_ref_key x = k) rows"

definition sql_abs :: "aead \<Rightarrow> secret_row list \<Rightarrow> vault_state" where
  "sql_abs ae rows k = map_option (sql_slot ae) (sql_find k rows)"

definition time_reads :: "sql_time option \<Rightarrow> bool" where
  "time_reads v \<longleftrightarrow> (\<exists>t. parseNullableTime v = Inr t)"

definition secret_row_ok :: "(string \<Rightarrow> string) \<Rightarrow> aead \<Rightarrow> dialect \<Rightarrow> nat \<Rightarrow> secret_row \<Rightarrow> bool" where
  "secret_row_ok sha256 ae dia n x \<longleftrightarrow>
     secret_check dia x \<and> sr_version x \<le> int n \<and> time_reads (sr_expires_at x) \<and> time_reads (sr_last_verified_at x)
     \<and> (sr_status x = StatusRevoked
        \<or> sr_status x = StatusPresent
          \<and> (\<exists>p. ae_Open ae (sr_nonce x) (sr_ciphertext x) (sr_ref_key x) = Some p
               \<and> sr_fingerprint x = hex_EncodeToString (sha256 p)))"

definition sql_inv :: "(string \<Rightarrow> string) \<Rightarrow> aead \<Rightarrow> dialect \<Rightarrow> nat \<Rightarrow> secret_row list \<Rightarrow> bool" where
  "sql_inv sha256 ae dia n rows \<longleftrightarrow> (\<forall>x \<in> set rows. secret_row_ok sha256 ae dia n x)"

lemma time_reads_None [simp]: "time_reads None"
  by (simp add: time_reads_def parseNullableTime_def)

lemma time_reads_stamp: "year_in_range t \<Longrightarrow> time_reads (Some (vault_timeArg dia t))"
  by (auto simp: time_reads_def parseNullableTime_def vault_timeArg_def stamp_def parse_rfc3339_format)

lemma time_reads_map: "(case ex of None \<Rightarrow> True | Some t \<Rightarrow> year_in_range t) \<Longrightarrow> time_reads (map_option (vault_timeArg dia) ex)"
  by (cases ex) (simp_all add: time_reads_stamp)

lemma sql_find_Some: "sql_find k rows = Some x \<Longrightarrow> x \<in> set rows \<and> sr_ref_key x = k"
  by (auto simp: sql_find_def find_Some_iff)

lemma sql_find_update:
  "(\<And>x. sr_ref_key (f x) = sr_ref_key x) \<Longrightarrow>
   sql_find k (update_where (\<lambda>x. sr_ref_key x = key) f rows) = (if k = key then map_option f (sql_find k rows) else sql_find k rows)"
  by (induction rows) (auto simp: sql_find_def)

lemma sql_find_append:
  "sql_find k (rows @ [x]) = (case sql_find k rows of None \<Rightarrow> if sr_ref_key x = k then Some x else None | Some y \<Rightarrow> Some y)"
  by (induction rows) (auto simp: sql_find_def)

lemma row_ok_Suc: "secret_row_ok sha256 ae dia n x \<Longrightarrow> secret_row_ok sha256 ae dia (Suc n) x"
  by (auto simp: secret_row_ok_def)

lemma sql_inv_Suc: "sql_inv sha256 ae dia n rows \<Longrightarrow> sql_inv sha256 ae dia (Suc n) rows"
  by (simp add: sql_inv_def row_ok_Suc)

text \<open>A statement on the row of a key that keeps rows in order succeeds.\<close>

lemma update_secret_ok:
  assumes inv: "sql_inv sha256 ae dia n rows" and key: "\<And>x. sr_ref_key (f x) = sr_ref_key x"
    and ok: "\<And>x. secret_row_ok sha256 ae dia n x \<Longrightarrow> sr_ref_key x = key \<Longrightarrow> secret_row_ok sha256 ae dia (Suc n) (f x)"
  obtains rows' where "update_secret dia key f rows = Inr rows'" "sql_inv sha256 ae dia (Suc n) rows'"
    "sql_abs ae rows' = (\<lambda>k. if k = key then map_option (sql_slot ae \<circ> f) (sql_find k rows) else sql_abs ae rows k)"
proof -
  let ?rows = "update_where (\<lambda>x. sr_ref_key x = key) f rows"
  have inv': "sql_inv sha256 ae dia (Suc n) ?rows"
    using inv ok row_ok_Suc by (auto simp: sql_inv_def set_update_where)
  then have "list_all (secret_check dia) ?rows" by (auto simp: sql_inv_def secret_row_ok_def list_all_iff)
  then show ?thesis using inv'
    by (intro that [of ?rows]) (auto simp: update_secret_def sql_abs_def sql_find_update [OF key] option.map_comp fun_eq_iff)
qed

lemma hex_not_blank: "list_ex (\<lambda>c. c \<noteq> CHR '' '') (hex_byte c)"
proof -
  define d :: nat where "d = of_char c div 16"
  define ch where "ch = (if d < 10 then digit_char d else char_of (87 + d))"
  have "d < 16" using nat_of_char_less_256 [of c] by (simp add: d_def div_less_iff_less_mult)
  then have "(of_char ch :: nat) \<noteq> of_char CHR '' ''" by (auto simp: ch_def of_char_digit_char)
  then have "ch \<noteq> CHR '' ''" by blast
  moreover have "\<exists>x. hex_byte c = [ch, x]" by (simp add: hex_byte_def Let_def ch_def d_def)
  ultimately show ?thesis by auto
qed

lemma fingerprint_not_blank: "digest_ok sha256 \<Longrightarrow> sql_nonempty (hex_EncodeToString (sha256 p))"
  using hex_not_blank by (cases "sha256 p") (auto simp: digest_ok_def sql_nonempty_def hex_EncodeToString_def dest: spec [of _ p])

lemma read_metadata_ok:
  assumes "secret_row_ok sha256 ae dia n x"
  obtains m where "read_metadata x = Inr m" "card_from m = (sr_status x, sr_fingerprint x, sr_version x)"
    "md_Status m = sr_status x" "md_Version m = sr_version x"
proof -
  obtain ex ver where "parseNullableTime (sr_expires_at x) = Inr ex" "parseNullableTime (sr_last_verified_at x) = Inr ver"
    using assms by (auto simp: secret_row_ok_def time_reads_def)
  then show ?thesis by (intro that) (auto simp: read_metadata_def card_from_def)
qed

text \<open>What the row under a key says of its slot.\<close>

lemma sql_row_cases:
  assumes "sql_inv sha256 ae dia n rows"
  obtains (none) "sql_find (ref_Key r) rows = None" "loadTx r rows = Inr None" "sql_abs ae rows (ref_Key r) = None"
    | (held) x m p where "sql_find (ref_Key r) rows = Some x" "loadTx r rows = Inr (Some (x, m))"
      "sql_abs ae rows (ref_Key r) = Some (Held p (sr_version x))" "card_from m = slot_card sha256 (Some (Held p (sr_version x)))"
      "md_Status m = StatusPresent" "sr_status x = StatusPresent" "sr_ciphertext x \<noteq> []"
      "ae_Open ae (sr_nonce x) (sr_ciphertext x) (ref_Key r) = Some p"
      "md_Version m = sr_version x" "1 \<le> sr_version x" "sr_version x \<le> int n"
    | (wiped) x m where "sql_find (ref_Key r) rows = Some x" "loadTx r rows = Inr (Some (x, m))"
      "sql_abs ae rows (ref_Key r) = Some (Wiped (sr_version x))" "card_from m = slot_card sha256 (Some (Wiped (sr_version x)))"
      "md_Status m = StatusRevoked" "sr_status x = StatusRevoked" "md_Version m = sr_version x" "1 \<le> sr_version x" "sr_version x \<le> int n"
proof (cases "sql_find (ref_Key r) rows")
  case None
  then show ?thesis by (intro none) (simp_all add: sql_abs_def loadTx_def sql_find_def)
next
  case (Some x)
  then have x: "secret_row_ok sha256 ae dia n x" "sr_ref_key x = ref_Key r"
    using assms sql_find_Some by (auto simp: sql_inv_def)
  obtain m where m: "read_metadata x = Inr m" "card_from m = (sr_status x, sr_fingerprint x, sr_version x)"
    "md_Status m = sr_status x" "md_Version m = sr_version x" by (rule read_metadata_ok [OF x(1)])
  have load: "loadTx r rows = Inr (Some (x, m))" using Some m(1) by (simp add: loadTx_def sql_find_def)
  have v: "1 \<le> sr_version x" "sr_version x \<le> int n" using x(1) by (auto simp: secret_row_ok_def secret_check_def)
  show ?thesis
  proof (cases "sr_status x = StatusRevoked")
    case True
    then have "sr_fingerprint x = []" using x(1) by (auto simp: secret_row_ok_def secret_check_def StatusRevoked_def)
    then show ?thesis using True Some load v m
      by (intro wiped [of x m]) (simp_all add: sql_abs_def sql_slot_def)
  next
    case False
    then obtain p where p: "ae_Open ae (sr_nonce x) (sr_ciphertext x) (ref_Key r) = Some p"
        "sr_fingerprint x = hex_EncodeToString (sha256 p)" "sr_status x = StatusPresent"
      using x by (auto simp: secret_row_ok_def)
    then have "sr_ciphertext x \<noteq> []" using x(1) by (auto simp: secret_row_ok_def secret_check_def StatusPresent_def)
    then show ?thesis using False p Some load v m x(2)
      by (intro held [of x m p]) (simp_all add: sql_abs_def sql_slot_def)
  qed
qed

section \<open>Statements\<close>

definition clean_ref :: "ref \<Rightarrow> bool" where
  "clean_ref r \<longleftrightarrow> strings_TrimSpace (rf_Kind r) = rf_Kind r \<and> strings_TrimSpace (rf_Environment r) = rf_Environment r"

lemma write_row_ok:
  assumes "aead_ok ae" "digest_ok sha256" "secret_check dia x" "sr_ref_key x = ref_Key r" "1 \<le> v" "v \<le> int (Suc n)" "n < max_version"
    "nonce \<noteq> []" "time_reads ex"
  shows "secret_row_ok sha256 ae dia (Suc n) (x\<lparr>sr_status := StatusPresent, sr_fingerprint := hex_EncodeToString (sha256 p),
      sr_cipher_alg := CipherAlgAES256GCM, sr_nonce := nonce, sr_ciphertext := ae_Seal ae nonce p (ref_Key r),
      sr_version := v, sr_expires_at := ex, sr_last_verified_at := None, sr_updated_at := now\<rparr>)"
  using assms fingerprint_not_blank [OF assms(2), of p]
  by (auto simp: secret_row_ok_def secret_check_def aead_ok_def StatusPresent_def CipherAlgAES256GCM_def max_version_def)

lemma writeTx_update:
  assumes "aead_ok ae" "digest_ok sha256" "sql_inv sha256 ae dia n rows" "n < max_version" "1 \<le> v" "v \<le> int (Suc n)"
    "vd_nonce d \<noteq> []" "case ex of None \<Rightarrow> True | Some t \<Rightarrow> year_in_range t" "sql_find (ref_Key r) rows = Some x"
  obtains rows' where "writeTx sha256 ae dia d r p ex v StatusPresent False rows = Inr (fresh_metadata sha256 r p ex v StatusPresent, rows')"
    "sql_abs ae rows' = (sql_abs ae rows)(ref_Key r \<mapsto> Held p v)" "sql_inv sha256 ae dia (Suc n) rows'"
proof -
  let ?f = "\<lambda>x. x\<lparr>sr_status := StatusPresent, sr_fingerprint := hex_EncodeToString (sha256 p),
      sr_cipher_alg := CipherAlgAES256GCM, sr_nonce := vd_nonce d, sr_ciphertext := ae_Seal ae (vd_nonce d) p (ref_Key r),
      sr_version := v, sr_expires_at := map_option (vault_timeArg dia) ex, sr_last_verified_at := None,
      sr_updated_at := vault_timeArg dia (vd_now d)\<rparr>"
  obtain rows' where rows': "update_secret dia (ref_Key r) ?f rows = Inr rows'" "sql_inv sha256 ae dia (Suc n) rows'"
    "sql_abs ae rows' = (\<lambda>k. if k = ref_Key r then map_option (sql_slot ae \<circ> ?f) (sql_find k rows) else sql_abs ae rows k)"
  proof (rule update_secret_ok [OF assms(3), of ?f "ref_Key r"])
    fix y assume "secret_row_ok sha256 ae dia n y" "sr_ref_key y = ref_Key r"
    then show "secret_row_ok sha256 ae dia (Suc n) (?f y)"
      by (intro write_row_ok assms time_reads_map) (simp_all add: secret_row_ok_def)
  qed simp_all
  have "sql_slot ae (?f x) = Held p v"
    using assms(1) sql_find_Some [OF assms(9)] by (simp add: sql_slot_def aead_ok_def StatusPresent_def StatusRevoked_def)
  then have "sql_abs ae rows' = (sql_abs ae rows)(ref_Key r \<mapsto> Held p v)"
    using assms(9) by (auto simp: rows'(3) fun_eq_iff)
  then show ?thesis using rows'(1,2) by (intro that [of rows']) (simp_all add: writeTx_def Let_def fresh_metadata_def)
qed

lemma writeTx_insert:
  assumes "aead_ok ae" "digest_ok sha256" "sql_inv sha256 ae dia n rows" "n < max_version" "clean_ref r" "validateRef r = Inr u"
    "vd_nonce d \<noteq> []" "case ex of None \<Rightarrow> True | Some t \<Rightarrow> year_in_range t" "sql_find (ref_Key r) rows = None"
  obtains rows' where "writeTx sha256 ae dia d r p ex 1 StatusPresent True rows = Inr (fresh_metadata sha256 r p ex 1 StatusPresent, rows')"
    "sql_abs ae rows' = (sql_abs ae rows)(ref_Key r \<mapsto> Held p 1)" "sql_inv sha256 ae dia (Suc n) rows'"
proof -
  let ?x = "\<lparr>sr_ref_key = ref_Key r, sr_kind = rf_Kind r, sr_environment = rf_Environment r, sr_subject_id = rf_SubjectID r,
     sr_name = rf_Name r, sr_status = StatusPresent, sr_fingerprint = hex_EncodeToString (sha256 p), sr_cipher_alg = CipherAlgAES256GCM,
     sr_nonce = vd_nonce d, sr_ciphertext = ae_Seal ae (vd_nonce d) p (ref_Key r), sr_version = 1,
     sr_expires_at = map_option (vault_timeArg dia) ex, sr_last_verified_at = None, sr_created_at = vault_timeArg dia (vd_now d),
     sr_updated_at = vault_timeArg dia (vd_now d)\<rparr>"
  have key: "sql_nonempty (ref_Key r)" by (simp add: key_parts sql_nonempty_def)
  have check: "secret_check dia ?x"
    using assms(1,5,6,7) key fingerprint_not_blank [OF assms(2), of p] TrimSpace_nonempty
    by (auto simp: secret_check_def validateRef_Inr clean_ref_def ValidKind_def KindProducerCredential_def KindProducerKey_def
        KindTaxpayerKey_def KindCertificate_def StatusPresent_def CipherAlgAES256GCM_def aead_ok_def)
  moreover have fresh: "\<not> list_ex (\<lambda>y. sr_ref_key y = sr_ref_key ?x) rows"
    using assms(9) by (auto simp: sql_find_def find_None_iff list_ex_iff)
  ultimately have run: "writeTx sha256 ae dia d r p ex 1 StatusPresent True rows = Inr (fresh_metadata sha256 r p ex 1 StatusPresent, rows @ [?x])"
    by (simp add: writeTx_def Let_def insert_secret_def fresh_metadata_def)
  have slot: "sql_slot ae ?x = Held p 1" using assms(1) by (simp add: sql_slot_def aead_ok_def StatusPresent_def StatusRevoked_def)
  have "secret_row_ok sha256 ae dia (Suc n) ?x"
    using check assms(1,8) time_reads_map [of ex dia] by (auto simp: secret_row_ok_def aead_ok_def)
  then have "sql_inv sha256 ae dia (Suc n) (rows @ [?x])"
    using sql_inv_Suc [OF assms(3)] by (auto simp: sql_inv_def)
  moreover have "sql_abs ae (rows @ [?x]) = (sql_abs ae rows)(ref_Key r \<mapsto> Held p 1)"
    using assms(9) slot by (auto simp: sql_abs_def sql_find_append fun_eq_iff split: option.splits)
  ultimately show ?thesis using run by (intro that)
qed


lemma revoke_row_ok:
  "secret_row_ok sha256 ae dia n x \<Longrightarrow>
   secret_row_ok sha256 ae dia (Suc n) (x\<lparr>sr_status := StatusRevoked, sr_fingerprint := [], sr_nonce := [], sr_ciphertext := [], sr_updated_at := now\<rparr>)"
  by (auto simp: secret_row_ok_def secret_check_def StatusRevoked_def)

lemma touch_row_ok:
  "secret_row_ok sha256 ae dia n x \<Longrightarrow> year_in_range t \<Longrightarrow>
   secret_row_ok sha256 ae dia (Suc n) (x\<lparr>sr_last_verified_at := Some (vault_timeArg dia t), sr_updated_at := now\<rparr>)"
  by (auto simp: secret_row_ok_def secret_check_def time_reads_stamp)

lemma sql_call_refines:
  assumes "aead_ok ae" "digest_ok sha256" "sql_inv sha256 ae dia n rows" "n < max_version" "clean_call (d, c)"
  shows "map_prod id (sql_abs ae) (call_vault (sql_ops sha256 ae dia) d c rows) = spec_call sha256 c (sql_abs ae rows)
    \<and> sql_inv sha256 ae dia (Suc n) (snd (call_vault (sql_ops sha256 ae dia) d c rows))"
proof -
  note inv = assms(3) and later = sql_inv_Suc [OF assms(3)]
  have one: "1 \<le> (1 :: int)" "1 \<le> int (Suc n)" by simp_all
  have alive: "ctx_alive d = Inr ()" and nonce: "vd_nonce d \<noteq> []" and now: "year_in_range (vd_now d)"
    using assms(5) by (simp_all add: clean_call_def ctx_alive_def)
  show ?thesis
  proof (cases c)
    case (CallPut r p ex)
    have ex: "case ex of None \<Rightarrow> True | Some t \<Rightarrow> year_in_range t" and cl: "clean_ref r"
      using assms(5) by (simp_all add: clean_call_def CallPut clean_ref_def)
    show ?thesis
    proof (cases "validateRef r")
      case (Inr u)
      from inv show ?thesis
      proof (cases rule: sql_row_cases [where r = r])
        case none
        obtain rows' where "writeTx sha256 ae dia d r p ex 1 StatusPresent True rows = Inr (fresh_metadata sha256 r p ex 1 StatusPresent, rows')"
            "sql_abs ae rows' = (sql_abs ae rows)(ref_Key r \<mapsto> Held p 1)" "sql_inv sha256 ae dia (Suc n) rows'"
          by (rule writeTx_insert [OF assms(1,2) inv assms(4) cl Inr nonce ex none(1)])
        then show ?thesis using none Inr later
          by (cases "validatePlaintext r p") (simp_all add: CallPut sql_ops_def sql_Put_def alive spec_write_def)
      next
        case (held x m q)
        then show ?thesis using Inr later
          by (cases "validatePlaintext r p") (simp_all add: CallPut sql_ops_def sql_Put_def alive spec_write_def)
      next
        case (wiped x m)
        obtain rows' where "writeTx sha256 ae dia d r p ex 1 StatusPresent False rows = Inr (fresh_metadata sha256 r p ex 1 StatusPresent, rows')"
            "sql_abs ae rows' = (sql_abs ae rows)(ref_Key r \<mapsto> Held p 1)" "sql_inv sha256 ae dia (Suc n) rows'"
          by (rule writeTx_update [OF assms(1,2) inv assms(4) one nonce ex wiped(1)])
        then show ?thesis using wiped Inr later not_present
          by (cases "validatePlaintext r p") (simp_all add: CallPut sql_ops_def sql_Put_def alive spec_write_def)
      qed
    qed (use later in \<open>simp add: CallPut sql_ops_def sql_Put_def alive\<close>)
  next
    case (CallRotate r p ex)
    have ex: "case ex of None \<Rightarrow> True | Some t \<Rightarrow> year_in_range t" and cl: "clean_ref r"
      using assms(5) by (simp_all add: clean_call_def CallRotate clean_ref_def)
    have rotate: ?thesis if hyps: "validateRef r = Inr u" "loadTx r rows = Inr (Some (x, m))" "sql_find (ref_Key r) rows = Some x"
        "md_Version m = sr_version x" "1 \<le> sr_version x" "sr_version x \<le> int n" "sql_abs ae rows (ref_Key r) = Some sl"
        "slot_version sl = sr_version x" for u x m sl
    proof -
      have bounds: "1 \<le> sr_version x + 1" "sr_version x + 1 \<le> int (Suc n)" using hyps(5,6) by simp_all
      have bump: "next_version (md_Version m) = sr_version x + 1" using hyps next_version_small assms(4) by simp
      obtain rows' where "writeTx sha256 ae dia d r p ex (sr_version x + 1) StatusPresent False rows
            = Inr (fresh_metadata sha256 r p ex (sr_version x + 1) StatusPresent, rows')"
          "sql_abs ae rows' = (sql_abs ae rows)(ref_Key r \<mapsto> Held p (sr_version x + 1))" "sql_inv sha256 ae dia (Suc n) rows'"
        by (rule writeTx_update [OF assms(1,2) inv assms(4) bounds nonce ex hyps(3)])
      then show ?thesis using hyps(1,2,7,8) later bump
        by (cases "validatePlaintext r p") (simp_all add: CallRotate sql_ops_def sql_Rotate_def alive spec_write_def)
    qed
    show ?thesis
    proof (cases "validateRef r")
      case (Inr u)
      from inv show ?thesis
      proof (cases rule: sql_row_cases [where r = r])
        case none
        obtain rows' where "writeTx sha256 ae dia d r p ex 1 StatusPresent True rows = Inr (fresh_metadata sha256 r p ex 1 StatusPresent, rows')"
            "sql_abs ae rows' = (sql_abs ae rows)(ref_Key r \<mapsto> Held p 1)" "sql_inv sha256 ae dia (Suc n) rows'"
          by (rule writeTx_insert [OF assms(1,2) inv assms(4) cl Inr nonce ex none(1)])
        then show ?thesis using none Inr later
          by (cases "validatePlaintext r p") (simp_all add: CallRotate sql_ops_def sql_Rotate_def alive spec_write_def)
      next
        case (held x m q)
        then show ?thesis by (intro rotate [OF Inr held(2,1,9,10,11,3)]) simp
      next
        case (wiped x m)
        then show ?thesis by (intro rotate [OF Inr wiped(2,1,7,8,9,3)]) simp
      qed
    qed (use later in \<open>simp add: CallRotate sql_ops_def sql_Rotate_def alive\<close>)
  next
    case (CallRevoke r)
    let ?f = "\<lambda>x. x\<lparr>sr_status := StatusRevoked, sr_fingerprint := [], sr_nonce := [], sr_ciphertext := [],
        sr_updated_at := vault_timeArg dia (vd_now d)\<rparr>"
    obtain rows' where rows': "update_secret dia (ref_Key r) ?f rows = Inr rows'" "sql_inv sha256 ae dia (Suc n) rows'"
        "sql_abs ae rows' = (\<lambda>k. if k = ref_Key r then map_option (sql_slot ae \<circ> ?f) (sql_find k rows) else sql_abs ae rows k)"
      by (rule update_secret_ok [OF inv, of ?f "ref_Key r"]) (simp_all add: revoke_row_ok)
    have revoke: ?thesis if "loadTx r rows = Inr (Some (x, m))" "sql_find (ref_Key r) rows = Some x" "md_Version m = sr_version x"
        "sql_abs ae rows (ref_Key r) = Some sl" "slot_version sl = sr_version x" for x m sl
    proof -
      have "sql_abs ae rows' = (sql_abs ae rows)(ref_Key r \<mapsto> Wiped (sr_version x))"
        using that(2) by (auto simp: rows'(3) sql_slot_def fun_eq_iff)
      then show ?thesis using that rows'(1,2) later
        by (cases "validateRef r") (simp_all add: CallRevoke sql_ops_def sql_Revoke_def alive card_from_def)
    qed
    from inv show ?thesis
    proof (cases rule: sql_row_cases [where r = r])
      case none
      then show ?thesis using later by (cases "validateRef r") (simp_all add: CallRevoke sql_ops_def sql_Revoke_def alive)
    next
      case (held x m q)
      then show ?thesis by (intro revoke [OF held(2,1,9,3)]) simp
    next
      case (wiped x m)
      then show ?thesis by (intro revoke [OF wiped(2,1,7,3)]) simp
    qed
  next
    case (CallMetadata r)
    from inv show ?thesis
      using later by (cases rule: sql_row_cases [where r = r]; cases "validateRef r")
        (simp_all add: CallMetadata sql_ops_def sql_Metadata_def alive)
  next
    case (CallReveal r)
    from inv show ?thesis
    proof (cases rule: sql_row_cases [where r = r])
      case none
      then show ?thesis using later by (cases "validateRef r") (simp_all add: CallReveal sql_ops_def sql_Reveal_def alive)
    next
      case (held x m p)
      let ?f = "\<lambda>x. x\<lparr>sr_last_verified_at := Some (vault_timeArg dia (vd_now d)), sr_updated_at := vault_timeArg dia (vd_now d)\<rparr>"
      obtain rows' where rows': "update_secret dia (ref_Key r) ?f rows = Inr rows'" "sql_inv sha256 ae dia (Suc n) rows'"
          "sql_abs ae rows' = (\<lambda>k. if k = ref_Key r then map_option (sql_slot ae \<circ> ?f) (sql_find k rows) else sql_abs ae rows k)"
        by (rule update_secret_ok [OF inv, of ?f "ref_Key r"]) (simp_all add: touch_row_ok now)
      have "sql_abs ae rows' = sql_abs ae rows"
      proof -
        have same: "sql_slot ae \<circ> ?f = sql_slot ae" by (simp add: sql_slot_def fun_eq_iff)
        show ?thesis unfolding rows'(3) same by (intro ext) (simp add: sql_abs_def)
      qed
      then show ?thesis using held rows'(1,2) later not_present
        by (cases "validateRef r") (simp_all add: CallReveal sql_ops_def sql_Reveal_def alive)
    next
      case (wiped x m)
      then show ?thesis using later by (cases "validateRef r") (simp_all add: CallReveal sql_ops_def sql_Reveal_def alive)
    qed
  qed
qed

end
