(* ===== verification/SecretMaterial.thy ===== *)
theory SecretMaterial
  imports SecretStore GoText
begin

text \<open>
  What goes into the vault and what opens it: the checks of imported material (\<^verbatim>\<open>material.go\<close>), the offline
  validation of a key and its certificate (\<^verbatim>\<open>offline_validate.go\<close>), the master key (\<^verbatim>\<open>masterkey.go\<close>), the
  choice of a backend (\<^verbatim>\<open>open.go\<close>) and its report (\<^verbatim>\<open>vault_status.go\<close>). The parsers of PEM, X.509 and PKCS#12 are
  parameters; \<open>pem_blocks\<close> lists the blocks that \<^verbatim>\<open>pem.Decode\<close> finds one after another.
\<close>

section \<open>Parameters\<close>

datatype public_key = RsaPublic int int | EcdsaPublic string int int | OtherPublic string

text \<open>A parsed private key with its size, and whether it can sign.\<close>

datatype private_key = RsaPrivate int int int | EcdsaPrivate string int int int | OtherPrivate string bool

record certificate =
  xc_Raw :: string
  xc_NotBefore :: gotime
  xc_NotAfter :: gotime
  xc_RawSubject :: string
  xc_RawIssuer :: string
  xc_KeyUsage :: int
  xc_PublicKey :: public_key

record x509_env =
  pem_blocks :: "string \<Rightarrow> (string \<times> string) list"
  ParseCertificate :: "string \<Rightarrow> certificate option"
  ParsePKCS8 :: "string \<Rightarrow> private_key option"
  ParsePKCS1 :: "string \<Rightarrow> private_key option"
  ParseEC :: "string \<Rightarrow> private_key option"
  AppendCerts :: "string \<Rightarrow> bool"
  VerifyChains :: "certificate \<Rightarrow> bool \<Rightarrow> string \<Rightarrow> gotime \<Rightarrow> nat option"
  pkcs12_Decode :: "string \<Rightarrow> string \<Rightarrow> (bool \<times> bool) option"
  pkcs12_DecodeChain :: "string \<Rightarrow> string \<Rightarrow> bool"

section \<open>Material\<close>

definition EncodingCredential :: string where "EncodingCredential = ''credential''"
definition EncodingPEM :: string where "EncodingPEM = ''pem''"
definition EncodingPKCS12 :: string where "EncodingPKCS12 = ''pkcs12''"
definition MaxPKCS12Bytes :: int where "MaxPKCS12Bytes = 262144"

record material_input =
  mi_Kind :: string
  mi_Encoding :: string
  mi_Bytes :: string
  mi_Password :: string

record prepared_material =
  pm_StorageBytes :: string
  pm_Encoding :: string
  pm_FormatNote :: string

function utf8_Valid :: "string \<Rightarrow> bool" where
  "utf8_Valid s = (if s = [] then True else case decode_rune s of (r, w) \<Rightarrow> \<not> (r = 65533 \<and> w = 1) \<and> utf8_Valid (drop w s))"
  by pat_completeness auto
termination
proof (relation "measure length", simp)
  fix s :: string and r w
  assume "s \<noteq> []" "(r, w) = decode_rune s"
  then show "(drop w s, s) \<in> measure length" using decode_rune_pos [of s] by (auto dest: arg_cong [where f = snd])
qed

declare utf8_Valid.simps [simp del]

definition pem_note_certificate :: string where "pem_note_certificate = ''pem_certificate''"
definition pem_note_private_key :: string where "pem_note_private_key = ''pem_private_key''"

text \<open>The loop over the blocks; the note so far is empty before the first.\<close>

fun pem_notes :: "x509_env \<Rightarrow> (string \<times> string) list \<Rightarrow> string \<Rightarrow> vault_error + string" where
  "pem_notes xe [] note = Inr note"
| "pem_notes xe ((ty, bytes) # bs) note =
     (if ty = ''CERTIFICATE'' then
        (case ParseCertificate xe bytes of
           None \<Rightarrow> Inl (VaultValidation ''certificate'')
         | Some _ \<Rightarrow> pem_notes xe bs (if note = [] then pem_note_certificate else note))
      else if ty = ''PRIVATE KEY'' then
        (case ParsePKCS8 xe bytes of None \<Rightarrow> Inl (VaultValidation ''PKCS#8'') | Some _ \<Rightarrow> pem_notes xe bs pem_note_private_key)
      else if ty = ''RSA PRIVATE KEY'' then
        (case ParsePKCS1 xe bytes of None \<Rightarrow> Inl (VaultValidation ''PKCS#1'') | Some _ \<Rightarrow> pem_notes xe bs pem_note_private_key)
      else if ty = ''EC PRIVATE KEY'' then
        (case ParseEC xe bytes of None \<Rightarrow> Inl (VaultValidation ''EC'') | Some _ \<Rightarrow> pem_notes xe bs pem_note_private_key)
      else Inl (VaultValidation ''PEM type''))"

definition validatePEM :: "x509_env \<Rightarrow> string \<Rightarrow> string \<Rightarrow> vault_error + string" where
  "validatePEM xe raw kind =
     bind_result (pem_notes xe (pem_blocks xe raw) []) (\<lambda>note.
       if pem_blocks xe raw = [] then Inl (VaultValidation ''no blocks'')
       else if kind = KindCertificate \<and> note \<noteq> pem_note_certificate then Inl (VaultValidation ''certificate'')
       else if kind \<in> {KindProducerKey, KindTaxpayerKey} \<and> note \<noteq> pem_note_private_key then Inl (VaultValidation ''key'')
       else Inr note)"

definition validatePKCS12 :: "x509_env \<Rightarrow> string \<Rightarrow> string \<Rightarrow> vault_error + unit" where
  "validatePKCS12 xe raw password =
     (if length raw < 4 \<or> hd raw \<noteq> CHR 0x30 then Inl (VaultValidation ''DER'')
      else if password = [] then Inl (VaultValidation ''password'')
      else case pkcs12_Decode xe raw password of
             None \<Rightarrow> ensure (pkcs12_DecodeChain xe raw password) (VaultValidation ''PKCS#12'')
           | Some (key, cert) \<Rightarrow> ensure (key \<or> cert) (VaultValidation ''empty''))"

definition Prepare :: "x509_env \<Rightarrow> material_input \<Rightarrow> vault_error + prepared_material" where
  "Prepare xe inp =
     (let kind = strings_TrimSpace (mi_Kind inp); enc = strings_TrimSpace (mi_Encoding inp); raw = mi_Bytes inp;
          keyed = kind \<in> {KindProducerKey, KindTaxpayerKey, KindCertificate};
          prepared = (\<lambda>note. \<lparr>pm_StorageBytes = raw, pm_Encoding = enc, pm_FormatNote = note\<rparr>)
      in if \<not> ValidKind kind then Inl (VaultValidation ''kind'')
         else if raw = [] then Inl (VaultValidation ''empty'')
         else if enc = EncodingCredential then
           if kind \<noteq> KindProducerCredential then Inl (VaultValidation ''encoding'')
           else if int (length raw) > MaxCredentialBytes then Inl (VaultValidation ''large'')
           else if \<not> utf8_Valid raw then Inl (VaultValidation ''UTF-8'')
           else Inr (prepared ''credential'')
         else if enc = EncodingPEM then
           if \<not> keyed then Inl (VaultValidation ''encoding'')
           else if int (length raw) > MaxPEMBytes then Inl (VaultValidation ''large'')
           else bind_result (validatePEM xe raw kind) (\<lambda>note. Inr (prepared note))
         else if enc = EncodingPKCS12 then
           if \<not> keyed then Inl (VaultValidation ''encoding'')
           else if int (length raw) > MaxPKCS12Bytes then Inl (VaultValidation ''large'')
           else bind_result (validatePKCS12 xe raw (mi_Password inp)) (\<lambda>_. Inr (prepared ''pkcs12''))
         else Inl (VaultValidation ''encoding''))"

definition LooksLikePEM :: "string \<Rightarrow> bool" where
  "LooksLikePEM b \<longleftrightarrow> strings_Contains b ''-----BEGIN ''"

definition ZeroBytes :: "string \<Rightarrow> string" where
  "ZeroBytes b = map (\<lambda>_. CHR 0x00) b"

section \<open>Offline validation\<close>

datatype offline_issue =
  IssuePair | IssueValidity | IssueIntermediates | IssueChain | IssuePurpose | IssueRsaSize | IssueEcdsa | IssueKeyType

record offline_report =
  or_OK :: bool
  or_PairMatch :: bool
  or_ChainOK :: bool
  or_WithinValidity :: bool
  or_PurposeOK :: bool
  or_PurposeNote :: string
  or_FingerprintSHA256 :: string
  or_NotBefore :: string
  or_NotAfter :: string
  or_KeyBits :: int
  or_AlgorithmNote :: string
  or_Issues :: "offline_issue list"

fun first_key :: "x509_env \<Rightarrow> (string \<times> string) list \<Rightarrow> vault_error + private_key" where
  "first_key xe [] = Inl (VaultValidation ''no key'')"
| "first_key xe ((ty, bytes) # bs) =
     (if ty = ''PRIVATE KEY'' then
        (case ParsePKCS8 xe bytes of
           None \<Rightarrow> Inl (VaultValidation ''PKCS#8'')
         | Some (OtherPrivate _ False) \<Rightarrow> Inl (VaultValidation ''signer'')
         | Some k \<Rightarrow> Inr k)
      else if ty = ''RSA PRIVATE KEY'' then
        (case ParsePKCS1 xe bytes of None \<Rightarrow> Inl (VaultValidation ''PKCS#1'') | Some k \<Rightarrow> Inr k)
      else if ty = ''EC PRIVATE KEY'' then
        (case ParseEC xe bytes of None \<Rightarrow> Inl (VaultValidation ''EC'') | Some k \<Rightarrow> Inr k)
      else first_key xe bs)"

definition parsePrivateKeyPEM :: "x509_env \<Rightarrow> string \<Rightarrow> vault_error + private_key" where
  "parsePrivateKeyPEM xe raw = first_key xe (pem_blocks xe raw)"

fun first_certificate :: "x509_env \<Rightarrow> (string \<times> string) list \<Rightarrow> vault_error + certificate" where
  "first_certificate xe [] = Inl (VaultValidation ''no certificate'')"
| "first_certificate xe ((ty, bytes) # bs) =
     (if ty \<noteq> ''CERTIFICATE'' then first_certificate xe bs
      else case ParseCertificate xe bytes of None \<Rightarrow> Inl (VaultValidation ''certificate'') | Some c \<Rightarrow> Inr c)"

definition parseCertificatePEM :: "x509_env \<Rightarrow> string \<Rightarrow> vault_error + certificate" where
  "parseCertificatePEM xe raw = first_certificate xe (pem_blocks xe raw)"

fun public_of :: "private_key \<Rightarrow> public_key" where
  "public_of (RsaPrivate n e _) = RsaPublic n e"
| "public_of (EcdsaPrivate c x y _) = EcdsaPublic c x y"
| "public_of (OtherPrivate k _) = OtherPublic k"

fun publicKeysEqual :: "public_key \<Rightarrow> public_key \<Rightarrow> bool" where
  "publicKeysEqual (RsaPublic n e) (RsaPublic n' e') = (n = n' \<and> e = e')"
| "publicKeysEqual (EcdsaPublic c x y) (EcdsaPublic c' x' y') = (c = c' \<and> x = x' \<and> y = y')"
| "publicKeysEqual _ _ = False"

text \<open>Bits 0 and 1 of the key usage are digital signature and content commitment.\<close>

definition purposeCheck :: "certificate \<Rightarrow> bool \<times> string" where
  "purposeCheck c =
     (if xc_KeyUsage c = 0 then (True, ''pending_external'')
      else if bit (xc_KeyUsage c) 0 \<or> bit (xc_KeyUsage c) 1 then (True, ''digital_signature'')
      else (False, ''pending_external''))"

definition format_rfc3339_utc :: "gotime \<Rightarrow> string" where
  "format_rfc3339_utc t = format_seconds (civil_of_time t) @ ''Z''"

definition issue_if :: "bool \<Rightarrow> offline_issue \<Rightarrow> offline_issue list" where
  "issue_if b i = (if b then [i] else [])"

text \<open>Bits, note, further issues, and whether the type of the key leaves the purpose as it is.\<close>

fun key_report :: "private_key \<Rightarrow> int \<times> string \<times> offline_issue list \<times> bool" where
  "key_report (RsaPrivate _ _ bits) = (bits, ''RSA'', issue_if (bits < 2048) IssueRsaSize, \<not> bits < 2048)"
| "key_report (EcdsaPrivate _ _ _ bits) = (bits, ''ECDSA/pending_external'', [IssueEcdsa], False)"
| "key_report (OtherPrivate _ _) = (0, ''pending_external'', [IssueKeyType], False)"

definition offline_checks ::
  "(string \<Rightarrow> string) \<Rightarrow> x509_env \<Rightarrow> private_key \<Rightarrow> certificate \<Rightarrow> string \<Rightarrow> gotime \<Rightarrow> offline_report" where
  "offline_checks sha256 xe priv cert intermediates now =
     (let pair = publicKeysEqual (public_of priv) (xc_PublicKey cert);
          within = \<not> now < xc_NotBefore cert \<and> \<not> xc_NotAfter cert < now;
          bad_pool = intermediates \<noteq> [] \<and> \<not> AppendCerts xe intermediates;
          self = xc_RawSubject cert = xc_RawIssuer cert;
          chains = VerifyChains xe cert self intermediates now;
          chain = (case chains of None \<Rightarrow> False | Some n \<Rightarrow> n > 0 \<or> self);
          (purpose, note) = purposeCheck cert; (bits, alg, issues, key_ok) = key_report priv;
          purpose' = (purpose \<and> key_ok)
      in \<lparr>or_OK = pair \<and> chain \<and> within \<and> purpose', or_PairMatch = pair, or_ChainOK = chain, or_WithinValidity = within,
          or_PurposeOK = purpose', or_PurposeNote = note, or_FingerprintSHA256 = hex_EncodeToString (sha256 (xc_Raw cert)),
          or_NotBefore = format_rfc3339_utc (xc_NotBefore cert), or_NotAfter = format_rfc3339_utc (xc_NotAfter cert),
          or_KeyBits = bits, or_AlgorithmNote = alg,
          or_Issues = issue_if (\<not> pair) IssuePair @ issue_if (\<not> within) IssueValidity @ issue_if bad_pool IssueIntermediates
            @ issue_if (\<not> chain) IssueChain @ issue_if (\<not> purpose) IssuePurpose @ issues\<rparr>)"

definition ValidateOfflineKeyCert ::
  "(string \<Rightarrow> string) \<Rightarrow> x509_env \<Rightarrow> gotime \<Rightarrow> string \<Rightarrow> string \<Rightarrow> string \<Rightarrow> gotime \<Rightarrow> vault_error + offline_report" where
  "ValidateOfflineKeyCert sha256 xe clock keyPEM certPEM intermediates now =
     (if keyPEM = [] \<or> certPEM = [] then Inl (VaultValidation ''PEM'')
      else bind_result (parsePrivateKeyPEM xe keyPEM) (\<lambda>priv.
           bind_result (parseCertificatePEM xe certPEM) (\<lambda>cert.
             Inr (offline_checks sha256 xe priv cert intermediates (if now = zero_time then clock else now)))))"

section \<open>The master key\<close>

definition MasterKeyBytes :: nat where "MasterKeyBytes = 32"

definition vault_hex_val :: "char \<Rightarrow> nat option" where
  "vault_hex_val c =
     (let n = byte_val c
      in if 48 \<le> n \<and> n \<le> 57 then Some (n - 48)
         else if 97 \<le> n \<and> n \<le> 102 then Some (n - 87)
         else if 65 \<le> n \<and> n \<le> 70 then Some (n - 55) else None)"

definition isHex :: "string \<Rightarrow> bool" where
  "isHex s \<longleftrightarrow> list_all (\<lambda>c. vault_hex_val c \<noteq> None) s"

fun hex_DecodeString :: "string \<Rightarrow> string option" where
  "hex_DecodeString [] = Some []"
| "hex_DecodeString [_] = None"
| "hex_DecodeString (a # b # r) =
     (case (vault_hex_val a, vault_hex_val b, hex_DecodeString r) of
        (Some x, Some y, Some t) \<Rightarrow> Some (char_of (16 * x + y) # t) | _ \<Rightarrow> None)"

definition base64_val :: "char \<Rightarrow> nat option" where
  "base64_val c =
     (let n = byte_val c
      in if 65 \<le> n \<and> n \<le> 90 then Some (n - 65)
         else if 97 \<le> n \<and> n \<le> 122 then Some (n - 71)
         else if 48 \<le> n \<and> n \<le> 57 then Some (n + 4)
         else if c = CHR ''+'' then Some 62 else if c = CHR ''/'' then Some 63 else None)"

text \<open>The bytes of a group of two, three or four digits.\<close>

definition base64_group :: "nat list \<Rightarrow> string" where
  "base64_group ds =
     (let v = foldl (\<lambda>a d. a * 64 + d) 0 (ds @ replicate (4 - length ds) 0)
      in take (length ds - 1) [char_of (v div 65536), char_of (v div 256 mod 256), char_of (v mod 256)])"

text \<open>
  \<^verbatim>\<open>base64\<close> without line breaks, which are dropped first: the digits of the current group so far. With
  padding a short group is completed by padding at the very end, without it by the end.
\<close>

fun base64_groups :: "bool \<Rightarrow> nat list \<Rightarrow> string \<Rightarrow> string option" where
  "base64_groups padded ds [] =
     (if ds = [] then Some [] else if length ds = 1 \<or> padded then None else Some (base64_group ds))"
| "base64_groups padded ds (c # s) =
     (case base64_val c of
        Some d \<Rightarrow>
          if length ds = 3 then map_option (\<lambda>t. base64_group (ds @ [d]) @ t) (base64_groups padded [] s)
          else base64_groups padded (ds @ [d]) s
      | None \<Rightarrow>
          if padded \<and> c = CHR ''='' \<and> (length ds = 3 \<and> s = [] \<or> length ds = 2 \<and> s = ''='') then Some (base64_group ds) else None)"

definition base64_DecodeString :: "bool \<Rightarrow> string \<Rightarrow> string option" where
  "base64_DecodeString padded s = base64_groups padded [] (filter (\<lambda>c. c \<noteq> CHR 0x0A \<and> c \<noteq> CHR 0x0D) s)"

definition ParseMasterKey :: "string \<Rightarrow> vault_error + string" where
  "ParseMasterKey raw =
     (let s = strings_TrimSpace raw
      in if s = [] then Inl (VaultValidation ''absent'')
         else
           let key = (if length s = MasterKeyBytes * 2 \<and> isHex s then hex_DecodeString s
                      else case base64_DecodeString True s of Some k \<Rightarrow> Some k | None \<Rightarrow> base64_DecodeString False s)
           in case key of
                None \<Rightarrow> Inl (VaultValidation ''encoding'')
              | Some k \<Rightarrow> if length k \<noteq> MasterKeyBytes then Inl (VaultValidation ''length'') else Inr k)"

section \<open>Opening\<close>

text \<open>The vault that is opened; the durable one with its key and dialect.\<close>

datatype opened_vault = OpenedMemory | OpenedSQL dialect string

definition NewSQL :: "bool \<Rightarrow> dialect \<Rightarrow> string \<Rightarrow> vault_error + opened_vault" where
  "NewSQL db_nil dia key =
     (if db_nil then Inl (VaultValidation ''db'')
      else if \<not> (dia = DialectPostgres \<or> dia = DialectSQLite) then Inl (VaultValidation ''dialect'')
      else if length key \<noteq> MasterKeyBytes then Inl (VaultValidation ''key'')
      else Inr (OpenedSQL dia key))"

definition OpenFromEnv :: "string \<Rightarrow> string \<Rightarrow> bool \<Rightarrow> dialect \<Rightarrow> string \<Rightarrow> vault_error + opened_vault" where
  "OpenFromEnv backendRaw masterKeyRaw db_nil dia fiscalEnv =
     (let backend = go_lower (strings_TrimSpace backendRaw); keyRaw = strings_TrimSpace masterKeyRaw;
          env = go_lower (strings_TrimSpace fiscalEnv); wantMemory = backend = ''memory'';
          wantSQL = backend \<in> {''sql'', ''durable'', ''encrypted''}
      in if backend \<noteq> [] \<and> \<not> wantMemory \<and> \<not> wantSQL then Inl (VaultValidation ''backend'')
         else if wantMemory then
           if env \<noteq> [] \<and> env \<noteq> ''development'' then Inl (VaultValidation ''memory'') else Inr OpenedMemory
         else if wantSQL \<or> keyRaw \<noteq> [] then
           if db_nil then Inl (VaultValidation ''db'')
           else bind_result (ParseMasterKey keyRaw) (\<lambda>key. NewSQL db_nil dia key)
         else if env = ''development'' \<or> env = [] then Inr OpenedMemory
         else Inl (VaultValidation ''master key''))"

datatype vault_note =
  NoteMetadataOnly | NoteIsolation | NoteBackendInvalid | NoteKeyInvalid | NoteKeyAbsent | NoteMemoryForbidden
| NoteKeyRequired | NoteNotDurable | NoteReady

record vault_status =
  vs_FiscalEnv :: string
  vs_BackendDeclared :: string
  vs_MasterKeyConfigured :: bool
  vs_MasterKeyParseOK :: bool
  vs_MasterKeyFingerprint :: string
  vs_StorageModeRuntime :: string
  vs_DurableRequired :: bool
  vs_ReadyForHomologation :: bool
  vs_CipherAlgorithm :: string
  vs_Notes :: "vault_note list"

definition declared_backend :: "string \<Rightarrow> string" where
  "declared_backend backend =
     (if backend = [] then ''auto'' else if backend = ''memory'' then ''memory''
      else if backend \<in> {''sql'', ''durable'', ''encrypted''} then ''sql'' else ''invalid'')"

definition note_if :: "bool \<Rightarrow> vault_note \<Rightarrow> vault_note list" where
  "note_if b n = (if b then [n] else [])"

definition BuildVaultStatus :: "(string \<Rightarrow> string) \<Rightarrow> string \<Rightarrow> string \<Rightarrow> string \<Rightarrow> string \<Rightarrow> vault_status" where
  "BuildVaultStatus sha256 fiscalEnv backendRaw masterKeyRaw runtimeMode =
     (let env = go_lower (strings_TrimSpace fiscalEnv); declared = declared_backend (go_lower (strings_TrimSpace backendRaw));
          keyRaw = strings_TrimSpace masterKeyRaw; mode = strings_TrimSpace runtimeMode;
          required = env = ''homologation'' \<or> env = ''production'';
          configured = keyRaw \<noteq> [];
          key = (if configured then ParseMasterKey keyRaw else Inl (VaultValidation ''absent''));
          parse_ok = (case key of Inl _ \<Rightarrow> False | Inr _ \<Rightarrow> True);
          usable = declared \<noteq> ''invalid'' \<and> declared \<noteq> ''memory'' \<and> parse_ok;
          ready = usable \<and> (mode = [] \<or> mode = StorageModeDurableEncrypted) \<and> required
      in \<lparr>vs_FiscalEnv = env, vs_BackendDeclared = declared, vs_MasterKeyConfigured = configured, vs_MasterKeyParseOK = parse_ok,
          vs_MasterKeyFingerprint = (case key of Inl _ \<Rightarrow> [] | Inr k \<Rightarrow> hex_EncodeToString (sha256 k)),
          vs_StorageModeRuntime = mode, vs_DurableRequired = required, vs_ReadyForHomologation = ready,
          vs_CipherAlgorithm = CipherAlgAES256GCM,
          vs_Notes = [NoteMetadataOnly, NoteIsolation] @ note_if (declared = ''invalid'') NoteBackendInvalid
            @ (if configured then note_if (\<not> parse_ok) NoteKeyInvalid else [NoteKeyAbsent])
            @ note_if (declared = ''memory'' \<and> required) NoteMemoryForbidden @ note_if (required \<and> \<not> parse_ok) NoteKeyRequired
            @ note_if (\<not> required \<and> usable) NoteNotDurable @ note_if ready NoteReady\<rparr>)"

end
