(* ===== verification/SecadmGate.thy ===== *)
theory SecadmGate
  imports SecretVault SecretMaterial
begin

text \<open>
  The gate before the vault that lets only the configured owner through (\<^verbatim>\<open>internal/secadm/gate.go\<close>). It holds any
  implementation of the interface.
\<close>

datatype secadm_error = SecadmUnauthorized | SecadmValidation string | SecadmStore vault_error

text \<open>\<^verbatim>\<open>NewGate\<close> with the owner it is configured with; the store is an argument of the calls.\<close>

definition NewGate :: "string \<Rightarrow> secadm_error + string" where
  "NewGate ownerSubjectID =
     (let owner = strings_TrimSpace ownerSubjectID
      in if owner = [] then Inl (SecadmValidation ''ownerSubjectID'') else Inr owner)"

definition authorize :: "string \<Rightarrow> string \<Rightarrow> secadm_error + unit" where
  "authorize ownerID actor =
     (if strings_TrimSpace actor = [] then Inl SecadmUnauthorized else ensure (actor = ownerID) SecadmUnauthorized)"

definition gated_store :: "secadm_error + unit \<Rightarrow> vault_error + 'a \<Rightarrow> secadm_error + 'a" where
  "gated_store auth res =
     bind_result auth (\<lambda>_. case res of Inl e \<Rightarrow> Inl (SecadmStore e) | Inr x \<Rightarrow> Inr x)"

definition gate_Put ::
  "string \<Rightarrow> 's vault_ops \<Rightarrow> draw \<Rightarrow> string \<Rightarrow> ref \<Rightarrow> string \<Rightarrow> gotime option \<Rightarrow> 's \<Rightarrow> secadm_error + metadata \<times> 's" where
  "gate_Put owner ops d actor r p ex s = gated_store (authorize owner actor) (op_Put ops d r p ex s)"

definition gate_Rotate ::
  "string \<Rightarrow> 's vault_ops \<Rightarrow> draw \<Rightarrow> string \<Rightarrow> ref \<Rightarrow> string \<Rightarrow> gotime option \<Rightarrow> 's \<Rightarrow> secadm_error + metadata \<times> 's" where
  "gate_Rotate owner ops d actor r p ex s = gated_store (authorize owner actor) (op_Rotate ops d r p ex s)"

definition gate_Revoke :: "string \<Rightarrow> 's vault_ops \<Rightarrow> draw \<Rightarrow> string \<Rightarrow> ref \<Rightarrow> 's \<Rightarrow> secadm_error + metadata \<times> 's" where
  "gate_Revoke owner ops d actor r s = gated_store (authorize owner actor) (op_Revoke ops d r s)"

definition gate_Metadata :: "string \<Rightarrow> 's vault_ops \<Rightarrow> draw \<Rightarrow> string \<Rightarrow> ref \<Rightarrow> 's \<Rightarrow> secadm_error + metadata" where
  "gate_Metadata owner ops d actor r s = gated_store (authorize owner actor) (op_Metadata ops d r s)"


text \<open>Key and certificate are revealed one after the other; what was revealed first is checked even if the second fails.\<close>

definition ValidateOfflineRefs ::
  "(string \<Rightarrow> string) \<Rightarrow> x509_env \<Rightarrow> string \<Rightarrow> 's vault_ops \<Rightarrow> draw \<Rightarrow> draw \<Rightarrow> string \<Rightarrow> ref \<Rightarrow> ref \<Rightarrow> string \<Rightarrow> gotime \<Rightarrow> 's
   \<Rightarrow> (secadm_error + offline_report) \<times> 's" where
  "ValidateOfflineRefs sha256 xe owner ops d d' actor keyRef certRef intermediates now s =
     (case authorize owner actor of
        Inl e \<Rightarrow> (Inl e, s)
      | Inr _ \<Rightarrow>
          (case op_Reveal ops d keyRef s of
             Inl e \<Rightarrow> (Inl (SecadmStore e), s)
           | Inr (key, s1) \<Rightarrow>
               (case op_Reveal ops d' certRef s1 of
                  Inl e \<Rightarrow> (Inl (SecadmStore e), s1)
                | Inr (cert, s2) \<Rightarrow>
                    (case ValidateOfflineKeyCert sha256 xe (vd_now d') key cert intermediates now of
                       Inl e \<Rightarrow> Inl (SecadmStore e) | Inr rep \<Rightarrow> Inr rep, s2))))"

section \<open>Sessions\<close>

datatype gate_order =
  GatePut ref string "gotime option"
| GateRotate ref string "gotime option"
| GateRevoke ref
| GateMetadata ref
| GateValidate draw ref ref string gotime

datatype gate_answer = GateRefused secadm_error | GateMeta metadata | GateReport offline_report

definition gate_result :: "('a \<Rightarrow> gate_answer) \<Rightarrow> secadm_error + 'a \<times> 's \<Rightarrow> 's \<Rightarrow> gate_answer \<times> 's" where
  "gate_result f res s = (case res of Inl e \<Rightarrow> (GateRefused e, s) | Inr (x, s') \<Rightarrow> (f x, s'))"

fun gate_request ::
  "(string \<Rightarrow> string) \<Rightarrow> x509_env \<Rightarrow> string \<Rightarrow> 's vault_ops \<Rightarrow> draw \<Rightarrow> string \<Rightarrow> gate_order \<Rightarrow> 's \<Rightarrow> gate_answer \<times> 's" where
  "gate_request sha256 xe owner ops d actor (GatePut r p ex) s = gate_result GateMeta (gate_Put owner ops d actor r p ex s) s"
| "gate_request sha256 xe owner ops d actor (GateRotate r p ex) s = gate_result GateMeta (gate_Rotate owner ops d actor r p ex s) s"
| "gate_request sha256 xe owner ops d actor (GateRevoke r) s = gate_result GateMeta (gate_Revoke owner ops d actor r s) s"
| "gate_request sha256 xe owner ops d actor (GateMetadata r) s =
     (case gate_Metadata owner ops d actor r s of Inl e \<Rightarrow> GateRefused e | Inr m \<Rightarrow> GateMeta m, s)"
| "gate_request sha256 xe owner ops d actor (GateValidate d' k c i now) s =
     (case ValidateOfflineRefs sha256 xe owner ops d d' actor k c i now s of
        (Inl e, s') \<Rightarrow> (GateRefused e, s') | (Inr rep, s') \<Rightarrow> (GateReport rep, s'))"

end
