(* ===== verification/VaultContracts.thy ===== *)
theory VaultContracts
  imports SecretSqlProperties SecadmGate
begin

text \<open>
  Both implementations satisfy the contract, so that what is proved of the abstract vault holds of them; and the gate
  before them lets nobody but the owner change or learn anything.
\<close>

section \<open>Interpretations\<close>


interpretation sql: vault sha256 "sql_ops sha256 ae dia" "\<lambda>n rows. (aead_ok ae \<and> digest_ok sha256) \<and> sql_inv sha256 ae dia n rows"
  "sql_abs ae" for sha256 ae dia
proof unfold_locales
  fix n :: nat and rows d c
  assume "(aead_ok ae \<and> digest_ok sha256) \<and> sql_inv sha256 ae dia n rows" "n < max_version" "clean_call (d, c)"
  then show "map_prod id (sql_abs ae) (call_vault (sql_ops sha256 ae dia) d c rows) = spec_call sha256 c (sql_abs ae rows)"
    "(aead_ok ae \<and> digest_ok sha256) \<and> sql_inv sha256 ae dia (Suc n) (snd (call_vault (sql_ops sha256 ae dia) d c rows))"
    using sql_call_refines [of ae sha256 dia n rows d c] by simp_all
qed

lemma empty_vaults: "mem_inv sha256 ae n []" "sql_inv sha256 ae dia n []" "mem_abs ae [] = Map.empty" "sql_abs ae [] = Map.empty"
  by (simp_all add: mem_inv_def sql_inv_def mem_abs_def mem_find_def sql_abs_def sql_find_def fun_eq_iff)

text \<open>A run of the durable store from empty, and one more call.\<close>

lemma sql_run:
  assumes "aead_ok ae" "digest_ok sha256" "list_all clean_call cs" "length cs < max_version" "clean_call (d, c)"
  shows "fst (run_calls (sql_ops sha256 ae dia) cs []) = fst (run_spec sha256 cs Map.empty)"
    and "fst (call_vault (sql_ops sha256 ae dia) d c (snd (run_calls (sql_ops sha256 ae dia) cs [])))
      = fst (spec_call sha256 c (snd (run_spec sha256 cs Map.empty)))"
proof -
  let ?s = "snd (run_calls (sql_ops sha256 ae dia) cs [])"
  have run: "fst (run_calls (sql_ops sha256 ae dia) cs []) = fst (run_spec sha256 cs Map.empty)"
      "sql_abs ae ?s = snd (run_spec sha256 cs Map.empty)" "sql_inv sha256 ae dia (length cs) ?s"
    using sql.run_answers [of ae sha256 dia 0 "[]" cs] sql.run_refines [of ae sha256 dia 0 "[]" cs] assms
    by (simp_all add: empty_vaults)
  then show "fst (run_calls (sql_ops sha256 ae dia) cs []) = fst (run_spec sha256 cs Map.empty)" by simp
  show "fst (call_vault (sql_ops sha256 ae dia) d c ?s) = fst (spec_call sha256 c (snd (run_spec sha256 cs Map.empty)))"
    using sql.refines [of ae sha256 dia "length cs" ?s d c] run(2,3) assms by (metis fst_map_prod id_apply)
qed

section \<open>The abstract vault\<close>

lemma run_end [simp]:
  "snd (vault_run step (c # cs) s) = snd (vault_run step cs (snd (step c s)))"
  "snd (vault_run step (cs @ cs') s) = snd (vault_run step cs' (snd (vault_run step cs s)))"
proof -
  show cons: "snd (vault_run step (c # cs) s) = snd (vault_run step cs (snd (step c s)))" for c cs s
    by (simp split: prod.splits)
  show "snd (vault_run step (cs @ cs') s) = snd (vault_run step cs' (snd (vault_run step cs s)))"
    by (induction cs arbitrary: s) (simp_all add: cons del: vault_run.simps(2))
qed

declare vault_run.simps(2) [simp del]

text \<open>A call that may change the slot of a key.\<close>

fun writes_key :: "string \<Rightarrow> vault_call \<Rightarrow> bool" where
  "writes_key k (CallPut r _ _) = (ref_Key r = k)"
| "writes_key k (CallRotate r _ _) = (ref_Key r = k)"
| "writes_key k (CallRevoke r) = (ref_Key r = k)"
| "writes_key k _ = False"

definition fills_key :: "string \<Rightarrow> vault_call \<Rightarrow> bool" where
  "fills_key k c \<longleftrightarrow> (case c of CallPut r _ _ \<Rightarrow> ref_Key r = k | CallRotate r _ _ \<Rightarrow> ref_Key r = k | _ \<Rightarrow> False)"

lemma spec_frame: "\<not> writes_key k c \<Longrightarrow> snd (spec_call sha256 c S) k = S k"
  by (cases c) (auto simp: checked_def spec_write_def split: sum.splits option.splits slot.splits)

lemma spec_run_frame: "list_all (\<lambda>(d, c). \<not> writes_key k c) cs \<Longrightarrow> snd (run_spec sha256 cs S) k = S k"
  by (induction cs arbitrary: S) (auto simp: spec_frame)

lemma spec_revoked:
  "\<not> fills_key k c \<Longrightarrow> S k = Some (Wiped v) \<Longrightarrow> snd (spec_call sha256 c S) k = Some (Wiped v)"
  by (cases c) (auto simp: fills_key_def checked_def spec_write_def split: sum.splits option.splits slot.splits)

lemma spec_run_revoked:
  "list_all (\<lambda>(d, c). \<not> fills_key k c) cs \<Longrightarrow> S k = Some (Wiped v) \<Longrightarrow> snd (run_spec sha256 cs S) k = Some (Wiped v)"
  by (induction cs arbitrary: S) (auto simp: spec_revoked)

lemma spec_invalid: "validateRef (call_ref c) = Inl e \<Longrightarrow> spec_call sha256 c S = (AnsError e, S)"
  by (cases c) simp_all

text \<open>Only the slot of its own key decides what a call answers.\<close>

lemma spec_local: "S (ref_Key (call_ref c)) = S' (ref_Key (call_ref c)) \<Longrightarrow> fst (spec_call sha256 c S) = fst (spec_call sha256 c S')"
  by (cases c) (auto simp: checked_def spec_write_def split: sum.splits option.splits slot.splits)

lemma other_environment:
  assumes "strings_TrimSpace (rf_Environment (call_ref c)) \<noteq> strings_TrimSpace (rf_Environment r)" "validateRef r = Inr u"
  shows "snd (spec_call sha256 c S) (ref_Key r) = S (ref_Key r)"
proof (cases "validateRef (call_ref c)")
  case (Inl e)
  then show ?thesis by (simp add: spec_invalid)
next
  case (Inr u')
  then have "ref_Key (call_ref c) \<noteq> ref_Key r" using same_key(2) [OF _ Inr assms(2)] assms(1) by blast
  then have "\<not> writes_key (ref_Key r) c" by (cases c) simp_all
  then show ?thesis by (rule spec_frame)
qed

lemma other_environment_run:
  assumes "validateRef r = Inr u"
    "list_all (\<lambda>(d, c). strings_TrimSpace (rf_Environment (call_ref c)) \<noteq> strings_TrimSpace (rf_Environment r)) cs"
  shows "snd (run_spec sha256 cs S) (ref_Key r) = S (ref_Key r)"
  using assms(2)
proof (induction cs arbitrary: S)
  case (Cons dc cs)
  obtain d c where dc: "dc = (d, c)" by (cases dc)
  show ?case using Cons other_environment [OF _ assms(1), of c sha256 S] by (simp add: dc)
qed simp

section \<open>What callers may rely on\<close>


text \<open>
  C33: the durable store reads back what it was last given. If a write of a plaintext is answered with metadata,
  then as long as no later call writes that key, every reveal of the reference returns exactly that plaintext.
\<close>

theorem secret_reads_back:
  assumes env: "aead_ok ae" "digest_ok sha256"
    and wr: "c = CallPut r p ex \<or> c = CallRotate r p ex"
    and clean: "list_all clean_call (cs @ (d, c) # cs')" "clean_call (d', CallReveal r)" "length cs + length cs' + 1 < max_version"
    and accepted: "fst (call_vault (sql_ops sha256 ae dia) d c (snd (run_calls (sql_ops sha256 ae dia) cs []))) = AnsCard shown"
    and kept: "list_all (\<lambda>(d, c). \<not> writes_key (ref_Key r) c) cs'"
  shows "fst (call_vault (sql_ops sha256 ae dia) d' (CallReveal r) (snd (run_calls (sql_ops sha256 ae dia) (cs @ (d, c) # cs') [])))
      = AnsPlain p"
proof -
  let ?S = "snd (run_spec sha256 cs Map.empty)"
  have acc: "fst (spec_call sha256 c ?S) = AnsCard shown"
    using sql_run(2) [OF env, of cs d c dia] clean accepted by simp
  obtain u where ref: "validateRef r = Inr u"
    using wr acc by (cases "validateRef r") (auto simp: spec_invalid)
  have "\<exists>v. snd (spec_call sha256 c ?S) (ref_Key r) = Some (Held p v)"
    using wr acc by (auto simp: checked_def spec_write_def split: sum.splits option.splits slot.splits)
  then obtain v where "snd (run_spec sha256 (cs @ (d, c) # cs') Map.empty) (ref_Key r) = Some (Held p v)"
    using spec_run_frame [OF kept] by auto
  then show ?thesis
    using sql_run(2) [OF env, of "cs @ (d, c) # cs'" d' "CallReveal r" dia] clean ref by simp
qed

text \<open>
  C34: a revoked secret is gone. Once a revocation has been answered with metadata, a reveal of the reference is
  refused as revoked whatever happens to other keys, until its key is written again.
\<close>

theorem revoked_secret_unreadable:
  assumes env: "aead_ok ae" "digest_ok sha256"
    and clean: "list_all clean_call (cs @ (d, CallRevoke r) # cs')" "clean_call (d', CallReveal r)" "length cs + length cs' + 1 < max_version"
    and accepted: "fst (call_vault (sql_ops sha256 ae dia) d (CallRevoke r) (snd (run_calls (sql_ops sha256 ae dia) cs []))) = AnsCard shown"
    and kept: "list_all (\<lambda>(d, c). \<not> fills_key (ref_Key r) c) cs'"
  shows "fst (call_vault (sql_ops sha256 ae dia) d' (CallReveal r) (snd (run_calls (sql_ops sha256 ae dia) (cs @ (d, CallRevoke r) # cs') [])))
      = AnsError VaultRevoked"
proof -
  let ?S = "snd (run_spec sha256 cs Map.empty)"
  have acc: "fst (spec_call sha256 (CallRevoke r) ?S) = AnsCard shown"
    using sql_run(2) [OF env, of cs d "CallRevoke r" dia] clean accepted by simp
  obtain u where ref: "validateRef r = Inr u"
    using acc by (cases "validateRef r") simp_all
  have "\<exists>v. snd (spec_call sha256 (CallRevoke r) ?S) (ref_Key r) = Some (Wiped v)"
    using acc ref by (auto split: option.splits)
  then obtain v where "snd (run_spec sha256 (cs @ (d, CallRevoke r) # cs') Map.empty) (ref_Key r) = Some (Wiped v)"
    using spec_run_revoked [OF kept] by auto
  then show ?thesis
    using sql_run(2) [OF env, of "cs @ (d, CallRevoke r) # cs'" d' "CallReveal r" dia] clean ref by simp
qed

text \<open>
  C35: homologation and production are isolated. Calls on references of another environment never change what any call
  on a valid reference answers.
\<close>

theorem environments_isolated:
  assumes env: "aead_ok ae" "digest_ok sha256"
    and clean: "list_all clean_call (cs @ cs')" "clean_call (d, c)" "length cs + length cs' < max_version"
    and ref: "validateRef (call_ref c) = Inr u"
    and other: "list_all (\<lambda>(d', c'). strings_TrimSpace (rf_Environment (call_ref c')) \<noteq> strings_TrimSpace (rf_Environment (call_ref c))) cs'"
  shows "fst (call_vault (sql_ops sha256 ae dia) d c (snd (run_calls (sql_ops sha256 ae dia) (cs @ cs') [])))
      = fst (call_vault (sql_ops sha256 ae dia) d c (snd (run_calls (sql_ops sha256 ae dia) cs [])))"
proof -
  have "fst (call_vault (sql_ops sha256 ae dia) d c (snd (run_calls (sql_ops sha256 ae dia) (cs @ cs') [])))
      = fst (spec_call sha256 c (snd (run_spec sha256 (cs @ cs') Map.empty)))"
    by (rule sql_run(2) [OF env]) (use clean in simp_all)
  also have "\<dots> = fst (spec_call sha256 c (snd (run_spec sha256 cs Map.empty)))"
    by (rule spec_local) (simp add: other_environment_run [OF ref other])
  also have "\<dots> = fst (call_vault (sql_ops sha256 ae dia) d c (snd (run_calls (sql_ops sha256 ae dia) cs [])))"
    by (rule sql_run(2) [OF env, symmetric]) (use clean in simp_all)
  finally show ?thesis .
qed

text \<open>
  C36: references with a slash in the subject or the name share a slot. What is stored under subject \<open>a/b\<close> and name
  \<open>c\<close> is revealed under subject \<open>a\<close> and name \<open>b/c\<close>.
\<close>

theorem slash_aliases:
  assumes env: "aead_ok ae" "digest_ok sha256"
    and r: "r = \<lparr>rf_Kind = KindProducerKey, rf_Environment = vault_EnvProduction, rf_SubjectID = ''a/b'', rf_Name = ''c''\<rparr>"
    and r': "r' = \<lparr>rf_Kind = KindProducerKey, rf_Environment = vault_EnvProduction, rf_SubjectID = ''a'', rf_Name = ''b/c''\<rparr>"
    and clean: "clean_call (d, CallPut r p None)" "clean_call (d', CallReveal r')" and p: "p \<noteq> []" "int (length p) \<le> MaxPEMBytes"
  shows "fst (run_calls (sql_ops sha256 ae dia) [(d, CallPut r p None), (d', CallReveal r')] [])
      = [AnsCard (StatusPresent, hex_EncodeToString (sha256 p), 1), AnsPlain p]"
proof -
  have key: "ref_Key r = ref_Key r'" and ref: "validateRef r = Inr ()" "validateRef r' = Inr ()"
    by (simp_all only: r r') code_simp+
  have "MaxBytesForKind (rf_Kind r) = MaxPEMBytes" by (simp only: r) code_simp
  then have "validatePlaintext r p = Inr ()" using p by (simp add: validatePlaintext_def ensure_def)
  then have "fst (run_spec sha256 [(d, CallPut r p None), (d', CallReveal r')] Map.empty)
      = [AnsCard (StatusPresent, hex_EncodeToString (sha256 p), 1), AnsPlain p]"
    using key ref by (simp add: spec_write_def vault_run.simps)
  moreover have "length [(d, CallPut r p None), (d', CallReveal r')] < max_version" by (simp add: max_version_def)
  ultimately show ?thesis using sql_run(1) [OF env, of "[(d, CallPut r p None), (d', CallReveal r')]" d' "CallReveal r'" dia] clean by simp
qed

section \<open>The gate\<close>

lemma authorize_Inr: "authorize owner actor = Inr u \<longleftrightarrow> actor = owner \<and> strings_TrimSpace owner \<noteq> []"
  by (auto simp: authorize_def ensure_def)

lemma authorize_Inl: "authorize owner actor = Inl e \<Longrightarrow> e = SecadmUnauthorized"
  by (auto simp: authorize_def ensure_def split: if_splits)

lemma refused_request:
  assumes "actor \<noteq> owner"
  shows "gate_request sha256 xe owner ops d actor g s = (GateRefused SecadmUnauthorized, s)"
proof -
  have "authorize owner actor = Inl SecadmUnauthorized" using assms by (auto simp: authorize_def ensure_def)
  then show ?thesis
    by (cases g) (simp_all add: gate_Put_def gate_Rotate_def gate_Revoke_def gate_Metadata_def ValidateOfflineRefs_def
        gated_store_def gate_result_def)
qed

text \<open>
  C37: only the owner gets anything done. Whoever calls the gate and in whatever order, the store ends as if only the
  requests of the configured owner had been made, and everybody else is answered that he is not authorized.
\<close>

theorem gate_only_owner:
  assumes "NewGate configured = Inr owner"
  shows "fold (\<lambda>(d, actor, g) s. snd (gate_request sha256 xe owner ops d actor g s)) reqs s
      = fold (\<lambda>(d, actor, g) s. snd (gate_request sha256 xe owner ops d owner g s)) (filter (\<lambda>(d, actor, g). actor = owner) reqs) s
    \<and> (\<forall>d actor g s'. actor \<noteq> owner \<longrightarrow> fst (gate_request sha256 xe owner ops d actor g s') = GateRefused SecadmUnauthorized)
    \<and> (\<forall>d r. authorize owner owner = Inr () \<and> gate_Metadata owner ops d owner r s =
          (case op_Metadata ops d r s of Inl e \<Rightarrow> Inl (SecadmStore e) | Inr m \<Rightarrow> Inr m))"
proof (intro conjI allI impI)
  show "fold (\<lambda>(d, actor, g) s. snd (gate_request sha256 xe owner ops d actor g s)) reqs s
      = fold (\<lambda>(d, actor, g) s. snd (gate_request sha256 xe owner ops d owner g s)) (filter (\<lambda>(d, actor, g). actor = owner) reqs) s"
    by (induction reqs arbitrary: s) (auto simp: refused_request)
  have "authorize owner owner = Inr ()"
    using assms by (auto simp: authorize_Inr NewGate_def Let_def split: if_splits)
  then show "authorize owner owner = Inr ()"
    "gate_Metadata owner ops d owner r s = (case op_Metadata ops d r s of Inl e \<Rightarrow> Inl (SecadmStore e) | Inr m \<Rightarrow> Inr m)" for d r
    by (simp_all add: gate_Metadata_def gated_store_def)
qed (simp add: refused_request)

end
