(* ===== verification/MaterialProperties.thy ===== *)
theory MaterialProperties
  imports SecretMaterial
begin

text \<open>When a vault opens and what its status promises, which prepared material it takes, and what a good report means.\<close>

section \<open>The master key\<close>

lemma hex_val_hex_digit:
  assumes "n < 16"
  shows "vault_hex_val (if n < 10 then digit_char n else char_of (87 + n)) = Some n"
  using assms by (auto simp: vault_hex_val_def Let_def)

lemma hex_byte_vals: "\<exists>a b. hex_byte c = [a, b] \<and> vault_hex_val a = Some (byte_val c div 16) \<and> vault_hex_val b = Some (byte_val c mod 16)"
proof -
  have "byte_val c div 16 < 16" using nat_of_char_less_256 [of c] by (simp add: div_less_iff_less_mult)
  then show ?thesis
    using hex_val_hex_digit [of "byte_val c div 16"] hex_val_hex_digit [of "byte_val c mod 16"] by (simp add: hex_byte_def Let_def)
qed

lemma hex_cons: "hex_EncodeToString (c # s) = hex_byte c @ hex_EncodeToString s"
  by (simp add: hex_EncodeToString_def)

lemma hex_roundtrip: "hex_DecodeString (hex_EncodeToString s) = Some s \<and> isHex (hex_EncodeToString s)
    \<and> length (hex_EncodeToString s) = 2 * length s"
proof (induction s)
  case Nil
  then show ?case by (simp add: hex_EncodeToString_def isHex_def)
next
  case (Cons c s)
  obtain a b where h: "hex_byte c = [a, b]" "vault_hex_val a = Some (byte_val c div 16)" "vault_hex_val b = Some (byte_val c mod 16)"
    using hex_byte_vals by blast
  have "char_of (16 * (byte_val c div 16) + byte_val c mod 16) = c" by simp
  then show ?case using Cons h by (simp add: hex_cons isHex_def)
qed

lemma hex_digit_plain:
  assumes "vault_hex_val c \<noteq> None"
  shows "plain_byte c"
proof -
  have "list_all plain_byte ''0123456789ABCDEFabcdef''" by (simp add: plain_byte_def)
  moreover have "byte_val c \<in> byte_val ` set ''0123456789ABCDEFabcdef''"
  proof -
    have "byte_val c \<in> {48..57} \<union> {65..70} \<union> {97..102}"
      using assms by (auto simp: vault_hex_val_def Let_def split: if_splits)
    moreover have "{48..57} \<union> {65..70} \<union> {97..102} = set ([48..<58] @ [65..<71] @ [97..<103])"
      by (simp only: set_append set_upt) auto
    ultimately show ?thesis by (simp add: upt_rec)
  qed
  then have "c \<in> set ''0123456789ABCDEFabcdef''" by (rule imageE) (simp only: of_char_eq_iff)
  ultimately show ?thesis unfolding list_all_iff by blast
qed

text \<open>A key of 32 bytes written in hexadecimal is read back.\<close>

lemma ParseMasterKey_hex:
  assumes "length k = MasterKeyBytes"
  shows "ParseMasterKey (hex_EncodeToString k) = Inr k"
proof -
  let ?h = "hex_EncodeToString k"
  have h: "hex_DecodeString ?h = Some k" "isHex ?h" "length ?h = MasterKeyBytes * 2" using hex_roundtrip [of k] assms by simp_all
  then have ne: "?h \<noteq> []" by (auto simp: MasterKeyBytes_def)
  then have "strings_TrimSpace ?h = ?h"
    using h(2) hd_in_set [OF ne] last_in_set [OF ne] by (intro TrimSpace_plain hex_digit_plain) (auto simp: isHex_def list_all_iff)
  then show ?thesis using h ne assms by (simp add: ParseMasterKey_def)
qed


lemma ParseMasterKey_empty [simp]: "ParseMasterKey [] = Inl (VaultValidation ''absent'')"
  by (simp add: ParseMasterKey_def)

lemma ParseMasterKey_trim [simp]: "ParseMasterKey (strings_TrimSpace raw) = ParseMasterKey raw"
  by (simp add: ParseMasterKey_def)

section \<open>Opening\<close>


section \<open>Material\<close>

lemma Prepare_Inr:
  assumes "Prepare xe inp = Inr pm"
  shows "ValidKind (mi_Kind inp)" "pm_StorageBytes pm = mi_Bytes inp" "pm_StorageBytes pm \<noteq> []"
    "pm_Encoding pm = strings_TrimSpace (mi_Encoding inp)"
    "pm_Encoding pm = EncodingCredential \<and> strings_TrimSpace (mi_Kind inp) = KindProducerCredential \<and> int (length (mi_Bytes inp)) \<le> MaxCredentialBytes
     \<or> pm_Encoding pm = EncodingPEM \<and> strings_TrimSpace (mi_Kind inp) \<in> {KindProducerKey, KindTaxpayerKey, KindCertificate} \<and> int (length (mi_Bytes inp)) \<le> MaxPEMBytes
     \<or> pm_Encoding pm = EncodingPKCS12 \<and> strings_TrimSpace (mi_Kind inp) \<in> {KindProducerKey, KindTaxpayerKey, KindCertificate}"
  using assms by (auto simp: Prepare_def Let_def ValidKind_def bind_result_Inr split: if_splits)

text \<open>
  C39: what has been prepared fits the vault, except PKCS#12 above the limit for PEM: material the import accepts up to
  256 KiB is refused by every write when it is longer than 64 KiB.
\<close>

theorem prepared_material_fits:
  assumes "Prepare xe inp = Inr pm" "rf_Kind r = mi_Kind inp"
  shows "validatePlaintext r (pm_StorageBytes pm) = Inr () \<longleftrightarrow>
    pm_Encoding pm \<noteq> EncodingPKCS12 \<or> int (length (pm_StorageBytes pm)) \<le> 65536"
proof -
  have kinds: "KindProducerCredential \<noteq> KindProducerKey" "KindProducerCredential \<noteq> KindTaxpayerKey" "KindProducerCredential \<noteq> KindCertificate"
    by (simp_all add: KindProducerCredential_def KindProducerKey_def KindTaxpayerKey_def KindCertificate_def)
  have encs: "EncodingCredential \<noteq> EncodingPKCS12" "EncodingPEM \<noteq> EncodingPKCS12"
    by (simp_all add: EncodingCredential_def EncodingPEM_def EncodingPKCS12_def)
  show ?thesis
    using Prepare_Inr [OF assms(1)] kinds encs
    by (auto simp: validatePlaintext_def ensure_def assms(2) MaxBytesForKind_def Let_def MaxPEMBytes_def)
qed

section \<open>Offline validation\<close>

lemma issue_if_set [simp]: "set (issue_if b i) = (if b then {i} else {})"
  by (simp add: issue_if_def)

text \<open>
  A report is good exactly when it lists no issue but unreadable intermediates, and then the key is an RSA key of
  at least 2048 bits with the modulus and exponent of the certificate, which is in force at the time of the check.
\<close>

theorem offline_report_good:
  assumes "ValidateOfflineKeyCert sha256 xe clock keyPEM certPEM intermediates now = Inr rep" "t = (if now = zero_time then clock else now)"
  shows "(or_OK rep \<longleftrightarrow> set (or_Issues rep) \<subseteq> {IssueIntermediates})
    \<and> (or_OK rep \<longrightarrow> (\<exists>n e bits cert. parsePrivateKeyPEM xe keyPEM = Inr (RsaPrivate n e bits) \<and> 2048 \<le> bits
      \<and> parseCertificatePEM xe certPEM = Inr cert \<and> xc_PublicKey cert = RsaPublic n e
      \<and> xc_NotBefore cert \<le> t \<and> t \<le> xc_NotAfter cert))"
proof (intro conjI impI)
  obtain priv cert where p: "parsePrivateKeyPEM xe keyPEM = Inr priv" "parseCertificatePEM xe certPEM = Inr cert"
    and rep: "rep = offline_checks sha256 xe priv cert intermediates t"
    using assms by (auto simp: ValidateOfflineKeyCert_def bind_result_Inr split: if_splits)
  show "or_OK rep \<longleftrightarrow> set (or_Issues rep) \<subseteq> {IssueIntermediates}"
    by (cases priv; cases "purposeCheck cert") (auto simp: rep offline_checks_def Let_def split: if_splits)
  assume ok: "or_OK rep"
  then have "\<exists>n e bits. priv = RsaPrivate n e bits \<and> 2048 \<le> bits"
    by (cases priv; cases "purposeCheck cert") (auto simp: rep offline_checks_def Let_def)
  then obtain n e bits where rsa: "priv = RsaPrivate n e bits" "2048 \<le> bits" by blast
  then have "publicKeysEqual (RsaPublic n e) (xc_PublicKey cert)" "\<not> t < xc_NotBefore cert" "\<not> xc_NotAfter cert < t"
    using ok by (cases "purposeCheck cert"; simp add: rep offline_checks_def Let_def)+
  then show "\<exists>n e bits cert. parsePrivateKeyPEM xe keyPEM = Inr (RsaPrivate n e bits) \<and> 2048 \<le> bits
      \<and> parseCertificatePEM xe certPEM = Inr cert \<and> xc_PublicKey cert = RsaPublic n e
      \<and> xc_NotBefore cert \<le> t \<and> t \<le> xc_NotAfter cert"
    using p rsa by (cases "xc_PublicKey cert") auto
qed

end
