(* ===== verification/VaultExamples.thy ===== *)
theory VaultExamples
  imports VaultContracts MaterialProperties
begin

text \<open>A cipher, a digest and parsers for examples, and the properties of the vault at them.\<close>

definition plain_aead :: aead where
  "plain_aead = \<lparr>ae_Seal = (\<lambda>n p a. CHR ''t'' # p), ae_Open = (\<lambda>n c a. case c of [] \<Rightarrow> None | _ # p \<Rightarrow> Some p)\<rparr>"

definition tagged_aead :: aead where
  "tagged_aead = \<lparr>ae_Seal = (\<lambda>n p a. p @ [CHR ''t'']), ae_Open = (\<lambda>n c a. if c = [] then None else Some (butlast c))\<rparr>"

definition first_digest :: "string \<Rightarrow> string" where
  "first_digest s = take 32 (s @ replicate 32 CHR ''0'')"

lemma plain_aead_ok: "aead_ok plain_aead" and tagged_aead_ok: "aead_ok tagged_aead" and first_digest_ok: "digest_ok first_digest"
  by (simp_all add: aead_ok_def plain_aead_def tagged_aead_def digest_ok_def first_digest_def min_def)

definition vault_draw :: draw where
  "vault_draw = \<lparr>vd_ctx = None, vd_nonce = ''nonce'', vd_now = 0\<rparr>"

definition hml_ref :: ref where
  "hml_ref = \<lparr>rf_Kind = ''producer_key'', rf_Environment = ''homologation'', rf_SubjectID = ''platform'', rf_Name = ''main''\<rparr>"

definition prd_ref :: ref where
  "prd_ref = hml_ref\<lparr>rf_Environment := ''production''\<rparr>"


lemma epoch_in_range: "year_in_range 0"
  by code_simp

lemma clean_example:
  "strings_TrimSpace (rf_Kind (call_ref c)) = rf_Kind (call_ref c) \<Longrightarrow>
   strings_TrimSpace (rf_Environment (call_ref c)) = rf_Environment (call_ref c) \<Longrightarrow> call_expiry c = None \<Longrightarrow>
   clean_call (vault_draw, c)"
  by (simp add: clean_call_def vault_draw_def epoch_in_range)

lemma ref_trims:
  "strings_TrimSpace (rf_Kind hml_ref) = rf_Kind hml_ref" "strings_TrimSpace (rf_Environment hml_ref) = rf_Environment hml_ref"
  "strings_TrimSpace (rf_Kind prd_ref) = rf_Kind prd_ref" "strings_TrimSpace (rf_Environment prd_ref) = rf_Environment prd_ref"
  by code_simp+

lemma clean_calls:
  "clean_call (vault_draw, CallPut hml_ref p None)" "clean_call (vault_draw, CallRotate hml_ref p None)"
  "clean_call (vault_draw, CallRevoke hml_ref)" "clean_call (vault_draw, CallReveal hml_ref)" "clean_call (vault_draw, CallMetadata hml_ref)"
  "clean_call (vault_draw, CallPut prd_ref p None)" "clean_call (vault_draw, CallReveal prd_ref)" "clean_call (vault_draw, CallMetadata prd_ref)"
  by (simp_all add: clean_example ref_trims)

lemma small_versions: "k \<le> 1000 \<Longrightarrow> k < max_version"
  by (simp add: max_version_def)


theorem secret_reads_back_witness:
  "fst (call_vault (sql_ops first_digest plain_aead DialectPostgres) vault_draw (CallReveal hml_ref)
     (snd (run_calls (sql_ops first_digest plain_aead DialectPostgres)
        ([] @ (vault_draw, CallPut hml_ref ''one'' None) # [(vault_draw, CallPut prd_ref ''two'' None)]) []))) = AnsPlain ''one''"
proof (rule secret_reads_back [OF plain_aead_ok first_digest_ok])
  show "fst (call_vault (sql_ops first_digest plain_aead DialectPostgres) vault_draw (CallPut hml_ref ''one'' None)
      (snd (run_calls (sql_ops first_digest plain_aead DialectPostgres) [] [])))
     = AnsCard (''present'', hex_EncodeToString (first_digest ''one''), 1)" by code_simp
  show "list_all (\<lambda>(d, c). \<not> writes_key (ref_Key hml_ref) c) [(vault_draw, CallPut prd_ref ''two'' None)]" by code_simp
qed (simp_all add: clean_calls max_version_def)

theorem revoked_secret_unreadable_witness:
  "fst (call_vault (sql_ops first_digest plain_aead DialectPostgres) vault_draw (CallReveal hml_ref)
     (snd (run_calls (sql_ops first_digest plain_aead DialectPostgres)
        ([(vault_draw, CallPut hml_ref ''one'' None)] @ (vault_draw, CallRevoke hml_ref) # [(vault_draw, CallRevoke hml_ref)]) [])))
   = AnsError VaultRevoked"
proof (rule revoked_secret_unreadable [OF plain_aead_ok first_digest_ok])
  show "fst (call_vault (sql_ops first_digest plain_aead DialectPostgres) vault_draw (CallRevoke hml_ref)
      (snd (run_calls (sql_ops first_digest plain_aead DialectPostgres) [(vault_draw, CallPut hml_ref ''one'' None)] [])))
     = AnsCard (''revoked'', [], 1)" by code_simp
  show "list_all (\<lambda>(d, c). \<not> fills_key (ref_Key hml_ref) c) [(vault_draw, CallRevoke hml_ref)]" by code_simp
qed (simp_all add: clean_calls max_version_def)

theorem environments_isolated_witness:
  "fst (call_vault (sql_ops first_digest plain_aead DialectPostgres) vault_draw (CallReveal hml_ref)
     (snd (run_calls (sql_ops first_digest plain_aead DialectPostgres)
        ([(vault_draw, CallPut hml_ref ''one'' None)] @ [(vault_draw, CallPut prd_ref ''two'' None)]) [])))
   = fst (call_vault (sql_ops first_digest plain_aead DialectPostgres) vault_draw (CallReveal hml_ref)
     (snd (run_calls (sql_ops first_digest plain_aead DialectPostgres) [(vault_draw, CallPut hml_ref ''one'' None)] [])))"
proof (rule environments_isolated [OF plain_aead_ok first_digest_ok])
  show "validateRef (call_ref (CallReveal hml_ref)) = Inr ()" by code_simp
  show "list_all (\<lambda>(d', c'). strings_TrimSpace (rf_Environment (call_ref c')) \<noteq> strings_TrimSpace (rf_Environment (call_ref (CallReveal hml_ref))))
      [(vault_draw, CallPut prd_ref ''two'' None)]" by code_simp
qed (simp_all add: clean_calls max_version_def)

theorem slash_aliases_witness:
  "fst (run_calls (sql_ops first_digest plain_aead DialectSQLite)
     [(vault_draw, CallPut \<lparr>rf_Kind = KindProducerKey, rf_Environment = vault_EnvProduction, rf_SubjectID = ''a/b'', rf_Name = ''c''\<rparr> ''key'' None),
      (vault_draw, CallReveal \<lparr>rf_Kind = KindProducerKey, rf_Environment = vault_EnvProduction, rf_SubjectID = ''a'', rf_Name = ''b/c''\<rparr>)] [])
   = [AnsCard (StatusPresent, hex_EncodeToString (first_digest ''key''), 1), AnsPlain ''key'']"
proof (rule slash_aliases [OF plain_aead_ok first_digest_ok refl refl])
  have "strings_TrimSpace KindProducerKey = KindProducerKey" "strings_TrimSpace vault_EnvProduction = vault_EnvProduction" by code_simp+
  then show "clean_call (vault_draw, CallPut \<lparr>rf_Kind = KindProducerKey, rf_Environment = vault_EnvProduction, rf_SubjectID = ''a/b'', rf_Name = ''c''\<rparr> ''key'' None)"
    "clean_call (vault_draw, CallReveal \<lparr>rf_Kind = KindProducerKey, rf_Environment = vault_EnvProduction, rf_SubjectID = ''a'', rf_Name = ''b/c''\<rparr>)"
    by (simp_all add: clean_example)
qed (simp_all add: MaxPEMBytes_def)

theorem gate_only_owner_witness:
  "fold (\<lambda>(d, actor, g) s. snd (gate_request first_digest undefined ''root'' (mem_ops first_digest plain_aead) d actor g s))
     [(vault_draw, ''eve'', GatePut hml_ref ''x'' None), (vault_draw, ''root'', GatePut hml_ref ''y'' None)] []
   = fold (\<lambda>(d, actor, g) s. snd (gate_request first_digest undefined ''root'' (mem_ops first_digest plain_aead) d ''root'' g s))
     (filter (\<lambda>(d, actor, g). actor = ''root'')
       [(vault_draw, ''eve'', GatePut hml_ref ''x'' None), (vault_draw, ''root'', GatePut hml_ref ''y'' None)]) []"
proof -
  have "NewGate '' root '' = Inr ''root''" by code_simp
  then show ?thesis by (rule conjunct1 [OF gate_only_owner])
qed

section \<open>Opening and material\<close>



definition sample_cert :: certificate where
  "sample_cert = \<lparr>xc_Raw = ''der'', xc_NotBefore = 0, xc_NotAfter = 1000, xc_RawSubject = ''s'', xc_RawIssuer = ''s'', xc_KeyUsage = 1,
     xc_PublicKey = RsaPublic 77 3\<rparr>"

definition sample_x509 :: x509_env where
  "sample_x509 = \<lparr>pem_blocks = (\<lambda>raw. if raw = ''key'' then [(''RSA PRIVATE KEY'', ''k'')] else [(''CERTIFICATE'', ''c'')]),
     ParseCertificate = (\<lambda>_. Some sample_cert), ParsePKCS8 = (\<lambda>_. None), ParsePKCS1 = (\<lambda>_. Some (RsaPrivate 77 3 2048)),
     ParseEC = (\<lambda>_. None), AppendCerts = (\<lambda>_. False), VerifyChains = (\<lambda>c self i t. if self then Some 1 else None),
     pkcs12_Decode = (\<lambda>_ _. Some (True, True)), pkcs12_DecodeChain = (\<lambda>_ _. False)\<rparr>"

definition sample_material :: material_input where
  "sample_material = \<lparr>mi_Kind = ''producer_key'', mi_Encoding = ''pkcs12'', mi_Bytes = CHR 0x30 # ''der'', mi_Password = ''pw''\<rparr>"

theorem prepared_material_fits_witness:
  "validatePlaintext hml_ref (CHR 0x30 # ''der'') = Inr ()"
proof -
  have "Prepare sample_x509 sample_material = Inr \<lparr>pm_StorageBytes = CHR 0x30 # ''der'', pm_Encoding = ''pkcs12'', pm_FormatNote = ''pkcs12''\<rparr>"
    by code_simp
  moreover have "rf_Kind hml_ref = mi_Kind sample_material" by code_simp
  ultimately show ?thesis using prepared_material_fits [of sample_x509 sample_material _ hml_ref] by simp
qed

theorem offline_report_good_witness:
  "\<exists>rep. ValidateOfflineKeyCert first_digest sample_x509 5 ''key'' ''cert'' ''ca'' zero_time = Inr rep
     \<and> (or_OK rep \<longleftrightarrow> set (or_Issues rep) \<subseteq> {IssueIntermediates}) \<and> or_Issues rep = [IssueIntermediates]"
proof -
  have "parsePrivateKeyPEM sample_x509 ''key'' = Inr (RsaPrivate 77 3 2048)" "parseCertificatePEM sample_x509 ''cert'' = Inr sample_cert"
    by code_simp+
  then have run: "ValidateOfflineKeyCert first_digest sample_x509 5 ''key'' ''cert'' ''ca'' zero_time
      = Inr (offline_checks first_digest sample_x509 (RsaPrivate 77 3 2048) sample_cert ''ca'' 5)"
    by (simp add: ValidateOfflineKeyCert_def)
  moreover have "or_Issues (offline_checks first_digest sample_x509 (RsaPrivate 77 3 2048) sample_cert ''ca'' 5) = [IssueIntermediates]"
    by (simp add: offline_checks_def Let_def sample_cert_def sample_x509_def purposeCheck_def issue_if_def)
  ultimately show ?thesis using offline_report_good [OF run refl] by blast
qed

end
