(* ===== verification/Spec2Isabelle.thy ===== *)
theory Spec2Isabelle
  imports OutboxProperties FeFixQueueExamples DocumentsExamples RegistryExamples AuthorityProperties VaultExamples
begin

text \<open>
  A model of \<^verbatim>\<open>bwb-modulo-fiscal\<close>, the service that turns the sales documents of a
  point of sale into numbered fiscal documents for Angola and submits them to the tax authority, with
  the theorems that make it correct.

  \<^bold>\<open>How the program works.\<close> A point of sale sends \<^verbatim>\<open>POST /v1/documents\<close>
  with a bearer token and an idempotency key. The handler (\<^verbatim>\<open>internal/httpapi\<close>)
  authenticates the token against the credential tables (\<^verbatim>\<open>internal/auth\<close>,
  \<^verbatim>\<open>internal/persistence/credentials.go\<close>), reads the JSON body, checks the type
  against the document catalogue (\<^verbatim>\<open>internal/doctype\<close>), parses amounts
  (\<^verbatim>\<open>internal/money\<close>, \<^verbatim>\<open>internal/quantity\<close>) and the civil time of
  issue (\<^verbatim>\<open>internal/fiscaltime\<close>), and hands an intent to
  \<^verbatim>\<open>SealInTx\<close> (\<^verbatim>\<open>internal/persistence/seal.go\<close>). That transaction
  recognises repeated requests by the hash of a canonical text (\<^verbatim>\<open>internal/canonical\<close>),
  takes the next number of the series, and writes the document, its ledger and an outbox message. A
  worker (\<^verbatim>\<open>internal/persistence/outbox.go\<close>) submits the message to the authority,
  here the simulator (\<^verbatim>\<open>internal/authority/simulator\<close>), and records the outcome once.
  Beside this core runs the fixture lane for electronic invoices: a hub that says which lane may be
  dialled, an engine that attempts submissions against a mock, and a queue in the database
  (\<^verbatim>\<open>internal/authority/fehub\<close>, \<^verbatim>\<open>feboundary\<close>, \<^verbatim>\<open>fefixqueue\<close>).

  \<^bold>\<open>Theories.\<close>
  \<^item> \<open>FiscalPrelude\<close>: Go strings as byte lists, \<^verbatim>\<open>strings\<close> and \<^verbatim>\<open>strconv\<close>, int64, results with errors, tables
    as lists of rows, and the locale \<open>monotone_machine\<close> of a transition system with an invariant
    and a progress order, which the stateful components interpret.
  \<^item> \<open>FixedPoint\<close> (money, quantity; locale \<open>decimal_codec\<close>), \<open>Canonical\<close>, \<open>GoTime\<close>, \<open>TimeLayout\<close>, \<open>FiscalTime\<close>,
    \<open>SqlTime\<close>, \<open>GoText\<close>, \<open>GoJson\<close>: data, and what the source uses of Go's library.
  \<^item> \<open>FiscalDb\<close>, \<open>SealStore\<close>, \<open>Simulator\<close>, \<open>Outbox\<close>: the fiscal tables with their constraints and the
    transactions over them. \<open>SealInvariants\<close>, \<open>OutboxInvariants\<close>, \<open>FiscalMachine\<close>: what every
    interleaving of transactions keeps. \<open>SealProperties\<close>, \<open>OutboxProperties\<close>: what callers may rely on.
  \<^item> \<open>Credentials\<close>, \<open>Auth\<close> and \<open>CredentialInvariants\<close>, \<open>CredentialProperties\<close>, \<open>CredentialRotation\<close>: scopes, tokens,
    rotation with a grace window, revocation, authentication.
  \<^item> \<open>FeHub\<close>, \<open>FeBoundary\<close>, \<open>FeFixQueue\<close> and their properties and examples: the fixture lane.
  \<^item> \<open>DocType\<close>, \<open>ChannelRouting\<close>, \<open>ChannelRoutingProperties\<close>, \<open>CatalogExamples\<close>: the catalogue of document types,
    what may be issued, and the checks of the catalogue against one table.
  \<^item> \<open>DocumentsApi\<close>, \<open>DocumentsProperties\<close>, \<open>DocumentsExamples\<close>: the HTTP handler from bytes to the sealed document or
    a problem; whose document a 201 names, what a retry answers, and that a refusal changes nothing.
  \<^item> \<open>AdminRegistry\<close>, \<open>EstablishmentPolicy\<close> (\<^verbatim>\<open>internal/adminregistry\<close>): taxpayers, establishments, scope bindings,
    series, document switches and enrolments, with the constraints of their tables.
    \<open>RegistryInvariants\<close>, \<open>RegistryProperties\<close> prove what every interleaving keeps, \<open>RegistryEffects\<close> what single
    operations achieve and when they fail, \<open>RegistryExamples\<close> runs them.
  \<^item> \<open>FePath\<close> (\<^verbatim>\<open>internal/fepath\<close>), \<open>GoJsonEncode\<close> (what is used of \<^verbatim>\<open>json.Marshal\<close>), \<open>AuthorityProfile\<close>,
    \<open>AuthorityProperties\<close>: the URLs and profiles that prepare the connection to the authority, and the gate
    before a profile becomes active.
  \<^item> \<open>SecretStore\<close> (\<^verbatim>\<open>internal/secretstore\<close>): the interface \<^verbatim>\<open>Vault\<close> as a record of operations and its two
    implementations. \<open>SecretVault\<close>: the abstract vault and the locale \<open>vault\<close>, the contract; \<open>SecretVaultProperties\<close>,
    \<open>SecretSqlProperties\<close> prove that both implementations refine it, \<open>VaultContracts\<close> interprets the locale on
    them and draws what callers rely on. \<open>SecretMaterial\<close>, \<open>MaterialProperties\<close>: imported keys and certificates,
    offline validation, the master key and the opening of the vault. \<open>SecadmGate\<close> (\<^verbatim>\<open>internal/secadm\<close>): the
    owner's gate, a client of any vault. \<open>VaultExamples\<close> runs them.

  \<^bold>\<open>State and steps.\<close> Tables are records of row lists; a statement that violates a constraint
  is an error and the transaction is rolled back, which \<open>atomically\<close> writes out. A run is a list of events
  folded over the empty database, one event per transaction, so all interleavings of concurrent
  callers and workers at the granularity of transactions are covered. Identifiers, clock readings and
  random draws are arguments of the events and arbitrary unless a theorem says otherwise.

  \<^bold>\<open>Parameters.\<close> The time-zone database, SHA-256, AES-GCM, the parsers of PEM, X.509 and PKCS#12, the JWS signer and verifier, the HTTP
  client, the parsers of URLs, IP addresses and media types, UUID validation, the unicode tables and,
  for the fixture lane, the JSON codec. Only lengths or injectivity of a hash on the inputs at hand are
  ever assumed of a hash, and of AES-GCM that what is sealed opens, as named hypotheses. No fuel is used: loops are structural or have a measure.

  \<^bold>\<open>Not modelled.\<close> Connection failures and commit errors; texts of messages; network and
  file I/O (\<^verbatim>\<open>cmd\<close>, \<^verbatim>\<open>internal/platform\<close>, \<^verbatim>\<open>notify\<close>, \<^verbatim>\<open>sandboxmeasure\<close>); the administration
  API and user interface; SAF-T export; JWS construction; the mock server.
\<close>

end
